(* ===== verification/Prelude.thy ===== *)
theory Prelude
  imports Main "HOL-Library.Word" "HOL-Library.AList" "HOL-Library.Multiset"
    "HOL-Library.Signed_Division"
begin

text \<open>
  What the components share: Go's \<open>int64\<close> arithmetic, \<open>fmt.Sprintf("%0wd")\<close> as the code uses it
  for identifiers, Go maps as association lists with distinct keys, the contract of
  \<open>sort.Slice\<close>, and two interfaces: stores whose keys come from a sequence counter
  (\<open>id_store\<close>) and machines with an invariant (\<open>state_machine\<close>).
\<close>

named_theorems go_arith \<open>wrap-around arithmetic of int64 as equations over int\<close>
named_theorems go_map \<open>lookups and sums after an update of a Go map\<close>

section \<open>Signed 64-bit integers\<close>

text \<open>
  An \<open>int64\<close> is an \<open>int\<close> in the range \<open>in64\<close>; every operation wraps its exact result back
  into the range. \<open>i64\<close> is reading a 64-bit word as two's complement (\<open>i64_word\<close>).
  Go's \<open>/\<close> truncates towards zero, which is \<open>sdiv\<close>; all divisors in the code are nonzero.
\<close>

type_synonym int64 = int

definition in64 :: "int \<Rightarrow> bool" where
  "in64 x \<longleftrightarrow> - (2 ^ 63) \<le> x \<and> x < 2 ^ 63"

definition i64 :: "int \<Rightarrow> int64" where
  "i64 x = (x + 2 ^ 63) mod 2 ^ 64 - 2 ^ 63"

definition add64 :: "int64 \<Rightarrow> int64 \<Rightarrow> int64" where
  "add64 a b = i64 (a + b)"

definition sub64 :: "int64 \<Rightarrow> int64 \<Rightarrow> int64" where
  "sub64 a b = i64 (a - b)"

definition mul64 :: "int64 \<Rightarrow> int64 \<Rightarrow> int64" where
  "mul64 a b = i64 (a * b)"

definition quo64 :: "int64 \<Rightarrow> int64 \<Rightarrow> int64" where
  "quo64 a b = i64 (a sdiv b)"

lemma i64_word: "i64 x = sint (word_of_int x :: 64 word)"
  by (simp add: i64_def sint_sbintrunc' signed_take_bit_eq_take_bit_shift take_bit_eq_mod)

lemma in64_i64 [simp]: "in64 (i64 x)"
proof -
  have "0 \<le> (x + 2 ^ 63) mod 2 ^ 64" "(x + 2 ^ 63) mod 2 ^ 64 < (2 ^ 64 :: int)"
    by (simp_all only: pos_mod_sign pos_mod_bound zero_less_numeral zero_less_power)
  then show ?thesis unfolding in64_def i64_def by simp
qed

lemma i64_id: "in64 x \<Longrightarrow> i64 x = x"
  unfolding in64_def i64_def by (subst mod_pos_pos_trivial) auto

lemma in64_add64 [simp]: "in64 (add64 a b)"
  by (simp add: add64_def)

lemma in64_sub64 [simp]: "in64 (sub64 a b)"
  by (simp add: sub64_def)

lemma in64_mul64 [simp]: "in64 (mul64 a b)"
  by (simp add: mul64_def)

lemma in64_quo64 [simp]: "in64 (quo64 a b)"
  by (simp add: quo64_def)

text \<open>The quotient of a nonnegative number is the floor, and never wraps.\<close>

lemma quo64_nonneg:
  assumes "0 \<le> a" "in64 a" "0 < b"
  shows "quo64 a b = a div b"
proof -
  have "0 \<le> a div b" "a div b \<le> a"
    using assms zdiv_mono2 [of a 1 b] by (simp_all add: pos_imp_zdiv_nonneg_iff)
  then have "in64 (a div b)" using assms(2) by (simp add: in64_def)
  moreover have "a sdiv b = a div b" using assms by (auto simp: signed_divide_int_def sgn_if)
  ultimately show ?thesis by (simp add: quo64_def i64_id)
qed

text \<open>Two integers wrap to the same \<open>int64\<close> exactly when they agree modulo \<open>2 ^ 64\<close>.\<close>

lemma i64_eq_iff: "i64 x = i64 y \<longleftrightarrow> x mod 2 ^ 64 = y mod 2 ^ 64"
proof -
  have "i64 x = i64 y \<longleftrightarrow> (x + 2 ^ 63) mod 2 ^ 64 = (y + 2 ^ 63) mod (2 ^ 64 :: int)"
    unfolding i64_def by linarith
  also have "\<dots> \<longleftrightarrow> x mod 2 ^ 64 = y mod 2 ^ 64"
    by (simp only: mod_eq_dvd_iff) (simp add: algebra_simps)
  finally show ?thesis .
qed

lemma i64_mod: "i64 x mod 2 ^ 64 = x mod 2 ^ 64"
proof -
  have "i64 (i64 x) = i64 x" by (rule i64_id) simp
  then show ?thesis by (simp only: i64_eq_iff)
qed

lemma i64_i64 [simp]: "i64 (i64 x) = i64 x"
  by (rule i64_id) simp

lemma i64_add_left [go_arith]: "i64 (i64 a + b) = i64 (a + b)"
  by (simp only: i64_eq_iff) (metis i64_mod mod_add_left_eq)

lemma i64_add_right [go_arith]: "i64 (a + i64 b) = i64 (a + b)"
  using i64_add_left [of b a] by (simp add: add.commute)

lemma i64_diff_left [go_arith]: "i64 (i64 a - b) = i64 (a - b)"
  using i64_add_left [of a "- b"] by simp

lemma i64_diff_right [go_arith]: "i64 (a - i64 b) = i64 (a - b)"
  by (simp only: i64_eq_iff) (metis i64_mod mod_diff_right_eq)

lemma i64_mult_left [go_arith]: "i64 (i64 a * b) = i64 (a * b)"
  by (simp only: i64_eq_iff) (metis i64_mod mod_mult_left_eq)

lemma i64_mult_right [go_arith]: "i64 (a * i64 b) = i64 (a * b)"
  using i64_mult_left [of b a] by (simp add: mult.commute)

lemmas [go_arith] = add64_def sub64_def mul64_def

text \<open>Moving an amount between two of three balances keeps their wrapped sum.\<close>

lemma move64_12: "add64 (add64 (sub64 a x) (add64 b x)) c = add64 (add64 a b) c"
  by (simp only: go_arith) (simp add: algebra_simps)

lemma move64_13: "add64 (add64 (sub64 a x) b) (add64 c x) = add64 (add64 a b) c"
  by (simp only: go_arith) (simp add: algebra_simps)

lemma grow64_1: "add64 (add64 (add64 a x) b) c = add64 (add64 (add64 a b) c) x"
  by (simp only: go_arith) (simp add: algebra_simps)

lemma i64_add_cong: "i64 a = i64 b \<Longrightarrow> i64 c = i64 d \<Longrightarrow> i64 (a + c) = i64 (b + d)"
  by (metis i64_add_left i64_add_right)

lemma i64_replace [go_arith]: "i64 (i64 a - b + c) = i64 (a - b + c)"
  by (rule i64_add_cong) (simp_all add: i64_diff_left)

text \<open>Without overflow, the operations are those of the integers.\<close>

lemma add64_exact: "in64 (a + b) \<Longrightarrow> add64 a b = a + b"
  by (simp add: add64_def i64_id)

lemma sub64_exact: "in64 (a - b) \<Longrightarrow> sub64 a b = a - b"
  by (simp add: sub64_def i64_id)

lemma mul64_exact: "in64 (a * b) \<Longrightarrow> mul64 a b = a * b"
  by (simp add: mul64_def i64_id)

lemma sdiv_nonneg: "0 \<le> a \<Longrightarrow> 0 < b \<Longrightarrow> a sdiv b = a div (b::int)"
  by (cases "a = 0") (simp_all add: signed_divide_int_def)

lemma quo64_exact:
  assumes "0 \<le> a" "in64 a" "0 < b"
  shows "quo64 a b = a div b"
proof -
  from assms have "0 \<le> a div b" by (simp add: pos_imp_zdiv_nonneg_iff)
  moreover have "a div b \<le> a" using zdiv_mono2 [of a 1 b] assms by simp
  ultimately have "in64 (a div b)" using assms unfolding in64_def by linarith
  then show ?thesis using assms by (simp add: quo64_def sdiv_nonneg i64_id)
qed


section \<open>Decimal identifiers\<close>

text \<open>
  \<open>dec_digits\<close> is \<open>%d\<close> of a natural number and \<open>fmt0d w\<close> is \<open>%0wd\<close>: zero padding up to
  width \<open>w\<close>, which counts the sign. Both are injective, so distinct sequence numbers give
  distinct identifiers.
\<close>

definition dec_digit :: "nat \<Rightarrow> char" where
  "dec_digit n = char_of (48 + n)"

fun dec_digits :: "nat \<Rightarrow> string" where
  "dec_digits n =
     (if n < 10 then [dec_digit n] else dec_digits (n div 10) @ [dec_digit (n mod 10)])"

declare dec_digits.simps [simp del]

definition zero_pad :: "nat \<Rightarrow> string \<Rightarrow> string" where
  "zero_pad w s = replicate (w - length s) CHR ''0'' @ s"

definition fmt0d :: "nat \<Rightarrow> int \<Rightarrow> string" where
  "fmt0d w i =
     (if i < 0 then CHR ''-'' # zero_pad (w - 1) (dec_digits (nat (- i)))
      else zero_pad w (dec_digits (nat i)))"

text \<open>The same digits computed over \<open>int\<close>, for evaluation: code for \<open>nat\<close> is unary.\<close>

function dec_int :: "int \<Rightarrow> string" where
  "dec_int n = (if n < 10 then [dec_digit (nat n)] else dec_int (n div 10) @ [dec_digit (nat (n mod 10))])"
  by auto
termination by (relation "measure nat") auto

declare dec_int.simps [simp del]

lemma dec_int: "0 \<le> n \<Longrightarrow> dec_int n = dec_digits (nat n)"
proof (induction n rule: dec_int.induct)
  case (1 n)
  have "nat (n div 10) = nat n div 10" "nat (n mod 10) = nat n mod 10" "0 \<le> n div 10"
    using 1(2) by (simp_all add: nat_div_distrib nat_mod_distrib pos_imp_zdiv_nonneg_iff)
  moreover have "nat n < 10 \<longleftrightarrow> n < 10" using 1(2) by linarith
  ultimately show ?case using 1(1) by (simp add: dec_int.simps [of n] dec_digits.simps [of "nat n"])
qed

lemma fmt0d_code [code]:
  "fmt0d w i = (if i < 0 then CHR ''-'' # zero_pad (w - 1) (dec_int (- i)) else zero_pad w (dec_int i))"
  by (simp add: fmt0d_def dec_int)

fun dec_value :: "nat \<Rightarrow> string \<Rightarrow> nat" where
  "dec_value acc [] = acc"
| "dec_value acc (c # cs) = dec_value (10 * acc + (of_char c - 48)) cs"

lemma dec_value_append: "dec_value acc (xs @ ys) = dec_value (dec_value acc xs) ys"
  by (induction xs arbitrary: acc) auto

lemma of_char_dec_digit: "n < 10 \<Longrightarrow> of_char (dec_digit n) = 48 + n"
  by (simp add: dec_digit_def)

lemma dec_value_digits: "dec_value 0 (dec_digits n) = n"
proof (induction n rule: dec_digits.induct)
  case (1 n)
  show ?case
    by (subst dec_digits.simps) (use 1 in \<open>simp add: dec_value_append of_char_dec_digit\<close>)
qed

lemma dec_value_zeros: "dec_value 0 (replicate k CHR ''0'' @ s) = dec_value 0 s"
  by (induction k) simp_all

lemma zero_pad_inj: "zero_pad w (dec_digits m) = zero_pad w (dec_digits n) \<Longrightarrow> m = n"
  by (metis dec_value_digits dec_value_zeros zero_pad_def)

lemma dec_digits_range: "c \<in> set (dec_digits n) \<Longrightarrow> of_char c \<ge> (48::nat)"
proof (induction n rule: dec_digits.induct)
  case (1 n)
  from 1(2) show ?case
    by (subst (asm) dec_digits.simps)
       (use 1(1) in \<open>auto simp: of_char_dec_digit split: if_splits\<close>)
qed

lemma zero_pad_no_sign: "CHR ''-'' \<notin> set (zero_pad w (dec_digits n))"
  by (auto simp: zero_pad_def dest: dec_digits_range)

lemma zero_pad_not_signed: "zero_pad w (dec_digits n) \<noteq> CHR ''-'' # s"
  by (metis list.set_intros(1) zero_pad_no_sign)

theorem fmt0d_inj: "fmt0d w i = fmt0d w j \<Longrightarrow> i = j"
  using zero_pad_not_signed [of w] zero_pad_not_signed [of w, THEN not_sym]
  by (auto simp: fmt0d_def split: if_splits dest!: zero_pad_inj)

section \<open>Go maps\<close>

text \<open>
  A Go map is an association list with distinct keys. Its list order stands for the order in
  which a \<open>range\<close> loop happens to visit the entries. \<open>mgetd d\<close> reads a missing key as \<open>d\<close>,
  as an index expression reads the zero value.
\<close>

type_synonym ('k, 'v) gomap = "('k \<times> 'v) list"

abbreviation mget :: "('k, 'v) gomap \<Rightarrow> 'k \<Rightarrow> 'v option" where
  "mget m k \<equiv> map_of m k"

abbreviation mput :: "'k \<Rightarrow> 'v \<Rightarrow> ('k, 'v) gomap \<Rightarrow> ('k, 'v) gomap" where
  "mput k v m \<equiv> AList.update k v m"

abbreviation mkeys :: "('k, 'v) gomap \<Rightarrow> 'k list" where
  "mkeys m \<equiv> map fst m"

definition mgetd :: "'v \<Rightarrow> ('k, 'v) gomap \<Rightarrow> 'k \<Rightarrow> 'v" where
  "mgetd d m k = (case mget m k of None \<Rightarrow> d | Some v \<Rightarrow> v)"

definition msum :: "('v \<Rightarrow> int) \<Rightarrow> ('k, 'v) gomap \<Rightarrow> int" where
  "msum f m = sum_list (map (\<lambda>(k, v). f v) m)"

lemma mget_mput [go_map]: "mget (mput k v m) k' = (if k' = k then Some v else mget m k')"
  by (simp add: update_conv')

lemma mgetd_mput [go_map]: "mgetd d (mput k v m) k' = (if k' = k then v else mgetd d m k')"
  by (simp add: mgetd_def mget_mput)

lemma mgetd_Nil [simp]: "mgetd d [] k = d"
  by (simp add: mgetd_def)

lemma distinct_mput [simp]: "distinct (mkeys m) \<Longrightarrow> distinct (mkeys (mput k v m))"
  by (rule distinct_update)

lemma mkeys_mput: "set (mkeys (mput k v m)) = insert k (set (mkeys m))"
  by (simp add: dom_update flip: image_set)

lemma mput_new: "mget m k = None \<Longrightarrow> mput k v m = m @ [(k, v)]"
  by (induction m) (auto split: if_splits)

lemma msum_put:
  "distinct (mkeys m) \<Longrightarrow> mget m k = Some v \<Longrightarrow> msum f (mput k v' m) = msum f m - f v + f v'"
  by (induction m) (auto simp: msum_def split: if_splits)

lemma msum_put_new: "mget m k = None \<Longrightarrow> msum f (mput k v m) = msum f m + f v"
  by (simp add: mput_new msum_def)

lemma mget_in: "mget m k = Some v \<Longrightarrow> (k, v) \<in> set m"
  by (rule map_of_SomeD)

lemma mget_iff: "distinct (mkeys m) \<Longrightarrow> mget m k = Some v \<longleftrightarrow> (k, v) \<in> set m"
  by simp

lemma mget_None: "mget m k = None \<longleftrightarrow> k \<notin> set (mkeys m)"
  by (simp add: map_of_eq_None_iff)

lemma msum_nonneg: "(\<And>k v. mget m k = Some v \<Longrightarrow> 0 \<le> f v) \<Longrightarrow> distinct (mkeys m) \<Longrightarrow> 0 \<le> msum f m"
  unfolding msum_def by (rule sum_list_nonneg) auto

lemma msum_zero: "(\<And>k v. (k, v) \<in> set m \<Longrightarrow> f v = 0) \<Longrightarrow> msum f m = 0"
proof (induction m)
  case (Cons e m)
  have "f (snd e) = 0" using Cons.prems [of "fst e" "snd e"] by simp
  moreover have "f v = 0" if "(k, v) \<in> set m" for k v using Cons.prems [of k v] that by simp
  then have "msum f m = 0" by (rule Cons.IH)
  ultimately show ?case by (simp add: msum_def case_prod_unfold)
qed (simp add: msum_def)

lemma msum_split:
  "distinct (mkeys m) \<Longrightarrow> mget m k = Some v \<Longrightarrow> msum f m = f v + msum f (filter (\<lambda>e. fst e \<noteq> k) m)"
proof (induction m)
  case (Cons e m)
  have "k \<notin> set (mkeys m) \<Longrightarrow> filter (\<lambda>e. fst e \<noteq> k) m = m"
    by (rule filter_True) auto
  with Cons show ?case by (cases e) (auto simp: msum_def split: if_splits)
qed simp

lemma msum_member_le:
  assumes "distinct (mkeys m)" "mget m k = Some v" "\<And>k v. mget m k = Some v \<Longrightarrow> 0 \<le> f v"
  shows "f v \<le> msum f m"
proof -
  have "0 \<le> msum f (filter (\<lambda>e. fst e \<noteq> k) m)"
    unfolding msum_def using assms(1,3) by (intro sum_list_nonneg) auto
  then show ?thesis using msum_split [OF assms(1,2), of f] by linarith
qed

section \<open>Stores keyed by a sequence counter\<close>

text \<open>
  Every keeper files its objects under an identifier printed from a counter it has just
  incremented. \<open>keys_from mk s m\<close>: the keys of \<open>m\<close> are distinct and were printed from
  \<open>1 .. s\<close>. The interface \<open>id_store\<close> needs only that printing is injective; its client
  lemmas say that the next identifier is fresh and that filing under it keeps the invariant.
\<close>

definition keys_from :: "(int \<Rightarrow> string) \<Rightarrow> int \<Rightarrow> (string, 'v) gomap \<Rightarrow> bool" where
  "keys_from mk s m \<longleftrightarrow>
     0 \<le> s \<and> in64 s \<and> distinct (mkeys m) \<and> (\<forall>k \<in> set (mkeys m). \<exists>n \<in> {1..s}. k = mk n)"

lemma keys_from_distinct: "keys_from mk s m \<Longrightarrow> distinct (mkeys m)"
  by (simp add: keys_from_def)

lemma keys_from_Nil [simp]: "keys_from mk 0 []"
  by (simp add: keys_from_def in64_def)

lemma keys_from_update:
  "keys_from mk s m \<Longrightarrow> mget m k = Some v \<Longrightarrow> keys_from mk s (mput k v' m)"
  by (auto simp: keys_from_def mkeys_mput simp flip: set_map dest: mget_in)
     (metis fst_conv image_eqI list.set_map mget_in)

lemma keys_from_next: "keys_from mk s m \<Longrightarrow> s < 2 ^ 63 - 1 \<Longrightarrow> add64 s 1 = s + 1"
  by (simp add: keys_from_def add64_exact in64_def)

locale id_store =
  fixes mk :: "int \<Rightarrow> string"
  assumes mk_inj: "mk i = mk j \<Longrightarrow> i = j"
begin

lemma fresh:
  assumes "keys_from mk s m" "s < 2 ^ 63 - 1"
  shows "mget m (mk (add64 s 1)) = None"
proof -
  have "mk (s + 1) \<notin> set (mkeys m)"
    using assms(1) mk_inj unfolding keys_from_def by fastforce
  then show ?thesis using assms by (simp add: keys_from_next mget_None)
qed

lemma insert_next:
  assumes "keys_from mk s m" "s < 2 ^ 63 - 1"
  shows "keys_from mk (add64 s 1) (mput (mk (add64 s 1)) v m)"
proof -
  have s: "add64 s 1 = s + 1" using assms by (rule keys_from_next)
  have "in64 (s + 1)" using assms by (simp add: keys_from_def in64_def)
  moreover have "\<exists>n \<in> {1..s + 1}. k = mk n" if "k \<in> set (mkeys (mput (mk (s + 1)) v m))" for k
  proof (cases "k = mk (s + 1)")
    case True
    with assms(1) show ?thesis by (auto simp: keys_from_def)
  next
    case False
    with that have "k \<in> set (mkeys m)" by (simp add: mkeys_mput del: set_map)
    with assms(1) show ?thesis unfolding keys_from_def by fastforce
  qed
  ultimately show ?thesis
    using assms(1) unfolding s by (auto simp: keys_from_def)
qed

lemma next_distinct:
  assumes "keys_from mk s m" "s < 2 ^ 63 - 1" "mget m k = Some v"
  shows "k \<noteq> mk (add64 s 1)"
  using fresh [OF assms(1,2)] assms(3) by auto

end

lemma prefixed_id_store: "id_store (\<lambda>n. p @ fmt0d w n)"
  by unfold_locales (auto dest: fmt0d_inj)

section \<open>sort.Slice\<close>

text \<open>
  \<open>sort.Slice\<close> sorts by a \<open>less\<close> function and is documented not to be stable, so the code's
  result is any permutation that is sorted by \<open>less\<close>. The operations take the sort as a
  parameter; \<open>sort_slice\<close> is its contract, for the comparators the code uses, which compare
  an integer key of the elements.
\<close>

type_synonym slice_sort = "(string \<Rightarrow> string \<Rightarrow> bool) \<Rightarrow> string list \<Rightarrow> string list"

locale sort_slice =
  fixes srt :: slice_sort
  assumes perm: "\<And>f :: string \<Rightarrow> int. mset (srt (\<lambda>a b. f a < f b) xs) = mset xs"
    and ordered: "\<And>f :: string \<Rightarrow> int. sorted (map f (srt (\<lambda>a b. f a < f b) xs))"
begin

lemma asc_set: "set (srt (\<lambda>a b. f a < (f b :: int)) xs) = set xs"
  by (metis perm mset_eq_setD)

lemma asc_distinct: "distinct (srt (\<lambda>a b. f a < (f b :: int)) xs) = distinct xs"
  by (metis perm mset_eq_imp_distinct_iff)

lemma desc_perm: "mset (srt (\<lambda>a b. f b < (f a :: int)) xs) = mset xs"
  using perm [of "\<lambda>a. - f a" xs] by simp

lemma desc_set: "set (srt (\<lambda>a b. f b < (f a :: int)) xs) = set xs"
  by (metis desc_perm mset_eq_setD)

lemma desc_distinct: "distinct (srt (\<lambda>a b. f b < (f a :: int)) xs) = distinct xs"
  by (metis desc_perm mset_eq_imp_distinct_iff)

lemma desc_ordered: "sorted (map (\<lambda>a. - f a) (srt (\<lambda>a b. f b < (f a :: int)) xs))"
  using ordered [of "\<lambda>a. - f a" xs] by simp

end

text \<open>
  Go sorts slices of at most 12 elements by insertion: each element in turn moves left past
  every element it is less than. \<open>ins_back\<close> inserts into the reversed prefix.
\<close>

fun ins_back :: "('a \<Rightarrow> 'a \<Rightarrow> bool) \<Rightarrow> 'a \<Rightarrow> 'a list \<Rightarrow> 'a list" where
  "ins_back lt x [] = [x]"
| "ins_back lt x (y # ys) = (if lt x y then y # ins_back lt x ys else x # y # ys)"

definition insertion_sort :: "('a \<Rightarrow> 'a \<Rightarrow> bool) \<Rightarrow> 'a list \<Rightarrow> 'a list" where
  "insertion_sort lt xs = rev (foldl (\<lambda>acc x. ins_back lt x acc) [] xs)"

lemma mset_ins_back: "mset (ins_back lt x ys) = add_mset x (mset ys)"
  by (induction ys) auto

lemma set_ins_back: "set (ins_back lt x ys) = insert x (set ys)"
  by (induction ys) auto

lemma sorted_ins_back:
  "sorted (rev (map f ys)) \<Longrightarrow> sorted (rev (map f (ins_back (\<lambda>a b. f a < (f b :: int)) x ys)))"
  by (induction ys) (auto simp: sorted_append set_ins_back)

lemma mset_foldl_ins: "mset (foldl (\<lambda>acc x. ins_back lt x acc) acc xs) = mset acc + mset xs"
  by (induction xs arbitrary: acc) (auto simp: mset_ins_back)

lemma sorted_foldl_ins:
  "sorted (rev (map f acc)) \<Longrightarrow>
   sorted (rev (map f (foldl (\<lambda>acc x. ins_back (\<lambda>a b. f a < (f b :: int)) x acc) acc xs)))"
  by (induction xs arbitrary: acc) (auto intro: sorted_ins_back)

interpretation ins_sort: sort_slice insertion_sort
  by unfold_locales
     (simp_all add: insertion_sort_def mset_foldl_ins sorted_foldl_ins rev_map [symmetric])

section \<open>Machines with an invariant\<close>

text \<open>
  A keeper under its lock is a deterministic machine: each call is one step. From an invariant
  that a call keeps when its arguments satisfy \<open>pre\<close>, and a relation between the states before
  and after one call, the interface gives the same for every sequence of calls.
\<close>

fun all_pre :: "('s \<Rightarrow> 'e \<Rightarrow> 's) \<Rightarrow> ('s \<Rightarrow> 'e \<Rightarrow> bool) \<Rightarrow> 's \<Rightarrow> 'e list \<Rightarrow> bool" where
  "all_pre step pre s [] \<longleftrightarrow> True"
| "all_pre step pre s (e # es) \<longleftrightarrow> pre s e \<and> all_pre step pre (step s e) es"

lemma all_pre_True [simp]: "all_pre step (\<lambda>_ _. True) s es"
  by (induction es arbitrary: s) simp_all

locale state_machine =
  fixes step :: "'s \<Rightarrow> 'e \<Rightarrow> 's" and pre :: "'s \<Rightarrow> 'e \<Rightarrow> bool" and ok :: "'s \<Rightarrow> bool"
  assumes step_ok: "ok s \<Longrightarrow> pre s e \<Longrightarrow> ok (step s e)"
begin

lemma run_ok: "ok s \<Longrightarrow> all_pre step pre s es \<Longrightarrow> ok (foldl step s es)"
  by (induction es arbitrary: s) (auto intro: step_ok)

end

locale related_machine = state_machine +
  fixes rel :: "'s \<Rightarrow> 's \<Rightarrow> bool"
  assumes rel_refl: "rel s s"
    and rel_trans: "rel s t \<Longrightarrow> rel t u \<Longrightarrow> rel s u"
    and step_rel: "ok s \<Longrightarrow> pre s e \<Longrightarrow> rel s (step s e)"
begin

lemma run_rel: "ok s \<Longrightarrow> all_pre step pre s es \<Longrightarrow> rel s (foldl step s es)"
proof (induction es arbitrary: s)
  case (Cons e es)
  then have p: "pre s e" "all_pre step pre (step s e) es" by simp_all
  have "rel (step s e) (foldl step (step s e) es)"
    by (rule Cons.IH [OF step_ok [OF Cons.prems(1) p(1)] p(2)])
  then show ?case using step_rel [OF Cons.prems(1) p(1)] by (auto intro: rel_trans)
qed (simp add: rel_refl)

end

section \<open>Time\<close>

text \<open>
  An instant is the number of nanoseconds since the Unix epoch. \<open>date_utc\<close> is
  \<open>Format("2006-01-02")\<close> in UTC, by the usual conversion of a day number into a Gregorian
  date.
\<close>

type_synonym time = int

definition hour_ns :: int where
  "hour_ns = 3600000000000"

definition date_utc :: "time \<Rightarrow> string" where
  "date_utc t =
     (let z = t div (24 * hour_ns) + 719468;
          era = z div 146097;
          doe = z mod 146097;
          yoe = (doe - doe div 1460 + doe div 36524 - doe div 146096) div 365;
          doy = doe - (365 * yoe + yoe div 4 - yoe div 100);
          mp = (5 * doy + 2) div 153;
          d = doy - (153 * mp + 2) div 5 + 1;
          m = (if mp < 10 then mp + 3 else mp - 9);
          y = yoe + era * 400 + (if m \<le> 2 then 1 else 0)
      in fmt0d 4 y @ ''-'' @ fmt0d 2 m @ ''-'' @ fmt0d 2 d)"

text \<open>
  The epoch's date, once and for all: evaluation of the conversion is long, and the examples of
  the development all run at the epoch.
\<close>

lemma date_utc_epoch: "date_utc 0 = ''1970-01-01''"
  by code_simp

lemma date_utc_code [code]:
  "date_utc t =
     (if t = 0 then ''1970-01-01''
      else (let z = t div (24 * hour_ns) + 719468;
          era = z div 146097;
          doe = z mod 146097;
          yoe = (doe - doe div 1460 + doe div 36524 - doe div 146096) div 365;
          doy = doe - (365 * yoe + yoe div 4 - yoe div 100);
          mp = (5 * doy + 2) div 153;
          d = doy - (153 * mp + 2) div 5 + 1;
          m = (if mp < 10 then mp + 3 else mp - 9);
          y = yoe + era * 400 + (if m \<le> 2 then 1 else 0)
      in fmt0d 4 y @ ''-'' @ fmt0d 2 m @ ''-'' @ fmt0d 2 d))"
  by (cases "t = 0") (simp_all only: date_utc_epoch if_True if_False simp_thms, simp only: date_utc_def)

end
