(* ===== verification/ChainState.thy ===== *)
theory ChainState
  imports Prelude
begin

text \<open>
  The application state of the running node, \<open>cmd/ftgd/chain_state.go\<close>: minting from energy
  certificates, burning, the three treasury balances, and the JSON file the state is saved to
  after every change. Each method holds the state's lock for its whole body, so a call is one
  atomic step; \<open>now\<close> is the instant at which it runs.
\<close>

section \<open>Data\<close>

record certificate =
  cert_ID :: string
  cert_ExternalID :: string
  cert_Provider :: string
  cert_MWhAmount :: int64
  cert_TokensMinted :: int64
  cert_IPFSHash :: string
  cert_ProvenanceType :: string
  cert_SourceType :: string
  cert_VintageYear :: int64
  cert_MintedAt :: time
  cert_MintedInBlock :: int64
  cert_Minter :: string

record burn_event =
  burn_ID :: string
  burn_Amount :: int64
  burn_BurnType :: string
  burn_Burner :: string
  burn_Reason :: string
  burn_BurnedAt :: time
  burn_BlockHeight :: int64

text \<open>The JSON object marshalled into a transaction's \<open>Data\<close> is kept as its fields.\<close>

datatype tx_data =
    MintData string int64 int64 string
  | BurnData int64 string string

record transaction =
  tx_Hash :: string
  tx_Type :: string
  tx_Height :: int64
  tx_Timestamp :: time
  tx_Data :: tx_data
  tx_Status :: string

text \<open>
  \<open>chain_json\<close> holds the fields with a JSON tag, which \<open>save\<close> writes; \<open>cs_disk\<close> is the
  content of the file at \<open>filePath\<close>. The code ignores write errors; here writes succeed.
\<close>

record chain_json =
  TotalMinted :: int64
  TotalBurned :: int64
  TotalSupply :: int64
  TotalMWh :: int64
  TreasuryMinting :: int64
  TreasuryCommitted :: int64
  TreasuryLiquidity :: int64
  Certificates :: "certificate list"
  BurnEvents :: "burn_event list"
  Transactions :: "transaction list"

record chain_state = chain_json +
  cs_disk :: "chain_json option"

datatype cs_error =
    CertificateRegistered string
  | InsufficientSupply int64 int64
  | InsufficientMinting int64 int64

section \<open>Operations\<close>

definition NewChainState :: "chain_json option \<Rightarrow> chain_state" where
  "NewChainState disk =
     (case disk of
        None \<Rightarrow> \<lparr>TotalMinted = 0, TotalBurned = 0, TotalSupply = 0, TotalMWh = 0,
                 TreasuryMinting = 0, TreasuryCommitted = 0, TreasuryLiquidity = 0,
                 Certificates = [], BurnEvents = [], Transactions = [], cs_disk = None\<rparr>
      | Some j \<Rightarrow> chain_json.extend j \<lparr>cs_disk = Some j\<rparr>)"

definition cs_save :: "chain_state \<Rightarrow> chain_state" where
  "cs_save cs = cs\<lparr>cs_disk := Some (chain_json.truncate cs)\<rparr>"

definition cs_MintFromCertificate ::
  "time \<Rightarrow> certificate \<Rightarrow> int64 \<Rightarrow> chain_state \<Rightarrow> chain_state \<times> (cs_error + transaction)" where
  "cs_MintFromCertificate now cert blockHeight cs =
     (if list_ex (\<lambda>existing. cert_ExternalID existing = cert_ExternalID cert) (Certificates cs)
      then (cs, Inl (CertificateRegistered (cert_ExternalID cert)))
      else
        let tokensUFTG = mul64 (mul64 (cert_MWhAmount cert) 100) 1000000;
            cert' = cert\<lparr>cert_TokensMinted := tokensUFTG, cert_MintedAt := now,
                         cert_MintedInBlock := blockHeight\<rparr>;
            tx = \<lparr>tx_Hash = ''MINT_'' @ cert_ExternalID cert @ ''_'' @ fmt0d 0 blockHeight,
                  tx_Type = ''energymint/MsgMintFromCertificate'',
                  tx_Height = blockHeight,
                  tx_Timestamp = now,
                  tx_Data = MintData (cert_ExternalID cert) (cert_MWhAmount cert) tokensUFTG
                              (cert_Provider cert),
                  tx_Status = ''success''\<rparr>
        in (cs_save (cs\<lparr>
              Certificates := Certificates cs @ [cert'],
              TotalMinted := add64 (TotalMinted cs) tokensUFTG,
              TotalSupply := add64 (TotalSupply cs) tokensUFTG,
              TotalMWh := add64 (TotalMWh cs) (cert_MWhAmount cert),
              TreasuryMinting := add64 (TreasuryMinting cs) tokensUFTG,
              Transactions := Transactions cs @ [tx]\<rparr>),
            Inr tx))"

definition cs_BurnTokens ::
  "time \<Rightarrow> burn_event \<Rightarrow> int64 \<Rightarrow> chain_state \<Rightarrow> chain_state \<times> (cs_error + transaction)" where
  "cs_BurnTokens now event blockHeight cs =
     (if burn_Amount event > TotalSupply cs
      then (cs, Inl (InsufficientSupply (burn_Amount event) (TotalSupply cs)))
      else
        let event' = event\<lparr>burn_BurnedAt := now, burn_BlockHeight := blockHeight\<rparr>;
            tx = \<lparr>tx_Hash = ''BURN_'' @ burn_ID event @ ''_'' @ fmt0d 0 blockHeight,
                  tx_Type = ''ftgburn/MsgBurn'',
                  tx_Height = blockHeight,
                  tx_Timestamp = now,
                  tx_Data = BurnData (burn_Amount event) (burn_BurnType event) (burn_Reason event),
                  tx_Status = ''success''\<rparr>
        in (cs_save (cs\<lparr>
              BurnEvents := BurnEvents cs @ [event'],
              TotalBurned := add64 (TotalBurned cs) (burn_Amount event),
              TotalSupply := sub64 (TotalSupply cs) (burn_Amount event),
              Transactions := Transactions cs @ [tx]\<rparr>),
            Inr tx))"

definition cs_TransferFromMintingToCommitted ::
  "int64 \<Rightarrow> string \<Rightarrow> chain_state \<Rightarrow> chain_state \<times> (cs_error + unit)" where
  "cs_TransferFromMintingToCommitted amount buyerRef cs =
     (if amount > TreasuryMinting cs
      then (cs, Inl (InsufficientMinting amount (TreasuryMinting cs)))
      else (cs_save (cs\<lparr>
              TreasuryMinting := sub64 (TreasuryMinting cs) amount,
              TreasuryCommitted := add64 (TreasuryCommitted cs) amount\<rparr>),
            Inr ()))"

definition cs_TransferFromMintingToLiquidity ::
  "int64 \<Rightarrow> chain_state \<Rightarrow> chain_state \<times> (cs_error + unit)" where
  "cs_TransferFromMintingToLiquidity amount cs =
     (if amount > TreasuryMinting cs
      then (cs, Inl (InsufficientMinting amount (TreasuryMinting cs)))
      else (cs_save (cs\<lparr>
              TreasuryMinting := sub64 (TreasuryMinting cs) amount,
              TreasuryLiquidity := add64 (TreasuryLiquidity cs) amount\<rparr>),
            Inr ()))"

text \<open>
  \<open>GetStats\<close> returns a string-keyed map; \<open>cs_stats\<close> has its integer entries. The \<open>_ftg\<close>
  entries are the same numbers as floating point divided by a million, for display.
\<close>

record cs_stats =
  stat_total_minted_uftg :: int64
  stat_total_burned_uftg :: int64
  stat_total_supply_uftg :: int64
  stat_total_mwh_backed :: int64
  stat_certificates_count :: nat
  stat_burn_events_count :: nat
  stat_transactions_count :: nat

definition cs_GetStats :: "chain_state \<Rightarrow> cs_stats" where
  "cs_GetStats cs =
     \<lparr>stat_total_minted_uftg = TotalMinted cs, stat_total_burned_uftg = TotalBurned cs,
      stat_total_supply_uftg = TotalSupply cs, stat_total_mwh_backed = TotalMWh cs,
      stat_certificates_count = length (Certificates cs),
      stat_burn_events_count = length (BurnEvents cs),
      stat_transactions_count = length (Transactions cs)\<rparr>"

lemmas cs_ops_def =
  cs_MintFromCertificate_def cs_BurnTokens_def cs_TransferFromMintingToCommitted_def
  cs_TransferFromMintingToLiquidity_def cs_save_def

section \<open>Runs\<close>

text \<open>One call of a method, with the instant it runs at, and the state it leaves.\<close>

datatype cs_op =
    OpMint time certificate int64
  | OpBurn time burn_event int64
  | OpCommit int64 string
  | OpLiquidity int64

fun cs_step :: "chain_state \<Rightarrow> cs_op \<Rightarrow> chain_state" where
  "cs_step cs (OpMint now cert h) = fst (cs_MintFromCertificate now cert h cs)"
| "cs_step cs (OpBurn now event h) = fst (cs_BurnTokens now event h cs)"
| "cs_step cs (OpCommit amount ref) = fst (cs_TransferFromMintingToCommitted amount ref cs)"
| "cs_step cs (OpLiquidity amount) = fst (cs_TransferFromMintingToLiquidity amount cs)"

definition cs_run :: "cs_op list \<Rightarrow> chain_state" where
  "cs_run ops = foldl cs_step (NewChainState None) ops"

text \<open>
  What holds between the totals, the certificates, the burn events and the treasury after any
  calls with any arguments, overflow and negative amounts included. The totals are \<open>int64\<close>
  values, so each is the exact sum wrapped once.
\<close>

definition cert_tokens :: "certificate list \<Rightarrow> int" where
  "cert_tokens cs = sum_list (map cert_TokensMinted cs)"

definition cert_mwh :: "certificate list \<Rightarrow> int" where
  "cert_mwh cs = sum_list (map cert_MWhAmount cs)"

definition burned_total :: "burn_event list \<Rightarrow> int" where
  "burned_total es = sum_list (map burn_Amount es)"

lemmas chain_sums = cert_tokens_def cert_mwh_def burned_total_def

definition chain_ok :: "chain_state \<Rightarrow> bool" where
  "chain_ok cs \<longleftrightarrow>
     TotalMinted cs = i64 (cert_tokens (Certificates cs)) \<and>
     TotalMWh cs = i64 (cert_mwh (Certificates cs)) \<and>
     TotalBurned cs = i64 (burned_total (BurnEvents cs)) \<and>
     TotalSupply cs = sub64 (TotalMinted cs) (TotalBurned cs) \<and>
     add64 (add64 (TreasuryMinting cs) (TreasuryCommitted cs)) (TreasuryLiquidity cs) =
       TotalMinted cs \<and>
     distinct (map cert_ExternalID (Certificates cs)) \<and>
     list_all (\<lambda>c. cert_TokensMinted c = mul64 (mul64 (cert_MWhAmount c) 100) 1000000)
       (Certificates cs) \<and>
     length (Transactions cs) = length (Certificates cs) + length (BurnEvents cs) \<and>
     NewChainState (cs_disk cs) = cs"

lemma cert_tokens_mwh:
  "list_all (\<lambda>c. cert_TokensMinted c = mul64 (mul64 (cert_MWhAmount c) 100) 1000000) cs \<Longrightarrow>
   i64 (cert_tokens cs) = i64 (cert_mwh cs * 100000000)"
proof (induction cs)
  case (Cons c cs)
  then have "i64 (cert_TokensMinted c + cert_tokens cs) =
      i64 (cert_MWhAmount c * 100000000 + cert_mwh cs * 100000000)"
    by (intro i64_add_cong) (simp_all add: go_arith mult.commute)
  then show ?case by (simp add: chain_sums algebra_simps)
qed (simp add: chain_sums)

lemma chain_ok_init: "chain_ok (NewChainState None)"
  by (simp add: chain_ok_def NewChainState_def chain_sums i64_def sub64_def add64_def)

lemma reload_save [simp]: "NewChainState (cs_disk (cs_save cs)) = cs_save cs"
  by (cases cs) (simp add: NewChainState_def cs_save_def chain_json.defs)

lemma cs_save_fields [simp]:
  "TotalMinted (cs_save cs) = TotalMinted cs" "TotalBurned (cs_save cs) = TotalBurned cs"
  "TotalSupply (cs_save cs) = TotalSupply cs" "TotalMWh (cs_save cs) = TotalMWh cs"
  "TreasuryMinting (cs_save cs) = TreasuryMinting cs"
  "TreasuryCommitted (cs_save cs) = TreasuryCommitted cs"
  "TreasuryLiquidity (cs_save cs) = TreasuryLiquidity cs"
  "Certificates (cs_save cs) = Certificates cs" "BurnEvents (cs_save cs) = BurnEvents cs"
  "Transactions (cs_save cs) = Transactions cs"
  by (simp_all add: cs_save_def)

lemma mint_ok: "chain_ok cs \<Longrightarrow> chain_ok (fst (cs_MintFromCertificate now cert h cs))"
  by (simp add: cs_MintFromCertificate_def chain_ok_def Let_def grow64_1 list_ex_iff)
     (auto simp: chain_sums go_arith algebra_simps)

lemma burn_ok: "chain_ok cs \<Longrightarrow> chain_ok (fst (cs_BurnTokens now event h cs))"
  by (auto simp: cs_BurnTokens_def chain_ok_def Let_def chain_sums go_arith algebra_simps)

lemma commit_ok: "chain_ok cs \<Longrightarrow> chain_ok (fst (cs_TransferFromMintingToCommitted a r cs))"
  by (auto simp: cs_TransferFromMintingToCommitted_def chain_ok_def move64_12)

lemma liquidity_ok: "chain_ok cs \<Longrightarrow> chain_ok (fst (cs_TransferFromMintingToLiquidity a cs))"
  by (auto simp: cs_TransferFromMintingToLiquidity_def chain_ok_def move64_13)

text \<open>The three records of what happened only ever grow at their end.\<close>

definition chain_grows :: "chain_state \<Rightarrow> chain_state \<Rightarrow> bool" where
  "chain_grows a b \<longleftrightarrow>
     (\<exists>cs es ts. Certificates b = Certificates a @ cs \<and> BurnEvents b = BurnEvents a @ es \<and>
        Transactions b = Transactions a @ ts)"

lemma chain_grows_refl: "chain_grows a a"
  by (simp add: chain_grows_def)

lemma chain_grows_trans: "chain_grows a b \<Longrightarrow> chain_grows b c \<Longrightarrow> chain_grows a c"
  by (auto simp: chain_grows_def)

lemma cs_step_grows: "chain_grows a (cs_step a e)"
  by (cases e) (auto simp: chain_grows_def cs_ops_def Let_def)

interpretation chain: related_machine cs_step "\<lambda>_ _. True" chain_ok chain_grows
proof unfold_locales
  show "chain_ok s \<Longrightarrow> chain_ok (cs_step s e)" for s e
    by (cases e) (simp_all add: mint_ok burn_ok commit_ok liquidity_ok)
qed (auto intro: chain_grows_refl chain_grows_trans cs_step_grows)

lemma cs_run_ok: "chain_ok (cs_run ops)"
  unfolding cs_run_def by (rule chain.run_ok [OF chain_ok_init all_pre_True])

end
