(* ===== verification/ChainProps.thy ===== *)
theory ChainProps
  imports ChainState
begin

text \<open>
  The properties of the chain state: what every run satisfies, what nonnegative arguments add,
  and what a negative burn does.
\<close>

section \<open>Nonnegative runs\<close>

text \<open>
  The arguments the callers mean: nonnegative amounts, and minting that stays below \<open>2 ^ 63\<close>
  uftg in total. Then no operation wraps, and the machine has a stronger invariant.
\<close>

fun cs_pre :: "chain_state \<Rightarrow> cs_op \<Rightarrow> bool" where
  "cs_pre cs (OpMint now cert h) \<longleftrightarrow>
     0 \<le> cert_MWhAmount cert \<and> TotalMinted cs + cert_MWhAmount cert * 100000000 < 2 ^ 63"
| "cs_pre cs (OpBurn now event h) \<longleftrightarrow> 0 \<le> burn_Amount event"
| "cs_pre cs (OpCommit amount ref) \<longleftrightarrow> 0 \<le> amount"
| "cs_pre cs (OpLiquidity amount) \<longleftrightarrow> 0 \<le> amount"

definition chain_exact :: "chain_state \<Rightarrow> bool" where
  "chain_exact cs \<longleftrightarrow>
     0 \<le> TotalMWh cs \<and> TotalMinted cs = 100000000 * TotalMWh cs \<and> TotalMinted cs < 2 ^ 63 \<and>
     0 \<le> TotalBurned cs \<and> 0 \<le> TotalSupply cs \<and>
     TotalSupply cs + TotalBurned cs = TotalMinted cs \<and>
     0 \<le> TreasuryMinting cs \<and> 0 \<le> TreasuryCommitted cs \<and> 0 \<le> TreasuryLiquidity cs \<and>
     TreasuryMinting cs + TreasuryCommitted cs + TreasuryLiquidity cs = TotalMinted cs"

lemma mint_tokens_exact:
  assumes "0 \<le> x" "x * 100000000 < 2 ^ 63"
  shows "mul64 (mul64 x 100) 1000000 = x * 100000000"
  using assms by (simp add: mul64_exact in64_def)

lemma chain_exact_step:
  assumes ok: "chain_exact cs" and pre: "cs_pre cs op"
  shows "chain_exact (cs_step cs op)"
proof (cases op)
  case (OpMint now cert h)
  let ?x = "cert_MWhAmount cert"
  have x: "0 \<le> ?x" "TotalMinted cs + ?x * 100000000 < 2 ^ 63" using pre OpMint by simp_all
  then have t: "mul64 (mul64 ?x 100) 1000000 = ?x * 100000000"
    using ok by (intro mint_tokens_exact) (auto simp: chain_exact_def)
  show ?thesis
    using ok x OpMint
    by (simp add: cs_MintFromCertificate_def Let_def chain_exact_def t add64_exact in64_def)
next
  case (OpBurn now event h)
  then show ?thesis using ok pre
    by (simp add: cs_BurnTokens_def Let_def chain_exact_def add64_exact sub64_exact in64_def)
next
  case (OpCommit amount ref)
  then show ?thesis using ok pre
    by (simp add: cs_TransferFromMintingToCommitted_def chain_exact_def add64_exact sub64_exact in64_def)
next
  case (OpLiquidity amount)
  then show ?thesis using ok pre
    by (simp add: cs_TransferFromMintingToLiquidity_def chain_exact_def add64_exact sub64_exact in64_def)
qed

interpretation exact: state_machine cs_step cs_pre chain_exact
  by unfold_locales (rule chain_exact_step)

lemma chain_exact_init: "chain_exact (NewChainState None)"
  by (simp add: chain_exact_def NewChainState_def)

section \<open>Examples\<close>

definition demo_cert :: "string \<Rightarrow> int64 \<Rightarrow> certificate" where
  "demo_cert ref mwh =
     \<lparr>cert_ID = ref, cert_ExternalID = ref, cert_Provider = ''grid'', cert_MWhAmount = mwh,
      cert_TokensMinted = 0, cert_IPFSHash = '''', cert_ProvenanceType = '''', cert_SourceType = '''',
      cert_VintageYear = 2024, cert_MintedAt = 0, cert_MintedInBlock = 0, cert_Minter = ''ftg1''\<rparr>"

definition demo_burn :: "int64 \<Rightarrow> burn_event" where
  "demo_burn x =
     \<lparr>burn_ID = ''B1'', burn_Amount = x, burn_BurnType = ''energy_redeem'', burn_Burner = ''ftg1'',
      burn_Reason = '''', burn_BurnedAt = 0, burn_BlockHeight = 0\<rparr>"

definition demo_chain_ops :: "cs_op list" where
  "demo_chain_ops =
     [OpMint 0 (demo_cert ''C1'' 10) 1, OpCommit 300000000 ''buyer'', OpBurn 0 (demo_burn 200000000) 2]"

section \<open>Properties\<close>

text \<open>
  C9: Energy backing. After any calls, no certificate is registered twice, each has minted 100 FTG
  (100,000,000 uftg) per MWh, the total minted is that rate times the total MWh, and the supply
  is what was minted less what was burned; all as \<open>int64\<close> arithmetic, with no assumption on the
  arguments.
\<close>

theorem energy_backing:
  "distinct (map cert_ExternalID (Certificates (cs_run ops))) \<and>
   list_all (\<lambda>c. cert_TokensMinted c = mul64 (mul64 (cert_MWhAmount c) 100) 1000000)
     (Certificates (cs_run ops)) \<and>
   TotalMinted (cs_run ops) = mul64 (TotalMWh (cs_run ops)) 100000000 \<and>
   TotalSupply (cs_run ops) = sub64 (TotalMinted (cs_run ops)) (TotalBurned (cs_run ops)) \<and>
   TotalBurned (cs_run ops) = i64 (burned_total (BurnEvents (cs_run ops)))"
  using cs_run_ok [of ops] cert_tokens_mwh [of "Certificates (cs_run ops)"]
  by (simp add: chain_ok_def mul64_def go_arith)

text \<open>
  C21: Treasury. The three treasury balances always add up to the total ever minted, so they exceed
  the supply by everything that was burned: burning does not take tokens out of the treasury.
\<close>

theorem treasury_partition:
  "add64 (add64 (TreasuryMinting (cs_run ops)) (TreasuryCommitted (cs_run ops)))
     (TreasuryLiquidity (cs_run ops)) = TotalMinted (cs_run ops) \<and>
   add64 (TotalSupply (cs_run ops)) (TotalBurned (cs_run ops)) =
     add64 (add64 (TreasuryMinting (cs_run ops)) (TreasuryCommitted (cs_run ops)))
       (TreasuryLiquidity (cs_run ops))"
proof -
  have ok: "chain_ok (cs_run ops)" by (rule cs_run_ok)
  then have "TotalMinted (cs_run ops) = i64 (TotalMinted (cs_run ops))"
    by (metis chain_ok_def i64_i64)
  then show ?thesis using ok by (simp add: chain_ok_def sub64_def add64_def i64_add_left)
qed

text \<open>
  C22: With nonnegative arguments and less than \<open>2 ^ 63\<close> uftg minted in total, no balance or total
  is ever negative and the equations hold exactly: minted = 100,000,000 uftg per MWh, supply plus
  burned = minted, and the treasury balances add up to minted.
\<close>

theorem nonnegative_run_exact:
  "all_pre cs_step cs_pre (NewChainState None) ops \<Longrightarrow> chain_exact (cs_run ops)"
  unfolding cs_run_def by (rule exact.run_ok [OF chain_exact_init])

theorem nonnegative_run_exact_witness:
  "chain_exact (cs_run demo_chain_ops) \<and> TotalSupply (cs_run demo_chain_ops) = 800000000"
proof
  have "all_pre cs_step cs_pre (NewChainState None) demo_chain_ops" by code_simp
  then show "chain_exact (cs_run demo_chain_ops)" by (rule nonnegative_run_exact)
  show "TotalSupply (cs_run demo_chain_ops) = 800000000" by code_simp
qed

text \<open>
  C23: Restart. The file written by the last change reloads to exactly the state in memory,
  whatever calls were made, failed ones included.
\<close>

theorem restart_reproduces_state:
  "NewChainState (cs_disk (cs_run ops)) = cs_run ops"
  using cs_run_ok [of ops] by (simp add: chain_ok_def)

text \<open>
  The record is append-only: later calls only add certificates, burn events and transactions
  at the end, and there is one transaction per certificate or burn event.
\<close>

theorem record_append_only:
  "chain_grows (cs_run ops) (cs_run (ops @ ops')) \<and>
   length (Transactions (cs_run ops)) =
     length (Certificates (cs_run ops)) + length (BurnEvents (cs_run ops))"
  using chain.run_rel [OF cs_run_ok all_pre_True, of ops ops'] cs_run_ok [of ops]
  by (simp add: cs_run_def chain_ok_def)

text \<open>
  C24: A certificate whose external identifier is already registered is refused with the
  registration error and the state, the file included, is unchanged; any other is accepted: one
  certificate and one transaction are added, and the minted tokens go to the minting treasury.
\<close>

theorem mint_once:
  "if cert_ExternalID cert \<in> cert_ExternalID ` set (Certificates cs)
   then cs_MintFromCertificate now cert h cs = (cs, Inl (CertificateRegistered (cert_ExternalID cert)))
   else \<exists>cs' tx c. cs_MintFromCertificate now cert h cs = (cs', Inr tx) \<and>
     Certificates cs' = Certificates cs @ [c] \<and> cert_ExternalID c = cert_ExternalID cert \<and>
     Transactions cs' = Transactions cs @ [tx] \<and> BurnEvents cs' = BurnEvents cs \<and>
     TreasuryMinting cs' = add64 (TreasuryMinting cs) (cert_TokensMinted c) \<and>
     TotalSupply cs' = add64 (TotalSupply cs) (cert_TokensMinted c)"
proof -
  have "list_ex (\<lambda>c. cert_ExternalID c = cert_ExternalID cert) (Certificates cs) \<longleftrightarrow>
      cert_ExternalID cert \<in> cert_ExternalID ` set (Certificates cs)"
    by (auto simp: list_ex_iff image_iff) metis
  then show ?thesis by (simp add: cs_MintFromCertificate_def Let_def)
qed

text \<open>
  A burn of a negative amount is accepted and raises the supply, as the only check is
  that the amount does not exceed the supply.
\<close>

theorem negative_burn_mints:
  "chain_exact cs \<Longrightarrow> TotalSupply cs + x < 2 ^ 63 \<Longrightarrow> 0 < x \<Longrightarrow> burn_Amount event = - x \<Longrightarrow>
   TotalSupply (fst (cs_BurnTokens now event h cs)) = TotalSupply cs + x"
  by (simp add: cs_BurnTokens_def Let_def chain_exact_def sub64_exact in64_def)

theorem negative_burn_mints_witness:
  "TotalSupply (fst (cs_BurnTokens 0 (demo_burn (- 7)) 1 (NewChainState None))) = 7"
  using negative_burn_mints [OF chain_exact_init, of 7 "demo_burn (- 7)" 0 1]
  by (simp add: demo_burn_def NewChainState_def)

end
