(* ===== verification/ExchangeTypes.thy ===== *)
theory ExchangeTypes
  imports Prelude
begin

text \<open>
  The data of the exchange, \<open>x/exchange/types/types.go\<close> and \<open>errors.go\<close>: the string
  enumerations as datatypes, the structs as records, the error values as constructors of
  \<open>ex_error\<close>. A KYC tier is the integer it is in the code, since a request can carry any.
\<close>

section \<open>Enumerations\<close>

datatype order_side = OrderSideBuy | OrderSideSell

datatype order_type = OrderTypeLimit | OrderTypeMarket

datatype order_status =
    OrderStatusOpen | OrderStatusPartial | OrderStatusFilled | OrderStatusCancelled
  | OrderStatusExpired

datatype kyc_status = KYCStatusNone | KYCStatusPending | KYCStatusApproved | KYCStatusRejected

type_synonym kyc_tier = int64

definition KYCTierNone :: kyc_tier where "KYCTierNone = 0"
definition KYCTierBasic :: kyc_tier where "KYCTierBasic = 1"
definition KYCTierFull :: kyc_tier where "KYCTierFull = 2"
definition KYCTierInst :: kyc_tier where "KYCTierInst = 3"

lemmas kyc_tiers [simp] = KYCTierNone_def KYCTierBasic_def KYCTierFull_def KYCTierInst_def

section \<open>Structs\<close>

record trading_pair =
  tp_ID :: string
  tp_BaseDenom :: string
  tp_QuoteDenom :: string
  tp_BaseSymbol :: string
  tp_QuoteSymbol :: string
  tp_MinOrderSize :: int64
  tp_PriceIncrement :: int64
  tp_SizeIncrement :: int64
  tp_MakerFee :: int64
  tp_TakerFee :: int64
  tp_Active :: bool

record wallet =
  w_ID :: string
  w_UserID :: string
  w_Address :: string
  w_Label :: string
  w_CreatedAt :: time
  w_KYCTier :: kyc_tier
  w_Balances :: "(string, int64) gomap"
  w_Locked :: "(string, int64) gomap"
  w_Active :: bool

record order =
  o_ID :: string
  o_WalletID :: string
  o_UserID :: string
  o_PairID :: string
  o_Side :: order_side
  o_Type :: order_type
  o_Price :: int64
  o_Quantity :: int64
  o_FilledQty :: int64
  o_RemainingQty :: int64
  o_Status :: order_status
  o_CreatedAt :: time
  o_UpdatedAt :: time
  o_ExpiresAt :: "time option"

record trade =
  t_ID :: string
  t_PairID :: string
  t_MakerOrder :: string
  t_TakerOrder :: string
  t_MakerWallet :: string
  t_TakerWallet :: string
  t_Side :: order_side
  t_Price :: int64
  t_Quantity :: int64
  t_MakerFee :: int64
  t_TakerFee :: int64
  t_ExecutedAt :: time
  t_BlockHeight :: int64

record kyc_application =
  a_ID :: string
  a_UserID :: string
  a_WalletID :: string
  a_RequestedTier :: kyc_tier
  a_CurrentTier :: kyc_tier
  a_Status :: kyc_status
  a_Email :: string
  a_Phone :: string
  a_Country :: string
  a_FullName :: string
  a_DateOfBirth :: string
  a_IDType :: string
  a_IDNumber :: string
  a_IDDocumentHash :: string
  a_ProofOfAddress :: string
  a_CompanyName :: string
  a_CompanyRegNo :: string
  a_CompanyCountry :: string
  a_AMLRiskScore :: int64
  a_PEPCheck :: bool
  a_SanctionsCheck :: bool
  a_SubmittedAt :: time
  a_ReviewedAt :: "time option"
  a_ApprovedAt :: "time option"
  a_RejectedReason :: string

record daily_limit =
  dl_UserID :: string
  dl_Date :: string
  dl_BuyVolume :: int64
  dl_SellVolume :: int64
  dl_TotalVolume :: int64

record book_level =
  lv_Price :: int64
  lv_Quantity :: int64
  lv_Orders :: int64

record book_snapshot =
  sn_PairID :: string
  sn_Bids :: "book_level list"
  sn_Asks :: "book_level list"
  sn_LastPrice :: int64
  sn_Timestamp :: time

record exchange_config =
  FeeCollector :: string
  TradingEnabled :: bool
  RegistrationOpen :: bool
  AMLThreshold :: int64
  TierLimits :: "(kyc_tier, int64) gomap"

section \<open>Errors\<close>

text \<open>
  The values of \<open>errors.go\<close> the keeper returns, and its three \<open>fmt.Errorf\<close> errors: an order
  of another wallet, a KYC application that does not exist, one that is not pending.
\<close>

datatype ex_error =
    ErrWalletNotFound | ErrWalletExists | ErrWalletInactive | ErrInsufficientBalance
  | ErrInsufficientKYC | ErrDailyLimitExceeded | ErrOrderNotFound | ErrOrderCancelled
  | ErrOrderFilled | ErrInvalidPrice | ErrBelowMinOrder | ErrPairNotFound | ErrPairInactive
  | ErrTradingDisabled | ErrRegistrationClosed | ErrKYCAlreadyPending | ErrKYCAlreadyApproved
  | ErrOtherWallet | ErrApplicationNotFound string | ErrApplicationNotPending kyc_status

section \<open>The keeper's state\<close>

text \<open>
  \<open>exchange_json\<close> has the fields with a JSON tag, which \<open>save\<close> writes to
  \<open>exchange_state.json\<close>. The order books are in memory only. A book holds pointers to the
  orders of \<open>Orders\<close>; an order is filed there under its own identifier when it is created and
  is never replaced, so a pointer is modelled as that identifier, and an update through the
  book is an update of \<open>Orders\<close>. \<open>ex_disk\<close> is the content of the file.
\<close>

record exchange_json =
  Wallets :: "(string, wallet) gomap"
  Orders :: "(string, order) gomap"
  Trades :: "trade list"
  KYCApps :: "(string, kyc_application) gomap"
  Pairs :: "(string, trading_pair) gomap"
  DailyLimits :: "(string, daily_limit) gomap"
  Config :: exchange_config
  WalletSeq :: int64
  OrderSeq :: int64
  TradeSeq :: int64
  KYCSeq :: int64

record exchange = exchange_json +
  BuyBook :: "(string, string list) gomap"
  SellBook :: "(string, string list) gomap"
  ex_disk :: "exchange_json option"

definition wallet_id :: "int64 \<Rightarrow> string" where
  "wallet_id n = ''FTG-W-'' @ fmt0d 6 n"

definition order_id :: "int64 \<Rightarrow> string" where
  "order_id n = ''FTG-ORD-'' @ fmt0d 8 n"

definition trade_id :: "int64 \<Rightarrow> string" where
  "trade_id n = ''FTG-TRD-'' @ fmt0d 8 n"

definition application_id :: "int64 \<Rightarrow> string" where
  "application_id n = ''FTG-KYC-'' @ fmt0d 6 n"

interpretation wallet_ids: id_store wallet_id
  using prefixed_id_store [of "''FTG-W-''" 6] by (simp only: wallet_id_def [abs_def])

interpretation order_ids: id_store order_id
  using prefixed_id_store [of "''FTG-ORD-''" 8] by (simp only: order_id_def [abs_def])

interpretation application_ids: id_store application_id
  using prefixed_id_store [of "''FTG-KYC-''" 6] by (simp only: application_id_def [abs_def])

end
