(* ===== verification/Exchange.thy ===== *)
theory Exchange
  imports ExchangeTypes "HOL-Library.Monad_Syntax"
begin

text \<open>
  The exchange keeper, \<open>x/exchange/keeper/keeper.go\<close>: wallets, orders and their matching,
  market data, KYC. A method that returns an error returns \<open>Inl\<close> with the state it leaves,
  which an error does not always leave unchanged. A method that may dereference a nil
  pointer (an order whose wallet or pair is missing) has the value \<open>None\<close> there: the handler
  panics. Each method holds the keeper's lock throughout and runs at the instant \<open>now\<close>.
\<close>

section \<open>Creating and loading the keeper\<close>

definition defaultConfig :: exchange_config where
  "defaultConfig =
     \<lparr>FeeCollector = ''ftg_fee_collector'', TradingEnabled = True, RegistrationOpen = True,
      AMLThreshold = 10000000000,
      TierLimits = [(KYCTierNone, 0), (KYCTierBasic, 1000000000), (KYCTierFull, 50000000000),
                    (KYCTierInst, 0)]\<rparr>"

definition defaultPair :: trading_pair where
  "defaultPair =
     \<lparr>tp_ID = ''FTG-USDC'', tp_BaseDenom = ''uftg'', tp_QuoteDenom = ''uusdc'',
      tp_BaseSymbol = ''FTG'', tp_QuoteSymbol = ''USDC'', tp_MinOrderSize = 1000000,
      tp_PriceIncrement = 10000, tp_SizeIncrement = 100000, tp_MakerFee = 10, tp_TakerFee = 25,
      tp_Active = True\<rparr>"

definition initDefaultPairs :: "exchange \<Rightarrow> exchange" where
  "initDefaultPairs k = k\<lparr>Pairs := mput ''FTG-USDC'' defaultPair (Pairs k)\<rparr>"

definition live :: "order \<Rightarrow> bool" where
  "live order \<longleftrightarrow> o_Status order = OrderStatusOpen \<or> o_Status order = OrderStatusPartial"

definition price_of :: "exchange \<Rightarrow> string \<Rightarrow> int64" where
  "price_of k oid = (case mget (Orders k) oid of Some order \<Rightarrow> o_Price order | None \<Rightarrow> 0)"

definition bid_less :: "exchange \<Rightarrow> string \<Rightarrow> string \<Rightarrow> bool" where
  "bid_less k = (\<lambda>a b. price_of k b < price_of k a)"

definition ask_less :: "exchange \<Rightarrow> string \<Rightarrow> string \<Rightarrow> bool" where
  "ask_less k = (\<lambda>a b. price_of k a < price_of k b)"

fun book_append ::
  "(string \<times> order) list \<Rightarrow> order_side \<Rightarrow> (string, string list) gomap \<Rightarrow> (string, string list) gomap"
where
  "book_append [] side book = book"
| "book_append ((oid, order) # rest) side book =
     book_append rest side
       (if live order \<and> o_Side order = side
        then mput (o_PairID order) (mgetd [] book (o_PairID order) @ [oid]) book else book)"

definition rebuildOrderBooks :: "slice_sort \<Rightarrow> exchange \<Rightarrow> exchange" where
  "rebuildOrderBooks srt k =
     k\<lparr>BuyBook := map (\<lambda>(p, b). (p, srt (bid_less k) b)) (book_append (Orders k) OrderSideBuy []),
       SellBook := map (\<lambda>(p, b). (p, srt (ask_less k) b))
                     (book_append (Orders k) OrderSideSell [])\<rparr>"

text \<open>
  \<open>json.Unmarshal\<close> into the fresh keeper replaces every saved field; the tier limits, a map
  that is already allocated, are merged into the default ones.
\<close>

definition merge_config :: "exchange_config \<Rightarrow> exchange_config" where
  "merge_config saved =
     saved\<lparr>TierLimits := foldl (\<lambda>m (t, l). mput t l m) (TierLimits defaultConfig)
                           (TierLimits saved)\<rparr>"

definition ex_empty :: exchange where
  "ex_empty =
     \<lparr>Wallets = [], Orders = [], Trades = [], KYCApps = [], Pairs = [], DailyLimits = [],
      Config = defaultConfig, WalletSeq = 0, OrderSeq = 0, TradeSeq = 0, KYCSeq = 0,
      BuyBook = [], SellBook = [], ex_disk = None\<rparr>"

definition ex_NewKeeper :: "slice_sort \<Rightarrow> exchange_json option \<Rightarrow> exchange" where
  "ex_NewKeeper srt disk =
     (let k = (case disk of
                 None \<Rightarrow> ex_empty
               | Some j \<Rightarrow> exchange_json.extend (j\<lparr>Config := merge_config (Config j)\<rparr>)
                             \<lparr>BuyBook = [], SellBook = [], ex_disk = Some j\<rparr>);
          k = (if Pairs k = [] then initDefaultPairs k else k)
      in rebuildOrderBooks srt k)"

definition ex_save :: "exchange \<Rightarrow> exchange" where
  "ex_save k = k\<lparr>ex_disk := Some (exchange_json.truncate k)\<rparr>"

section \<open>Wallets\<close>

definition CreateWallet ::
  "time \<Rightarrow> string \<Rightarrow> string \<Rightarrow> exchange \<Rightarrow> exchange \<times> (ex_error + wallet)" where
  "CreateWallet now userID label k =
     (if \<not> RegistrationOpen (Config k) then (k, Inl ErrRegistrationClosed)
      else if list_ex (\<lambda>(_, w). w_UserID w = userID \<and> w_Active w) (Wallets k)
      then (k, Inl ErrWalletExists)
      else
        let seq = add64 (WalletSeq k) 1;
            walletID = wallet_id seq;
            wallet = \<lparr>w_ID = walletID, w_UserID = userID,
                      w_Address = ''ftg1exchange'' @ walletID, w_Label = label,
                      w_CreatedAt = now, w_KYCTier = KYCTierNone, w_Balances = [],
                      w_Locked = [], w_Active = True\<rparr>
        in (ex_save (k\<lparr>WalletSeq := seq, Wallets := mput walletID wallet (Wallets k)\<rparr>),
            Inr wallet))"

definition GetWallet :: "string \<Rightarrow> exchange \<Rightarrow> ex_error + wallet" where
  "GetWallet walletID k =
     (case mget (Wallets k) walletID of None \<Rightarrow> Inl ErrWalletNotFound | Some w \<Rightarrow> Inr w)"

definition GetWalletByUser :: "string \<Rightarrow> exchange \<Rightarrow> ex_error + wallet" where
  "GetWalletByUser userID k =
     (case find (\<lambda>(_, w). w_UserID w = userID \<and> w_Active w) (Wallets k) of
        None \<Rightarrow> Inl ErrWalletNotFound
      | Some (_, w) \<Rightarrow> Inr w)"

definition bal :: "wallet \<Rightarrow> string \<Rightarrow> int64" where
  "bal w denom = mgetd 0 (w_Balances w) denom"

definition lck :: "wallet \<Rightarrow> string \<Rightarrow> int64" where
  "lck w denom = mgetd 0 (w_Locked w) denom"

definition add_balance :: "string \<Rightarrow> int64 \<Rightarrow> wallet \<Rightarrow> wallet" where
  "add_balance denom x w = w\<lparr>w_Balances := mput denom (add64 (bal w denom) x) (w_Balances w)\<rparr>"

definition sub_balance :: "string \<Rightarrow> int64 \<Rightarrow> wallet \<Rightarrow> wallet" where
  "sub_balance denom x w = w\<lparr>w_Balances := mput denom (sub64 (bal w denom) x) (w_Balances w)\<rparr>"

definition add_locked :: "string \<Rightarrow> int64 \<Rightarrow> wallet \<Rightarrow> wallet" where
  "add_locked denom x w = w\<lparr>w_Locked := mput denom (add64 (lck w denom) x) (w_Locked w)\<rparr>"

definition sub_locked :: "string \<Rightarrow> int64 \<Rightarrow> wallet \<Rightarrow> wallet" where
  "sub_locked denom x w = w\<lparr>w_Locked := mput denom (sub64 (lck w denom) x) (w_Locked w)\<rparr>"

text \<open>Writing through a wallet pointer: the wallet filed under the identifier changes.\<close>

definition put_wallet :: "string \<Rightarrow> wallet \<Rightarrow> exchange \<Rightarrow> exchange" where
  "put_wallet walletID w k = k\<lparr>Wallets := mput walletID w (Wallets k)\<rparr>"

definition put_order :: "string \<Rightarrow> order \<Rightarrow> exchange \<Rightarrow> exchange" where
  "put_order oid order k = k\<lparr>Orders := mput oid order (Orders k)\<rparr>"

definition DepositToWallet ::
  "string \<Rightarrow> string \<Rightarrow> int64 \<Rightarrow> exchange \<Rightarrow> exchange \<times> (ex_error + unit)" where
  "DepositToWallet walletID denom amount k =
     (case mget (Wallets k) walletID of
        None \<Rightarrow> (k, Inl ErrWalletNotFound)
      | Some wallet \<Rightarrow>
          if \<not> w_Active wallet then (k, Inl ErrWalletInactive)
          else (ex_save (put_wallet walletID (add_balance denom amount wallet) k), Inr ()))"

definition WithdrawFromWallet ::
  "string \<Rightarrow> string \<Rightarrow> int64 \<Rightarrow> exchange \<Rightarrow> exchange \<times> (ex_error + unit)" where
  "WithdrawFromWallet walletID denom amount k =
     (case mget (Wallets k) walletID of
        None \<Rightarrow> (k, Inl ErrWalletNotFound)
      | Some wallet \<Rightarrow>
          if \<not> w_Active wallet then (k, Inl ErrWalletInactive)
          else
            let available = sub64 (bal wallet denom) (lck wallet denom)
            in if amount > available then (k, Inl ErrInsufficientBalance)
               else (ex_save (put_wallet walletID (sub_balance denom amount wallet) k), Inr ()))"

section \<open>Daily limits\<close>

definition limit_key :: "string \<Rightarrow> string \<Rightarrow> string" where
  "limit_key userID today = userID @ ''/'' @ today"

text \<open>The entry of a user and day; both callers create it when it is missing.\<close>

definition daily_entry :: "time \<Rightarrow> string \<Rightarrow> exchange \<Rightarrow> daily_limit" where
  "daily_entry now userID k =
     (case mget (DailyLimits k) (limit_key userID (date_utc now)) of
        Some d \<Rightarrow> d
      | None \<Rightarrow> \<lparr>dl_UserID = userID, dl_Date = date_utc now, dl_BuyVolume = 0,
                 dl_SellVolume = 0, dl_TotalVolume = 0\<rparr>)"

definition put_daily :: "time \<Rightarrow> string \<Rightarrow> daily_limit \<Rightarrow> exchange \<Rightarrow> exchange" where
  "put_daily now userID d k =
     k\<lparr>DailyLimits := mput (limit_key userID (date_utc now)) d (DailyLimits k)\<rparr>"

definition checkDailyLimit ::
  "time \<Rightarrow> wallet \<Rightarrow> int64 \<Rightarrow> int64 \<Rightarrow> exchange \<Rightarrow> exchange \<times> ex_error option" where
  "checkDailyLimit now wallet price quantity k =
     (if w_KYCTier wallet = KYCTierInst then (k, None)
      else
        let limit = mgetd 0 (TierLimits (Config k)) (w_KYCTier wallet)
        in if limit = 0 then (k, Some ErrInsufficientKYC)
           else
             let d = daily_entry now (w_UserID wallet) k;
                 k = put_daily now (w_UserID wallet) d k;
                 orderValue = quo64 (mul64 price quantity) 1000000
             in if add64 (dl_TotalVolume d) orderValue > limit
                then (k, Some ErrDailyLimitExceeded) else (k, None))"

definition updateDailyLimit :: "time \<Rightarrow> string \<Rightarrow> int64 \<Rightarrow> exchange \<Rightarrow> exchange" where
  "updateDailyLimit now userID volume k =
     (let d = daily_entry now userID k
      in put_daily now userID (d\<lparr>dl_TotalVolume := add64 (dl_TotalVolume d) volume\<rparr>) k)"

section \<open>Matching\<close>

text \<open>
  \<open>settleTrade\<close> moves the two sides of a trade between the two wallets. The code's statements
  are kept in order; the maker and the taker are different wallets, since a taker skips its
  own orders.
\<close>

definition quote_amount :: "int64 \<Rightarrow> int64 \<Rightarrow> int64" where
  "quote_amount price quantity = quo64 (mul64 price quantity) 1000000"

definition mod_wallet :: "string \<Rightarrow> (wallet \<Rightarrow> wallet) \<Rightarrow> exchange \<Rightarrow> exchange option" where
  "mod_wallet walletID f k =
     (case mget (Wallets k) walletID of
        None \<Rightarrow> None
      | Some w \<Rightarrow> Some (put_wallet walletID (f w) k))"

definition settleTrade :: "time \<Rightarrow> trade \<Rightarrow> trading_pair \<Rightarrow> exchange \<Rightarrow> exchange option" where
  "settleTrade now trade pair k =
     (let quoteAmount = quote_amount (t_Price trade) (t_Quantity trade);
          base = tp_BaseDenom pair;
          quote = tp_QuoteDenom pair;
          maker = t_MakerWallet trade;
          taker = t_TakerWallet trade
      in do {
        k \<leftarrow> (if t_Side trade = OrderSideBuy then do {
               k \<leftarrow> mod_wallet maker (sub_locked base (t_Quantity trade)) k;
               k \<leftarrow> mod_wallet maker (sub_balance base (t_Quantity trade)) k;
               k \<leftarrow> mod_wallet maker
                      (add_balance quote (sub64 quoteAmount (t_MakerFee trade))) k;
               k \<leftarrow> mod_wallet taker (sub_locked quote quoteAmount) k;
               k \<leftarrow> mod_wallet taker (sub_balance quote quoteAmount) k;
               k \<leftarrow> mod_wallet taker (add_balance base (t_Quantity trade)) k;
               mod_wallet taker (sub_balance quote (t_TakerFee trade)) k
             } else do {
               k \<leftarrow> mod_wallet maker (sub_locked quote quoteAmount) k;
               k \<leftarrow> mod_wallet maker (sub_balance quote quoteAmount) k;
               k \<leftarrow> mod_wallet maker (add_balance base (t_Quantity trade)) k;
               k \<leftarrow> mod_wallet taker (sub_locked base (t_Quantity trade)) k;
               k \<leftarrow> mod_wallet taker (sub_balance base (t_Quantity trade)) k;
               k \<leftarrow> mod_wallet taker
                      (add_balance quote (sub64 quoteAmount (t_TakerFee trade))) k;
               mod_wallet maker (sub_balance quote (t_MakerFee trade)) k
             });
        makerWallet \<leftarrow> mget (Wallets k) maker;
        takerWallet \<leftarrow> mget (Wallets k) taker;
        Some (updateDailyLimit now (w_UserID takerWallet) quoteAmount
               (updateDailyLimit now (w_UserID makerWallet) quoteAmount k))
      })"

text \<open>One trade of the incoming order with a maker: lines 359 to 401 of the loop body.\<close>

definition price_stop :: "order \<Rightarrow> order \<Rightarrow> bool" where
  "price_stop order maker \<longleftrightarrow>
     o_Type order = OrderTypeLimit \<and>
     (if o_Side order = OrderSideBuy then o_Price maker > o_Price order
      else o_Price maker < o_Price order)"

definition fee :: "int64 \<Rightarrow> int64 \<Rightarrow> int64 \<Rightarrow> int64" where
  "fee fillQty executionPrice bps = quo64 (mul64 (mul64 fillQty executionPrice) bps) 10000000000"

definition fill_qty :: "order \<Rightarrow> order \<Rightarrow> int64" where
  "fill_qty order maker =
     (if o_RemainingQty maker < o_RemainingQty order then o_RemainingQty maker
      else o_RemainingQty order)"

definition new_trade ::
  "time \<Rightarrow> trading_pair \<Rightarrow> int64 \<Rightarrow> int64 \<Rightarrow> order \<Rightarrow> order \<Rightarrow> trade" where
  "new_trade now pair blockHeight seq order maker =
     (let fillQty = fill_qty order maker
      in \<lparr>t_ID = trade_id seq, t_PairID = o_PairID order, t_MakerOrder = o_ID maker,
          t_TakerOrder = o_ID order, t_MakerWallet = o_WalletID maker,
          t_TakerWallet = o_WalletID order, t_Side = o_Side order, t_Price = o_Price maker,
          t_Quantity = fillQty, t_MakerFee = fee fillQty (o_Price maker) (tp_MakerFee pair),
          t_TakerFee = fee fillQty (o_Price maker) (tp_TakerFee pair), t_ExecutedAt = now,
          t_BlockHeight = blockHeight\<rparr>)"

definition filled :: "int64 \<Rightarrow> order \<Rightarrow> order" where
  "filled fillQty order =
     order\<lparr>o_FilledQty := add64 (o_FilledQty order) fillQty,
           o_RemainingQty := sub64 (o_RemainingQty order) fillQty\<rparr>"

definition maker_filled :: "time \<Rightarrow> int64 \<Rightarrow> order \<Rightarrow> order" where
  "maker_filled now fillQty maker =
     (let maker = filled fillQty maker
      in maker\<lparr>o_Status := (if o_RemainingQty maker = 0 then OrderStatusFilled
                            else OrderStatusPartial),
               o_UpdatedAt := now\<rparr>)"

definition fill_order ::
  "time \<Rightarrow> trading_pair \<Rightarrow> int64 \<Rightarrow> string \<Rightarrow> string \<Rightarrow> order \<Rightarrow> order \<Rightarrow> exchange \<Rightarrow>
   (exchange \<times> trade) option" where
  "fill_order now pair blockHeight oid mid order maker k =
     (let seq = add64 (TradeSeq k) 1;
          trade = new_trade now pair blockHeight seq order maker
      in do {
        k \<leftarrow> settleTrade now trade pair (k\<lparr>TradeSeq := seq, Trades := Trades k @ [trade]\<rparr>);
        Some (put_order mid (maker_filled now (t_Quantity trade) maker)
                (put_order oid (filled (t_Quantity trade) order) k), trade)
      })"

text \<open>
  The loop over the opposite book: the unvisited part of the book is the argument, and the
  result is the state, what is left of that part (a maker is removed when it is filled) and
  the trades. The code's index stays on the same position when it removes the element there.
\<close>

fun match_loop ::
  "time \<Rightarrow> trading_pair \<Rightarrow> int64 \<Rightarrow> string \<Rightarrow> string list \<Rightarrow> exchange \<Rightarrow>
   (exchange \<times> string list \<times> trade list) option" where
  "match_loop now pair blockHeight oid [] k = Some (k, [], [])"
| "match_loop now pair blockHeight oid (mid # mids) k = do {
     order \<leftarrow> mget (Orders k) oid;
     maker \<leftarrow> mget (Orders k) mid;
     if \<not> o_RemainingQty order > 0 \<or> price_stop order maker then Some (k, mid # mids, [])
     else if o_WalletID maker = o_WalletID order then do {
       (k, book, trades) \<leftarrow> match_loop now pair blockHeight oid mids k;
       Some (k, mid # book, trades)
     } else do {
       (k, trade) \<leftarrow> fill_order now pair blockHeight oid mid order maker k;
       (k, book, trades) \<leftarrow> match_loop now pair blockHeight oid mids k;
       Some (k, (if sub64 (o_RemainingQty maker) (t_Quantity trade) = 0 then book
                 else mid # book), trade # trades)
     }
   }"

definition taker_done :: "time \<Rightarrow> order \<Rightarrow> order" where
  "taker_done now order =
     order\<lparr>o_Status := (if o_RemainingQty order = 0 then OrderStatusFilled
                        else if o_FilledQty order > 0 then OrderStatusPartial
                        else o_Status order),
           o_UpdatedAt := now\<rparr>"

definition matchOrder ::
  "time \<Rightarrow> trading_pair \<Rightarrow> int64 \<Rightarrow> string \<Rightarrow> exchange \<Rightarrow> (exchange \<times> trade list) option" where
  "matchOrder now pair blockHeight oid k = do {
     order \<leftarrow> mget (Orders k) oid;
     let book = (if o_Side order = OrderSideBuy then mgetd [] (SellBook k) (o_PairID order)
                 else mgetd [] (BuyBook k) (o_PairID order));
     (k, book, trades) \<leftarrow> match_loop now pair blockHeight oid book k;
     order \<leftarrow> mget (Orders k) oid;
     let k = put_order oid (taker_done now order) k;
     Some (if o_Side order = OrderSideBuy
           then k\<lparr>SellBook := mput (o_PairID order) book (SellBook k)\<rparr>
           else k\<lparr>BuyBook := mput (o_PairID order) book (BuyBook k)\<rparr>, trades)
   }"

text \<open>The amount an order locks, and the denomination it locks it in.\<close>

definition lock_funds ::
  "order_side \<Rightarrow> int64 \<Rightarrow> int64 \<Rightarrow> trading_pair \<Rightarrow> wallet \<Rightarrow> wallet option" where
  "lock_funds side price quantity pair wallet =
     (if side = OrderSideBuy then
        let lockAmount = quote_amount price quantity;
            quote = tp_QuoteDenom pair;
            available = sub64 (bal wallet quote) (lck wallet quote)
        in if lockAmount > available then None else Some (add_locked quote lockAmount wallet)
      else
        let base = tp_BaseDenom pair;
            available = sub64 (bal wallet base) (lck wallet base)
        in if quantity > available then None else Some (add_locked base quantity wallet))"

definition add_to_book ::
  "slice_sort \<Rightarrow> order_side \<Rightarrow> string \<Rightarrow> string \<Rightarrow> exchange \<Rightarrow> exchange" where
  "add_to_book srt side pairID oid k =
     (if side = OrderSideBuy
      then k\<lparr>BuyBook := mput pairID (srt (bid_less k) (mgetd [] (BuyBook k) pairID @ [oid]))
               (BuyBook k)\<rparr>
      else k\<lparr>SellBook := mput pairID (srt (ask_less k) (mgetd [] (SellBook k) pairID @ [oid]))
               (SellBook k)\<rparr>)"

text \<open>The checks before funds are locked, in the code's order.\<close>

definition check_order ::
  "time \<Rightarrow> string \<Rightarrow> string \<Rightarrow> order_type \<Rightarrow> int64 \<Rightarrow> int64 \<Rightarrow> exchange \<Rightarrow>
   exchange \<times> (ex_error + wallet \<times> trading_pair)" where
  "check_order now walletID pairID orderType price quantity k =
     (case mget (Wallets k) walletID of
        None \<Rightarrow> (k, Inl ErrWalletNotFound)
      | Some wallet \<Rightarrow>
          if \<not> w_Active wallet then (k, Inl ErrWalletInactive)
          else if w_KYCTier wallet < KYCTierBasic then (k, Inl ErrInsufficientKYC)
          else if \<not> TradingEnabled (Config k) then (k, Inl ErrTradingDisabled)
          else
            (case mget (Pairs k) pairID of
               None \<Rightarrow> (k, Inl ErrPairNotFound)
             | Some pair \<Rightarrow>
                 if \<not> tp_Active pair then (k, Inl ErrPairInactive)
                 else if quantity < tp_MinOrderSize pair then (k, Inl ErrBelowMinOrder)
                 else if orderType = OrderTypeLimit \<and> price \<le> 0 then (k, Inl ErrInvalidPrice)
                 else
                   (case checkDailyLimit now wallet price quantity k of
                      (k, Some err) \<Rightarrow> (k, Inl err)
                    | (k, None) \<Rightarrow> (k, Inr (wallet, pair)))))"

definition new_order ::
  "time \<Rightarrow> int64 \<Rightarrow> wallet \<Rightarrow> string \<Rightarrow> string \<Rightarrow> order_side \<Rightarrow> order_type \<Rightarrow> int64 \<Rightarrow> int64 \<Rightarrow> order"
where
  "new_order now seq wallet walletID pairID side orderType price quantity =
     \<lparr>o_ID = order_id seq, o_WalletID = walletID, o_UserID = w_UserID wallet, o_PairID = pairID,
      o_Side = side, o_Type = orderType, o_Price = price, o_Quantity = quantity,
      o_FilledQty = 0, o_RemainingQty = quantity, o_Status = OrderStatusOpen,
      o_CreatedAt = now, o_UpdatedAt = now, o_ExpiresAt = None\<rparr>"

text \<open>
  The locked part of \<open>PlaceOrder\<close> after its checks: the order is filed, matched, and what
  remains of a limit order is added to its book.
\<close>

definition enter_order ::
  "slice_sort \<Rightarrow> time \<Rightarrow> int64 \<Rightarrow> wallet \<Rightarrow> trading_pair \<Rightarrow> string \<Rightarrow> string \<Rightarrow> order_side \<Rightarrow>
   order_type \<Rightarrow> int64 \<Rightarrow> int64 \<Rightarrow> exchange \<Rightarrow> (exchange \<times> order \<times> trade list) option" where
  "enter_order srt now blockHeight wallet pair walletID pairID side orderType price quantity k =
     (let seq = add64 (OrderSeq k) 1;
          order = new_order now seq wallet walletID pairID side orderType price quantity;
          oid = o_ID order;
          k = put_order oid order (put_wallet walletID wallet (k\<lparr>OrderSeq := seq\<rparr>))
      in do {
        (k, trades) \<leftarrow> matchOrder now pair blockHeight oid k;
        order \<leftarrow> mget (Orders k) oid;
        let k = (if o_RemainingQty order > 0 \<and> orderType = OrderTypeLimit
                 then add_to_book srt side pairID oid k else k);
        Some (ex_save k, order, trades)
      })"

definition PlaceOrder ::
  "slice_sort \<Rightarrow> time \<Rightarrow> string \<Rightarrow> string \<Rightarrow> order_side \<Rightarrow> order_type \<Rightarrow> int64 \<Rightarrow> int64 \<Rightarrow> int64 \<Rightarrow>
   exchange \<Rightarrow> (exchange \<times> (ex_error + order \<times> trade list)) option" where
  "PlaceOrder srt now walletID pairID side orderType price quantity blockHeight k =
     (case check_order now walletID pairID orderType price quantity k of
        (k, Inl err) \<Rightarrow> Some (k, Inl err)
      | (k, Inr (wallet, pair)) \<Rightarrow>
          (case lock_funds side price quantity pair wallet of
             None \<Rightarrow> Some (k, Inl ErrInsufficientBalance)
           | Some wallet \<Rightarrow> do {
               (k, order, trades) \<leftarrow> enter_order srt now blockHeight wallet pair walletID pairID
                                       side orderType price quantity k;
               Some (k, Inr (order, trades))
             }))"

section \<open>Cancelling\<close>

text \<open>The loop deletes the first entry with the identifier and stops.\<close>

definition removeFromBook :: "order \<Rightarrow> exchange \<Rightarrow> exchange" where
  "removeFromBook order k =
     (let p = o_PairID order; oid = o_ID order
      in if o_Side order = OrderSideBuy
         then (if oid \<in> set (mgetd [] (BuyBook k) p)
               then k\<lparr>BuyBook := mput p (remove1 oid (mgetd [] (BuyBook k) p)) (BuyBook k)\<rparr>
               else k)
         else (if oid \<in> set (mgetd [] (SellBook k) p)
               then k\<lparr>SellBook := mput p (remove1 oid (mgetd [] (SellBook k) p)) (SellBook k)\<rparr>
               else k))"

definition unlock_funds :: "order \<Rightarrow> trading_pair \<Rightarrow> wallet \<Rightarrow> wallet" where
  "unlock_funds order pair wallet =
     (if o_Side order = OrderSideBuy
      then sub_locked (tp_QuoteDenom pair)
             (quote_amount (o_Price order) (o_RemainingQty order)) wallet
      else sub_locked (tp_BaseDenom pair) (o_RemainingQty order) wallet)"

definition CancelOrder ::
  "time \<Rightarrow> string \<Rightarrow> string \<Rightarrow> exchange \<Rightarrow> (exchange \<times> (ex_error + unit)) option" where
  "CancelOrder now orderID walletID k =
     (case mget (Orders k) orderID of
        None \<Rightarrow> Some (k, Inl ErrOrderNotFound)
      | Some order \<Rightarrow>
          if o_WalletID order \<noteq> walletID then Some (k, Inl ErrOtherWallet)
          else if o_Status order = OrderStatusFilled then Some (k, Inl ErrOrderFilled)
          else if o_Status order = OrderStatusCancelled then Some (k, Inl ErrOrderCancelled)
          else do {
            wallet \<leftarrow> mget (Wallets k) walletID;
            pair \<leftarrow> mget (Pairs k) (o_PairID order);
            let k = put_wallet walletID (unlock_funds order pair wallet) k;
            let order = order\<lparr>o_Status := OrderStatusCancelled, o_UpdatedAt := now\<rparr>;
            let k = put_order orderID order k;
            Some (ex_save (removeFromBook order k), Inr ())
          })"

section \<open>Market data\<close>

text \<open>The orders a book points to, and the price levels accumulated over them.\<close>

definition book_orders :: "exchange \<Rightarrow> string list \<Rightarrow> order list" where
  "book_orders k book = List.map_filter (mget (Orders k)) book"

definition add_level :: "order \<Rightarrow> (int64, book_level) gomap \<Rightarrow> (int64, book_level) gomap" where
  "add_level order levels =
     (case mget levels (o_Price order) of
        Some level \<Rightarrow>
          mput (o_Price order)
            (level\<lparr>lv_Quantity := add64 (lv_Quantity level) (o_RemainingQty order),
                   lv_Orders := add64 (lv_Orders level) 1\<rparr>) levels
      | None \<Rightarrow>
          mput (o_Price order)
            \<lparr>lv_Price = o_Price order, lv_Quantity = o_RemainingQty order, lv_Orders = 1\<rparr> levels)"

definition book_levels :: "order list \<Rightarrow> book_level list" where
  "book_levels orders = map snd (foldl (\<lambda>m order. add_level order m) [] orders)"

text \<open>
  The levels have different prices, so there is only one way to sort them and any sort will do.
\<close>

definition clip :: "int64 \<Rightarrow> 'a list \<Rightarrow> 'a list" where
  "clip depth xs = (if depth > 0 \<and> int (length xs) > depth then take (nat depth) xs else xs)"

definition GetOrderBook :: "time \<Rightarrow> string \<Rightarrow> int64 \<Rightarrow> exchange \<Rightarrow> book_snapshot" where
  "GetOrderBook now pairID depth k =
     \<lparr>sn_PairID = pairID,
      sn_Bids = clip depth (insertion_sort (\<lambda>a b. lv_Price a > lv_Price b)
                  (book_levels (book_orders k (mgetd [] (BuyBook k) pairID)))),
      sn_Asks = clip depth (insertion_sort (\<lambda>a b. lv_Price a < lv_Price b)
                  (book_levels (book_orders k (mgetd [] (SellBook k) pairID)))),
      sn_LastPrice = (if Trades k \<noteq> [] then t_Price (last (Trades k)) else 0),
      sn_Timestamp = now\<rparr>"

definition GetRecentTrades :: "string \<Rightarrow> int64 \<Rightarrow> exchange \<Rightarrow> trade list" where
  "GetRecentTrades pairID limit k =
     (let pairTrades = filter (\<lambda>t. t_PairID t = pairID) (Trades k)
      in if limit > 0 \<and> int (length pairTrades) > limit
         then drop (length pairTrades - nat limit) pairTrades else pairTrades)"

definition created_at :: "exchange \<Rightarrow> string \<Rightarrow> time" where
  "created_at k oid = (case mget (Orders k) oid of Some order \<Rightarrow> o_CreatedAt order | None \<Rightarrow> 0)"

definition GetUserOrders :: "slice_sort \<Rightarrow> string \<Rightarrow> bool \<Rightarrow> exchange \<Rightarrow> order list" where
  "GetUserOrders srt walletID activeOnly k =
     book_orders k
       (srt (\<lambda>a b. created_at k b < created_at k a)
          (map fst (filter (\<lambda>(_, order). o_WalletID order = walletID \<and>
                              \<not> (activeOnly \<and> \<not> live order)) (Orders k))))"

record exchange_stats =
  es_total_wallets :: int
  es_active_wallets :: int
  es_total_orders :: int
  es_open_orders :: int
  es_total_trades :: int
  es_total_volume_usdc :: int64
  es_volume_24h_usdc :: int64
  es_trading_pairs :: int
  es_trading_enabled :: bool
  es_registration_open :: bool

definition GetExchangeStats :: "time \<Rightarrow> exchange \<Rightarrow> exchange_stats" where
  "GetExchangeStats now k =
     (let cutoff = now - 24 * hour_ns;
          vol = (\<lambda>t. quote_amount (t_Price t) (t_Quantity t))
      in \<lparr>es_total_wallets = int (length (Wallets k)),
          es_active_wallets = int (length (filter (\<lambda>(_, w). w_Active w) (Wallets k))),
          es_total_orders = int (length (Orders k)),
          es_open_orders = int (length (filter (\<lambda>(_, order). live order) (Orders k))),
          es_total_trades = int (length (Trades k)),
          es_total_volume_usdc = foldl (\<lambda>s t. add64 s (vol t)) 0 (Trades k),
          es_volume_24h_usdc =
            foldl (\<lambda>s t. if t_ExecutedAt t > cutoff then add64 s (vol t) else s) 0 (Trades k),
          es_trading_pairs = int (length (Pairs k)),
          es_trading_enabled = TradingEnabled (Config k),
          es_registration_open = RegistrationOpen (Config k)\<rparr>)"

section \<open>KYC\<close>

definition highRiskCountries :: "string list" where
  "highRiskCountries = [''KP'', ''IR'', ''SY'', ''MM'', ''YE'', ''AF'']"

definition runAMLChecks :: "kyc_application \<Rightarrow> kyc_application" where
  "runAMLChecks app =
     (let app = app\<lparr>a_AMLRiskScore := 0\<rparr>;
          app = (if a_Country app \<in> set highRiskCountries
                 then app\<lparr>a_AMLRiskScore := add64 (a_AMLRiskScore app) 80,
                          a_SanctionsCheck := True\<rparr> else app);
          app = app\<lparr>a_PEPCheck := False\<rparr>
      in if \<not> a_SanctionsCheck app then app\<lparr>a_SanctionsCheck := False\<rparr> else app)"

definition put_app :: "string \<Rightarrow> kyc_application \<Rightarrow> exchange \<Rightarrow> exchange" where
  "put_app aid app k = k\<lparr>KYCApps := mput aid app (KYCApps k)\<rparr>"

definition SubmitKYC ::
  "time \<Rightarrow> kyc_application \<Rightarrow> exchange \<Rightarrow> exchange \<times> (ex_error + kyc_application)" where
  "SubmitKYC now app k =
     (if list_ex (\<lambda>(_, existing). a_UserID existing = a_UserID app \<and>
                    a_Status existing = KYCStatusPending) (KYCApps k)
      then (k, Inl ErrKYCAlreadyPending)
      else
        (case mget (Wallets k) (a_WalletID app) of
           None \<Rightarrow> (k, Inl ErrWalletNotFound)
         | Some wallet \<Rightarrow>
             if w_KYCTier wallet \<ge> a_RequestedTier app then (k, Inl ErrKYCAlreadyApproved)
             else
               let seq = add64 (KYCSeq k) 1;
                   app = runAMLChecks
                     (app\<lparr>a_ID := application_id seq, a_Status := KYCStatusPending,
                          a_CurrentTier := w_KYCTier wallet, a_SubmittedAt := now\<rparr>);
                   approve = (a_RequestedTier app = KYCTierBasic \<and> a_AMLRiskScore app < 30 \<and>
                              \<not> a_PEPCheck app \<and> \<not> a_SanctionsCheck app);
                   app = (if approve
                          then app\<lparr>a_Status := KYCStatusApproved, a_ApprovedAt := Some now\<rparr>
                          else app);
                   wallet = (if approve then wallet\<lparr>w_KYCTier := KYCTierBasic\<rparr> else wallet);
                   app = (if a_SanctionsCheck app
                          then app\<lparr>a_Status := KYCStatusRejected,
                                   a_RejectedReason := ''OFAC/EU sanctions list match''\<rparr>
                          else app);
                   wallet = (if a_SanctionsCheck app then wallet\<lparr>w_Active := False\<rparr> else wallet)
               in (ex_save (put_app (a_ID app) app
                     (put_wallet (a_WalletID app) wallet (k\<lparr>KYCSeq := seq\<rparr>))),
                   Inr app)))"

definition ApproveKYC ::
  "time \<Rightarrow> string \<Rightarrow> exchange \<Rightarrow> (exchange \<times> (ex_error + unit)) option" where
  "ApproveKYC now applicationID k =
     (case mget (KYCApps k) applicationID of
        None \<Rightarrow> Some (k, Inl (ErrApplicationNotFound applicationID))
      | Some app \<Rightarrow>
          if a_Status app \<noteq> KYCStatusPending
          then Some (k, Inl (ErrApplicationNotPending (a_Status app)))
          else do {
            let app = app\<lparr>a_Status := KYCStatusApproved, a_ApprovedAt := Some now,
                          a_ReviewedAt := Some now\<rparr>;
            wallet \<leftarrow> mget (Wallets k) (a_WalletID app);
            Some (ex_save (put_wallet (a_WalletID app)
                             (wallet\<lparr>w_KYCTier := a_RequestedTier app\<rparr>)
                             (put_app applicationID app k)), Inr ())
          })"

definition RejectKYC ::
  "time \<Rightarrow> string \<Rightarrow> string \<Rightarrow> exchange \<Rightarrow> exchange \<times> (ex_error + unit)" where
  "RejectKYC now applicationID reason k =
     (case mget (KYCApps k) applicationID of
        None \<Rightarrow> (k, Inl (ErrApplicationNotFound applicationID))
      | Some app \<Rightarrow>
          (ex_save (put_app applicationID
             (app\<lparr>a_Status := KYCStatusRejected, a_RejectedReason := reason,
                  a_ReviewedAt := Some now\<rparr>) k), Inr ()))"

end
