(* ===== verification/ExchangeLedger.thy ===== *)
theory ExchangeLedger
  imports Exchange
begin

text \<open>
  What a trade does to the wallets: the two legs of a settlement, the frames of the operations
  (which fields they leave alone), and conservation, the sum of a denomination over all
  wallets before and after.
\<close>

named_theorems ex_frame \<open>fields an exchange operation leaves unchanged\<close>

section \<open>Balances after one update\<close>

lemma bal_add_balance [simp]:
  "bal (add_balance c x w) d = (if d = c then add64 (bal w c) x else bal w d)"
  by (simp add: bal_def add_balance_def go_map)

lemma bal_sub_balance [simp]:
  "bal (sub_balance c x w) d = (if d = c then sub64 (bal w c) x else bal w d)"
  by (simp add: bal_def sub_balance_def go_map)

lemma bal_locked [simp]: "bal (add_locked c x w) d = bal w d" "bal (sub_locked c x w) d = bal w d"
  by (simp_all add: bal_def add_locked_def sub_locked_def)

lemma lck_add_locked [simp]:
  "lck (add_locked c x w) d = (if d = c then add64 (lck w c) x else lck w d)"
  by (simp add: lck_def add_locked_def go_map)

lemma lck_sub_locked [simp]:
  "lck (sub_locked c x w) d = (if d = c then sub64 (lck w c) x else lck w d)"
  by (simp add: lck_def sub_locked_def go_map)

lemma lck_balance [simp]:
  "lck (add_balance c x w) d = lck w d" "lck (sub_balance c x w) d = lck w d"
  by (simp_all add: lck_def add_balance_def sub_balance_def)

lemma wallet_legs_frame [simp]:
  "w_ID (add_balance c x w) = w_ID w" "w_ID (sub_balance c x w) = w_ID w"
  "w_ID (add_locked c x w) = w_ID w" "w_ID (sub_locked c x w) = w_ID w"
  "w_UserID (add_balance c x w) = w_UserID w" "w_UserID (sub_balance c x w) = w_UserID w"
  "w_UserID (add_locked c x w) = w_UserID w" "w_UserID (sub_locked c x w) = w_UserID w"
  "w_Active (add_balance c x w) = w_Active w" "w_Active (sub_balance c x w) = w_Active w"
  "w_Active (add_locked c x w) = w_Active w" "w_Active (sub_locked c x w) = w_Active w"
  "w_KYCTier (add_balance c x w) = w_KYCTier w" "w_KYCTier (sub_balance c x w) = w_KYCTier w"
  "w_KYCTier (add_locked c x w) = w_KYCTier w" "w_KYCTier (sub_locked c x w) = w_KYCTier w"
  by (simp_all add: add_balance_def sub_balance_def add_locked_def sub_locked_def)

section \<open>The two legs of a settlement\<close>

definition seller_leg :: "trading_pair \<Rightarrow> int64 \<Rightarrow> int64 \<Rightarrow> int64 \<Rightarrow> wallet \<Rightarrow> wallet" where
  "seller_leg pair q qa f w =
     add_balance (tp_QuoteDenom pair) (sub64 qa f)
       (sub_balance (tp_BaseDenom pair) q (sub_locked (tp_BaseDenom pair) q w))"

definition buyer_leg :: "trading_pair \<Rightarrow> int64 \<Rightarrow> int64 \<Rightarrow> int64 \<Rightarrow> wallet \<Rightarrow> wallet" where
  "buyer_leg pair q qa f w =
     sub_balance (tp_QuoteDenom pair) f
       (add_balance (tp_BaseDenom pair) q
          (sub_balance (tp_QuoteDenom pair) qa (sub_locked (tp_QuoteDenom pair) qa w)))"

definition maker_leg :: "trade \<Rightarrow> trading_pair \<Rightarrow> wallet \<Rightarrow> wallet" where
  "maker_leg t pair =
     (if t_Side t = OrderSideBuy then seller_leg else buyer_leg) pair (t_Quantity t)
       (quote_amount (t_Price t) (t_Quantity t)) (t_MakerFee t)"

definition taker_leg :: "trade \<Rightarrow> trading_pair \<Rightarrow> wallet \<Rightarrow> wallet" where
  "taker_leg t pair =
     (if t_Side t = OrderSideBuy then buyer_leg else seller_leg) pair (t_Quantity t)
       (quote_amount (t_Price t) (t_Quantity t)) (t_TakerFee t)"

lemmas legs_def = seller_leg_def buyer_leg_def maker_leg_def taker_leg_def

lemma legs_frame [simp]:
  "w_ID (maker_leg t pair w) = w_ID w" "w_ID (taker_leg t pair w) = w_ID w"
  "w_UserID (maker_leg t pair w) = w_UserID w" "w_UserID (taker_leg t pair w) = w_UserID w"
  "w_Active (maker_leg t pair w) = w_Active w" "w_Active (taker_leg t pair w) = w_Active w"
  "w_KYCTier (maker_leg t pair w) = w_KYCTier w" "w_KYCTier (taker_leg t pair w) = w_KYCTier w"
  by (simp_all add: legs_def)

text \<open>The change of each balance, and the change of the locked amounts, modulo \<open>2 ^ 64\<close>.\<close>

definition seller_delta :: "trading_pair \<Rightarrow> int64 \<Rightarrow> int64 \<Rightarrow> int64 \<Rightarrow> string \<Rightarrow> int" where
  "seller_delta pair q qa f d =
     (if d = tp_QuoteDenom pair then qa - f else 0) - (if d = tp_BaseDenom pair then q else 0)"

definition buyer_delta :: "trading_pair \<Rightarrow> int64 \<Rightarrow> int64 \<Rightarrow> int64 \<Rightarrow> string \<Rightarrow> int" where
  "buyer_delta pair q qa f d =
     (if d = tp_BaseDenom pair then q else 0) - (if d = tp_QuoteDenom pair then qa + f else 0)"

lemmas deltas_def = seller_delta_def buyer_delta_def

lemma seller_bal: "i64 (bal (seller_leg pair q qa f w) d) = i64 (bal w d + seller_delta pair q qa f d)"
  by (auto simp: seller_leg_def seller_delta_def go_arith; simp add: algebra_simps)

lemma buyer_bal: "i64 (bal (buyer_leg pair q qa f w) d) = i64 (bal w d + buyer_delta pair q qa f d)"
  by (auto simp: buyer_leg_def buyer_delta_def go_arith; simp add: algebra_simps)

text \<open>The sum of the two legs: the base moves, the quote loses exactly the two fees.\<close>

definition fees_in :: "string \<Rightarrow> trading_pair \<Rightarrow> trade \<Rightarrow> int" where
  "fees_in d pair t = (if d = tp_QuoteDenom pair then t_MakerFee t + t_TakerFee t else 0)"

lemma legs_balance:
  "i64 (bal (maker_leg t pair m) d + bal (taker_leg t pair w) d) =
   i64 (bal m d + bal w d - fees_in d pair t)"
proof -
  let ?qa = "quote_amount (t_Price t) (t_Quantity t)"
  have "i64 (bal (seller_leg pair (t_Quantity t) ?qa f a) d + bal (buyer_leg pair (t_Quantity t) ?qa g b) d)
      = i64 (bal a d + bal b d - (if d = tp_QuoteDenom pair then f + g else 0))" for f g a b
  proof -
    have "i64 (bal (seller_leg pair (t_Quantity t) ?qa f a) d + bal (buyer_leg pair (t_Quantity t) ?qa g b) d)
      = i64 ((bal a d + seller_delta pair (t_Quantity t) ?qa f d)
             + (bal b d + buyer_delta pair (t_Quantity t) ?qa g d))"
      by (rule i64_add_cong) (simp_all add: seller_bal buyer_bal)
    then show ?thesis by (simp add: deltas_def algebra_simps split: if_splits)
  qed
  from this [of "t_MakerFee t" m "t_TakerFee t" w] this [of "t_TakerFee t" w "t_MakerFee t" m]
  show ?thesis
    by (cases "d = tp_QuoteDenom pair")
       (simp_all add: maker_leg_def taker_leg_def fees_in_def ac_simps)
qed

section \<open>Wallet updates of the keeper\<close>

lemma mput_commute:
  "a \<noteq> b \<Longrightarrow> a \<in> set (mkeys m) \<Longrightarrow> b \<in> set (mkeys m) \<Longrightarrow>
   mput a x (mput b y m) = mput b y (mput a x m)"
  by (induction m) auto

lemma mod_wallet_eq:
  "mget (Wallets k) i = Some w \<Longrightarrow> mod_wallet i f k = Some (put_wallet i (f w) k)"
  by (simp add: mod_wallet_def)

lemma put_wallet_Wallets [simp]: "Wallets (put_wallet i w k) = mput i w (Wallets k)"
  by (simp add: put_wallet_def)

lemma put_wallet_twice [simp]: "put_wallet i w (put_wallet i w' k) = put_wallet i w k"
  by (simp add: put_wallet_def)

lemma put_wallet_commute:
  "i \<noteq> j \<Longrightarrow> mget (Wallets k) i = Some a \<Longrightarrow> mget (Wallets k) j = Some b \<Longrightarrow>
   put_wallet i v (put_wallet j w k) = put_wallet j w (put_wallet i v k)"
  using mput_commute [of i j "Wallets k" v w]
  by (force simp: put_wallet_def dest!: mget_in)

lemma put_wallet_frame [ex_frame, simp]:
  "Orders (put_wallet i w k) = Orders k" "Trades (put_wallet i w k) = Trades k"
  "KYCApps (put_wallet i w k) = KYCApps k" "Pairs (put_wallet i w k) = Pairs k"
  "DailyLimits (put_wallet i w k) = DailyLimits k" "Config (put_wallet i w k) = Config k"
  "WalletSeq (put_wallet i w k) = WalletSeq k" "OrderSeq (put_wallet i w k) = OrderSeq k"
  "TradeSeq (put_wallet i w k) = TradeSeq k" "KYCSeq (put_wallet i w k) = KYCSeq k"
  "BuyBook (put_wallet i w k) = BuyBook k" "SellBook (put_wallet i w k) = SellBook k"
  by (simp_all add: put_wallet_def)

lemma put_order_frame [ex_frame, simp]:
  "Wallets (put_order i w k) = Wallets k" "Trades (put_order i w k) = Trades k"
  "KYCApps (put_order i w k) = KYCApps k" "Pairs (put_order i w k) = Pairs k"
  "DailyLimits (put_order i w k) = DailyLimits k" "Config (put_order i w k) = Config k"
  "WalletSeq (put_order i w k) = WalletSeq k" "OrderSeq (put_order i w k) = OrderSeq k"
  "TradeSeq (put_order i w k) = TradeSeq k" "KYCSeq (put_order i w k) = KYCSeq k"
  "BuyBook (put_order i w k) = BuyBook k" "SellBook (put_order i w k) = SellBook k"
  by (simp_all add: put_order_def)

lemma put_order_Orders [simp]: "Orders (put_order i w k) = mput i w (Orders k)"
  by (simp add: put_order_def)

lemma put_daily_frame [ex_frame, simp]:
  "Wallets (put_daily now u d k) = Wallets k" "Orders (put_daily now u d k) = Orders k"
  "Trades (put_daily now u d k) = Trades k" "KYCApps (put_daily now u d k) = KYCApps k"
  "Pairs (put_daily now u d k) = Pairs k" "Config (put_daily now u d k) = Config k"
  "WalletSeq (put_daily now u d k) = WalletSeq k" "OrderSeq (put_daily now u d k) = OrderSeq k"
  "TradeSeq (put_daily now u d k) = TradeSeq k" "KYCSeq (put_daily now u d k) = KYCSeq k"
  "BuyBook (put_daily now u d k) = BuyBook k" "SellBook (put_daily now u d k) = SellBook k"
  by (simp_all add: put_daily_def)

lemma ex_save_frame [ex_frame, simp]:
  "Wallets (ex_save k) = Wallets k" "Orders (ex_save k) = Orders k"
  "Trades (ex_save k) = Trades k" "KYCApps (ex_save k) = KYCApps k"
  "Pairs (ex_save k) = Pairs k" "DailyLimits (ex_save k) = DailyLimits k"
  "Config (ex_save k) = Config k"
  "WalletSeq (ex_save k) = WalletSeq k" "OrderSeq (ex_save k) = OrderSeq k"
  "TradeSeq (ex_save k) = TradeSeq k" "KYCSeq (ex_save k) = KYCSeq k"
  "BuyBook (ex_save k) = BuyBook k" "SellBook (ex_save k) = SellBook k"
  by (simp_all add: ex_save_def)

text \<open>
  A settlement between two wallets that exist succeeds; apart from the daily volumes it only
  replaces the two wallets.
\<close>

definition settled :: "trade \<Rightarrow> trading_pair \<Rightarrow> exchange \<Rightarrow> (string, wallet) gomap" where
  "settled t pair k =
     (case (mget (Wallets k) (t_MakerWallet t), mget (Wallets k) (t_TakerWallet t)) of
        (Some m, Some w) \<Rightarrow>
          mput (t_TakerWallet t) (taker_leg t pair w)
            (mput (t_MakerWallet t) (maker_leg t pair m) (Wallets k))
      | _ \<Rightarrow> Wallets k)"

lemma updateDailyLimit_frame [ex_frame, simp]:
  "Wallets (updateDailyLimit now u v k) = Wallets k" "Orders (updateDailyLimit now u v k) = Orders k"
  "Trades (updateDailyLimit now u v k) = Trades k" "KYCApps (updateDailyLimit now u v k) = KYCApps k"
  "Pairs (updateDailyLimit now u v k) = Pairs k" "Config (updateDailyLimit now u v k) = Config k"
  "WalletSeq (updateDailyLimit now u v k) = WalletSeq k"
  "OrderSeq (updateDailyLimit now u v k) = OrderSeq k"
  "TradeSeq (updateDailyLimit now u v k) = TradeSeq k"
  "KYCSeq (updateDailyLimit now u v k) = KYCSeq k"
  "BuyBook (updateDailyLimit now u v k) = BuyBook k"
  "SellBook (updateDailyLimit now u v k) = SellBook k"
  by (simp_all add: updateDailyLimit_def Let_def)

lemma settleTrade_eq:
  assumes "t_MakerWallet t \<noteq> t_TakerWallet t"
    and "mget (Wallets k) (t_MakerWallet t) = Some m"
    and "mget (Wallets k) (t_TakerWallet t) = Some w"
  shows "settleTrade now t pair k =
    Some (updateDailyLimit now (w_UserID w) (quote_amount (t_Price t) (t_Quantity t))
      (updateDailyLimit now (w_UserID m) (quote_amount (t_Price t) (t_Quantity t))
        (k\<lparr>Wallets := settled t pair k\<rparr>)))"
proof (cases "t_Side t = OrderSideBuy")
  case True
  then show ?thesis using assms
    by (simp add: settleTrade_def Let_def mod_wallet_eq go_map legs_def settled_def put_wallet_def)
next
  case False
  have "put_wallet (t_MakerWallet t) v (put_wallet (t_TakerWallet t) w' (put_wallet (t_MakerWallet t) v' k))
      = put_wallet (t_TakerWallet t) w' (put_wallet (t_MakerWallet t) v k)" for v w' v'
    using assms by (subst put_wallet_commute) (auto simp: go_map)
  with False show ?thesis using assms
    by (simp add: settleTrade_def Let_def mod_wallet_eq go_map legs_def settled_def)
       (simp add: put_wallet_def)
qed

lemma mod_wallet_None [simp]: "mget (Wallets k) i = None \<Longrightarrow> mod_wallet i f k = None"
  by (simp add: mod_wallet_def)

lemma settleTrade_wallets:
  assumes "settleTrade now t pair k = Some k'" "t_MakerWallet t \<noteq> t_TakerWallet t"
  obtains m w where "mget (Wallets k) (t_MakerWallet t) = Some m"
    "mget (Wallets k) (t_TakerWallet t) = Some w"
proof -
  have "settleTrade now t pair k = None" if "mget (Wallets k) (t_MakerWallet t) = None"
    using that by (simp add: settleTrade_def Let_def)
  moreover have "settleTrade now t pair k = None"
    if "mget (Wallets k) (t_MakerWallet t) = Some m" "mget (Wallets k) (t_TakerWallet t) = None" for m
    using that assms(2) by (simp add: settleTrade_def Let_def mod_wallet_eq go_map)
  ultimately show ?thesis using assms(1) that by (metis option.exhaust option.distinct(1))
qed

section \<open>One fill\<close>

text \<open>What neither a settlement nor an update of an order touches.\<close>

definition ex_same :: "exchange \<Rightarrow> exchange \<Rightarrow> bool" where
  "ex_same k k' \<longleftrightarrow>
     Pairs k' = Pairs k \<and> Config k' = Config k \<and> KYCApps k' = KYCApps k \<and>
     WalletSeq k' = WalletSeq k \<and> OrderSeq k' = OrderSeq k \<and> KYCSeq k' = KYCSeq k \<and>
     BuyBook k' = BuyBook k \<and> SellBook k' = SellBook k"

lemma ex_same_refl [simp]: "ex_same k k"
  by (simp add: ex_same_def)

lemma ex_same_trans: "ex_same a b \<Longrightarrow> ex_same b c \<Longrightarrow> ex_same a c"
  by (simp add: ex_same_def)

lemma fill_orderE:
  assumes "fill_order now pair bh oid mid order maker k = Some (k', t)"
    and "o_WalletID maker \<noteq> o_WalletID order"
  obtains m w where
    "t = new_trade now pair bh (add64 (TradeSeq k) 1) order maker"
    "mget (Wallets k) (o_WalletID maker) = Some m"
    "mget (Wallets k) (o_WalletID order) = Some w"
    "Wallets k' = settled t pair k"
    "Orders k' = mput mid (maker_filled now (t_Quantity t) maker)
       (mput oid (filled (t_Quantity t) order) (Orders k))"
    "Trades k' = Trades k @ [t]" "ex_same k k'"
proof -
  define t0 where "t0 = new_trade now pair bh (add64 (TradeSeq k) 1) order maker"
  let ?k = "k\<lparr>TradeSeq := add64 (TradeSeq k) 1, Trades := Trades k @ [t0]\<rparr>"
  have w: "t_MakerWallet t0 = o_WalletID maker" "t_TakerWallet t0 = o_WalletID order"
    by (simp_all add: t0_def new_trade_def Let_def)
  from assms(1) obtain k1 where k1: "settleTrade now t0 pair ?k = Some k1" and t: "t = t0"
    and k': "k' = put_order mid (maker_filled now (t_Quantity t0) maker)
               (put_order oid (filled (t_Quantity t0) order) k1)"
    by (auto simp: fill_order_def Let_def t0_def split: bind_splits)
  from settleTrade_wallets [OF k1] assms(2) w obtain m v
    where mv: "mget (Wallets k) (o_WalletID maker) = Some m"
      "mget (Wallets k) (o_WalletID order) = Some v" by auto
  have "Some k1 = Some (updateDailyLimit now (w_UserID v) (quote_amount (t_Price t0) (t_Quantity t0))
      (updateDailyLimit now (w_UserID m) (quote_amount (t_Price t0) (t_Quantity t0))
        (?k\<lparr>Wallets := settled t0 pair ?k\<rparr>)))"
    using settleTrade_eq [of t0 ?k m v now pair] mv w assms(2) k1 by simp
  then show ?thesis using that [OF _ mv] t k'
    by (simp add: t0_def ex_same_def settled_def split: option.splits)
qed

section \<open>The matching loop\<close>

text \<open>
  The four ways through the loop as an induction rule: the end of the book, the stop at an
  order that cannot be matched, an order of the same wallet that is skipped, and a fill.
\<close>

lemma match_loop_induct [consumes 1, case_names Nil Stop Own Fill]:
  assumes run: "match_loop now pair bh oid book k = Some (k', rest, ts)"
    and Nil: "\<And>k. P [] k k [] []"
    and Stop: "\<And>mid mids k order maker. mget (Orders k) oid = Some order \<Longrightarrow>
      mget (Orders k) mid = Some maker \<Longrightarrow> \<not> 0 < o_RemainingQty order \<or> price_stop order maker \<Longrightarrow>
      P (mid # mids) k k (mid # mids) []"
    and Own: "\<And>mid mids k k' rest ts order maker. mget (Orders k) oid = Some order \<Longrightarrow>
      mget (Orders k) mid = Some maker \<Longrightarrow> 0 < o_RemainingQty order \<Longrightarrow> \<not> price_stop order maker \<Longrightarrow>
      o_WalletID maker = o_WalletID order \<Longrightarrow>
      match_loop now pair bh oid mids k = Some (k', rest, ts) \<Longrightarrow> P mids k k' rest ts \<Longrightarrow>
      P (mid # mids) k k' (mid # rest) ts"
    and Fill: "\<And>mid mids k k1 t k' rest ts order maker. mget (Orders k) oid = Some order \<Longrightarrow>
      mget (Orders k) mid = Some maker \<Longrightarrow> 0 < o_RemainingQty order \<Longrightarrow> \<not> price_stop order maker \<Longrightarrow>
      o_WalletID maker \<noteq> o_WalletID order \<Longrightarrow>
      fill_order now pair bh oid mid order maker k = Some (k1, t) \<Longrightarrow>
      match_loop now pair bh oid mids k1 = Some (k', rest, ts) \<Longrightarrow> P mids k1 k' rest ts \<Longrightarrow>
      P (mid # mids) k k'
        (if sub64 (o_RemainingQty maker) (t_Quantity t) = 0 then rest else mid # rest) (t # ts)"
  shows "P book k k' rest ts"
  using run
proof (induction book arbitrary: k k' rest ts)
  case (Cons mid book)
  from Cons.prems obtain order maker where o: "mget (Orders k) oid = Some order"
    and m: "mget (Orders k) mid = Some maker" by (auto split: bind_splits)
  consider (stop) "\<not> 0 < o_RemainingQty order \<or> price_stop order maker"
    | (own) "0 < o_RemainingQty order" "\<not> price_stop order maker" "o_WalletID maker = o_WalletID order"
    | (fill) "0 < o_RemainingQty order" "\<not> price_stop order maker" "o_WalletID maker \<noteq> o_WalletID order"
    by blast
  then show ?case
  proof cases
    case stop
    then show ?thesis using Cons.prems o m Stop [OF o m stop, of book] by auto
  next
    case own
    with Cons.prems o m obtain r where "match_loop now pair bh oid book k = Some (k', r, ts)"
      and "rest = mid # r" by (auto split: bind_splits)
    with Own [OF o m own _ Cons.IH] show ?thesis by simp
  next
    case fill
    with Cons.prems o m obtain k1 t b ts' where
      f: "fill_order now pair bh oid mid order maker k = Some (k1, t)"
      and l: "match_loop now pair bh oid book k1 = Some (k', b, ts')"
      and r: "rest = (if sub64 (o_RemainingQty maker) (t_Quantity t) = 0 then b else mid # b)"
        "ts = t # ts'"
      by (auto split: bind_splits)
    show ?thesis unfolding r by (rule Fill [OF o m fill f l Cons.IH [OF l]])
  qed
qed (simp add: Nil)

lemma match_loop_trades:
  "match_loop now pair bh oid book k = Some (k', rest, ts) \<Longrightarrow> Trades k' = Trades k @ ts \<and> ex_same k k'"
  by (induction rule: match_loop_induct) (auto elim!: fill_orderE intro: ex_same_trans)

text \<open>No trade changes who owns a wallet, its tier or whether it is active.\<close>

definition same_owner :: "wallet \<Rightarrow> wallet \<Rightarrow> bool" where
  "same_owner v w \<longleftrightarrow> w_ID w = w_ID v \<and> w_UserID w = w_UserID v \<and> w_Active w = w_Active v \<and>
     w_KYCTier w = w_KYCTier v"

definition owners_kept :: "exchange \<Rightarrow> exchange \<Rightarrow> bool" where
  "owners_kept k k' \<longleftrightarrow>
     (\<forall>i v. mget (Wallets k) i = Some v \<longrightarrow> (\<exists>w. mget (Wallets k') i = Some w \<and> same_owner v w))"

lemma owners_kept_refl [simp]: "Wallets k' = Wallets k \<Longrightarrow> owners_kept k k'"
  by (simp add: owners_kept_def same_owner_def)

lemma same_owner_trans: "same_owner a b \<Longrightarrow> same_owner b c \<Longrightarrow> same_owner a c"
  by (simp add: same_owner_def)

lemma owners_kept_trans: "owners_kept a b \<Longrightarrow> owners_kept b c \<Longrightarrow> owners_kept a c"
  unfolding owners_kept_def by (blast intro: same_owner_trans)

lemma owners_kept_put:
  "mget (Wallets k) i = Some v \<Longrightarrow> same_owner v w \<Longrightarrow> owners_kept k (put_wallet i w k)"
  by (simp add: owners_kept_def go_map same_owner_def)

lemma fill_owners:
  assumes "fill_order now pair bh oid mid order maker k = Some (k', t)"
    "o_WalletID maker \<noteq> o_WalletID order"
  shows "owners_kept k k'"
proof -
  from assms obtain m w where t: "t = new_trade now pair bh (add64 (TradeSeq k) 1) order maker"
    and mw: "mget (Wallets k) (o_WalletID maker) = Some m"
      "mget (Wallets k) (o_WalletID order) = Some w"
    and k': "Wallets k' = settled t pair k" by (rule fill_orderE)
  then show ?thesis
    by (auto simp: owners_kept_def settled_def go_map new_trade_def Let_def same_owner_def)
qed

lemma match_loop_owners:
  "match_loop now pair bh oid book k = Some (k', rest, ts) \<Longrightarrow> owners_kept k k'"
  by (induction rule: match_loop_induct) (auto dest: fill_owners intro: owners_kept_trans)

section \<open>Conservation\<close>

definition total :: "string \<Rightarrow> exchange \<Rightarrow> int" where
  "total d k = msum (\<lambda>w. bal w d) (Wallets k)"

definition trade_fees :: "string \<Rightarrow> trading_pair \<Rightarrow> trade list \<Rightarrow> int" where
  "trade_fees d pair ts = sum_list (map (fees_in d pair) ts)"

lemma trade_fees_append: "trade_fees d pair (ts @ [t]) = trade_fees d pair ts + fees_in d pair t"
  by (simp add: trade_fees_def)

lemma settled_total:
  assumes "mget ws (t_MakerWallet t) = Some m" "mget ws (t_TakerWallet t) = Some w"
    "t_MakerWallet t \<noteq> t_TakerWallet t" "distinct (mkeys ws)" "Wallets k = ws"
  shows "i64 (msum (\<lambda>w. bal w d) (settled t pair k)) = i64 (msum (\<lambda>w. bal w d) ws - fees_in d pair t)"
proof -
  let ?s = "msum (\<lambda>w. bal w d)"
  have "?s (settled t pair k) =
      (?s ws - bal m d - bal w d) + (bal (maker_leg t pair m) d + bal (taker_leg t pair w) d)"
    using assms by (simp add: settled_def msum_put distinct_mput go_map)
  then have "i64 (?s (settled t pair k)) =
      i64 ((?s ws - bal m d - bal w d) + (bal m d + bal w d - fees_in d pair t))"
    using i64_add_cong [OF refl legs_balance [of t pair m d w]] by metis
  then show ?thesis by simp
qed

lemma mput_keys: "mget m k \<noteq> None \<Longrightarrow> mkeys (mput k x m) = mkeys m"
  by (induction m) (auto split: if_splits)

lemma settled_keys [simp]: "mkeys (settled t pair k) = mkeys (Wallets k)"
  by (simp add: settled_def mput_keys go_map split: option.splits)

lemma fill_total:
  assumes "fill_order now pair bh oid mid order maker k = Some (k', t)"
    "o_WalletID maker \<noteq> o_WalletID order" "distinct (mkeys (Wallets k))"
  shows "i64 (total d k') = i64 (total d k - fees_in d pair t)" "mkeys (Wallets k') = mkeys (Wallets k)"
proof -
  from assms(1,2) obtain m w where t: "t = new_trade now pair bh (add64 (TradeSeq k) 1) order maker"
    and mw: "mget (Wallets k) (o_WalletID maker) = Some m"
      "mget (Wallets k) (o_WalletID order) = Some w"
    and k': "Wallets k' = settled t pair k" by (rule fill_orderE)
  show "i64 (total d k') = i64 (total d k - fees_in d pair t)"
    unfolding total_def k' using mw assms(2,3)
    by (intro settled_total) (auto simp: t new_trade_def Let_def)
  show "mkeys (Wallets k') = mkeys (Wallets k)" by (simp add: k')
qed

lemma match_loop_total:
  "match_loop now pair bh oid book k = Some (k', rest, ts) \<Longrightarrow> distinct (mkeys (Wallets k)) \<Longrightarrow>
   i64 (total d k') = i64 (total d k - trade_fees d pair ts)"
proof (induction rule: match_loop_induct)
  case (Fill mid mids k k1 t k' rest ts order maker)
  note f = fill_total [OF Fill.hyps(6,5) Fill.prems]
  with Fill have "i64 (total d k') = i64 (total d k1 - trade_fees d pair ts)" by simp
  also have "\<dots> = i64 (i64 (total d k1) - trade_fees d pair ts)" by (simp add: go_arith)
  finally show ?case by (simp add: f(1) go_arith trade_fees_def diff_diff_eq)
qed (simp_all add: trade_fees_def)

text \<open>The whole of \<open>PlaceOrder\<close>: locking moves nothing, matching loses the fees.\<close>

lemma total_put_wallet:
  "distinct (mkeys (Wallets k)) \<Longrightarrow> mget (Wallets k) i = Some w \<Longrightarrow> bal w' d = bal w d \<Longrightarrow>
   total d (put_wallet i w' k) = total d k"
  by (simp add: total_def msum_put)

lemma total_cong: "Wallets k' = Wallets k \<Longrightarrow> total d k' = total d k"
  by (simp add: total_def)

lemma lock_fundsD:
  "lock_funds side price quantity pair w = Some w' \<Longrightarrow>
   w' = add_locked (if side = OrderSideBuy then tp_QuoteDenom pair else tp_BaseDenom pair)
          (if side = OrderSideBuy then quote_amount price quantity else quantity) w"
  by (auto simp: lock_funds_def Let_def split: if_splits)

lemma checkDailyLimit_frame:
  assumes "checkDailyLimit now w price quantity k = (k', r)"
  shows "Wallets k' = Wallets k" "Orders k' = Orders k" "Trades k' = Trades k"
    "ex_same k k'" "TradeSeq k' = TradeSeq k"
  using assms by (auto simp: checkDailyLimit_def Let_def ex_same_def split: if_splits)

lemma check_order_frame:
  assumes "check_order now wid pid ot price quantity k = (k', r)"
  shows "Wallets k' = Wallets k" "Orders k' = Orders k" "Trades k' = Trades k"
    "ex_same k k'" "TradeSeq k' = TradeSeq k"
  using assms
  by (auto simp: check_order_def split: option.splits if_splits prod.splits
      dest: checkDailyLimit_frame)

lemma check_orderD:
  assumes "check_order now wid pid ot price quantity k = (k', Inr (w, pair))"
  shows "mget (Wallets k) wid = Some w" "mget (Pairs k) pid = Some pair" "w_Active w"
    "KYCTierBasic \<le> w_KYCTier w" "tp_MinOrderSize pair \<le> quantity"
    "ot = OrderTypeLimit \<Longrightarrow> 0 < price"
  using assms
  by (auto simp: check_order_def split: option.splits if_splits prod.splits)

end
