(* ===== verification/ExchangeBook.thy ===== *)
theory ExchangeBook
  imports ExchangeLedger "HOL-Library.Sublist"
begin

text \<open>
  The orders and the books: the invariant \<open>ex_ok\<close> of the keeper (every order's quantities and
  status agree, every live limit order is in its book, the books are sorted by price and not
  crossed), what the matching loop does to every order, and that no operation panics.
\<close>

section \<open>Subsequences\<close>

lemma subseq_set: "subseq xs ys \<Longrightarrow> set xs \<subseteq> set ys"
  by (induction rule: list_emb.induct) auto

lemma subseq_distinct: "subseq xs ys \<Longrightarrow> distinct ys \<Longrightarrow> distinct xs"
  by (induction rule: list_emb.induct) (auto dest: subseq_set)

lemma subseq_sorted: "subseq xs ys \<Longrightarrow> sorted (map f ys) \<Longrightarrow> sorted (map f xs)"
  by (induction rule: list_emb.induct) (auto dest: subseq_set)

section \<open>Books by side\<close>

definition book_at :: "order_side \<Rightarrow> exchange \<Rightarrow> string \<Rightarrow> string list" where
  "book_at side k p = mgetd [] (if side = OrderSideBuy then BuyBook k else SellBook k) p"

definition put_book :: "order_side \<Rightarrow> string \<Rightarrow> string list \<Rightarrow> exchange \<Rightarrow> exchange" where
  "put_book side p b k =
     (if side = OrderSideBuy then k\<lparr>BuyBook := mput p b (BuyBook k)\<rparr>
      else k\<lparr>SellBook := mput p b (SellBook k)\<rparr>)"

definition opp :: "order_side \<Rightarrow> order_side" where
  "opp side = (if side = OrderSideBuy then OrderSideSell else OrderSideBuy)"

definition side_less :: "order_side \<Rightarrow> exchange \<Rightarrow> string \<Rightarrow> string \<Rightarrow> bool" where
  "side_less side k = (if side = OrderSideBuy then bid_less k else ask_less k)"

lemma opp_simps [simp]: "opp OrderSideBuy = OrderSideSell" "opp OrderSideSell = OrderSideBuy"
  "opp s \<noteq> s" "s \<noteq> opp s" "opp (opp s) = s"
  by (cases s; simp add: opp_def)+

lemma not_side: "s \<noteq> s' \<longleftrightarrow> s = opp s'"
  by (cases s; cases s') simp_all

lemma put_book_frame [ex_frame, simp]:
  "Wallets (put_book s p b k) = Wallets k" "Orders (put_book s p b k) = Orders k"
  "Trades (put_book s p b k) = Trades k" "KYCApps (put_book s p b k) = KYCApps k"
  "Pairs (put_book s p b k) = Pairs k" "DailyLimits (put_book s p b k) = DailyLimits k"
  "Config (put_book s p b k) = Config k"
  "WalletSeq (put_book s p b k) = WalletSeq k" "OrderSeq (put_book s p b k) = OrderSeq k"
  "TradeSeq (put_book s p b k) = TradeSeq k" "KYCSeq (put_book s p b k) = KYCSeq k"
  by (simp_all add: put_book_def)

lemma book_at_put [simp]:
  "book_at s (put_book s' p b k) p' = (if s' = s \<and> p' = p then b else book_at s k p')"
  by (cases s; cases s') (simp_all add: book_at_def put_book_def go_map)

lemma book_at_frame [simp]:
  "book_at s (ex_save k) p = book_at s k p" "book_at s (put_order i ord k) p = book_at s k p"
  "book_at s (put_wallet i w k) p = book_at s k p"
  "book_at s (k\<lparr>OrderSeq := n\<rparr>) p = book_at s k p"
  by (simp_all add: book_at_def)

lemma book_at_same: "ex_same k k' \<Longrightarrow> book_at s k' p = book_at s k p"
  by (simp add: ex_same_def book_at_def)

lemma matchOrderE:
  assumes "matchOrder now pair bh oid k = Some (k', ts)"
  obtains order k1 rest order1 where
    "mget (Orders k) oid = Some order"
    "match_loop now pair bh oid (book_at (opp (o_Side order)) k (o_PairID order)) k =
       Some (k1, rest, ts)"
    "mget (Orders k1) oid = Some order1"
    "k' = put_book (opp (o_Side order1)) (o_PairID order1) rest
            (put_order oid (taker_done now order1) k1)"
proof -
  from assms obtain order k1 rest order1 where
    o: "mget (Orders k) oid = Some order" "mget (Orders k1) oid = Some order1"
    and l: "match_loop now pair bh oid (if o_Side order = OrderSideBuy
        then mgetd [] (SellBook k) (o_PairID order) else mgetd [] (BuyBook k) (o_PairID order)) k =
      Some (k1, rest, ts)"
    and k': "k' = (let k = put_order oid (taker_done now order1) k1 in
        if o_Side order1 = OrderSideBuy then k\<lparr>SellBook := mput (o_PairID order1) rest (SellBook k)\<rparr>
        else k\<lparr>BuyBook := mput (o_PairID order1) rest (BuyBook k)\<rparr>)"
    by (auto simp: matchOrder_def Let_def taker_done_def split: bind_splits)
  show ?thesis
    by (rule that [OF o(1) _ o(2)]) (use l k' in \<open>auto simp: book_at_def put_book_def opp_def\<close>)
qed

lemma add_to_book_eq:
  "add_to_book srt side p oid k = put_book side p (srt (side_less side k) (book_at side k p @ [oid])) k"
  by (cases side) (simp_all add: add_to_book_def put_book_def book_at_def side_less_def)

text \<open>An accepted order: the checks, the lock, the filing, the loop, the book.\<close>

definition filed :: "string \<Rightarrow> wallet \<Rightarrow> order \<Rightarrow> exchange \<Rightarrow> exchange" where
  "filed wid w order k =
     put_order (o_ID order) order (put_wallet wid w (k\<lparr>OrderSeq := add64 (OrderSeq k) 1\<rparr>))"

definition booked :: "slice_sort \<Rightarrow> order_side \<Rightarrow> string \<Rightarrow> string \<Rightarrow> bool \<Rightarrow> exchange \<Rightarrow> exchange" where
  "booked srt side p oid b k = (if b then add_to_book srt side p oid k else k)"

lemma PlaceOrderE:
  assumes "PlaceOrder srt now wid pid side ot price quantity bh k = Some (k', Inr (order, ts))"
  obtains kc w pair w' o0 k1 rest order1 where
    "check_order now wid pid ot price quantity k = (kc, Inr (w, pair))"
    "lock_funds side price quantity pair w = Some w'"
    "o0 = new_order now (add64 (OrderSeq k) 1) w' wid pid side ot price quantity"
    "match_loop now pair bh (o_ID o0) (book_at (opp side) k pid) (filed wid w' o0 kc) =
       Some (k1, rest, ts)"
    "mget (Orders k1) (o_ID o0) = Some order1"
    "order = taker_done now order1"
    "k' = ex_save (booked srt side pid (o_ID o0) (0 < o_RemainingQty order \<and> ot = OrderTypeLimit)
            (put_book (opp (o_Side order1)) (o_PairID order1) rest (put_order (o_ID o0) order k1)))"
proof -
  from assms obtain kc w pair w' where
    c: "check_order now wid pid ot price quantity k = (kc, Inr (w, pair))"
    "lock_funds side price quantity pair w = Some w'"
    and e: "enter_order srt now bh w' pair wid pid side ot price quantity kc = Some (k', order, ts)"
    by (auto simp: PlaceOrder_def split: prod.splits sum.splits option.splits bind_splits)
  define o0 where "o0 = new_order now (add64 (OrderSeq k) 1) w' wid pid side ot price quantity"
  from check_order_frame(4) [OF c(1)] have kc: "OrderSeq kc = OrderSeq k" "ex_same k kc"
    by (auto simp: ex_same_def)
  have o0: "o_Side o0 = side" "o_PairID o0 = pid" by (simp_all add: o0_def new_order_def)
  from e obtain k2 where
    m: "matchOrder now pair bh (o_ID o0) (filed wid w' o0 kc) = Some (k2, ts)"
    and o2: "mget (Orders k2) (o_ID o0) = Some order"
    and k': "k' = ex_save (booked srt side pid (o_ID o0)
        (0 < o_RemainingQty order \<and> ot = OrderTypeLimit) k2)"
    by (auto simp: enter_order_def Let_def filed_def booked_def o0_def kc(1) split: bind_splits)
  from m obtain order0 k1 rest order1 where l: "mget (Orders (filed wid w' o0 kc)) (o_ID o0) = Some order0"
    "match_loop now pair bh (o_ID o0)
       (book_at (opp (o_Side order0)) (filed wid w' o0 kc) (o_PairID order0)) (filed wid w' o0 kc) =
       Some (k1, rest, ts)"
    "mget (Orders k1) (o_ID o0) = Some order1"
    "k2 = put_book (opp (o_Side order1)) (o_PairID order1) rest
        (put_order (o_ID o0) (taker_done now order1) k1)"
    by (rule matchOrderE)
  have "order0 = o0" using l(1) by (simp add: filed_def go_map)
  moreover have "order = taker_done now order1" using o2 l(4) by (simp add: go_map)
  moreover have "book_at s (filed wid w' o0 kc) pid = book_at s k pid" for s
    by (simp add: filed_def book_at_same [OF kc(2)])
  ultimately show ?thesis
    using that [OF c o0_def _ l(3)] l k' o0 by simp
qed

lemma PlaceOrder_error:
  assumes "PlaceOrder srt now wid pid side ot price quantity bh k = Some (k', Inl e)"
  shows "Wallets k' = Wallets k \<and> Orders k' = Orders k \<and> Trades k' = Trades k \<and> ex_same k k'"
  using assms
  by (auto simp: PlaceOrder_def split: prod.splits sum.splits option.splits bind_splits
      dest: check_order_frame)

lemma booked_frame [simp]:
  "Wallets (booked srt s p i b k) = Wallets k" "Orders (booked srt s p i b k) = Orders k"
  "Trades (booked srt s p i b k) = Trades k" "KYCApps (booked srt s p i b k) = KYCApps k"
  "Pairs (booked srt s p i b k) = Pairs k" "Config (booked srt s p i b k) = Config k"
  "WalletSeq (booked srt s p i b k) = WalletSeq k" "OrderSeq (booked srt s p i b k) = OrderSeq k"
  "TradeSeq (booked srt s p i b k) = TradeSeq k" "KYCSeq (booked srt s p i b k) = KYCSeq k"
  by (simp_all add: booked_def add_to_book_eq)

section \<open>Conservation by a whole order\<close>

lemma PlaceOrder_total:
  assumes "PlaceOrder srt now wid pid side ot price quantity bh k = Some (k', Inr (order, ts))"
    and d: "distinct (mkeys (Wallets k))" and p: "mget (Pairs k) pid = Some pair"
  shows "i64 (total d k') = i64 (total d k - trade_fees d pair ts)"
  using assms(1)
proof (cases rule: PlaceOrderE)
  case (1 kc w pair' w' o0 k1 rest order1)
  note kc = check_order_frame [OF 1(1)] and D = check_orderD [OF 1(1)]
  have "pair' = pair" using D(2) p by simp
  have "total d (filed wid w' o0 kc) = total d k"
    using D(1) d lock_fundsD [OF 1(2)] kc(1)
    by (simp add: filed_def total_def msum_put)
  moreover have "i64 (total d k1) = i64 (total d (filed wid w' o0 kc) - trade_fees d pair ts)"
    using match_loop_total [OF 1(4)] d kc(1) \<open>pair' = pair\<close> by (simp add: filed_def)
  moreover have "total d k' = total d k1" by (rule total_cong) (simp add: 1(7))
  ultimately show ?thesis by simp
qed

section \<open>What an order satisfies\<close>

definition qty_ok :: "order \<Rightarrow> bool" where
  "qty_ok order \<longleftrightarrow>
     0 \<le> o_FilledQty order \<and> 0 \<le> o_RemainingQty order \<and>
     o_FilledQty order + o_RemainingQty order = o_Quantity order \<and>
     0 < o_Quantity order \<and> in64 (o_Quantity order)"

fun status_ok :: "order_status \<Rightarrow> int \<Rightarrow> int \<Rightarrow> bool" where
  "status_ok OrderStatusOpen f r \<longleftrightarrow> f = 0 \<and> 0 < r"
| "status_ok OrderStatusPartial f r \<longleftrightarrow> 0 < f \<and> 0 < r"
| "status_ok OrderStatusFilled f r \<longleftrightarrow> 0 < f \<and> r = 0"
| "status_ok OrderStatusCancelled f r \<longleftrightarrow> 0 < r"
| "status_ok OrderStatusExpired f r \<longleftrightarrow> False"

definition order_ok :: "string \<Rightarrow> order \<Rightarrow> bool" where
  "order_ok oid order \<longleftrightarrow> o_ID order = oid \<and> qty_ok order \<and>
     status_ok (o_Status order) (o_FilledQty order) (o_RemainingQty order)"

lemma order_ok_live: "order_ok oid order \<Longrightarrow> live order \<Longrightarrow> 0 < o_RemainingQty order"
  by (auto simp: order_ok_def live_def)

lemma order_ok_not_live:
  "order_ok oid order \<Longrightarrow> \<not> live order \<Longrightarrow>
   o_Status order = OrderStatusFilled \<and> o_RemainingQty order = 0 \<or> o_Status order = OrderStatusCancelled"
  by (cases "o_Status order") (auto simp: order_ok_def live_def)

text \<open>The part of an order that never changes.\<close>

definition same_terms :: "order \<Rightarrow> order \<Rightarrow> bool" where
  "same_terms a b \<longleftrightarrow>
     o_ID b = o_ID a \<and> o_WalletID b = o_WalletID a \<and> o_UserID b = o_UserID a \<and>
     o_PairID b = o_PairID a \<and> o_Side b = o_Side a \<and> o_Type b = o_Type a \<and>
     o_Price b = o_Price a \<and> o_Quantity b = o_Quantity a \<and> o_CreatedAt b = o_CreatedAt a"

lemma same_terms_refl [simp]: "same_terms a a"
  by (simp add: same_terms_def)

lemma same_terms_trans: "same_terms a b \<Longrightarrow> same_terms b c \<Longrightarrow> same_terms a c"
  by (simp add: same_terms_def)

lemma fill_terms [simp]:
  "same_terms a (filled q a)" "same_terms a (maker_filled now q a)" "same_terms a (taker_done now a)"
  by (simp_all add: same_terms_def filled_def maker_filled_def taker_done_def)

text \<open>The quantity of an order that a list of trades executes.\<close>

definition traded :: "string \<Rightarrow> trade list \<Rightarrow> int" where
  "traded oid ts =
     sum_list (map (\<lambda>t. if t_MakerOrder t = oid \<or> t_TakerOrder t = oid then t_Quantity t else 0) ts)"

lemma traded_simps [simp]: "traded oid [] = 0"
  "traded oid (t # ts) = (if t_MakerOrder t = oid \<or> t_TakerOrder t = oid then t_Quantity t else 0)
     + traded oid ts"
  "traded oid (ts @ us) = traded oid ts + traded oid us"
  by (simp_all add: traded_def)

text \<open>An order advanced by some trades: its terms kept, the trades' quantity moved to filled.\<close>

definition advanced :: "trade list \<Rightarrow> order \<Rightarrow> order \<Rightarrow> bool" where
  "advanced ts a b \<longleftrightarrow> same_terms a b \<and> o_FilledQty b = o_FilledQty a + traded (o_ID a) ts \<and>
     o_RemainingQty b = o_RemainingQty a - traded (o_ID a) ts"

lemma advanced_refl [simp]: "advanced [] a a"
  by (simp add: advanced_def)

lemma advanced_append: "advanced ts a b \<Longrightarrow> advanced us b c \<Longrightarrow> advanced (ts @ us) a c"
  by (auto simp: advanced_def same_terms_def)

lemma advanced_untouched: "traded (o_ID a) ts = 0 \<Longrightarrow> advanced ts a a"
  by (simp add: advanced_def)

section \<open>One fill, on the orders\<close>

lemma fill_qty_bounds:
  assumes "0 < o_RemainingQty order" "0 < o_RemainingQty maker"
  shows "0 < fill_qty order maker" "fill_qty order maker \<le> o_RemainingQty order"
    "fill_qty order maker \<le> o_RemainingQty maker"
  using assms by (auto simp: fill_qty_def)

lemma filled_qty:
  assumes "qty_ok order" "0 \<le> q" "q \<le> o_RemainingQty order"
  shows "o_FilledQty (filled q order) = o_FilledQty order + q"
    "o_RemainingQty (filled q order) = o_RemainingQty order - q" "qty_ok (filled q order)"
  using assms by (auto simp: filled_def qty_ok_def add64_exact sub64_exact in64_def)

lemma maker_filled_simps [simp]:
  "o_FilledQty (maker_filled now q m) = o_FilledQty (filled q m)"
  "o_RemainingQty (maker_filled now q m) = o_RemainingQty (filled q m)"
  "qty_ok (maker_filled now q m) = qty_ok (filled q m)"
  by (simp_all add: maker_filled_def qty_ok_def Let_def)

lemma maker_filled_ok:
  assumes "order_ok mid m" "live m" "0 < q" "q \<le> o_RemainingQty m"
  shows "order_ok mid (maker_filled now q m)" "live (maker_filled now q m) \<longleftrightarrow> q < o_RemainingQty m"
proof -
  note f = filled_qty [of m q]
  from assms show "order_ok mid (maker_filled now q m)"
    using f by (auto simp: order_ok_def) (auto simp: maker_filled_def Let_def filled_def qty_ok_def)
  from assms show "live (maker_filled now q m) \<longleftrightarrow> q < o_RemainingQty m"
    using f by (auto simp: order_ok_def maker_filled_def Let_def live_def)
qed

section \<open>The loop, on the orders\<close>

definition has_wallet :: "exchange \<Rightarrow> string \<Rightarrow> bool" where
  "has_wallet k i \<longleftrightarrow> mget (Wallets k) i \<noteq> None"

lemma has_wallet_keys: "mkeys (Wallets k') = mkeys (Wallets k) \<Longrightarrow> has_wallet k' i = has_wallet k i"
  by (simp add: has_wallet_def mget_None del: set_map)

definition resting :: "order \<Rightarrow> exchange \<Rightarrow> string \<Rightarrow> bool" where
  "resting order k mid \<longleftrightarrow>
     (\<exists>m. mget (Orders k) mid = Some m \<and> order_ok mid m \<and> live m \<and>
          o_PairID m = o_PairID order \<and> o_Side m = opp (o_Side order) \<and>
          has_wallet k (o_WalletID m))"

definition loop_ok :: "string \<Rightarrow> string list \<Rightarrow> exchange \<Rightarrow> bool" where
  "loop_ok oid book k \<longleftrightarrow>
     distinct (oid # book) \<and>
     (\<exists>order. mget (Orders k) oid = Some order \<and> o_ID order = oid \<and> qty_ok order \<and>
        has_wallet k (o_WalletID order) \<and> (\<forall>mid \<in> set book. resting order k mid))"

lemma loop_okE:
  assumes "loop_ok oid (mid # book) k" "mget (Orders k) oid = Some order"
    "mget (Orders k) mid = Some maker"
  shows "o_ID order = oid" "qty_ok order" "order_ok mid maker" "live maker" "oid \<noteq> mid"
    "o_PairID maker = o_PairID order" "o_Side maker = opp (o_Side order)" "mid \<notin> set book"
    "o_ID maker = mid" "0 < o_RemainingQty maker" "oid \<notin> set book" "qty_ok maker"
  using assms by (auto simp: loop_ok_def resting_def order_ok_live order_ok_def live_def)

lemma loop_ok_tl: "loop_ok oid (mid # book) k \<Longrightarrow> loop_ok oid book k"
  by (auto simp: loop_ok_def)

lemma fill_loop:
  assumes ok: "loop_ok oid (mid # book) k" and o: "mget (Orders k) oid = Some order"
    and m: "mget (Orders k) mid = Some maker" and r: "0 < o_RemainingQty order"
    and ne: "o_WalletID maker \<noteq> o_WalletID order"
    and f: "fill_order now pair bh oid mid order maker k = Some (k1, t)"
  shows "t = new_trade now pair bh (add64 (TradeSeq k) 1) order maker"
    and "t_Quantity t = fill_qty order maker" "t_MakerOrder t = mid" "t_TakerOrder t = oid"
    and "t_MakerWallet t = o_WalletID maker" "t_TakerWallet t = o_WalletID order"
    and "Orders k1 = mput mid (maker_filled now (t_Quantity t) maker)
           (mput oid (filled (t_Quantity t) order) (Orders k))"
    and "mkeys (Orders k1) = mkeys (Orders k)" "mkeys (Wallets k1) = mkeys (Wallets k)"
    and "advanced [t] order (filled (t_Quantity t) order)"
    and "advanced [t] maker (maker_filled now (t_Quantity t) maker)"
    and "qty_ok (filled (t_Quantity t) order)" "order_ok mid (maker_filled now (t_Quantity t) maker)"
    and "live (maker_filled now (t_Quantity t) maker) \<longleftrightarrow>
           sub64 (o_RemainingQty maker) (t_Quantity t) \<noteq> 0"
    and "sub64 (o_RemainingQty maker) (t_Quantity t) \<noteq> 0 \<Longrightarrow>
           o_RemainingQty (filled (t_Quantity t) order) = 0"
    and "0 < t_Quantity t" "o_RemainingQty (filled (t_Quantity t) order) \<le> o_RemainingQty order"
    and "ex_same k k1" "Trades k1 = Trades k @ [t]"
proof -
  note E = loop_okE [OF ok o m]
  from f ne obtain mw w where
    t: "t = new_trade now pair bh (add64 (TradeSeq k) 1) order maker"
    and k1: "Wallets k1 = settled t pair k"
      "Orders k1 = mput mid (maker_filled now (t_Quantity t) maker)
        (mput oid (filled (t_Quantity t) order) (Orders k))" "ex_same k k1" "Trades k1 = Trades k @ [t]"
    by (rule fill_orderE)
  show "t = new_trade now pair bh (add64 (TradeSeq k) 1) order maker" by (rule t)
  show q: "t_Quantity t = fill_qty order maker" and ids: "t_MakerOrder t = mid" "t_TakerOrder t = oid"
    and "t_MakerWallet t = o_WalletID maker" "t_TakerWallet t = o_WalletID order"
    using E by (simp_all add: t new_trade_def Let_def)
  note b = fill_qty_bounds [OF r E(10), folded q]
  note fo = filled_qty [OF E(2) _ b(2)] and fm = filled_qty [OF E(12) _ b(3)]
  show "Orders k1 = mput mid (maker_filled now (t_Quantity t) maker)
        (mput oid (filled (t_Quantity t) order) (Orders k))" by (rule k1(2))
  show "mkeys (Orders k1) = mkeys (Orders k)" "mkeys (Wallets k1) = mkeys (Wallets k)"
    using o m by (simp_all add: k1 mput_keys go_map)
  show "advanced [t] order (filled (t_Quantity t) order)"
    "advanced [t] maker (maker_filled now (t_Quantity t) maker)"
    using b fo fm E ids by (simp_all add: advanced_def)
  show "qty_ok (filled (t_Quantity t) order)" using b fo by simp
  have s: "sub64 (o_RemainingQty maker) (t_Quantity t) = o_RemainingQty maker - t_Quantity t"
    using fm(2) b by (simp add: filled_def)
  show "order_ok mid (maker_filled now (t_Quantity t) maker)"
    "live (maker_filled now (t_Quantity t) maker) \<longleftrightarrow>
     sub64 (o_RemainingQty maker) (t_Quantity t) \<noteq> 0"
    using maker_filled_ok [OF E(3,4) b(1,3)] b unfolding s by auto
  show "sub64 (o_RemainingQty maker) (t_Quantity t) \<noteq> 0 \<Longrightarrow>
      o_RemainingQty (filled (t_Quantity t) order) = 0"
    using fo b unfolding s by (auto simp: q fill_qty_def split: if_splits)
  show "0 < t_Quantity t" "o_RemainingQty (filled (t_Quantity t) order) \<le> o_RemainingQty order"
    using b fo by simp_all
  show "ex_same k k1" "Trades k1 = Trades k @ [t]" by (rule k1)+
qed

lemma fill_loop_ok:
  assumes ok: "loop_ok oid (mid # book) k" and o: "mget (Orders k) oid = Some order"
    and m: "mget (Orders k) mid = Some maker" and r: "0 < o_RemainingQty order"
    and ne: "o_WalletID maker \<noteq> o_WalletID order"
    and f: "fill_order now pair bh oid mid order maker k = Some (k1, t)"
  shows "loop_ok oid book k1"
proof -
  note F = fill_loop [OF assms] and E = loop_okE [OF ok o m]
  note w = has_wallet_keys [OF F(9)]
  have T: "same_terms order (filled (t_Quantity t) order)" by simp
  have "resting (filled (t_Quantity t) order) k1 i" if "i \<in> set book" for i
    using that ok o E(5,8) T by (auto simp: loop_ok_def resting_def F(7) go_map w same_terms_def)
  then show ?thesis using ok o E(5) F(12) T
    by (auto simp: loop_ok_def F(7) go_map w same_terms_def)
qed

lemma loop_frame:
  "match_loop now pair bh oid book k = Some (k', rest, ts) \<Longrightarrow> loop_ok oid book k \<Longrightarrow>
   mkeys (Orders k') = mkeys (Orders k) \<and> mkeys (Wallets k') = mkeys (Wallets k) \<and>
   (\<forall>i. i \<notin> insert oid (set book) \<longrightarrow> mget (Orders k') i = mget (Orders k) i)"
proof (induction rule: match_loop_induct)
  case (Fill mid mids k k1 t k' rest ts order maker)
  note F = fill_loop [OF Fill.prems(1) Fill.hyps(1,2,3,5,6)]
  from Fill.IH [OF fill_loop_ok [OF Fill.prems(1) Fill.hyps(1,2,3,5,6)]] show ?case
    using F(8,9) by (auto simp: F(7) go_map)
qed (auto dest: loop_ok_tl)

text \<open>The taker: its terms and status kept, its quantities advanced.\<close>

lemma loop_taker:
  "match_loop now pair bh oid book k = Some (k', rest, ts) \<Longrightarrow> loop_ok oid book k \<Longrightarrow>
   mget (Orders k) oid = Some order \<Longrightarrow>
   \<exists>order'. mget (Orders k') oid = Some order' \<and> advanced ts order order' \<and> qty_ok order' \<and>
     o_Status order' = o_Status order \<and> o_RemainingQty order' \<le> o_RemainingQty order"
proof (induction arbitrary: order rule: match_loop_induct)
  case (Fill mid mids k k1 t k' rest ts taker maker)
  then have [simp]: "taker = order" by simp
  note F = fill_loop [OF Fill.prems(1) Fill.hyps(1,2,3,5,6)]
  have "mid \<noteq> oid" using loop_okE [OF Fill.prems(1) Fill.hyps(1,2)] by simp
  then have "mget (Orders k1) oid = Some (filled (t_Quantity t) order)"
    by (simp add: F(7) go_map)
  from Fill.IH [OF fill_loop_ok [OF Fill.prems(1) Fill.hyps(1,2,3,5,6)] this] obtain order' where
    o': "mget (Orders k') oid = Some order'" "advanced ts (filled (t_Quantity t) order) order'"
    "qty_ok order'" "o_Status order' = o_Status (filled (t_Quantity t) order)"
    "o_RemainingQty order' \<le> o_RemainingQty (filled (t_Quantity t) order)" by blast
  have "advanced ([t] @ ts) order order'" by (rule advanced_append [OF _ o'(2)]) (use F(10) in simp)
  with o' F(17) show ?case by (auto simp: filled_def)
qed (auto simp: loop_ok_def)

text \<open>The makers: what the loop leaves in the book is still live, what it removes is filled.\<close>

lemma loop_ok_keep:
  assumes "loop_ok oid rest k'" "mget (Orders k') mid = Some m" "order_ok mid m" "live m"
    "mid \<noteq> oid" "mid \<notin> set rest" "mget (Orders k') oid = Some order'"
    "o_PairID m = o_PairID order'" "o_Side m = opp (o_Side order')" "has_wallet k' (o_WalletID m)"
  shows "loop_ok oid (mid # rest) k'"
  using assms by (auto simp: loop_ok_def resting_def)

lemma loop_rest:
  "match_loop now pair bh oid book k = Some (k', rest, ts) \<Longrightarrow> loop_ok oid book k \<Longrightarrow>
   subseq rest book \<and> loop_ok oid rest k' \<and>
   (\<forall>mid \<in> set book - set rest. \<exists>m. mget (Orders k') mid = Some m \<and> order_ok mid m \<and>
      o_Status m = OrderStatusFilled)"
proof (induction rule: match_loop_induct)
  case (Own mid mids k k' rest ts order maker)
  note E = loop_okE [OF Own.prems Own.hyps(1,2)] and tl = loop_ok_tl [OF Own.prems]
  note R = Own.IH [OF tl] and frame = loop_frame [OF Own.hyps(6) tl]
  obtain order' where o': "mget (Orders k') oid = Some order'" "same_terms order order'"
    using loop_taker [OF Own.hyps(6) tl Own.hyps(1)] by (auto simp: advanced_def)
  have "has_wallet k' (o_WalletID maker)"
    using Own.prems Own.hyps(1,2) frame has_wallet_keys [of k' k]
    by (auto simp: loop_ok_def resting_def)
  moreover have m: "mget (Orders k') mid = Some maker" "mid \<notin> set rest"
    using frame E Own.hyps(2) R subseq_set by (force, blast)
  ultimately have "loop_ok oid (mid # rest) k'"
    using R E o' by (intro loop_ok_keep [where m = maker and order' = order']) (auto simp: same_terms_def)
  then show ?case using R by auto
next
  case (Fill mid mids k k1 t k' rest ts order maker)
  note ok1 = fill_loop_ok [OF Fill.prems(1) Fill.hyps(1,2,3,5,6)]
  note E = loop_okE [OF Fill.prems Fill.hyps(1,2)]
    and F = fill_loop [OF Fill.prems(1) Fill.hyps(1,2,3,5,6)]
  note R = Fill.IH [OF ok1] and frame = loop_frame [OF Fill.hyps(7) ok1]
  let ?m = "maker_filled now (t_Quantity t) maker"
  have "mget (Orders k1) oid = Some (filled (t_Quantity t) order)"
    using E by (simp add: F(7) go_map)
  from loop_taker [OF Fill.hyps(7) ok1 this] obtain order' where
    o': "mget (Orders k') oid = Some order'" "same_terms (filled (t_Quantity t) order) order'"
    by (auto simp: advanced_def)
  have "has_wallet k' (o_WalletID maker)"
    using Fill.prems Fill.hyps(1,2) frame F(9) has_wallet_keys [of k' k]
    by (auto simp: loop_ok_def resting_def)
  moreover have m: "mget (Orders k') mid = Some ?m" "mid \<notin> set rest"
    using frame E R subseq_set by (force simp: F(7) go_map, blast)
  moreover have "same_terms maker ?m" "same_terms order order'"
    using o'(2) by (auto intro: same_terms_trans [OF fill_terms(1)])
  ultimately have "live ?m \<Longrightarrow> loop_ok oid (mid # rest) k'"
    using R E o' F(13) by (intro loop_ok_keep [where m = ?m and order' = order']) (auto simp: same_terms_def)
  moreover have "live ?m \<or> o_Status ?m = OrderStatusFilled"
    by (simp add: maker_filled_def Let_def live_def)
  ultimately show ?case using R m F(13,14) by auto
qed (auto simp: loop_ok_def)

text \<open>Every order, taker and makers included, is advanced by the trades of the loop.\<close>

lemma loop_advanced:
  "match_loop now pair bh oid book k = Some (k', rest, ts) \<Longrightarrow> loop_ok oid book k \<Longrightarrow>
   mget (Orders k) i = Some a \<Longrightarrow> o_ID a = i \<Longrightarrow>
   \<exists>b. mget (Orders k') i = Some b \<and> advanced ts a b \<and> o_FilledQty a \<le> o_FilledQty b"
proof (induction arbitrary: a rule: match_loop_induct)
  case (Fill mid mids k k1 t k' rest ts order maker)
  note ok1 = fill_loop_ok [OF Fill.prems(1) Fill.hyps(1,2,3,5,6)]
  note E = loop_okE [OF Fill.prems(1) Fill.hyps(1,2)]
    and F = fill_loop [OF Fill.prems(1) Fill.hyps(1,2,3,5,6)]
  have "\<exists>b. mget (Orders k1) i = Some b \<and> advanced [t] a b \<and> o_FilledQty a \<le> o_FilledQty b"
  proof -
    consider (taker) "i = oid" | (maker) "i = mid" "i \<noteq> oid" | (other) "i \<noteq> oid" "i \<noteq> mid" by blast
    then show ?thesis
    proof cases
      case taker
      then have "a = order" using Fill.prems(2) Fill.hyps(1) by simp
      then show ?thesis using F(10,16) taker E(5) by (simp add: F(7) go_map advanced_def)
    next
      case maker
      then have "a = maker" using Fill.prems(2) Fill.hyps(2) by simp
      then show ?thesis using F(11,16) maker by (simp add: F(7) go_map advanced_def)
    next
      case other
      then show ?thesis using Fill.prems(2,3) by (simp add: F(3,4,7) go_map advanced_untouched)
    qed
  qed
  then obtain b where b: "mget (Orders k1) i = Some b" "advanced [t] a b" "o_FilledQty a \<le> o_FilledQty b"
    by blast
  with Fill.prems(3) have "o_ID b = i" by (simp add: advanced_def same_terms_def)
  from Fill.IH [OF ok1 b(1) this] b show ?case
    using advanced_append [of "[t]" a b ts] by auto
qed (auto dest: loop_ok_tl)

section \<open>The loop, on prices\<close>

text \<open>
  \<open>price_key\<close> orders the prices of a book from the best: bids from the highest, asks from the
  lowest.
\<close>

definition price_key :: "order_side \<Rightarrow> int64 \<Rightarrow> int" where
  "price_key side p = (if side = OrderSideBuy then - p else p)"

definition sorted_book :: "order_side \<Rightarrow> exchange \<Rightarrow> string list \<Rightarrow> bool" where
  "sorted_book side k book \<longleftrightarrow> sorted (map (\<lambda>i. price_key side (price_of k i)) book)"

lemma price_stop_key:
  "price_stop order maker \<longleftrightarrow> o_Type order = OrderTypeLimit \<and>
     price_key (opp (o_Side order)) (o_Price order) < price_key (opp (o_Side order)) (o_Price maker)"
  by (cases "o_Side order") (simp_all add: price_stop_def price_key_def)

lemma price_stop_cong:
  "same_terms a a' \<Longrightarrow> same_terms m m' \<Longrightarrow> price_stop a' m' = price_stop a m"
  by (simp add: price_stop_def same_terms_def)

lemma fill_price:
  assumes "loop_ok oid (mid # book) k" "mget (Orders k) oid = Some order"
    "mget (Orders k) mid = Some maker" "0 < o_RemainingQty order"
    "o_WalletID maker \<noteq> o_WalletID order"
    "fill_order now pair bh oid mid order maker k = Some (k1, t)"
  shows "price_of k1 = price_of k"
proof
  fix i
  show "price_of k1 i = price_of k i"
    using assms(2,3)
    by (simp add: price_of_def fill_loop(7) [OF assms] go_map)
       (simp add: maker_filled_def filled_def Let_def)
qed

lemma fill_sorted:
  "loop_ok oid (mid # book) k \<Longrightarrow> mget (Orders k) oid = Some order \<Longrightarrow>
   mget (Orders k) mid = Some maker \<Longrightarrow> 0 < o_RemainingQty order \<Longrightarrow>
   o_WalletID maker \<noteq> o_WalletID order \<Longrightarrow>
   fill_order now pair bh oid mid order maker k = Some (k1, t) \<Longrightarrow>
   sorted_book side k1 book = sorted_book side k book"
  by (simp add: sorted_book_def fill_price)

text \<open>
  When something of the taker is left, every order left in the book belongs to the same wallet
  or is beyond the taker's limit.
\<close>

definition unmatched :: "order \<Rightarrow> exchange \<Rightarrow> string \<Rightarrow> bool" where
  "unmatched order k mid \<longleftrightarrow>
     (\<exists>m. mget (Orders k) mid = Some m \<and> (o_WalletID m = o_WalletID order \<or> price_stop order m))"

lemma unmatched_cong: "same_terms a b \<Longrightarrow> unmatched b k i = unmatched a k i"
  by (auto simp: unmatched_def same_terms_def price_stop_def)

lemma loop_stop:
  "match_loop now pair bh oid book k = Some (k', rest, ts) \<Longrightarrow> loop_ok oid book k \<Longrightarrow>
   mget (Orders k) oid = Some order \<Longrightarrow> sorted_book (opp (o_Side order)) k book \<Longrightarrow>
   mget (Orders k') oid = Some order' \<Longrightarrow> 0 < o_RemainingQty order' \<Longrightarrow>
   list_all (unmatched order k') rest"
proof (induction arbitrary: order rule: match_loop_induct)
  case (Nil k)
  then show ?case by simp
next
  case (Stop mid mids k taker maker)
  then have "price_stop order maker" "taker = order" by auto
  moreover have "\<exists>m. mget (Orders k) i = Some m \<and> price_stop order m" if i: "i \<in> set (mid # mids)" for i
  proof -
    obtain m where m: "mget (Orders k) i = Some m"
      using Stop.prems(1) i by (auto simp: loop_ok_def resting_def)
    have "price_key (opp (o_Side order)) (o_Price maker) \<le> price_key (opp (o_Side order)) (o_Price m)"
      using Stop.prems(3) i m Stop.hyps(2) by (auto simp: sorted_book_def price_of_def)
    then show ?thesis using \<open>price_stop order maker\<close> m by (auto simp: price_stop_key)
  qed
  ultimately show ?case by (auto simp: list_all_iff unmatched_def)
next
  case (Own mid mids k k' rest ts taker maker)
  note E = loop_okE [OF Own.prems(1) Own.hyps(1,2)] and tl = loop_ok_tl [OF Own.prems(1)]
  have "mget (Orders k') mid = Some maker"
    using loop_frame [OF Own.hyps(6) tl] E Own.hyps(2) by auto
  then have "unmatched order k' mid"
    using Own.hyps(1,5) Own.prems(2) by (simp add: unmatched_def)
  moreover have "list_all (unmatched order k') rest"
    using Own by (intro Own.IH [OF tl]) (auto simp: sorted_book_def)
  ultimately show ?case by simp
next
  case (Fill mid mids k k1 t k' rest ts taker maker)
  then have [simp]: "taker = order" by simp
  note step = Fill.prems(1) Fill.hyps(1,2,3,5,6)
  note F = fill_loop [OF step] and E = loop_okE [OF Fill.prems(1) Fill.hyps(1,2)]
  have o1: "mget (Orders k1) oid = Some (filled (t_Quantity t) order)"
    using E by (simp add: F(7) go_map)
  from loop_taker [OF Fill.hyps(7) fill_loop_ok [OF step] o1]
  have "o_RemainingQty order' \<le> o_RemainingQty (filled (t_Quantity t) order)"
    using Fill.prems(4) by auto
  then have q: "sub64 (o_RemainingQty maker) (t_Quantity t) = 0"
    using F(15) Fill.prems(5) by fastforce
  have "same_terms order (filled (t_Quantity t) order)" by simp
  then have "o_Side (filled (t_Quantity t) order) = o_Side order"
    by (simp add: same_terms_def)
  with Fill.prems fill_sorted [OF step]
  have "list_all (unmatched (filled (t_Quantity t) order) k') rest"
    by (intro Fill.IH [OF fill_loop_ok [OF step] o1]) (auto simp: sorted_book_def)
  then show ?case using q unmatched_cong [of order "filled (t_Quantity t) order"]
    by (simp add: list_all_iff)
qed

text \<open>
  Each trade of the loop is of a positive quantity, between two wallets, at the maker's price,
  which the taker's limit allows; the trades come from the best price to the worst.
\<close>

definition trade_ok :: "order \<Rightarrow> trade \<Rightarrow> bool" where
  "trade_ok order t \<longleftrightarrow>
     0 < t_Quantity t \<and> t_TakerOrder t = o_ID order \<and> t_TakerWallet t = o_WalletID order \<and>
     t_MakerWallet t \<noteq> t_TakerWallet t \<and> t_Side t = o_Side order \<and> t_PairID t = o_PairID order \<and>
     (o_Type order = OrderTypeLimit \<longrightarrow>
        price_key (opp (o_Side order)) (t_Price t) \<le> price_key (opp (o_Side order)) (o_Price order))"

lemma trade_ok_cong: "same_terms a b \<Longrightarrow> trade_ok b t = trade_ok a t"
  by (simp add: trade_ok_def same_terms_def)

lemma loop_trades:
  "match_loop now pair bh oid book k = Some (k', rest, ts) \<Longrightarrow> loop_ok oid book k \<Longrightarrow>
   mget (Orders k) oid = Some order \<Longrightarrow> sorted_book (opp (o_Side order)) k book \<Longrightarrow>
   list_all (trade_ok order) ts \<and> sorted (map (\<lambda>t. price_key (opp (o_Side order)) (t_Price t)) ts) \<and>
   (\<forall>t \<in> set ts. \<exists>i \<in> set book. t_Price t = price_of k i \<and> t_MakerOrder t = i)"
proof (induction arbitrary: order rule: match_loop_induct)
  case (Own mid mids k k' rest ts taker maker)
  note tl = loop_ok_tl [OF Own.prems(1)]
  have "sorted_book (opp (o_Side order)) k mids"
    using Own.prems(3) by (auto simp: sorted_book_def)
  from Own.IH [OF tl Own.prems(2) this] show ?case by auto
next
  case (Fill mid mids k k1 t k' rest ts taker maker)
  then have [simp]: "taker = order" by simp
  note step = Fill.prems(1) Fill.hyps(1,2,3,5,6)
  note F = fill_loop [OF step] and E = loop_okE [OF Fill.prems(1) Fill.hyps(1,2)]
  have o1: "mget (Orders k1) oid = Some (filled (t_Quantity t) order)"
    using E by (simp add: F(7) go_map)
  have T: "same_terms order (filled (t_Quantity t) order)" by simp
  then have side: "o_Side (filled (t_Quantity t) order) = o_Side order"
    by (simp add: same_terms_def)
  have srt: "sorted_book (opp (o_Side order)) k1 mids"
    using Fill.prems(3) fill_sorted [OF step] by (auto simp: sorted_book_def)
  have p: "t_Price t = price_of k mid"
    using Fill.hyps(2) by (simp add: F(1) new_trade_def Let_def price_of_def)
  have "trade_ok order t"
    using Fill.hyps(4,5) E F(2-6,16)
    by (auto simp: trade_ok_def price_stop_key F(1) new_trade_def Let_def)
  moreover note IH = Fill.IH [OF fill_loop_ok [OF step] o1, unfolded side, OF srt,
      unfolded fill_price [OF step]]
  moreover have "price_key (opp (o_Side order)) (t_Price t) \<le> price_key (opp (o_Side order)) (t_Price u)"
    if "u \<in> set ts" for u
    using IH that Fill.prems(3) by (auto simp: sorted_book_def p)
  ultimately show ?case using p F(3) trade_ok_cong [OF T] by (auto simp: list_all_iff)
qed simp_all

end
