(* ===== verification/ExchangeInv.thy ===== *)
theory ExchangeInv
  imports ExchangeBook
begin

text \<open>
  The keeper's invariant \<open>ex_ok\<close>, kept by every operation, and the absence of panics: wallets,
  orders and applications are filed under the identifiers the counters gave, every order is
  consistent and backed by the trades that name it, the books hold exactly the live limit
  orders, sorted by price, and no bid reaches an ask of another wallet.
\<close>

section \<open>The invariant\<close>

definition wallets_ok :: "exchange \<Rightarrow> bool" where
  "wallets_ok k \<longleftrightarrow>
     keys_from wallet_id (WalletSeq k) (Wallets k) \<and>
     (\<forall>i w. mget (Wallets k) i = Some w \<longrightarrow> w_ID w = i) \<and>
     (\<forall>i j v w. mget (Wallets k) i = Some v \<longrightarrow> mget (Wallets k) j = Some w \<longrightarrow>
        w_Active v \<longrightarrow> w_Active w \<longrightarrow> w_UserID v = w_UserID w \<longrightarrow> i = j)"

definition apps_ok :: "exchange \<Rightarrow> bool" where
  "apps_ok k \<longleftrightarrow>
     keys_from application_id (KYCSeq k) (KYCApps k) \<and>
     (\<forall>i a. mget (KYCApps k) i = Some a \<longrightarrow> a_ID a = i \<and> has_wallet k (a_WalletID a))"

definition orders_ok :: "exchange \<Rightarrow> bool" where
  "orders_ok k \<longleftrightarrow>
     keys_from order_id (OrderSeq k) (Orders k) \<and>
     (\<forall>p pair. mget (Pairs k) p = Some pair \<longrightarrow> 0 < tp_MinOrderSize pair) \<and>
     (\<forall>i a. mget (Orders k) i = Some a \<longrightarrow>
        order_ok i a \<and> has_wallet k (o_WalletID a) \<and> mget (Pairs k) (o_PairID a) \<noteq> None \<and>
        o_FilledQty a = traded i (Trades k)) \<and>
     (\<forall>t \<in> set (Trades k). mget (Orders k) (t_MakerOrder t) \<noteq> None \<and>
        mget (Orders k) (t_TakerOrder t) \<noteq> None)"

text \<open>An order that belongs in the book of a side and pair.\<close>

definition in_book :: "order_side \<Rightarrow> string \<Rightarrow> exchange \<Rightarrow> string \<Rightarrow> bool" where
  "in_book side p k i \<longleftrightarrow>
     (\<exists>a. mget (Orders k) i = Some a \<and> live a \<and> o_Type a = OrderTypeLimit \<and>
          o_Side a = side \<and> o_PairID a = p)"

definition book_ok :: "order_side \<Rightarrow> string \<Rightarrow> exchange \<Rightarrow> bool" where
  "book_ok side p k \<longleftrightarrow>
     distinct (book_at side k p) \<and> sorted_book side k (book_at side k p) \<and>
     set (book_at side k p) = {i. in_book side p k i}"

definition uncrossed :: "exchange \<Rightarrow> bool" where
  "uncrossed k \<longleftrightarrow>
     (\<forall>p i j a b. in_book OrderSideBuy p k i \<longrightarrow> in_book OrderSideSell p k j \<longrightarrow>
        mget (Orders k) i = Some a \<longrightarrow> mget (Orders k) j = Some b \<longrightarrow>
        o_Price a < o_Price b \<or> o_WalletID a = o_WalletID b)"

definition ex_ok :: "exchange \<Rightarrow> bool" where
  "ex_ok k \<longleftrightarrow> wallets_ok k \<and> apps_ok k \<and> orders_ok k \<and> (\<forall>s p. book_ok s p k) \<and> uncrossed k"

section \<open>What each part depends on\<close>

lemma wallets_ok_frame:
  "wallets_ok k \<Longrightarrow> Wallets k' = Wallets k \<Longrightarrow> WalletSeq k' = WalletSeq k \<Longrightarrow> wallets_ok k'"
  by (simp add: wallets_ok_def)

lemma apps_ok_frame:
  "apps_ok k \<Longrightarrow> KYCApps k' = KYCApps k \<Longrightarrow> KYCSeq k' = KYCSeq k \<Longrightarrow>
   (\<And>i. has_wallet k i \<Longrightarrow> has_wallet k' i) \<Longrightarrow> apps_ok k'"
  by (auto simp: apps_ok_def)

lemma orders_ok_frame:
  "orders_ok k \<Longrightarrow> Orders k' = Orders k \<Longrightarrow> OrderSeq k' = OrderSeq k \<Longrightarrow> Trades k' = Trades k \<Longrightarrow>
   Pairs k' = Pairs k \<Longrightarrow> (\<And>i. has_wallet k i \<Longrightarrow> has_wallet k' i) \<Longrightarrow> orders_ok k'"
  by (auto simp: orders_ok_def)

lemma in_book_frame: "Orders k' = Orders k \<Longrightarrow> in_book s p k' i = in_book s p k i"
  by (simp add: in_book_def)

lemma book_ok_frame:
  assumes "book_ok s p k" "Orders k' = Orders k" "BuyBook k' = BuyBook k" "SellBook k' = SellBook k"
  shows "book_ok s p k'"
proof -
  have "book_at s k' p = book_at s k p" "price_of k' = price_of k" "in_book s p k' = in_book s p k"
    using assms by (simp_all add: book_at_def price_of_def in_book_def fun_eq_iff)
  with assms(1) show ?thesis by (simp add: book_ok_def sorted_book_def)
qed

lemma uncrossed_frame: "uncrossed k \<Longrightarrow> Orders k' = Orders k \<Longrightarrow> uncrossed k'"
  by (simp add: uncrossed_def in_book_def)

lemma has_wallet_frame [simp]:
  "has_wallet (ex_save k) i = has_wallet k i" "has_wallet (put_order j ord k) i = has_wallet k i"
  "has_wallet (put_book s p b k) i = has_wallet k i"
  "has_wallet (put_app j app k) i = has_wallet k i"
  "has_wallet (k\<lparr>WalletSeq := n\<rparr>) i = has_wallet k i" "has_wallet (k\<lparr>KYCSeq := n\<rparr>) i = has_wallet k i"
  by (simp_all add: has_wallet_def put_app_def)

lemma has_wallet_put [simp]: "has_wallet (put_wallet j w k) i \<longleftrightarrow> i = j \<or> has_wallet k i"
  by (simp add: has_wallet_def go_map)

text \<open>A change of wallets, applications and counters keeps the orders and the books.\<close>

lemma ex_ok_frame:
  assumes "ex_ok k" "wallets_ok k'" "apps_ok k'"
    "Orders k' = Orders k" "OrderSeq k' = OrderSeq k" "Trades k' = Trades k" "Pairs k' = Pairs k"
    "BuyBook k' = BuyBook k" "SellBook k' = SellBook k"
    "\<And>i. has_wallet k i \<Longrightarrow> has_wallet k' i"
  shows "ex_ok k'"
  using assms orders_ok_frame [of k k'] book_ok_frame [of _ _ k k'] uncrossed_frame [of k k']
  unfolding ex_ok_def by blast

section \<open>Wallet operations\<close>

lemma wallets_ok_put:
  assumes "wallets_ok k" "mget (Wallets k) i = Some w" "w_ID w' = w_ID w"
    "w_UserID w' = w_UserID w" "w_Active w' \<Longrightarrow> w_Active w"
  shows "wallets_ok (put_wallet i w' k)"
proof -
  have "keys_from wallet_id (WalletSeq k) (mput i w' (Wallets k))"
    using assms(1,2) by (intro keys_from_update) (auto simp: wallets_ok_def)
  moreover have "w_ID v = j" if "mget (mput i w' (Wallets k)) j = Some v" for j v
    using that assms by (auto simp: wallets_ok_def go_map split: if_splits)
  moreover have "j = l" if "mget (mput i w' (Wallets k)) j = Some u"
    "mget (mput i w' (Wallets k)) l = Some v" "w_Active u" "w_Active v" "w_UserID u = w_UserID v" for j l u v
    using that assms unfolding wallets_ok_def go_map by (metis option.inject)
  ultimately show ?thesis unfolding wallets_ok_def by simp
qed

lemma wallets_ok_owners:
  assumes "wallets_ok k" "owners_kept k k'" "mkeys (Wallets k') = mkeys (Wallets k)"
    "WalletSeq k' = WalletSeq k"
  shows "wallets_ok k'"
proof -
  have old: "\<exists>v. mget (Wallets k) i = Some v \<and> same_owner v w" if "mget (Wallets k') i = Some w" for i w
  proof -
    have "mget (Wallets k) i \<noteq> None"
      using that has_wallet_keys [OF assms(3), of i] by (simp add: has_wallet_def)
    then show ?thesis using assms(2) that unfolding owners_kept_def by fastforce
  qed
  have "keys_from wallet_id (WalletSeq k') (Wallets k')"
    using assms(1,3,4) unfolding wallets_ok_def keys_from_def by metis
  moreover have "w_ID w = i" if "mget (Wallets k') i = Some w" for i w
    using old [OF that] assms(1) by (auto simp: wallets_ok_def same_owner_def)
  moreover have "i = j" if "mget (Wallets k') i = Some v" "mget (Wallets k') j = Some w"
    "w_Active v" "w_Active w" "w_UserID v = w_UserID w" for i j v w
    using old [OF that(1)] old [OF that(2)] that(3-5) assms(1)
    unfolding wallets_ok_def same_owner_def by metis
  ultimately show ?thesis unfolding wallets_ok_def by blast
qed

lemma CreateWallet_ok:
  assumes "ex_ok k" "WalletSeq k < 2 ^ 63 - 1"
  shows "ex_ok (fst (CreateWallet now u l k))"
proof (cases "RegistrationOpen (Config k) \<and> \<not> list_ex (\<lambda>(_, w). w_UserID w = u \<and> w_Active w) (Wallets k)")
  case True
  let ?i = "wallet_id (add64 (WalletSeq k) 1)"
  define w where "w = \<lparr>w_ID = ?i, w_UserID = u, w_Address = ''ftg1exchange'' @ ?i, w_Label = l,
    w_CreatedAt = now, w_KYCTier = KYCTierNone, w_Balances = [], w_Locked = [], w_Active = True\<rparr>"
  let ?k = "k\<lparr>WalletSeq := add64 (WalletSeq k) 1, Wallets := mput ?i w (Wallets k)\<rparr>"
  from True have k': "fst (CreateWallet now u l k) = ex_save ?k"
    by (simp add: CreateWallet_def Let_def w_def)
  have ok: "wallets_ok k" using assms(1) by (simp add: ex_ok_def)
  have other: "w_UserID v \<noteq> u" if "mget (Wallets k) j = Some v" "w_Active v" for j v
    using True that by (auto simp: list_ex_iff dest: mget_in)
  have "keys_from wallet_id (add64 (WalletSeq k) 1) (mput ?i w (Wallets k))"
    using ok assms(2) by (intro wallet_ids.insert_next) (auto simp: wallets_ok_def)
  moreover have "w_ID v = j" if "mget (mput ?i w (Wallets k)) j = Some v" for j v
    using that ok by (auto simp: wallets_ok_def go_map w_def split: if_splits)
  moreover have "j = n" if "mget (mput ?i w (Wallets k)) j = Some v" "mget (mput ?i w (Wallets k)) n = Some v'"
    "w_Active v" "w_Active v'" "w_UserID v = w_UserID v'" for j n v v'
    using that ok other [of j v] other [of n v'] unfolding wallets_ok_def go_map
    by (cases "j = ?i"; cases "n = ?i") (auto simp: w_def)
  ultimately have "wallets_ok (ex_save ?k)" unfolding wallets_ok_def by simp
  then show ?thesis unfolding k'
    using assms(1) apps_ok_frame [of k "ex_save ?k"]
    by (intro ex_ok_frame [OF assms(1)]) (auto simp: ex_ok_def has_wallet_def go_map)
next
  case False
  then show ?thesis using assms(1) by (auto simp: CreateWallet_def)
qed

lemma put_wallet_ok:
  assumes "ex_ok k" "mget (Wallets k) i = Some w" "w_ID w' = w_ID w"
    "w_UserID w' = w_UserID w" "w_Active w' \<Longrightarrow> w_Active w"
  shows "ex_ok (put_wallet i w' k)"
  using assms wallets_ok_put [OF _ assms(2-5)] apps_ok_frame [of k "put_wallet i w' k"]
  by (intro ex_ok_frame [OF assms(1)]) (auto simp: ex_ok_def)

lemma ex_save_ok [simp, intro!]:
  assumes "ex_ok k"
  shows "ex_ok (ex_save k)"
proof (rule ex_ok_frame [OF assms])
  show "wallets_ok (ex_save k)" by (rule wallets_ok_frame [of k]) (use assms in \<open>simp_all add: ex_ok_def\<close>)
  show "apps_ok (ex_save k)" by (rule apps_ok_frame [of k]) (use assms in \<open>simp_all add: ex_ok_def\<close>)
qed simp_all

lemma Deposit_ok: "ex_ok k \<Longrightarrow> ex_ok (fst (DepositToWallet i d x k))"
  by (auto simp: DepositToWallet_def split: option.splits intro: put_wallet_ok)

lemma Withdraw_ok: "ex_ok k \<Longrightarrow> ex_ok (fst (WithdrawFromWallet i d x k))"
  by (auto simp: WithdrawFromWallet_def Let_def split: option.splits intro: put_wallet_ok)

section \<open>KYC operations\<close>

lemma put_app_ok:
  assumes "ex_ok k" "mget (KYCApps k) i = Some a" "a_ID a' = a_ID a" "a_WalletID a' = a_WalletID a"
  shows "ex_ok (put_app i a' k)"
proof -
  have "keys_from application_id (KYCSeq k) (mput i a' (KYCApps k))"
    using assms(1,2) by (intro keys_from_update) (auto simp: ex_ok_def apps_ok_def)
  then have "apps_ok (put_app i a' k)"
    using assms by (auto simp: ex_ok_def apps_ok_def put_app_def go_map has_wallet_def)
  then show ?thesis
    using assms(1) wallets_ok_frame [of k "put_app i a' k"]
    by (intro ex_ok_frame [OF assms(1)]) (auto simp: ex_ok_def put_app_def has_wallet_def)
qed

lemma runAMLChecks_frame [simp]:
  "a_ID (runAMLChecks a) = a_ID a" "a_UserID (runAMLChecks a) = a_UserID a"
  "a_WalletID (runAMLChecks a) = a_WalletID a" "a_RequestedTier (runAMLChecks a) = a_RequestedTier a"
  "a_Status (runAMLChecks a) = a_Status a" "a_Country (runAMLChecks a) = a_Country a"
  by (simp_all add: runAMLChecks_def Let_def)

lemma new_app_ok:
  assumes "ex_ok k" "KYCSeq k < 2 ^ 63 - 1" "has_wallet k (a_WalletID a)"
    "a_ID a = application_id (add64 (KYCSeq k) 1)"
  shows "ex_ok (put_app (a_ID a) a (k\<lparr>KYCSeq := add64 (KYCSeq k) 1\<rparr>))" (is "ex_ok ?k")
proof -
  have "keys_from application_id (add64 (KYCSeq k) 1) (mput (a_ID a) a (KYCApps k))"
    unfolding assms(4) using assms(1,2)
    by (intro application_ids.insert_next) (auto simp: ex_ok_def apps_ok_def)
  then have "apps_ok ?k"
    using assms by (auto simp: ex_ok_def apps_ok_def put_app_def go_map has_wallet_def)
  then show ?thesis
    using assms(1) wallets_ok_frame [of k ?k]
    by (intro ex_ok_frame [OF assms(1)]) (auto simp: ex_ok_def put_app_def has_wallet_def)
qed

text \<open>
  An accepted submission: the application after the screening, the automatic decision on it,
  and the wallet it leaves.
\<close>

definition screened :: "time \<Rightarrow> exchange \<Rightarrow> wallet \<Rightarrow> kyc_application \<Rightarrow> kyc_application" where
  "screened now k w app =
     runAMLChecks (app\<lparr>a_ID := application_id (add64 (KYCSeq k) 1), a_Status := KYCStatusPending,
                       a_CurrentTier := w_KYCTier w, a_SubmittedAt := now\<rparr>)"

definition clean :: "kyc_application \<Rightarrow> bool" where
  "clean s \<longleftrightarrow> a_RequestedTier s = KYCTierBasic \<and> a_AMLRiskScore s < 30 \<and> \<not> a_PEPCheck s \<and>
     \<not> a_SanctionsCheck s"

definition decided :: "time \<Rightarrow> kyc_application \<Rightarrow> kyc_application" where
  "decided now s =
     (if a_SanctionsCheck s
      then s\<lparr>a_Status := KYCStatusRejected, a_RejectedReason := ''OFAC/EU sanctions list match''\<rparr>
      else if clean s then s\<lparr>a_Status := KYCStatusApproved, a_ApprovedAt := Some now\<rparr> else s)"

definition decided_wallet :: "kyc_application \<Rightarrow> wallet \<Rightarrow> wallet" where
  "decided_wallet s w =
     (if a_SanctionsCheck s then w\<lparr>w_Active := False\<rparr>
      else if clean s then w\<lparr>w_KYCTier := KYCTierBasic\<rparr> else w)"

definition pending :: "exchange \<Rightarrow> string \<Rightarrow> bool" where
  "pending k u \<longleftrightarrow> list_ex (\<lambda>(_, a). a_UserID a = u \<and> a_Status a = KYCStatusPending) (KYCApps k)"

lemma SubmitKYC_eq:
  "SubmitKYC now app k =
     (if pending k (a_UserID app) then (k, Inl ErrKYCAlreadyPending)
      else case mget (Wallets k) (a_WalletID app) of
        None \<Rightarrow> (k, Inl ErrWalletNotFound)
      | Some w \<Rightarrow>
          if w_KYCTier w \<ge> a_RequestedTier app then (k, Inl ErrKYCAlreadyApproved)
          else let s = screened now k w app; a = decided now s
               in (ex_save (put_app (a_ID a) a (put_wallet (a_WalletID app) (decided_wallet s w)
                     (k\<lparr>KYCSeq := add64 (KYCSeq k) 1\<rparr>))), Inr a))"
  unfolding SubmitKYC_def pending_def screened_def [symmetric]
  by (cases "mget (Wallets k) (a_WalletID app)"; simp add: Let_def)
     (auto simp: decided_def decided_wallet_def clean_def screened_def)

lemma decided_frame [simp]:
  "a_ID (decided now (screened now k w app)) = application_id (add64 (KYCSeq k) 1)"
  "a_WalletID (decided now (screened now k w app)) = a_WalletID app"
  "a_UserID (decided now (screened now k w app)) = a_UserID app"
  "a_RequestedTier (decided now (screened now k w app)) = a_RequestedTier app"
  by (simp_all add: decided_def screened_def)

lemma decided_wallet_frame [simp]:
  "w_ID (decided_wallet s w) = w_ID w" "w_UserID (decided_wallet s w) = w_UserID w"
  "w_Active (decided_wallet s w) \<Longrightarrow> w_Active w"
  "bal (decided_wallet s w) d = bal w d" "lck (decided_wallet s w) d = lck w d"
  by (auto simp: decided_wallet_def bal_def lck_def split: if_splits)

lemma put_wallet_KYCSeq:
  "put_wallet i w (k\<lparr>KYCSeq := n\<rparr>) = (put_wallet i w k)\<lparr>KYCSeq := n\<rparr>"
  by (cases k) (simp add: put_wallet_def)

lemma SubmitKYC_ok:
  assumes "ex_ok k" "KYCSeq k < 2 ^ 63 - 1"
  shows "ex_ok (fst (SubmitKYC now app k))"
proof (cases "mget (Wallets k) (a_WalletID app)")
  case (Some w)
  let ?s = "screened now k w app"
  have "ex_ok (put_wallet (a_WalletID app) (decided_wallet ?s w) k)"
    by (rule put_wallet_ok [OF assms(1) Some]) (use decided_wallet_frame in auto)
  from new_app_ok [OF this, of "decided now ?s"] assms Some show ?thesis
    by (auto simp: SubmitKYC_eq Let_def put_wallet_KYCSeq)
qed (use assms in \<open>simp add: SubmitKYC_eq\<close>)

lemma ApproveKYC_ok:
  assumes "ex_ok k" "ApproveKYC now i k = Some (k', r)"
  shows "ex_ok k'"
proof (cases r)
  case (Inr u)
  then obtain app w where a: "mget (KYCApps k) i = Some app" "mget (Wallets k) (a_WalletID app) = Some w"
    and k': "k' = ex_save (put_wallet (a_WalletID app) (w\<lparr>w_KYCTier := a_RequestedTier app\<rparr>)
      (put_app i (app\<lparr>a_Status := KYCStatusApproved, a_ApprovedAt := Some now,
                      a_ReviewedAt := Some now\<rparr>) k))"
    using assms(2)
    by (auto simp: ApproveKYC_def Let_def put_app_def split: option.splits if_splits bind_splits)
  show ?thesis unfolding k'
    by (intro ex_save_ok put_wallet_ok [where w = w] put_app_ok [OF assms(1) a(1)])
       (simp_all add: put_app_def a)
next
  case (Inl e)
  then show ?thesis using assms
    by (auto simp: ApproveKYC_def Let_def split: option.splits if_splits bind_splits)
qed

lemma ApproveKYC_total: "ex_ok k \<Longrightarrow> ApproveKYC now i k \<noteq> None"
proof (cases "mget (KYCApps k) i")
  case (Some a)
  moreover assume "ex_ok k"
  ultimately have "has_wallet k (a_WalletID a)" by (simp add: ex_ok_def apps_ok_def)
  then obtain w where "mget (Wallets k) (a_WalletID a) = Some w" by (auto simp: has_wallet_def)
  with Some show ?thesis by (simp add: ApproveKYC_def Let_def put_app_def)
qed (simp add: ApproveKYC_def)

lemma RejectKYC_ok: "ex_ok k \<Longrightarrow> ex_ok (fst (RejectKYC now i reason k))"
  by (auto simp: RejectKYC_def split: option.splits intro!: put_app_ok)

end
