(* ===== verification/ExchangePlace.thy ===== *)
theory ExchangePlace
  imports ExchangeInv
begin

text \<open>
  \<open>PlaceOrder\<close> and \<open>CancelOrder\<close> keep the invariant and do not panic. The state after an accepted
  order is described by \<open>placed\<close>: which orders changed and how, and what the two books of the
  pair hold.
\<close>

section \<open>Sorting a book\<close>

context sort_slice begin

lemma side_sort:
  "set (srt (side_less side k) xs) = set xs"
  "distinct (srt (side_less side k) xs) = distinct xs"
  "sorted_book side k (srt (side_less side k) xs)"
  using ordered [of "price_of k" xs] desc_ordered [of "price_of k" xs]
  by (cases side; simp add: side_less_def bid_less_def ask_less_def desc_set desc_distinct
      asc_set asc_distinct sorted_book_def price_key_def)+

end

lemmas side_sort = sort_slice.side_sort

section \<open>The state in which an accepted order is matched\<close>

lemma filed_frame [simp]:
  "Trades (filed wid w o0 k) = Trades k" "KYCApps (filed wid w o0 k) = KYCApps k"
  "Pairs (filed wid w o0 k) = Pairs k" "Config (filed wid w o0 k) = Config k"
  "WalletSeq (filed wid w o0 k) = WalletSeq k" "KYCSeq (filed wid w o0 k) = KYCSeq k"
  "OrderSeq (filed wid w o0 k) = add64 (OrderSeq k) 1"
  "Orders (filed wid w o0 k) = mput (o_ID o0) o0 (Orders k)"
  "Wallets (filed wid w o0 k) = mput wid w (Wallets k)"
  "book_at s (filed wid w o0 k) p = book_at s k p"
  by (simp_all add: filed_def)

lemma new_order_simps [simp]:
  "o_ID (new_order now n w wid pid side ot price q) = order_id n"
  "o_WalletID (new_order now n w wid pid side ot price q) = wid"
  "o_PairID (new_order now n w wid pid side ot price q) = pid"
  "o_Side (new_order now n w wid pid side ot price q) = side"
  "o_Type (new_order now n w wid pid side ot price q) = ot"
  "o_Price (new_order now n w wid pid side ot price q) = price"
  "o_Quantity (new_order now n w wid pid side ot price q) = q"
  "o_FilledQty (new_order now n w wid pid side ot price q) = 0"
  "o_RemainingQty (new_order now n w wid pid side ot price q) = q"
  "o_Status (new_order now n w wid pid side ot price q) = OrderStatusOpen"
  "o_UserID (new_order now n w wid pid side ot price q) = w_UserID w"
  by (simp_all add: new_order_def)

lemma new_order_qty: "0 < q \<Longrightarrow> in64 q \<Longrightarrow> qty_ok (new_order now n w wid pid side ot price q)"
  by (simp add: qty_ok_def)

lemma in_book_resting:
  assumes "orders_ok k" "in_book (opp (o_Side order)) (o_PairID order) k i"
  shows "resting order k i"
  using assms by (auto simp: in_book_def resting_def orders_ok_def)

lemma filed_loop_ok:
  assumes ok: "orders_ok k" "\<forall>s p. book_ok s p k" and w: "mget (Wallets k) wid \<noteq> None"
    and new: "mget (Orders k) (o_ID o0) = None" and o0: "qty_ok o0" "o_WalletID o0 = wid"
  shows "loop_ok (o_ID o0) (book_at (opp (o_Side o0)) k (o_PairID o0)) (filed wid w' o0 k)"
proof -
  let ?b = "book_at (opp (o_Side o0)) k (o_PairID o0)"
  have b: "distinct ?b" "\<And>i. i \<in> set ?b \<Longrightarrow> in_book (opp (o_Side o0)) (o_PairID o0) k i"
    using ok(2) by (auto simp: book_ok_def)
  have "o_ID o0 \<notin> set ?b" using b(2) [of "o_ID o0"] new by (auto simp: in_book_def)
  moreover have "resting o0 (filed wid w' o0 k) i" if "i \<in> set ?b" for i
    using in_book_resting [OF ok(1) b(2) [OF that]] new
    by (auto simp: resting_def has_wallet_def go_map)
  ultimately show ?thesis
    using b(1) o0 w by (auto simp: loop_ok_def go_map has_wallet_def)
qed

section \<open>No panic in the loop\<close>

lemma fill_order_some:
  assumes "mget (Wallets k) (o_WalletID maker) = Some m" "mget (Wallets k) (o_WalletID order) = Some w"
    "o_WalletID maker \<noteq> o_WalletID order"
  shows "fill_order now pair bh oid mid order maker k \<noteq> None"
  using assms by (simp add: fill_order_def Let_def settleTrade_eq [where m = m and w = w] new_trade_def)

lemma match_loop_some:
  "loop_ok oid book k \<Longrightarrow> match_loop now pair bh oid book k \<noteq> None"
proof (induction book arbitrary: k)
  case (Cons mid book)
  from Cons.prems obtain order where o: "mget (Orders k) oid = Some order" "resting order k mid"
    "has_wallet k (o_WalletID order)" by (auto simp: loop_ok_def)
  then obtain maker w m where m: "mget (Orders k) mid = Some maker"
    "mget (Wallets k) (o_WalletID maker) = Some m" "mget (Wallets k) (o_WalletID order) = Some w"
    by (auto simp: resting_def has_wallet_def)
  consider (stop) "\<not> 0 < o_RemainingQty order \<or> price_stop order maker"
    | (own) "0 < o_RemainingQty order" "\<not> price_stop order maker" "o_WalletID maker = o_WalletID order"
    | (fill) "0 < o_RemainingQty order" "\<not> price_stop order maker" "o_WalletID maker \<noteq> o_WalletID order"
    by blast
  then show ?case
  proof cases
    case own
    have "match_loop now pair bh oid book k \<noteq> None"
      by (rule Cons.IH [OF loop_ok_tl [OF Cons.prems]])
    with own o m show ?thesis by auto
  next
    case fill
    from fill_order_some [OF m(2,3) fill(3)] obtain k1 t where
      f: "fill_order now pair bh oid mid order maker k = Some (k1, t)" by fastforce
    have "match_loop now pair bh oid book k1 \<noteq> None"
      by (rule Cons.IH [OF fill_loop_ok [OF Cons.prems o(1) m(1) fill(1,3) f]])
    with fill o m f show ?thesis by auto
  qed (use o m in auto)
qed simp

section \<open>The state an accepted order leaves\<close>

lemma taker_done_simps [simp]:
  "o_FilledQty (taker_done now a) = o_FilledQty a" "o_RemainingQty (taker_done now a) = o_RemainingQty a"
  "qty_ok (taker_done now a) = qty_ok a"
  by (simp_all add: taker_done_def qty_ok_def)

lemma taker_done_ok:
  assumes "qty_ok a" "o_ID a = i" "o_Status a = OrderStatusOpen"
  shows "order_ok i (taker_done now a)" "live (taker_done now a) \<longleftrightarrow> 0 < o_RemainingQty a"
  using assms by (auto simp: order_ok_def taker_done_def qty_ok_def live_def)

lemma advanced_done: "advanced ts a b \<Longrightarrow> advanced ts a (taker_done now b)"
  by (auto simp: advanced_def intro: same_terms_trans)

lemma book_at_booked:
  "book_at s (booked srt side p oid b k) q =
     (if b \<and> s = side \<and> q = p then srt (side_less side k) (book_at side k p @ [oid]) else book_at s k q)"
  by (auto simp: booked_def add_to_book_eq)

definition accepted :: "exchange \<Rightarrow> exchange \<Rightarrow> order \<Rightarrow> trade list \<Rightarrow> string list \<Rightarrow> bool" where
  "accepted k k' order ts rest \<longleftrightarrow>
     mget (Orders k) (o_ID order) = None \<and> mget (Orders k') (o_ID order) = Some order \<and>
     order_ok (o_ID order) order \<and> o_FilledQty order = traded (o_ID order) ts \<and>
     o_Status order \<noteq> OrderStatusCancelled \<and>
     (\<forall>i a. mget (Orders k) i = Some a \<longrightarrow> (\<exists>b. mget (Orders k') i = Some b \<and> advanced ts a b \<and>
        o_FilledQty a \<le> o_FilledQty b \<and> order_ok i b \<and> (live b \<longrightarrow> live a) \<and>
        (i \<notin> set (book_at (opp (o_Side order)) k (o_PairID order)) \<longrightarrow> b = a) \<and>
        (i \<in> set (book_at (opp (o_Side order)) k (o_PairID order)) \<longrightarrow> (live b \<longleftrightarrow> i \<in> set rest)) \<and>
        (o_Status b \<noteq> OrderStatusCancelled \<or> b = a))) \<and>
     set (mkeys (Orders k')) = insert (o_ID order) (set (mkeys (Orders k))) \<and>
     keys_from order_id (OrderSeq k') (Orders k') \<and>
     Trades k' = Trades k @ ts \<and> list_all (trade_ok order) ts \<and>
     sorted (map (\<lambda>t. price_key (opp (o_Side order)) (t_Price t)) ts) \<and>
     (\<forall>t \<in> set ts. t_MakerOrder t \<in> set (book_at (opp (o_Side order)) k (o_PairID order)) \<and>
        t_Price t = price_of k (t_MakerOrder t)) \<and>
     subseq rest (book_at (opp (o_Side order)) k (o_PairID order)) \<and>
     (0 < o_RemainingQty order \<longrightarrow> list_all (unmatched order k') rest)"

lemma side_less_frame: "Orders k' = Orders k \<Longrightarrow> side_less s k' = side_less s k"
  by (simp add: side_less_def bid_less_def ask_less_def price_of_def fun_eq_iff)

lemma orders_okD:
  assumes "orders_ok k" "mget (Orders k) i = Some a"
  shows "order_ok i a" "o_ID a = i" "has_wallet k (o_WalletID a)" "mget (Pairs k) (o_PairID a) \<noteq> None"
    "o_FilledQty a = traded i (Trades k)" "qty_ok a"
proof -
  from assms show "order_ok i a" "has_wallet k (o_WalletID a)" "mget (Pairs k) (o_PairID a) \<noteq> None"
    "o_FilledQty a = traded i (Trades k)" unfolding orders_ok_def by blast+
  then show "o_ID a = i" "qty_ok a" by (simp_all add: order_ok_def)
qed

lemma loop_effect:
  assumes ok: "orders_ok k" "\<forall>s p. book_ok s p k" and new: "mget (Orders k) oid = None"
    and lk: "loop_ok oid (book_at (opp side) k pid) kf" and side: "o_Side o0 = side" "o_PairID o0 = pid"
    and kf: "Orders kf = mput oid o0 (Orders k)"
    and run: "match_loop now pair bh oid (book_at (opp side) k pid) kf = Some (k1, rest, ts)"
    and a: "mget (Orders k) i = Some a"
  shows "\<exists>b. mget (Orders k1) i = Some b \<and> advanced ts a b \<and> o_FilledQty a \<le> o_FilledQty b \<and>
     order_ok i b \<and> (live b \<longrightarrow> live a) \<and> (i \<notin> set (book_at (opp side) k pid) \<longrightarrow> b = a) \<and>
     (i \<in> set (book_at (opp side) k pid) \<longrightarrow> (live b \<longleftrightarrow> i \<in> set rest)) \<and>
     (o_Status b \<noteq> OrderStatusCancelled \<or> b = a)"
proof -
  have i: "i \<noteq> oid" using new a by auto
  have af: "mget (Orders kf) i = Some a" using i a by (simp add: kf go_map)
  from loop_advanced [OF run lk af] orders_okD [OF ok(1) a] obtain b where
    b: "mget (Orders k1) i = Some b" "advanced ts a b" "o_FilledQty a \<le> o_FilledQty b" by auto
  note R = loop_rest [OF run lk] and fr = loop_frame [OF run lk]
  show ?thesis
  proof (cases "i \<in> set (book_at (opp side) k pid)")
    case False
    then have "b = a" using fr i af b by auto
    then show ?thesis using b orders_okD [OF ok(1) a] False by auto
  next
    case True
    then have "live a" using ok(2) a by (auto simp: book_ok_def in_book_def)
    moreover have "order_ok i b \<and> (live b \<longleftrightarrow> i \<in> set rest) \<and> o_Status b \<noteq> OrderStatusCancelled"
    proof (cases "i \<in> set rest")
      case True
      then show ?thesis using R b(1) by (auto simp: loop_ok_def resting_def live_def)
    next
      case False
      with R True have "\<exists>m. mget (Orders k1) i = Some m \<and> order_ok i m \<and> o_Status m = OrderStatusFilled"
        by blast
      then show ?thesis using False b(1) by (auto simp: live_def)
    qed
    ultimately show ?thesis using b True by auto
  qed
qed

text \<open>The state in which the loop starts satisfies what the loop needs.\<close>

lemma filed_ready:
  assumes ok: "ex_ok k" and q: "in64 quantity" and seq: "OrderSeq k < 2 ^ 63 - 1"
    and c: "check_order now wid pid ot price quantity k = (kc, Inr (w, pair))"
    and o0: "o0 = new_order now (add64 (OrderSeq k) 1) w' wid pid side ot price quantity"
  shows "mget (Orders k) (o_ID o0) = None" "qty_ok o0"
    "loop_ok (o_ID o0) (book_at (opp side) k pid) (filed wid w' o0 kc)"
    "book_at s kc r = book_at s k r"
proof -
  note kc = check_order_frame [OF c] and D = check_orderD [OF c]
  have o_ok: "orders_ok k" and b_ok: "\<forall>s p. book_ok s p k" using ok by (simp_all add: ex_ok_def)
  then have "keys_from order_id (OrderSeq k) (Orders k)" by (simp add: orders_ok_def)
  then show new: "mget (Orders k) (o_ID o0) = None"
    using order_ids.fresh [OF _ seq] by (simp add: o0)
  have pos: "0 < quantity" using o_ok D(2,5) by (force simp: orders_ok_def)
  show qo: "qty_ok o0" unfolding o0 by (rule new_order_qty [OF pos q])
  show same: "book_at s kc r = book_at s k r" for s r by (rule book_at_same [OF kc(4)])
  have "orders_ok kc" by (rule orders_ok_frame [OF o_ok kc(2) _ kc(3)])
      (use kc in \<open>simp_all add: ex_same_def has_wallet_def\<close>)
  moreover have "\<forall>s p. book_ok s p kc"
    by (intro allI, rule book_ok_frame [of _ _ k]) (use b_ok kc in \<open>simp_all add: ex_same_def\<close>)
  ultimately show "loop_ok (o_ID o0) (book_at (opp side) k pid) (filed wid w' o0 kc)"
    using filed_loop_ok [of kc wid o0 w'] new D(1) qo kc(1,2) by (simp add: same o0)
qed

text \<open>The parts of an accepted order, by their effect.\<close>

lemma PlaceOrder_accepted:
  assumes run: "PlaceOrder srt now wid pid side ot price quantity bh k = Some (k', Inr (order, ts))"
    and ok: "ex_ok k" and q: "in64 quantity" and seq: "OrderSeq k < 2 ^ 63 - 1"
  obtains rest w pair where
    "accepted k k' order ts rest"
    "mget (Wallets k) wid = Some w" "mget (Pairs k) pid = Some pair"
    "o_WalletID order = wid" "o_PairID order = pid" "o_Side order = side" "o_Type order = ot"
    "o_Price order = price" "o_Quantity order = quantity" "o_UserID order = w_UserID w"
    "o_ID order = order_id (OrderSeq k + 1)" "tp_MinOrderSize pair \<le> quantity"
    "w_Active w" "KYCTierBasic \<le> w_KYCTier w"
    "\<And>s r. book_at s k' r =
       (if r = pid \<and> s = side \<and> 0 < o_RemainingQty order \<and> ot = OrderTypeLimit
        then srt (side_less side k') (book_at side k pid @ [o_ID order])
        else if r = pid \<and> s = opp side then rest else book_at s k r)"
    "Pairs k' = Pairs k" "KYCApps k' = KYCApps k" "WalletSeq k' = WalletSeq k"
    "KYCSeq k' = KYCSeq k" "Config k' = Config k" "mkeys (Wallets k') = mkeys (Wallets k)"
    "owners_kept k k'" "OrderSeq k' = OrderSeq k + 1"
  using run
proof (cases rule: PlaceOrderE)
  case (1 kc w pair w' o0 k1 rest order1)
  note kc = check_order_frame [OF 1(1)] and D = check_orderD [OF 1(1)]
  have o_ok: "orders_ok k" and b_ok: "\<forall>s p. book_ok s p k" and w_ok: "wallets_ok k"
    using ok by (simp_all add: ex_ok_def)
  have kf: "keys_from order_id (OrderSeq k) (Orders k)" using o_ok by (simp add: orders_ok_def)
  let ?f = "filed wid w' o0 kc" and ?oid = "o_ID o0"
  have oid: "?oid = order_id (add64 (OrderSeq k) 1)" by (simp add: 1(3))
  note ready = filed_ready [OF ok q seq 1(1,3)]
  note new = ready(1) and lk = ready(3) and same = ready(4)
  have w': "w' = add_locked (if side = OrderSideBuy then tp_QuoteDenom pair else tp_BaseDenom pair)
      (if side = OrderSideBuy then quote_amount price quantity else quantity) w"
    by (rule lock_fundsD [OF 1(2)])
  have side0: "o_Side o0 = side" "o_PairID o0 = pid" "o_WalletID o0 = wid" by (simp_all add: 1(3))
  have ord: "Orders ?f = mput ?oid o0 (Orders k)" by (simp add: kc(2))
  note eff = loop_effect [OF o_ok b_ok new lk side0(1,2) ord 1(4)]
  have of: "mget (Orders ?f) ?oid = Some o0" by (simp add: go_map)
  from loop_taker [OF 1(4) lk of] 1(5) have t: "advanced ts o0 order1" "qty_ok order1"
    "o_Status order1 = OrderStatusOpen" "o_RemainingQty order1 \<le> quantity"
    by (auto simp: 1(3))
  have adv: "advanced ts o0 order" unfolding 1(6) by (rule advanced_done [OF t(1)])
  then have terms: "o_ID order = ?oid" "o_WalletID order = wid" "o_PairID order = pid"
    "o_Side order = side" "o_Type order = ot" "o_Price order = price" "o_Quantity order = quantity"
    "o_UserID order = w_UserID w"
    by (simp_all add: advanced_def same_terms_def 1(3) w')
  have t1: "o_Side order1 = side" "o_PairID order1 = pid" "o_ID order1 = ?oid"
    using t(1) side0 by (auto simp: advanced_def same_terms_def)
  have ook: "order_ok ?oid order" "live order \<longleftrightarrow> 0 < o_RemainingQty order"
    "o_Status order \<noteq> OrderStatusCancelled"
    unfolding 1(6) using taker_done_ok [OF t(2) t1(3) t(3)] t(3) by (auto simp: taker_done_def)
  have Ord: "Orders k' = mput ?oid order (Orders k1)" by (simp add: 1(7))
  note fr = loop_frame [OF 1(4) lk] and R = loop_rest [OF 1(4) lk]
  have keys: "mkeys (Orders k') = mkeys (Orders k) @ [?oid]"
    using fr 1(5) new by (simp add: Ord mput_keys kc(2) mput_new)
  have price: "price_of ?f i = price_of k i" if "i \<in> set (book_at (opp side) k pid)" for i
    using that lk by (auto simp: price_of_def kc(2) go_map loop_ok_def)
  then have eq: "map (\<lambda>i. price_key (opp side) (price_of ?f i)) (book_at (opp side) k pid) =
      map (\<lambda>i. price_key (opp side) (price_of k i)) (book_at (opp side) k pid)" by simp
  have "sorted_book (opp side) k (book_at (opp side) k pid)" using b_ok unfolding book_ok_def by blast
  then have srt_b: "sorted_book (opp (o_Side o0)) ?f (book_at (opp side) k pid)"
    unfolding sorted_book_def side0 eq .
  have st: "same_terms o0 order" using adv by (simp add: advanced_def)
  note T = loop_trades [OF 1(4) lk of srt_b]
  have tr: "Trades k' = Trades k @ ts" "ex_same ?f k1"
    using match_loop_trades [OF 1(4)] kc(3) by (simp_all add: 1(7))
  have unm: "list_all (unmatched order k') rest" if "0 < o_RemainingQty order"
  proof -
    have "list_all (unmatched o0 k1) rest"
      by (rule loop_stop [OF 1(4) lk of srt_b 1(5)]) (use that in \<open>simp add: 1(6)\<close>)
    moreover have "?oid \<notin> set rest" using R by (simp add: loop_ok_def)
    ultimately show ?thesis using unmatched_cong [OF st]
      by (auto simp: list_all_iff unmatched_def Ord go_map)
  qed
  have acc: "accepted k k' order ts rest"
    unfolding accepted_def terms
  proof (intro conjI allI impI)
    show "mget (Orders k') (?oid) = Some order" by (simp add: Ord go_map)
    show "o_FilledQty order = traded ?oid ts" using adv by (simp add: advanced_def 1(3))
    show "\<exists>b. mget (Orders k') i = Some b \<and> advanced ts a b \<and> o_FilledQty a \<le> o_FilledQty b \<and>
       order_ok i b \<and> (live b \<longrightarrow> live a) \<and> (i \<notin> set (book_at (opp side) k pid) \<longrightarrow> b = a) \<and>
       (i \<in> set (book_at (opp side) k pid) \<longrightarrow> (live b \<longleftrightarrow> i \<in> set rest)) \<and>
       (o_Status b \<noteq> OrderStatusCancelled \<or> b = a)" if a: "mget (Orders k) i = Some a" for i a
      using eff [OF a] a new by (auto simp: Ord go_map)
    show "set (mkeys (Orders k')) = insert ?oid (set (mkeys (Orders k)))" by (simp add: keys)
    show "keys_from order_id (OrderSeq k') (Orders k')"
    proof -
      have "OrderSeq k' = add64 (OrderSeq k) 1"
        using tr(2) kc(4) by (simp add: 1(7) ex_same_def)
      moreover have "keys_from order_id (add64 (OrderSeq k) 1) (mput ?oid o0 (Orders k))"
        unfolding oid by (rule order_ids.insert_next [OF kf seq])
      moreover have "mkeys (mput ?oid o0 (Orders k)) = mkeys (Orders k')"
        using new by (simp add: keys mput_new)
      ultimately show ?thesis unfolding keys_from_def by metis
    qed
    show "list_all (trade_ok order) ts" using T trade_ok_cong [OF st] by (simp add: list_all_iff)
    show "sorted (map (\<lambda>t. price_key (opp side) (t_Price t)) ts)" using T side0 by simp
    show "\<forall>t \<in> set ts. t_MakerOrder t \<in> set (book_at (opp side) k pid) \<and> t_Price t = price_of k (t_MakerOrder t)"
      using T price by auto
    show "subseq rest (book_at (opp side) k pid)" using R by simp
  qed (use new ook tr unm in auto)
  have books: "book_at s k' r =
       (if r = pid \<and> s = side \<and> 0 < o_RemainingQty order \<and> ot = OrderTypeLimit
        then srt (side_less side k') (book_at side k pid @ [o_ID order])
        else if r = pid \<and> s = opp side then rest else book_at s k r)" for s r
  proof -
    let ?m = "put_book (opp side) pid rest (put_order ?oid order k1)"
    let ?b = "0 < o_RemainingQty order \<and> ot = OrderTypeLimit"
    have "book_at s k1 r = book_at s k r" for s r
      using book_at_same [OF tr(2)] same by simp
    moreover have "book_at s k' r = book_at s (booked srt side pid ?oid ?b ?m) r"
      by (simp add: 1(7) t1)
    moreover have "side_less side k' = side_less side ?m"
      by (rule side_less_frame) (simp add: Ord)
    ultimately show ?thesis by (auto simp: book_at_booked terms)
  qed
  have "add64 (OrderSeq k) 1 = OrderSeq k + 1" by (rule keys_from_next [OF kf seq])
  moreover from this have "OrderSeq k' = OrderSeq k + 1"
    using tr(2) kc(4) by (simp add: 1(7) ex_same_def)
  moreover have "Pairs k' = Pairs k" "KYCApps k' = KYCApps k" "WalletSeq k' = WalletSeq k"
    "KYCSeq k' = KYCSeq k" "Config k' = Config k"
    using tr(2) kc(4) by (simp_all add: 1(7) ex_same_def)
  moreover have "mkeys (Wallets k') = mkeys (Wallets k)"
    using fr kc(1) D(1) by (simp add: 1(7) mput_keys)
  moreover have "owners_kept k k'"
  proof -
    have "owners_kept k ?f"
      using D(1) kc(1) w' by (auto simp: owners_kept_def go_map same_owner_def)
    moreover have "owners_kept k1 k'" by (simp add: 1(7))
    ultimately show ?thesis using match_loop_owners [OF 1(4)] by (blast intro: owners_kept_trans)
  qed
  ultimately show ?thesis
    using that [OF acc D(1,2) terms(2-8) _ D(5,3,4) books] terms(1) oid by simp
qed

section \<open>Accepted orders keep the invariant\<close>

lemma acceptedD:
  assumes "accepted k k' order ts rest"
  shows "mget (Orders k) (o_ID order) = None" "mget (Orders k') (o_ID order) = Some order"
    "order_ok (o_ID order) order" "o_FilledQty order = traded (o_ID order) ts"
    "keys_from order_id (OrderSeq k') (Orders k')" "Trades k' = Trades k @ ts"
    "list_all (trade_ok order) ts"
    "\<And>t. t \<in> set ts \<Longrightarrow> t_MakerOrder t \<in> set (book_at (opp (o_Side order)) k (o_PairID order))"
    "subseq rest (book_at (opp (o_Side order)) k (o_PairID order))"
    "0 < o_RemainingQty order \<Longrightarrow> list_all (unmatched order k') rest"
    "o_Status order \<noteq> OrderStatusCancelled"
  using assms by (simp_all add: accepted_def)

lemma accepted_old:
  assumes "accepted k k' order ts rest" "mget (Orders k) i = Some a"
  obtains b where "mget (Orders k') i = Some b" "advanced ts a b" "order_ok i b"
    "live b \<Longrightarrow> live a" "o_FilledQty a \<le> o_FilledQty b" "i \<noteq> o_ID order"
    "i \<notin> set (book_at (opp (o_Side order)) k (o_PairID order)) \<Longrightarrow> b = a"
    "i \<in> set (book_at (opp (o_Side order)) k (o_PairID order)) \<Longrightarrow> live b \<longleftrightarrow> i \<in> set rest"
    "o_Status b \<noteq> OrderStatusCancelled \<or> b = a"
  using assms unfolding accepted_def by (metis option.distinct(1))

lemma accepted_cases:
  assumes acc: "accepted k k' order ts rest" and b: "mget (Orders k') i = Some b"
  obtains (new) "i = o_ID order" "b = order"
  | (old) a where "mget (Orders k) i = Some a" "advanced ts a b" "order_ok i b"
    "live b \<Longrightarrow> live a" "i \<noteq> o_ID order"
    "i \<notin> set (book_at (opp (o_Side order)) k (o_PairID order)) \<Longrightarrow> b = a"
    "i \<in> set (book_at (opp (o_Side order)) k (o_PairID order)) \<Longrightarrow> live b \<longleftrightarrow> i \<in> set rest"
proof (cases "i = o_ID order")
  case True
  then show ?thesis using new acceptedD(2) [OF acc] b by simp
next
  case False
  have "i \<in> set (mkeys (Orders k'))" using b by (metis mget_None option.distinct(1))
  then have "i \<in> set (mkeys (Orders k))" using acc False by (auto simp: accepted_def simp del: set_map)
  then obtain a where a: "mget (Orders k) i = Some a" by (metis mget_None not_None_eq)
  from acc a show ?thesis by (rule accepted_old) (use b a False in \<open>auto intro: old\<close>)
qed

lemma traded_none: "(\<And>t. t \<in> set ts \<Longrightarrow> t_MakerOrder t \<noteq> i \<and> t_TakerOrder t \<noteq> i) \<Longrightarrow> traded i ts = 0"
  by (induction ts) auto

lemma traded_new:
  assumes "orders_ok k" "mget (Orders k) i = None"
  shows "traded i (Trades k) = 0"
  using assms by (intro traded_none) (auto simp: orders_ok_def)

lemma accepted_orders_ok:
  assumes acc: "accepted k k' order ts rest" and ok: "orders_ok k" and bk: "\<forall>s p. book_ok s p k"
    and fr: "Pairs k' = Pairs k" "mkeys (Wallets k') = mkeys (Wallets k)"
    and w: "has_wallet k (o_WalletID order)" "mget (Pairs k) (o_PairID order) \<noteq> None"
  shows "orders_ok k'"
  unfolding orders_ok_def
proof (intro conjI allI impI ballI)
  note D = acceptedD [OF acc] and hw = has_wallet_keys [OF fr(2)]
  show "keys_from order_id (OrderSeq k') (Orders k')" by (rule D)
  show "0 < tp_MinOrderSize pair" if "mget (Pairs k') p = Some pair" for p pair
    using that ok unfolding fr by (auto simp: orders_ok_def)
  fix i b assume b: "mget (Orders k') i = Some b"
  have *: "order_ok i b \<and> has_wallet k' (o_WalletID b) \<and> mget (Pairs k') (o_PairID b) \<noteq> None \<and>
      o_FilledQty b = traded i (Trades k')"
    using acc b
  proof (cases rule: accepted_cases)
    case new
    then show ?thesis using D w traded_new [OF ok D(1)] by (simp add: hw fr)
  next
    case (old a)
    then show ?thesis using orders_okD [OF ok old(1)] by (simp add: hw fr D(6) advanced_def same_terms_def)
  qed
  then show "order_ok i b" "has_wallet k' (o_WalletID b)" "mget (Pairs k') (o_PairID b) \<noteq> None"
    "o_FilledQty b = traded i (Trades k')" by auto
next
  note D = acceptedD [OF acc]
  have old: "mget (Orders k') i \<noteq> None" if "mget (Orders k) i \<noteq> None" for i
    using that acc by (auto elim: accepted_old)
  fix t assume "t \<in> set (Trades k')"
  then consider "t \<in> set (Trades k)" | "t \<in> set ts" by (auto simp: D(6))
  then have "mget (Orders k') (t_MakerOrder t) \<noteq> None \<and> mget (Orders k') (t_TakerOrder t) \<noteq> None"
  proof cases
    case 1
    then have "mget (Orders k) (t_MakerOrder t) \<noteq> None" "mget (Orders k) (t_TakerOrder t) \<noteq> None"
      using ok unfolding orders_ok_def by blast+
    then show ?thesis using old by blast
  next
    case 2
    then have "mget (Orders k) (t_MakerOrder t) \<noteq> None"
      using D(8) [OF 2] bk by (auto simp: book_ok_def in_book_def)
    moreover have "t_TakerOrder t = o_ID order" using D(7) 2 by (simp add: list_all_iff trade_ok_def)
    ultimately show ?thesis using old D(2) by simp
  qed
  then show "mget (Orders k') (t_MakerOrder t) \<noteq> None" "mget (Orders k') (t_TakerOrder t) \<noteq> None" by auto
qed

text \<open>Which orders are in a book afterwards.\<close>

lemma in_book_terms:
  "mget (Orders k) i = Some a \<Longrightarrow> mget (Orders k') i = Some b \<Longrightarrow> same_terms a b \<Longrightarrow>
   in_book s p k' i \<longleftrightarrow> live b \<and> o_Type a = OrderTypeLimit \<and> o_Side a = s \<and> o_PairID a = p"
  by (simp add: in_book_def same_terms_def)

lemma accepted_in_book:
  assumes acc: "accepted k k' order ts rest"
    and bk: "\<And>i. i \<in> set (book_at (opp (o_Side order)) k (o_PairID order)) \<longleftrightarrow>
               in_book (opp (o_Side order)) (o_PairID order) k i"
  shows "in_book s p k' i \<longleftrightarrow>
     (if i = o_ID order then live order \<and> o_Type order = OrderTypeLimit \<and> s = o_Side order \<and>
        p = o_PairID order
      else if s = opp (o_Side order) \<and> p = o_PairID order then i \<in> set rest
      else in_book s p k i)"
proof -
  note D = acceptedD [OF acc]
  consider "i = o_ID order" | a where "i \<noteq> o_ID order" "mget (Orders k) i = Some a"
    | "i \<noteq> o_ID order" "mget (Orders k) i = None" by (cases "mget (Orders k) i") auto
  then show ?thesis
  proof cases
    case 1
    then show ?thesis using D(2) by (auto simp: in_book_def)
  next
    case (2 a)
    from acc 2(2) obtain b where b0: "mget (Orders k') i = Some b" "advanced ts a b" "order_ok i b"
      "live b \<Longrightarrow> live a" "o_FilledQty a \<le> o_FilledQty b" "i \<noteq> o_ID order"
      "i \<notin> set (book_at (opp (o_Side order)) k (o_PairID order)) \<Longrightarrow> b = a"
      "i \<in> set (book_at (opp (o_Side order)) k (o_PairID order)) \<Longrightarrow> live b \<longleftrightarrow> i \<in> set rest"
      "o_Status b \<noteq> OrderStatusCancelled \<or> b = a"
      by (rule accepted_old) (rule that; blast)
    have "same_terms a b" using b0(2) by (simp add: advanced_def)
    note b = b0(1) this b0(4,7,8)
    have k: "in_book s p k i \<longleftrightarrow> live a \<and> o_Type a = OrderTypeLimit \<and> o_Side a = s \<and> o_PairID a = p" for s p
      by (simp add: in_book_def 2(2))
    have rb: "i \<in> set rest \<Longrightarrow> i \<in> set (book_at (opp (o_Side order)) k (o_PairID order))"
      using subseq_set [OF D(9)] by auto
    show ?thesis
    proof (cases "i \<in> set (book_at (opp (o_Side order)) k (o_PairID order))")
      case True
      then have ib: "live a" "o_Type a = OrderTypeLimit" "o_Side a = opp (o_Side order)"
        "o_PairID a = o_PairID order" using bk k by auto
      have "in_book s p k' i \<longleftrightarrow> i \<in> set rest \<and> s = opp (o_Side order) \<and> p = o_PairID order"
        unfolding in_book_terms [OF 2(2) b(1,2)] using ib b(5) [OF True] by auto
      moreover have "in_book s p k i \<longleftrightarrow> s = opp (o_Side order) \<and> p = o_PairID order"
        unfolding k using ib by auto
      ultimately show ?thesis using 2(1) by auto
    next
      case False
      then have ba: "b = a" and "i \<notin> set rest" using b(4) rb by auto
      moreover have "\<not> in_book (opp (o_Side order)) (o_PairID order) k i" using False bk by simp
      moreover have "in_book s p k' i \<longleftrightarrow> in_book s p k i"
        unfolding in_book_terms [OF 2(2) b(1,2)] k ba by auto
      ultimately show ?thesis using 2(1)
        by (cases "s = opp (o_Side order) \<and> p = o_PairID order") simp_all
    qed
  next
    case 3
    have "mget (Orders k') i = None"
    proof (cases "mget (Orders k') i")
      case (Some b)
      with acc show ?thesis by (cases rule: accepted_cases) (use 3 in auto)
    qed
    moreover have "i \<notin> set rest"
      using subseq_set [OF D(9)] bk [of i] 3 by (auto simp: in_book_def)
    ultimately show ?thesis using 3 by (simp add: in_book_def)
  qed
qed

lemma accepted_price:
  assumes "accepted k k' order ts rest" "mget (Orders k) i = Some a"
  shows "price_of k' i = price_of k i"
  using assms by (elim accepted_old) (auto simp: price_of_def advanced_def same_terms_def)

lemma sorted_book_cong:
  "(\<And>i. i \<in> set b \<Longrightarrow> price_of k' i = price_of k i) \<Longrightarrow> sorted_book s k' b = sorted_book s k b"
proof -
  assume "\<And>i. i \<in> set b \<Longrightarrow> price_of k' i = price_of k i"
  then have "map (\<lambda>i. price_key s (price_of k' i)) b = map (\<lambda>i. price_key s (price_of k i)) b" by simp
  then show ?thesis unfolding sorted_book_def by metis
qed

lemma book_okD:
  assumes "book_ok s p k"
  shows "distinct (book_at s k p)" "sorted_book s k (book_at s k p)"
    "i \<in> set (book_at s k p) \<longleftrightarrow> in_book s p k i"
  using assms by (auto simp: book_ok_def)

lemma accepted_book_ok:
  assumes srt: "sort_slice srt" and acc: "accepted k k' order ts rest"
    and ok: "\<forall>s p. book_ok s p k"
    and bk: "\<And>s r. book_at s k' r =
       (if r = o_PairID order \<and> s = o_Side order \<and> 0 < o_RemainingQty order \<and> o_Type order = OrderTypeLimit
        then srt (side_less (o_Side order) k') (book_at (o_Side order) k (o_PairID order) @ [o_ID order])
        else if r = o_PairID order \<and> s = opp (o_Side order) then rest else book_at s k r)"
  shows "book_ok s p k'"
proof -
  note D = acceptedD [OF acc] and B = book_okD [OF ok [rule_format]]
  note IB = accepted_in_book [OF acc B(3)]
  have live: "live order \<longleftrightarrow> 0 < o_RemainingQty order"
    using D(11) order_ok_not_live [OF D(3)] order_ok_live [OF D(3)] by (cases "live order") auto
  have new: "o_ID order \<notin> set (book_at s k r)" for s r
    using B(3) D(1) by (auto simp: in_book_def)
  have pr: "price_of k' i = price_of k i" if "i \<in> set (book_at s k r)" for i s r
    using that B(3) by (auto simp: in_book_def intro: accepted_price [OF acc])
  consider (own) "p = o_PairID order" "s = o_Side order" "0 < o_RemainingQty order"
      "o_Type order = OrderTypeLimit"
    | (opp) "p = o_PairID order" "s = opp (o_Side order)"
    | (other) "p \<noteq> o_PairID order \<or> s = o_Side order \<and>
        \<not> (0 < o_RemainingQty order \<and> o_Type order = OrderTypeLimit)"
    using not_side by blast
  then show ?thesis
  proof cases
    case own
    have "in_book s p k' i \<longleftrightarrow> i = o_ID order \<or> in_book s p k i" for i
      using IB [of s p i] own live by auto
    then show ?thesis
      using own B new unfolding book_ok_def bk by (auto simp: side_sort [OF srt])
  next
    case opp
    have sub: "set rest \<subseteq> set (book_at s k p)" using subseq_set [OF D(9)] opp by simp
    have "sorted_book s k' rest = sorted_book s k rest"
      using pr sub by (intro sorted_book_cong) blast
    moreover have "sorted_book s k rest"
      using subseq_sorted [OF D(9)] B(2) opp by (auto simp: sorted_book_def)
    moreover have "in_book s p k' i \<longleftrightarrow> i \<in> set rest" for i
      using IB [of s p i] opp new sub by auto
    moreover have "distinct rest" using subseq_distinct [OF D(9)] B(1) by simp
    ultimately show ?thesis using opp unfolding book_ok_def bk by auto
  next
    case other
    then have at: "book_at s k' p = book_at s k p" using bk by auto
    have "in_book s p k' i \<longleftrightarrow> in_book s p k i" for i
      using IB [of s p i] other live new B(3) by auto
    moreover have "sorted_book s k' (book_at s k p) = sorted_book s k (book_at s k p)"
      using pr by (intro sorted_book_cong) blast
    ultimately show ?thesis using B at unfolding book_ok_def at by auto
  qed
qed

lemma accepted_uncrossed:
  assumes acc: "accepted k k' order ts rest" and ok: "\<forall>s p. book_ok s p k" "uncrossed k"
  shows "uncrossed k'"
  unfolding uncrossed_def
proof (intro allI impI)
  fix p i j a b
  assume i: "in_book OrderSideBuy p k' i" and j: "in_book OrderSideSell p k' j"
    and a: "mget (Orders k') i = Some a" and b: "mget (Orders k') j = Some b"
  note D = acceptedD [OF acc] and B = book_okD [OF ok(1) [rule_format]]
  note IB = accepted_in_book [OF acc B(3)]
  have old: "in_book s p k l \<and> (\<exists>c. mget (Orders k) l = Some c \<and> same_terms c d)"
    if "in_book s p k' l" "l \<noteq> o_ID order" "mget (Orders k') l = Some d" for s l d
  proof -
    have "in_book s p k l"
      using that IB [of s p l] B(3) subseq_set [OF D(9)] by (auto split: if_splits)
    moreover from acc that(3) have "\<exists>c. mget (Orders k) l = Some c \<and> same_terms c d"
      by (cases rule: accepted_cases) (use that(2) in \<open>auto simp: advanced_def\<close>)
    ultimately show ?thesis by simp
  qed
  have un: "unmatched order k' l"
    if "in_book (opp (o_Side order)) (o_PairID order) k' l" "live order" for l
  proof -
    have "l \<in> set rest"
      using that(1) IB [of "opp (o_Side order)" "o_PairID order" l] by (auto split: if_splits)
    then show ?thesis using D(10) order_ok_live [OF D(3) that(2)] by (simp add: list_all_iff)
  qed
  show "o_Price a < o_Price b \<or> o_WalletID a = o_WalletID b"
  proof (cases "i = o_ID order \<or> j = o_ID order")
    case False
    with old [OF i _ a] old [OF j _ b] obtain c d where
      c: "in_book OrderSideBuy p k i" "mget (Orders k) i = Some c" "same_terms c a"
      and d: "in_book OrderSideSell p k j" "mget (Orders k) j = Some d" "same_terms d b" by blast
    from ok(2) c(1,2) d(1,2) have "o_Price c < o_Price d \<or> o_WalletID c = o_WalletID d"
      unfolding uncrossed_def by blast
    then show ?thesis using c(3) d(3) by (simp add: same_terms_def)
  next
    case True
    then show ?thesis
    proof
      assume "i = o_ID order"
      then have "a = order" using a D(2) by simp
      with \<open>i = o_ID order\<close> i j b un [of j] show ?thesis
        using IB [of OrderSideBuy p i] by (auto simp: unmatched_def price_stop_def)
    next
      assume "j = o_ID order"
      then have "b = order" using b D(2) by simp
      with \<open>j = o_ID order\<close> i j a un [of i] show ?thesis
        using IB [of OrderSideSell p j] by (auto simp: unmatched_def price_stop_def)
    qed
  qed
qed

lemma PlaceOrder_ok:
  assumes srt: "sort_slice srt" and ok: "ex_ok k" and q: "in64 quantity" "OrderSeq k < 2 ^ 63 - 1"
    and run: "PlaceOrder srt now wid pid side ot price quantity bh k = Some (k', r)"
  shows "ex_ok k'"
proof (cases r)
  case (Inl e)
  note E = PlaceOrder_error [OF run [unfolded Inl]]
  then have "wallets_ok k'" "apps_ok k'"
    using ok wallets_ok_frame [of k k'] apps_ok_frame [of k k'] by (auto simp: ex_ok_def ex_same_def has_wallet_def)
  then show ?thesis by (rule ex_ok_frame [OF ok]) (use E in \<open>simp_all add: ex_same_def has_wallet_def\<close>)
next
  case (Inr res)
  obtain order ts where "res = (order, ts)" by fastforce
  with run Inr have "PlaceOrder srt now wid pid side ot price quantity bh k = Some (k', Inr (order, ts))"
    by simp
  then show ?thesis
  proof (rule PlaceOrder_accepted [OF _ ok q])
    fix rest w pair
    assume acc: "accepted k k' order ts rest" and w: "mget (Wallets k) wid = Some w"
      and p: "mget (Pairs k) pid = Some pair"
      and o: "o_WalletID order = wid" "o_PairID order = pid" "o_Side order = side" "o_Type order = ot"
      and bk: "\<And>s r. book_at s k' r =
         (if r = pid \<and> s = side \<and> 0 < o_RemainingQty order \<and> ot = OrderTypeLimit
          then srt (side_less side k') (book_at side k pid @ [o_ID order])
          else if r = pid \<and> s = opp side then rest else book_at s k r)"
      and fr: "Pairs k' = Pairs k" "KYCApps k' = KYCApps k" "WalletSeq k' = WalletSeq k"
        "KYCSeq k' = KYCSeq k" "mkeys (Wallets k') = mkeys (Wallets k)"
      and ow: "owners_kept k k'"
    have b: "\<forall>s p. book_ok s p k" using ok by (simp add: ex_ok_def)
    have "orders_ok k'"
      by (rule accepted_orders_ok [OF acc _ b fr(1,5)]) (use ok w p o in \<open>simp_all add: ex_ok_def has_wallet_def\<close>)
    moreover have "book_ok s p k'" for s p
      using accepted_book_ok [OF srt acc b] bk unfolding o by blast
    moreover have "uncrossed k'"
      by (rule accepted_uncrossed [OF acc b]) (use ok in \<open>simp add: ex_ok_def\<close>)
    moreover have "apps_ok k'"
      by (rule apps_ok_frame [of k])
         (use ok fr has_wallet_keys [OF fr(5)] in \<open>simp_all add: ex_ok_def\<close>)
    moreover have "wallets_ok k'"
      by (rule wallets_ok_owners [OF _ ow fr(5,3)]) (use ok in \<open>simp add: ex_ok_def\<close>)
    ultimately show "ex_ok k'" by (simp add: ex_ok_def)
  qed
qed

section \<open>No panic\<close>

lemma matchOrder_some:
  assumes o: "mget (Orders k) oid = Some a"
    and ok: "loop_ok oid (book_at (opp (o_Side a)) k (o_PairID a)) k"
  shows "\<exists>k' ts b. matchOrder now pair bh oid k = Some (k', ts) \<and> mget (Orders k') oid = Some b"
proof -
  from match_loop_some [OF ok] obtain k1 rest ts where
    l: "match_loop now pair bh oid (book_at (opp (o_Side a)) k (o_PairID a)) k = Some (k1, rest, ts)"
    by fastforce
  from loop_taker [OF l ok o] obtain b where "mget (Orders k1) oid = Some b" by blast
  then show ?thesis using l o
    by (cases "o_Side a") (auto simp: matchOrder_def Let_def book_at_def go_map)
qed

lemma enter_order_eq:
  "o0 = new_order now (add64 (OrderSeq k) 1) w wid pid side ot price quantity \<Longrightarrow>
   matchOrder now pair bh (o_ID o0) (filed wid w o0 k) = Some (k1, ts) \<Longrightarrow>
   mget (Orders k1) (o_ID o0) = Some a \<Longrightarrow>
   enter_order srt now bh w pair wid pid side ot price quantity k \<noteq> None"
  by (simp add: enter_order_def filed_def Let_def)

lemma PlaceOrder_some:
  assumes ok: "ex_ok k" and q: "in64 quantity" and seq: "OrderSeq k < 2 ^ 63 - 1"
  shows "PlaceOrder srt now wid pid side ot price quantity bh k \<noteq> None"
proof (cases "check_order now wid pid ot price quantity k")
  case (Pair kc r)
  show ?thesis
  proof (cases r)
    case (Inr wp)
    obtain w pair where wp: "wp = (w, pair)" by fastforce
    show ?thesis
    proof (cases "lock_funds side price quantity pair w")
      case (Some w')
      define o0 where "o0 = new_order now (add64 (OrderSeq k) 1) w' wid pid side ot price quantity"
      let ?f = "filed wid w' o0 kc"
      from Pair Inr wp have c: "check_order now wid pid ot price quantity k = (kc, Inr (w, pair))" by simp
      note ready = filed_ready [OF ok q seq c o0_def]
      have of: "mget (Orders ?f) (o_ID o0) = Some o0" by (simp add: go_map)
      have "loop_ok (o_ID o0) (book_at (opp (o_Side o0)) ?f (o_PairID o0)) ?f"
        using ready(3,4) by (simp add: o0_def)
      from matchOrder_some [OF of this, of now pair bh] obtain k1 ts b where
        m: "matchOrder now pair bh (o_ID o0) ?f = Some (k1, ts)" "mget (Orders k1) (o_ID o0) = Some b"
        by blast
      have "o0 = new_order now (add64 (OrderSeq kc) 1) w' wid pid side ot price quantity"
        using check_order_frame(4) [OF c] by (simp add: ex_same_def o0_def)
      from enter_order_eq [OF this m]
      have "enter_order srt now bh w' pair wid pid side ot price quantity kc \<noteq> None" .
      then show ?thesis using c Some by (auto simp: PlaceOrder_def)
    qed (use Pair Inr wp in \<open>simp add: PlaceOrder_def\<close>)
  qed (use Pair in \<open>simp add: PlaceOrder_def\<close>)
qed

section \<open>Cancelling\<close>

text \<open>What a cancellation that succeeds does.\<close>

lemma CancelOrderE:
  assumes "CancelOrder now oid wid k = Some (k', Inr ())"
  obtains a w pair where "mget (Orders k) oid = Some a" "o_WalletID a = wid"
    "o_Status a \<noteq> OrderStatusFilled" "o_Status a \<noteq> OrderStatusCancelled"
    "mget (Wallets k) wid = Some w" "mget (Pairs k) (o_PairID a) = Some pair"
    "k' = ex_save (removeFromBook (a\<lparr>o_Status := OrderStatusCancelled, o_UpdatedAt := now\<rparr>)
            (put_order oid (a\<lparr>o_Status := OrderStatusCancelled, o_UpdatedAt := now\<rparr>)
              (put_wallet wid (unlock_funds a pair w) k)))"
  using assms
  by (auto simp: CancelOrder_def Let_def split: option.splits if_splits bind_splits)

lemma removeFromBook_eq:
  "removeFromBook a k =
     (if o_ID a \<in> set (book_at (o_Side a) k (o_PairID a))
      then put_book (o_Side a) (o_PairID a) (remove1 (o_ID a) (book_at (o_Side a) k (o_PairID a))) k
      else k)"
  by (cases "o_Side a") (simp_all add: removeFromBook_def Let_def book_at_def put_book_def)

lemma CancelOrder_some:
  assumes "ex_ok k"
  shows "CancelOrder now oid wid k \<noteq> None"
proof (cases "mget (Orders k) oid")
  case (Some a)
  with assms have "has_wallet k (o_WalletID a)" "mget (Pairs k) (o_PairID a) \<noteq> None"
    by (auto simp: ex_ok_def dest: orders_okD)
  then show ?thesis using Some by (auto simp: CancelOrder_def Let_def has_wallet_def)
qed (simp add: CancelOrder_def)

lemma cancelled_book:
  assumes bk: "book_ok s p k" and a: "mget (Orders k) (o_ID a) = Some a"
    and c: "c = a\<lparr>o_Status := OrderStatusCancelled, o_UpdatedAt := now\<rparr>"
    and o: "Orders k' = mput (o_ID a) c (Orders k)"
    and b: "book_at s k' p = (if s = o_Side a \<and> p = o_PairID a
      then remove1 (o_ID a) (book_at s k p) else book_at s k p)"
  shows "book_ok s p k'"
proof -
  note B = book_okD [OF bk]
  have ib: "in_book s p k' i \<longleftrightarrow> i \<noteq> o_ID a \<and> in_book s p k i" for i
    by (simp add: in_book_def o go_map c live_def)
  have pr: "price_of k' = price_of k"
    using a by (simp add: price_of_def o go_map c fun_eq_iff)
  have "sorted_book s k' (book_at s k p)" using B(2) by (simp add: sorted_book_def pr)
  moreover have "sorted_book s k' (remove1 i (book_at s k p))" for i
    using B(2) by (simp add: sorted_book_def pr sorted_map_remove1)
  moreover have "set (book_at s k' p) = {i. in_book s p k' i}"
  proof (cases "s = o_Side a \<and> p = o_PairID a")
    case True
    have "set (remove1 (o_ID a) (book_at s k p)) = set (book_at s k p) - {o_ID a}"
      using B(1) by simp
    then show ?thesis unfolding b if_P [OF True] using B(3) ib by blast
  next
    case False
    then have "\<not> in_book s p k (o_ID a)" using a by (auto simp: in_book_def)
    then show ?thesis unfolding b if_not_P [OF False] using B(3) ib by blast
  qed
  moreover have "distinct (remove1 (o_ID a) (book_at s k p))" using B(1) by simp
  ultimately show ?thesis using B(1) unfolding book_ok_def b by presburger
qed

lemma cancelled_orders_ok:
  assumes ok: "orders_ok k" and a: "mget (Orders k) (o_ID a) = Some a" and l: "live a"
    and c: "c = a\<lparr>o_Status := OrderStatusCancelled, o_UpdatedAt := now\<rparr>"
    and o: "Orders k' = mput (o_ID a) c (Orders k)" "OrderSeq k' = OrderSeq k"
      "Trades k' = Trades k" "Pairs k' = Pairs k" "\<And>i. has_wallet k' i = has_wallet k i"
  shows "orders_ok k'"
proof -
  note A = orders_okD [OF ok a]
  have "order_ok (o_ID a) c"
    using A(1) order_ok_live [OF A(1) l] by (simp add: order_ok_def c qty_ok_def)
  moreover have "keys_from order_id (OrderSeq k) (mput (o_ID a) c (Orders k))"
    using ok a by (intro keys_from_update) (auto simp: orders_ok_def)
  ultimately show ?thesis
    using ok A unfolding orders_ok_def o
    by (auto simp: go_map c split: if_splits)
qed

lemma cancelled_uncrossed:
  assumes "uncrossed k" "mget (Orders k) i = Some a" "Orders k' = mput i c (Orders k)"
    "o_Status c = OrderStatusCancelled"
  shows "uncrossed k'"
proof -
  have ib: "in_book s p k' j \<longleftrightarrow> j \<noteq> i \<and> in_book s p k j" for s p j
    using assms(3,4) by (auto simp: in_book_def go_map live_def)
  show ?thesis
    using assms(1) unfolding uncrossed_def ib assms(3) by (simp add: go_map) blast
qed

lemma unlock_frame [simp]:
  "w_ID (unlock_funds a pair w) = w_ID w" "w_UserID (unlock_funds a pair w) = w_UserID w"
  "w_Active (unlock_funds a pair w) = w_Active w" "w_KYCTier (unlock_funds a pair w) = w_KYCTier w"
  "bal (unlock_funds a pair w) d = bal w d"
  by (simp_all add: unlock_funds_def)

lemma CancelOrder_ok:
  assumes ok: "ex_ok k" and run: "CancelOrder now oid wid k = Some (k', r)"
  shows "ex_ok k'"
proof (cases r)
  case (Inl e)
  then show ?thesis using assms
    by (auto simp: CancelOrder_def Let_def split: option.splits if_splits bind_splits)
next
  case (Inr u)
  with run have "CancelOrder now oid wid k = Some (k', Inr ())" by simp
  then show ?thesis
  proof (cases rule: CancelOrderE)
    case (1 a w pair)
    let ?c = "a\<lparr>o_Status := OrderStatusCancelled, o_UpdatedAt := now\<rparr>"
    let ?w = "put_wallet wid (unlock_funds a pair w) k"
    have o_ok: "orders_ok k" and b_ok: "\<And>s p. book_ok s p k" using ok by (simp_all add: ex_ok_def)
    note A = orders_okD [OF o_ok 1(1)]
    have a: "mget (Orders k) (o_ID a) = Some a" and id: "oid = o_ID a" using 1(1) A(2) by simp_all
    have l: "live a" using order_ok_not_live [OF A(1)] 1(3,4) by blast
    have o': "Orders k' = mput (o_ID a) ?c (Orders k)"
      by (simp add: 1(7) removeFromBook_eq id)
    have bk: "book_at s k' p = (if s = o_Side a \<and> p = o_PairID a
      then remove1 (o_ID a) (book_at s k p) else book_at s k p)" for s p
      by (auto simp: 1(7) removeFromBook_eq id remove1_idem)
    have fr: "OrderSeq k' = OrderSeq k" "Trades k' = Trades k" "Pairs k' = Pairs k"
      "KYCApps k' = KYCApps k" "KYCSeq k' = KYCSeq k" "WalletSeq k' = WalletSeq k"
      "Wallets k' = Wallets ?w"
      by (simp_all add: 1(7) removeFromBook_eq)
    have hw: "has_wallet k' i = has_wallet k i" for i
      using 1(5) by (auto simp: has_wallet_def fr(7) go_map)
    have "wallets_ok ?w" by (rule wallets_ok_put [OF _ 1(5)]) (use ok in \<open>simp_all add: ex_ok_def\<close>)
    then have "wallets_ok k'" by (rule wallets_ok_frame) (simp_all add: fr)
    moreover have "apps_ok k'" by (rule apps_ok_frame [of k]) (use ok in \<open>simp_all add: fr hw ex_ok_def\<close>)
    moreover have "orders_ok k'" by (rule cancelled_orders_ok [OF o_ok a l refl o' fr(1-3) hw])
    moreover have "book_ok s p k'" for s p by (rule cancelled_book [OF b_ok a refl o' bk])
    moreover have "uncrossed k'"
      by (rule cancelled_uncrossed [OF _ a o']) (use ok in \<open>simp_all add: ex_ok_def\<close>)
    ultimately show ?thesis by (simp add: ex_ok_def)
  qed
qed

end
