(* ===== verification/ExchangeRun.thy ===== *)
theory ExchangeRun
  imports ExchangePlace
begin

text \<open>
  Runs of the keeper: one datatype of calls, the step that performs a call, and what holds after
  any sequence of calls: the invariant, the history of the orders, and the backing of every
  locked amount of a base denomination.
\<close>

section \<open>Calls\<close>

datatype ex_op =
    OpCreateWallet time string string
  | OpDeposit string string int64
  | OpWithdraw string string int64
  | OpPlaceOrder time string string order_side order_type int64 int64 int64
  | OpCancelOrder time string string
  | OpSubmitKYC time kyc_application
  | OpApproveKYC time string
  | OpRejectKYC time string string

fun ex_step :: "slice_sort \<Rightarrow> exchange \<Rightarrow> ex_op \<Rightarrow> exchange option" where
  "ex_step srt k (OpCreateWallet now userID label) = Some (fst (CreateWallet now userID label k))"
| "ex_step srt k (OpDeposit walletID denom amount) = Some (fst (DepositToWallet walletID denom amount k))"
| "ex_step srt k (OpWithdraw walletID denom amount) =
     Some (fst (WithdrawFromWallet walletID denom amount k))"
| "ex_step srt k (OpPlaceOrder now walletID pairID side orderType price quantity blockHeight) =
     map_option fst (PlaceOrder srt now walletID pairID side orderType price quantity blockHeight k)"
| "ex_step srt k (OpCancelOrder now orderID walletID) = map_option fst (CancelOrder now orderID walletID k)"
| "ex_step srt k (OpSubmitKYC now app) = Some (fst (SubmitKYC now app k))"
| "ex_step srt k (OpApproveKYC now applicationID) = map_option fst (ApproveKYC now applicationID k)"
| "ex_step srt k (OpRejectKYC now applicationID reason) =
     Some (fst (RejectKYC now applicationID reason k))"

definition ex_next :: "slice_sort \<Rightarrow> exchange \<Rightarrow> ex_op \<Rightarrow> exchange" where
  "ex_next srt k op = (case ex_step srt k op of Some k' \<Rightarrow> k' | None \<Rightarrow> k)"

text \<open>A call in range: its quantity is an \<open>int64\<close> and no counter is at its maximum.\<close>

fun op_typed :: "ex_op \<Rightarrow> bool" where
  "op_typed (OpPlaceOrder now w p s t price quantity h) \<longleftrightarrow> in64 quantity"
| "op_typed _ \<longleftrightarrow> True"

definition in_range :: "exchange \<Rightarrow> ex_op \<Rightarrow> bool" where
  "in_range k op \<longleftrightarrow>
     op_typed op \<and> WalletSeq k < 2 ^ 63 - 1 \<and> OrderSeq k < 2 ^ 63 - 1 \<and> KYCSeq k < 2 ^ 63 - 1"

lemma ex_step_some: "ex_ok k \<Longrightarrow> in_range k op \<Longrightarrow> ex_step srt k op \<noteq> None"
  by (cases op) (simp_all add: in_range_def PlaceOrder_some CancelOrder_some ApproveKYC_total)

lemma ex_step_ok:
  "sort_slice srt \<Longrightarrow> ex_ok k \<Longrightarrow> in_range k op \<Longrightarrow> ex_step srt k op = Some k' \<Longrightarrow> ex_ok k'"
  by (cases op)
     (auto simp: in_range_def CreateWallet_ok Deposit_ok Withdraw_ok SubmitKYC_ok RejectKYC_ok
       intro: PlaceOrder_ok CancelOrder_ok ApproveKYC_ok)

lemma ex_next_ok: "sort_slice srt \<Longrightarrow> ex_ok k \<Longrightarrow> in_range k op \<Longrightarrow> ex_ok (ex_next srt k op)"
  using ex_step_ok by (auto simp: ex_next_def split: option.splits)

section \<open>The history of an order\<close>

text \<open>
  From one state to a later one: orders and trades are never removed, the terms of an order do
  not change, its filled quantity only grows, and an order that is no longer live stays as it is.
\<close>

definition history :: "exchange \<Rightarrow> exchange \<Rightarrow> bool" where
  "history k k' \<longleftrightarrow>
     (\<forall>i a. mget (Orders k) i = Some a \<longrightarrow>
        (\<exists>b. mget (Orders k') i = Some b \<and> same_terms a b \<and> o_FilledQty a \<le> o_FilledQty b \<and>
             (\<not> live a \<longrightarrow> b = a))) \<and>
     (\<exists>ts. Trades k' = Trades k @ ts)"

lemma history_refl: "history k k"
  by (simp add: history_def)

lemma history_same: "Orders k' = Orders k \<Longrightarrow> Trades k' = Trades k \<Longrightarrow> history k k'"
  by (simp add: history_def)

lemma history_trans:
  assumes "history a b" "history b c"
  shows "history a c"
proof -
  have "\<exists>z. mget (Orders c) i = Some z \<and> same_terms x z \<and> o_FilledQty x \<le> o_FilledQty z \<and>
      (\<not> live x \<longrightarrow> z = x)" if "mget (Orders a) i = Some x" for i x
  proof -
    from assms(1) that obtain y where y: "mget (Orders b) i = Some y" "same_terms x y"
      "o_FilledQty x \<le> o_FilledQty y" "\<not> live x \<longrightarrow> y = x" unfolding history_def by blast
    from assms(2) y(1) obtain z where z: "mget (Orders c) i = Some z" "same_terms y z"
      "o_FilledQty y \<le> o_FilledQty z" "\<not> live y \<longrightarrow> z = y" unfolding history_def by blast
    from y z show ?thesis by (auto intro: same_terms_trans)
  qed
  moreover from assms have "\<exists>ts. Trades c = Trades a @ ts" by (auto simp: history_def)
  ultimately show ?thesis unfolding history_def by blast
qed

lemma put_app_frame [ex_frame, simp]:
  "Wallets (put_app i a k) = Wallets k" "Orders (put_app i a k) = Orders k"
  "Trades (put_app i a k) = Trades k" "Pairs (put_app i a k) = Pairs k"
  "BuyBook (put_app i a k) = BuyBook k" "SellBook (put_app i a k) = SellBook k"
  by (simp_all add: put_app_def)

text \<open>The operations on wallets and applications leave the orders and trades alone.\<close>

lemma side_ops_frame:
  "Orders (fst (CreateWallet now u l k)) = Orders k" "Trades (fst (CreateWallet now u l k)) = Trades k"
  "Orders (fst (DepositToWallet i d x k)) = Orders k" "Trades (fst (DepositToWallet i d x k)) = Trades k"
  "Orders (fst (WithdrawFromWallet i d x k)) = Orders k"
  "Trades (fst (WithdrawFromWallet i d x k)) = Trades k"
  "Orders (fst (SubmitKYC now app k)) = Orders k" "Trades (fst (SubmitKYC now app k)) = Trades k"
  "Orders (fst (RejectKYC now i r k)) = Orders k" "Trades (fst (RejectKYC now i r k)) = Trades k"
  by (simp_all add: CreateWallet_def DepositToWallet_def WithdrawFromWallet_def SubmitKYC_eq
      RejectKYC_def Let_def split: option.splits)

lemma ApproveKYC_frame:
  "ApproveKYC now i k = Some (k', r) \<Longrightarrow> Orders k' = Orders k \<and> Trades k' = Trades k"
  by (auto simp: ApproveKYC_def Let_def split: option.splits if_splits bind_splits)

lemma CancelOrder_error: "CancelOrder now oid wid k = Some (k', Inl e) \<Longrightarrow> k' = k"
  by (auto simp: CancelOrder_def Let_def split: option.splits if_splits bind_splits)

lemma history_put:
  assumes "mget (Orders k) i = Some a" "Orders k' = mput i b (Orders k)" "Trades k' = Trades k"
    "same_terms a b" "o_FilledQty a = o_FilledQty b" "live a"
  shows "history k k'"
  unfolding history_def
proof (intro conjI allI impI)
  fix j c assume "mget (Orders k) j = Some c"
  then show "\<exists>b. mget (Orders k') j = Some b \<and> same_terms c b \<and> o_FilledQty c \<le> o_FilledQty b \<and>
      (\<not> live c \<longrightarrow> b = c)"
    using assms by (cases "j = i") (simp_all add: go_map)
qed (simp add: assms(3))

lemma CancelOrder_history:
  assumes ok: "ex_ok k" and run: "CancelOrder now oid wid k = Some (k', r)"
  shows "history k k'"
proof (cases r)
  case (Inl e)
  then show ?thesis using run CancelOrder_error history_refl by blast
next
  case (Inr u)
  with run have "CancelOrder now oid wid k = Some (k', Inr ())" by simp
  then show ?thesis
  proof (cases rule: CancelOrderE)
    case (1 a w pair)
    have "orders_ok k" using ok by (simp add: ex_ok_def)
    then have "order_ok oid a" using 1(1) by (rule orders_okD)
    then have "live a" using order_ok_not_live 1(3,4) by blast
    then show ?thesis
      by (intro history_put [where i = oid and b = "a\<lparr>o_Status := OrderStatusCancelled, o_UpdatedAt := now\<rparr>"])
         (simp_all add: 1(1) 1(7) removeFromBook_eq same_terms_def)
  qed
qed

lemma accepted_advance:
  "accepted k k' order ts rest \<Longrightarrow> mget (Orders k) i = Some a \<Longrightarrow>
   \<exists>b. mget (Orders k') i = Some b \<and> same_terms a b \<and> o_FilledQty a \<le> o_FilledQty b \<and>
     (i \<notin> set (book_at (opp (o_Side order)) k (o_PairID order)) \<longrightarrow> b = a)"
  unfolding accepted_def advanced_def by metis

lemma accepted_history:
  assumes acc: "accepted k k' order ts rest" and bk: "\<forall>s p. book_ok s p k"
  shows "history k k'"
  unfolding history_def
proof (intro conjI allI impI)
  fix i a assume a: "mget (Orders k) i = Some a"
  let ?b = "book_at (opp (o_Side order)) k (o_PairID order)"
  from accepted_advance [OF acc a] obtain b where b: "mget (Orders k') i = Some b" "same_terms a b"
    "o_FilledQty a \<le> o_FilledQty b" "i \<notin> set ?b \<longrightarrow> b = a" by blast
  have "i \<in> set ?b \<Longrightarrow> live a" using book_okD(3) [OF bk [rule_format]] a by (auto simp: in_book_def)
  with b show "\<exists>b. mget (Orders k') i = Some b \<and> same_terms a b \<and> o_FilledQty a \<le> o_FilledQty b \<and>
      (\<not> live a \<longrightarrow> b = a)" by blast
qed (use acceptedD(6) [OF acc] in blast)

lemma PlaceOrder_history:
  assumes ok: "ex_ok k" and q: "in64 quantity" "OrderSeq k < 2 ^ 63 - 1"
    and run: "PlaceOrder srt now wid pid side ot price quantity bh k = Some (k', r)"
  shows "history k k'"
proof (cases r)
  case (Inl e)
  with run PlaceOrder_error show ?thesis by (blast intro: history_same)
next
  case (Inr res)
  obtain order ts where "res = (order, ts)" by fastforce
  with run Inr have "PlaceOrder srt now wid pid side ot price quantity bh k = Some (k', Inr (order, ts))"
    by simp
  from this ok q obtain rest where "accepted k k' order ts rest" by (rule PlaceOrder_accepted)
  then show ?thesis using ok by (intro accepted_history) (simp_all add: ex_ok_def)
qed

lemma ex_step_history:
  assumes "ex_ok k" "in_range k op" "ex_step srt k op = Some k'"
  shows "history k k'"
  using assms
  by (cases op)
     (auto simp: in_range_def side_ops_frame dest!: ApproveKYC_frame
       intro: history_same PlaceOrder_history CancelOrder_history)

lemma ex_next_history: "ex_ok k \<Longrightarrow> in_range k op \<Longrightarrow> history k (ex_next srt k op)"
  using ex_step_history by (auto simp: ex_next_def history_refl split: option.splits)

text \<open>The keeper is a machine in the sense of the interface, whatever the sort.\<close>

sublocale sort_slice \<subseteq> keeper: related_machine "ex_next srt" in_range ex_ok history
proof unfold_locales
  show "ex_ok (ex_next srt s e)" if "ex_ok s" "in_range s e" for s e
    by (rule ex_next_ok [OF sort_slice_axioms that])
qed (auto intro: history_refl history_trans ex_next_history)

section \<open>The state a node starts from\<close>

lemma ex_ok_new: "ex_ok (ex_NewKeeper srt None)"
  by (simp add: ex_NewKeeper_def Let_def ex_empty_def initDefaultPairs_def rebuildOrderBooks_def
      ex_ok_def wallets_ok_def apps_ok_def orders_ok_def book_ok_def book_at_def in_book_def
      uncrossed_def sorted_book_def defaultPair_def)

definition ex_run :: "slice_sort \<Rightarrow> ex_op list \<Rightarrow> exchange" where
  "ex_run srt ops = foldl (ex_next srt) (ex_NewKeeper srt None) ops"

context sort_slice begin

lemma ex_run_ok: "all_pre (ex_next srt) in_range (ex_NewKeeper srt None) ops \<Longrightarrow> ex_ok (ex_run srt ops)"
  unfolding ex_run_def by (rule keeper.run_ok [OF ex_ok_new])

lemma ex_run_history:
  "ex_ok k \<Longrightarrow> all_pre (ex_next srt) in_range k ops \<Longrightarrow> history k (foldl (ex_next srt) k ops)"
  by (rule keeper.run_rel)

end

section \<open>Counters\<close>

text \<open>A call moves each counter by at most one, so a run of fewer than \<open>2 ^ 63 - 1\<close> calls is in range.\<close>

definition seqs_le :: "exchange \<Rightarrow> int \<Rightarrow> bool" where
  "seqs_le k n \<longleftrightarrow> WalletSeq k \<le> n \<and> OrderSeq k \<le> n \<and> KYCSeq k \<le> n"

lemma seqs_side:
  "OrderSeq (fst (CreateWallet now u l k)) = OrderSeq k" "KYCSeq (fst (CreateWallet now u l k)) = KYCSeq k"
  "WalletSeq (fst (CreateWallet now u l k)) \<in> {WalletSeq k, add64 (WalletSeq k) 1}"
  "WalletSeq (fst (DepositToWallet i d x k)) = WalletSeq k"
  "OrderSeq (fst (DepositToWallet i d x k)) = OrderSeq k" "KYCSeq (fst (DepositToWallet i d x k)) = KYCSeq k"
  "WalletSeq (fst (WithdrawFromWallet i d x k)) = WalletSeq k"
  "OrderSeq (fst (WithdrawFromWallet i d x k)) = OrderSeq k"
  "KYCSeq (fst (WithdrawFromWallet i d x k)) = KYCSeq k"
  "WalletSeq (fst (SubmitKYC now app k)) = WalletSeq k" "OrderSeq (fst (SubmitKYC now app k)) = OrderSeq k"
  "KYCSeq (fst (SubmitKYC now app k)) \<in> {KYCSeq k, add64 (KYCSeq k) 1}"
  "WalletSeq (fst (RejectKYC now i r k)) = WalletSeq k" "OrderSeq (fst (RejectKYC now i r k)) = OrderSeq k"
  "KYCSeq (fst (RejectKYC now i r k)) = KYCSeq k"
  by (simp_all add: CreateWallet_def DepositToWallet_def WithdrawFromWallet_def SubmitKYC_eq
      RejectKYC_def Let_def put_app_def split: option.splits)

lemma seqs_partial:
  "ApproveKYC now i k = Some (k', r) \<Longrightarrow>
   WalletSeq k' = WalletSeq k \<and> OrderSeq k' = OrderSeq k \<and> KYCSeq k' = KYCSeq k"
  "CancelOrder now oid wid k = Some (k', c) \<Longrightarrow>
   WalletSeq k' = WalletSeq k \<and> OrderSeq k' = OrderSeq k \<and> KYCSeq k' = KYCSeq k"
  by (auto simp: ApproveKYC_def CancelOrder_def Let_def put_app_def removeFromBook_eq
      split: option.splits if_splits bind_splits)

lemma seqs_place:
  assumes ok: "ex_ok k" and q: "in64 quantity" "OrderSeq k < 2 ^ 63 - 1"
    and run: "PlaceOrder srt now wid pid side ot price quantity bh k = Some (k', r)"
  shows "WalletSeq k' = WalletSeq k" "KYCSeq k' = KYCSeq k" "OrderSeq k' \<in> {OrderSeq k, OrderSeq k + 1}"
proof -
  have "WalletSeq k' = WalletSeq k \<and> KYCSeq k' = KYCSeq k \<and> OrderSeq k' \<in> {OrderSeq k, OrderSeq k + 1}"
  proof (cases r)
    case (Inl e)
    with run PlaceOrder_error show ?thesis by (fastforce simp: ex_same_def)
  next
    case (Inr res)
    obtain order ts where "res = (order, ts)" by fastforce
    with run Inr have "PlaceOrder srt now wid pid side ot price quantity bh k = Some (k', Inr (order, ts))"
      by simp
    from this ok q show ?thesis by (rule PlaceOrder_accepted) simp
  qed
  then show "WalletSeq k' = WalletSeq k" "KYCSeq k' = KYCSeq k" "OrderSeq k' \<in> {OrderSeq k, OrderSeq k + 1}"
    by simp_all
qed

lemma ex_next_seqs:
  assumes ok: "ex_ok k" and r: "in_range k op" and n: "seqs_le k n"
  shows "seqs_le (ex_next srt k op) (n + 1)"
proof -
  obtain k' where k': "ex_step srt k op = Some k'" using ex_step_some [OF ok r] by blast
  have "add64 (WalletSeq k) 1 = WalletSeq k + 1" "add64 (KYCSeq k) 1 = KYCSeq k + 1"
    using ok r by (auto simp: ex_ok_def wallets_ok_def apps_ok_def in_range_def intro: keys_from_next)
  note suc = this and side = seqs_side [where k = k]
  have "seqs_le k' (n + 1)"
  proof (cases op)
    case (OpCreateWallet now u l)
    then show ?thesis using k' n side(1,2) side(3) [of now u l] suc by (auto simp: seqs_le_def)
  next
    case (OpSubmitKYC now app)
    then show ?thesis using k' n side(10,11) side(12) [of now app] suc by (auto simp: seqs_le_def)
  next
    case (OpPlaceOrder now w p s t price q h)
    then obtain res where run: "PlaceOrder srt now w p s t price q h k = Some (k', res)"
      using k' by auto
    have "in64 q" "OrderSeq k < 2 ^ 63 - 1" using r OpPlaceOrder by (simp_all add: in_range_def)
    from seqs_place [OF ok this run] n show ?thesis by (auto simp: seqs_le_def)
  next
    case (OpCancelOrder now i w)
    then show ?thesis using k' n by (auto simp: seqs_le_def dest: seqs_partial)
  next
    case (OpApproveKYC now i)
    then show ?thesis using k' n by (auto simp: seqs_le_def dest: seqs_partial)
  qed (use k' n side in \<open>auto simp: seqs_le_def\<close>)
  then show ?thesis by (simp add: ex_next_def k')
qed

lemma run_in_range:
  assumes srt: "sort_slice srt"
  shows "ex_ok k \<Longrightarrow> seqs_le k n \<Longrightarrow> list_all op_typed ops \<Longrightarrow> n + int (length ops) < 2 ^ 63 \<Longrightarrow>
    all_pre (ex_next srt) in_range k ops"
proof (induction ops arbitrary: k n)
  case (Cons op ops)
  have r: "in_range k op" using Cons.prems by (auto simp: in_range_def seqs_le_def)
  have "all_pre (ex_next srt) in_range (ex_next srt k op) ops"
    using Cons.prems
    by (intro Cons.IH [OF ex_next_ok [OF srt Cons.prems(1) r] ex_next_seqs [OF Cons.prems(1) r Cons.prems(2)]])
       auto
  with r show ?case by simp
qed simp

lemma ex_run_invariant:
  assumes "sort_slice srt" "list_all op_typed ops" "int (length ops) < 2 ^ 63"
  shows "ex_ok (ex_run srt ops)"
proof -
  have "seqs_le (ex_NewKeeper srt None) 0"
    by (simp add: seqs_le_def ex_NewKeeper_def Let_def ex_empty_def initDefaultPairs_def
        rebuildOrderBooks_def)
  then have "all_pre (ex_next srt) in_range (ex_NewKeeper srt None) ops"
    using assms by (intro run_in_range [OF _ ex_ok_new]) auto
  then show ?thesis by (rule sort_slice.ex_run_ok [OF assms(1)])
qed

lemma run_seqs:
  assumes srt: "sort_slice srt"
  shows "ex_ok k \<Longrightarrow> seqs_le k n \<Longrightarrow> all_pre (ex_next srt) in_range k ops \<Longrightarrow>
    seqs_le (foldl (ex_next srt) k ops) (n + int (length ops))"
proof (induction ops arbitrary: k n)
  case (Cons op ops)
  have r: "in_range k op" and p: "all_pre (ex_next srt) in_range (ex_next srt k op) ops"
    using Cons.prems(3) by simp_all
  from Cons.IH [OF ex_next_ok [OF srt Cons.prems(1) r] ex_next_seqs [OF Cons.prems(1) r Cons.prems(2)] p]
  show ?case by (simp add: algebra_simps)
qed simp

end
