(* ===== verification/ExchangeSolvency.thy ===== *)
theory ExchangeSolvency
  imports ExchangeRun
begin

text \<open>
  The backing of base denominations, those that no pair quotes in: in every wallet the locked
  amount is what its live sell orders still offer, and the balance covers it. Deposits and
  withdrawals of that denomination are taken to be nonnegative, with a total below \<open>2 ^ 63\<close>; the
  keeper itself checks neither.
\<close>

section \<open>The claim of the sell orders\<close>

definition base_of :: "exchange \<Rightarrow> string \<Rightarrow> string" where
  "base_of k p = (case mget (Pairs k) p of Some pair \<Rightarrow> tp_BaseDenom pair | None \<Rightarrow> '''')"

definition claim :: "string \<Rightarrow> string \<Rightarrow> exchange \<Rightarrow> order \<Rightarrow> int" where
  "claim d i k a =
     (if o_WalletID a = i \<and> o_Side a = OrderSideSell \<and> o_Status a \<noteq> OrderStatusCancelled \<and>
         base_of k (o_PairID a) = d then o_RemainingQty a else 0)"

definition claims :: "string \<Rightarrow> string \<Rightarrow> exchange \<Rightarrow> int" where
  "claims d i k = msum (claim d i k) (Orders k)"

definition never_quoted :: "string \<Rightarrow> exchange \<Rightarrow> bool" where
  "never_quoted d k \<longleftrightarrow> (\<forall>p pair. mget (Pairs k) p = Some pair \<longrightarrow> tp_QuoteDenom pair \<noteq> d)"

definition backed :: "string \<Rightarrow> exchange \<Rightarrow> bool" where
  "backed d k \<longleftrightarrow>
     (\<forall>i w. mget (Wallets k) i = Some w \<longrightarrow>
        0 \<le> lck w d \<and> lck w d \<le> bal w d \<and> lck w d = claims d i k) \<and>
     total d k < 2 ^ 63"

lemma claim_cong: "Pairs k' = Pairs k \<Longrightarrow> claim d i k' = claim d i k"
  by (simp add: claim_def base_of_def fun_eq_iff)

lemma claims_cong: "Pairs k' = Pairs k \<Longrightarrow> Orders k' = Orders k \<Longrightarrow> claims d i k' = claims d i k"
  unfolding claims_def using claim_cong [of k' k d i] by simp

definition fair_state :: "string \<Rightarrow> exchange \<Rightarrow> bool" where
  "fair_state d k \<longleftrightarrow>
     backed d k \<and> never_quoted d k \<and> distinct (mkeys (Wallets k)) \<and> distinct (mkeys (Orders k)) \<and>
     (\<forall>i a. mget (Orders k) i = Some a \<longrightarrow> 0 \<le> o_RemainingQty a)"

lemma claim_nonneg: "0 \<le> o_RemainingQty a \<Longrightarrow> 0 \<le> claim d i k a"
  by (simp add: claim_def)

lemma fair_bal:
  assumes "fair_state d k" "mget (Wallets k) i = Some w"
  shows "0 \<le> lck w d" "lck w d \<le> bal w d" "lck w d = claims d i k" "bal w d \<le> total d k"
    "total d k < 2 ^ 63" "0 \<le> total d k" "0 \<le> bal w d"
proof -
  show 1: "0 \<le> lck w d" "lck w d \<le> bal w d" "lck w d = claims d i k" "total d k < 2 ^ 63"
    using assms unfolding fair_state_def backed_def by blast+
  have "0 \<le> bal v d" if "mget (Wallets k) j = Some v" for j v
    using assms(1) that by (fastforce simp: fair_state_def backed_def)
  then show 2: "bal w d \<le> total d k" unfolding total_def
    using assms by (intro msum_member_le [of "Wallets k" i]) (auto simp: fair_state_def)
  show "0 \<le> bal w d" using 1 by linarith
  then show "0 \<le> total d k" using 2 by linarith
qed

lemma fair_claim_le:
  assumes "fair_state d k" "mget (Orders k) i = Some a"
  shows "claim d j k a \<le> claims d j k"
  unfolding claims_def
  using assms by (intro msum_member_le [of "Orders k" i]) (auto simp: fair_state_def claim_nonneg)

lemma mget_filter: "mget (filter (\<lambda>e. fst e \<noteq> i) m) j = (if j = i then None else mget m j)"
  by (induction m) auto

text \<open>Two wallets hold at most the total together.\<close>

lemma fair_two:
  assumes "fair_state d k" "mget (Wallets k) i = Some v" "mget (Wallets k) j = Some w" "i \<noteq> j"
  shows "bal v d + bal w d \<le> total d k"
proof -
  have D: "distinct (mkeys (Wallets k))" using assms(1) by (simp add: fair_state_def)
  let ?m = "filter (\<lambda>e. fst e \<noteq> i) (Wallets k)"
  have "total d k = bal v d + msum (\<lambda>w. bal w d) ?m"
    unfolding total_def by (rule msum_split [OF D assms(2)])
  moreover have "bal w d \<le> msum (\<lambda>w. bal w d) ?m"
  proof (rule msum_member_le)
    show "distinct (mkeys ?m)" using D by (simp add: distinct_map_filter)
    show "mget ?m j = Some w" using assms(3,4) by (simp add: mget_filter)
    show "0 \<le> bal u d" if "mget ?m l = Some u" for l u
      using that D fair_bal(7) [OF assms(1), of l u] by (auto simp: distinct_map_filter)
  qed
  ultimately show ?thesis by simp
qed

section \<open>The legs of a trade in a base denomination\<close>

lemma seller_base:
  assumes "tp_QuoteDenom pair \<noteq> d"
  shows "bal (seller_leg pair q qa f w) d = (if d = tp_BaseDenom pair then sub64 (bal w d) q else bal w d)"
    "lck (seller_leg pair q qa f w) d = (if d = tp_BaseDenom pair then sub64 (lck w d) q else lck w d)"
  using assms by (auto simp: seller_leg_def)

lemma buyer_base:
  assumes "tp_QuoteDenom pair \<noteq> d"
  shows "bal (buyer_leg pair q qa f w) d = (if d = tp_BaseDenom pair then add64 (bal w d) q else bal w d)"
    "lck (buyer_leg pair q qa f w) d = lck w d"
  using assms by (auto simp: buyer_leg_def)

text \<open>The wallets of a fill, as seller and buyer.\<close>

definition seller_of :: "order \<Rightarrow> order \<Rightarrow> string" where
  "seller_of order maker = (if o_Side order = OrderSideBuy then o_WalletID maker else o_WalletID order)"

definition buyer_of :: "order \<Rightarrow> order \<Rightarrow> string" where
  "buyer_of order maker = (if o_Side order = OrderSideBuy then o_WalletID order else o_WalletID maker)"

lemma fill_wallets:
  assumes f: "fill_order now pair bh oid mid order maker k = Some (k1, t)"
    and ne: "o_WalletID maker \<noteq> o_WalletID order"
  obtains v w fs fb where "mget (Wallets k) (seller_of order maker) = Some v"
    "mget (Wallets k) (buyer_of order maker) = Some w" "seller_of order maker \<noteq> buyer_of order maker"
    "\<And>i. mget (Wallets k1) i =
       (if i = seller_of order maker
        then Some (seller_leg pair (t_Quantity t) (quote_amount (t_Price t) (t_Quantity t)) fs v)
        else if i = buyer_of order maker
        then Some (buyer_leg pair (t_Quantity t) (quote_amount (t_Price t) (t_Quantity t)) fb w)
        else mget (Wallets k) i)"
proof -
  from f ne obtain m w where t: "t = new_trade now pair bh (add64 (TradeSeq k) 1) order maker"
    and mw: "mget (Wallets k) (o_WalletID maker) = Some m"
      "mget (Wallets k) (o_WalletID order) = Some w"
    and k1: "Wallets k1 = settled t pair k" by (rule fill_orderE)
  have ids: "t_MakerWallet t = o_WalletID maker" "t_TakerWallet t = o_WalletID order"
    "t_Side t = o_Side order" by (simp_all add: t new_trade_def Let_def)
  have g: "mget (Wallets k1) i = (if i = o_WalletID order then Some (taker_leg t pair w)
      else if i = o_WalletID maker then Some (maker_leg t pair m) else mget (Wallets k) i)" for i
    by (simp add: k1 settled_def ids mw go_map)
  show ?thesis
  proof (cases "o_Side order = OrderSideBuy")
    case True
    show ?thesis
      by (rule that [of m w "t_MakerFee t" "t_TakerFee t"])
         (use True mw ne g in \<open>auto simp: seller_of_def buyer_of_def maker_leg_def taker_leg_def ids\<close>)
  next
    case False
    show ?thesis
      by (rule that [of w m "t_TakerFee t" "t_MakerFee t"])
         (use False mw ne g in \<open>auto simp: seller_of_def buyer_of_def maker_leg_def taker_leg_def ids\<close>)
  qed
qed

section \<open>A fill keeps the backing\<close>

lemma claims_put:
  assumes "Pairs k' = Pairs k" "Orders k' = mput i b (Orders k)" "mget (Orders k) i = Some a"
    "distinct (mkeys (Orders k))"
  shows "claims d j k' = claims d j k - claim d j k a + claim d j k b"
  using msum_put [OF assms(4,3), of "claim d j k" b] claim_cong [OF assms(1), of d j]
  by (simp add: claims_def assms(2))

lemma alist_canon: "distinct (mkeys m) \<Longrightarrow> map (\<lambda>k. (k, the (mget m k))) (mkeys m) = m"
  by (auto intro!: map_idI simp del: map_of_eq_Some_iff simp: map_of_is_SomeI)

lemma alist_eq:
  assumes "mkeys m = mkeys n" "distinct (mkeys m)" "mget m = mget n"
  shows "m = n"
  using alist_canon [of m] alist_canon [of n] assms by metis

lemma total_two:
  assumes d: "distinct (mkeys (Wallets k))" "mkeys (Wallets k') = mkeys (Wallets k)"
    and v: "mget (Wallets k) i = Some v" "mget (Wallets k) j = Some w" "i \<noteq> j"
    and k': "\<And>l. mget (Wallets k') l = (if l = i then Some v' else if l = j then Some w' else mget (Wallets k) l)"
    and s: "bal v' d + bal w' d = bal v d + bal w d"
  shows "total d k' = total d k"
proof -
  let ?m = "mput j w' (mput i v' (Wallets k))"
  have "mkeys ?m = mkeys (Wallets k')" using v by (simp add: mput_keys go_map d(2))
  moreover have "mget ?m = mget (Wallets k')" using v(3) by (auto simp: k' go_map fun_eq_iff)
  ultimately have "?m = Wallets k'"
    using d by (intro alist_eq) metis+
  then have "total d k' = msum (\<lambda>w. bal w d) ?m" by (simp add: total_def)
  also have "\<dots> = total d k" using v d s by (simp add: total_def msum_put go_map)
  finally show ?thesis .
qed

lemma fill_claims:
  assumes ok: "loop_ok oid (mid # book) k" and o: "mget (Orders k) oid = Some order"
    and m: "mget (Orders k) mid = Some maker" and r: "0 < o_RemainingQty order"
    and ne: "o_WalletID maker \<noteq> o_WalletID order"
    and f: "fill_order now pair bh oid mid order maker k = Some (k1, t)"
    and p: "mget (Pairs k) (o_PairID order) = Some pair" and st: "o_Status order \<noteq> OrderStatusCancelled"
    and dist: "distinct (mkeys (Orders k))"
  shows "claims d i k1 = claims d i k -
     (if i = seller_of order maker \<and> d = tp_BaseDenom pair then t_Quantity t else 0)"
    and "t_Quantity t \<le> claim (tp_BaseDenom pair) (seller_of order maker) k
           (if o_Side order = OrderSideBuy then maker else order)"
proof -
  note F = fill_loop [OF ok o m r ne f] and E = loop_okE [OF ok o m]
  let ?o = "filled (t_Quantity t) order" and ?m = "maker_filled now (t_Quantity t) maker"
  have pairs: "Pairs k1 = Pairs k" using F(18) by (simp add: ex_same_def)
  have base: "base_of k (o_PairID order) = tp_BaseDenom pair" by (simp add: base_of_def p)
  have sum: "claims d i k1 = claims d i k - claim d i k order + claim d i k ?o - claim d i k maker + claim d i k ?m"
    using o m E(5) dist
    by (simp add: claims_def F(7) claim_cong [OF pairs] msum_put distinct_mput go_map)
  have rem: "o_RemainingQty ?o = o_RemainingQty order - t_Quantity t"
    "o_RemainingQty (filled (t_Quantity t) maker) = o_RemainingQty maker - t_Quantity t"
    using F(10,11) E(1,9) F(3,4) by (simp_all add: advanced_def)
  have terms: "same_terms order ?o" "same_terms maker ?m" "o_Status ?o = o_Status order"
    by (simp_all add: filled_def same_terms_def maker_filled_def Let_def)
  have live: "o_Status maker \<noteq> OrderStatusCancelled" "o_Status ?m \<noteq> OrderStatusCancelled"
    using E(4) by (auto simp: live_def maker_filled_def Let_def)
  have co: "claim d i k ?o = claim d i k order -
      (if o_Side order = OrderSideSell \<and> i = o_WalletID order \<and> d = tp_BaseDenom pair then t_Quantity t else 0)"
    using terms(1,3) st by (auto simp: claim_def same_terms_def rem base)
  have cm: "claim d i k ?m = claim d i k maker -
      (if o_Side order = OrderSideBuy \<and> i = o_WalletID maker \<and> d = tp_BaseDenom pair then t_Quantity t else 0)"
    using terms(2) live E(6,7) by (cases "o_Side order") (auto simp: claim_def same_terms_def rem base)
  show "claims d i k1 = claims d i k -
     (if i = seller_of order maker \<and> d = tp_BaseDenom pair then t_Quantity t else 0)"
    unfolding sum co cm by (cases "o_Side order") (auto simp: seller_of_def)
  have "t_Quantity t \<le> o_RemainingQty order" "t_Quantity t \<le> o_RemainingQty maker"
    using F(2) by (auto simp: fill_qty_def)
  then show "t_Quantity t \<le> claim (tp_BaseDenom pair) (seller_of order maker) k
           (if o_Side order = OrderSideBuy then maker else order)"
    using st live(1) E(6,7) base by (cases "o_Side order") (auto simp: claim_def seller_of_def)
qed

lemma fill_fair:
  assumes fair: "fair_state d k"
    and ok: "loop_ok oid (mid # book) k" and o: "mget (Orders k) oid = Some order"
    and m: "mget (Orders k) mid = Some maker" and r: "0 < o_RemainingQty order"
    and ne: "o_WalletID maker \<noteq> o_WalletID order"
    and f: "fill_order now pair bh oid mid order maker k = Some (k1, t)"
    and p: "mget (Pairs k) (o_PairID order) = Some pair" and st: "o_Status order \<noteq> OrderStatusCancelled"
  shows "fair_state d k1" "total d k1 = total d k"
proof -
  note step = ok o m r ne f
  note F = fill_loop [OF step] and E = loop_okE [OF ok o m]
  have D: "distinct (mkeys (Wallets k))" "distinct (mkeys (Orders k))" and nq: "tp_QuoteDenom pair \<noteq> d"
    using fair p by (auto simp: fair_state_def never_quoted_def)
  note C = fill_claims [OF step p st D(2)]
  let ?s = "seller_of order maker" and ?b = "buyer_of order maker" and ?q = "t_Quantity t"
  from fill_wallets [OF f ne] obtain v w fs fb where vw: "mget (Wallets k) ?s = Some v"
    "mget (Wallets k) ?b = Some w" "?s \<noteq> ?b"
    and k1: "\<And>i. mget (Wallets k1) i =
       (if i = ?s then Some (seller_leg pair ?q (quote_amount (t_Price t) ?q) fs v)
        else if i = ?b then Some (buyer_leg pair ?q (quote_amount (t_Price t) ?q) fb w)
        else mget (Wallets k) i)" by metis
  let ?v = "seller_leg pair ?q (quote_amount (t_Price t) ?q) fs v"
  let ?w = "buyer_leg pair ?q (quote_amount (t_Price t) ?q) fb w"
  note V = fair_bal [OF fair vw(1)] and W = fair_bal [OF fair vw(2)]
  have vb: "bal ?v d = (if d = tp_BaseDenom pair then bal v d - ?q else bal v d)"
    "lck ?v d = (if d = tp_BaseDenom pair then lck v d - ?q else lck v d)"
    "bal ?w d = (if d = tp_BaseDenom pair then bal w d + ?q else bal w d)"
    "lck ?w d = lck w d" "d = tp_BaseDenom pair \<Longrightarrow> ?q \<le> lck v d"
  proof -
    show q: "?q \<le> lck v d" if "d = tp_BaseDenom pair"
    proof -
      have "claim d ?s k (if o_Side order = OrderSideBuy then maker else order) \<le> claims d ?s k"
        using fair_claim_le [OF fair o, of ?s] fair_claim_le [OF fair m, of ?s] by simp
      then show ?thesis using C(2) V(3) that by simp
    qed
    show "bal ?v d = (if d = tp_BaseDenom pair then bal v d - ?q else bal v d)"
      "lck ?v d = (if d = tp_BaseDenom pair then lck v d - ?q else lck v d)"
      using q V F(16) by (auto simp: seller_base [OF nq] intro!: sub64_exact) (auto simp: in64_def)
    show "bal ?w d = (if d = tp_BaseDenom pair then bal w d + ?q else bal w d)" "lck ?w d = lck w d"
      using q V W F(16) fair_two [OF fair vw]
      by (auto simp: buyer_base [OF nq] intro!: add64_exact) (auto simp: in64_def)
  qed
  have tot: "total d k1 = total d k"
    by (rule total_two [OF D(1) F(9) vw k1]) (simp add: vb)
  have "0 \<le> lck u d \<and> lck u d \<le> bal u d \<and> lck u d = claims d i k1"
    if u: "mget (Wallets k1) i = Some u" for i u
  proof -
    consider "i = ?s" "u = ?v" | "i = ?b" "i \<noteq> ?s" "u = ?w"
      | "i \<noteq> ?s" "i \<noteq> ?b" "mget (Wallets k) i = Some u"
      using u k1 [of i] by (auto split: if_splits)
    then show ?thesis
    proof cases
      case 1
      then show ?thesis using V vb(1,2,5) C(1) [of d ?s] by auto
    next
      case 2
      then show ?thesis using W vb(3,4) C(1) [of d ?b] F(16) by auto
    next
      case 3
      then show ?thesis using fair_bal [OF fair 3(3)] C(1) [of d i] by simp
    qed
  qed
  moreover have "0 \<le> o_RemainingQty a" if "mget (Orders k1) i = Some a" for i a
    using that fair F(12,13) by (auto simp: F(7) go_map fair_state_def order_ok_def qty_ok_def split: if_splits)
  moreover have "distinct (mkeys (Wallets k1))" "distinct (mkeys (Orders k1))" "never_quoted d k1"
    using D F(8,9,18) fair by (metis, metis, simp add: never_quoted_def ex_same_def fair_state_def)
  ultimately show "fair_state d k1"
    using V(5) tot unfolding fair_state_def backed_def by metis
  show "total d k1 = total d k" by (rule tot)
qed

lemma loop_fair:
  "match_loop now pair bh oid book k = Some (k', rest, ts) \<Longrightarrow> loop_ok oid book k \<Longrightarrow>
   fair_state d k \<Longrightarrow> mget (Orders k) oid = Some order \<Longrightarrow> mget (Pairs k) (o_PairID order) = Some pair \<Longrightarrow>
   o_Status order \<noteq> OrderStatusCancelled \<Longrightarrow> fair_state d k' \<and> total d k' = total d k"
proof (induction arbitrary: order rule: match_loop_induct)
  case (Own mid mids k k' rest ts taker maker)
  then show ?case using loop_ok_tl by blast
next
  case (Fill mid mids k k1 t k' rest ts taker maker)
  then have [simp]: "taker = order" by simp
  note step = Fill.prems(1) Fill.hyps(1,2,3,5,6)
  note F = fill_loop [OF step] and E = loop_okE [OF Fill.prems(1) Fill.hyps(1,2)]
  have p: "mget (Pairs k) (o_PairID taker) = Some pair" "o_Status taker \<noteq> OrderStatusCancelled"
    using Fill.prems(4,5) by simp_all
  note fair = fill_fair [OF Fill.prems(2) step p]
  have o1: "mget (Orders k1) oid = Some (filled (t_Quantity t) order)"
    using E by (simp add: F(7) go_map)
  have "fair_state d k' \<and> total d k' = total d k1"
    using Fill.IH [OF fill_loop_ok [OF step] fair(1) o1] Fill.prems(4,5) F(18)
    by (simp add: filled_def ex_same_def)
  then show ?case using fair(2) by simp
qed simp_all

section \<open>The operations keep the backing\<close>

text \<open>
  What a call may do to a denomination: a deposit of it is nonnegative and leaves the total an
  \<open>int64\<close>, a withdrawal of it is nonnegative.
\<close>

fun op_fair :: "string \<Rightarrow> exchange \<Rightarrow> ex_op \<Rightarrow> bool" where
  "op_fair d k (OpDeposit i denom x) \<longleftrightarrow> (denom = d \<longrightarrow> 0 \<le> x \<and> total d k + x < 2 ^ 63)"
| "op_fair d k (OpWithdraw i denom x) \<longleftrightarrow> (denom = d \<longrightarrow> 0 \<le> x)"
| "op_fair d k _ \<longleftrightarrow> True"

lemma fairI:
  assumes "\<And>i w. mget (Wallets k) i = Some w \<Longrightarrow> 0 \<le> lck w d \<and> lck w d \<le> bal w d \<and> lck w d = claims d i k"
    "total d k < 2 ^ 63" "never_quoted d k" "orders_ok k" "wallets_ok k"
  shows "fair_state d k"
proof -
  have "distinct (mkeys (Wallets k))" "distinct (mkeys (Orders k))"
    using assms(4,5) by (simp_all add: wallets_ok_def orders_ok_def keys_from_def)
  moreover have "0 \<le> o_RemainingQty a" if "mget (Orders k) i = Some a" for i a
    using orders_okD(6) [OF assms(4) that] by (simp add: qty_ok_def)
  ultimately show ?thesis using assms(1-3) unfolding fair_state_def backed_def by blast
qed

lemma ex_ok_fair: "ex_ok k \<Longrightarrow> backed d k \<Longrightarrow> never_quoted d k \<Longrightarrow> fair_state d k"
  unfolding backed_def ex_ok_def by (rule fairI) blast+

lemma fair_backed: "fair_state d k \<Longrightarrow> backed d k"
  by (simp add: fair_state_def)

text \<open>Replacing one wallet, the orders untouched.\<close>

lemma backed_put:
  assumes fair: "fair_state d k" and w: "mget (Wallets k) i = Some w"
    and k': "Wallets k' = mput i w' (Wallets k)" "Orders k' = Orders k" "Pairs k' = Pairs k"
    and l: "lck w' d = lck w d" "lck w' d \<le> bal w' d" "total d k - bal w d + bal w' d < 2 ^ 63"
  shows "backed d k'"
proof -
  have c: "claims d j k' = claims d j k" for j by (rule claims_cong [OF k'(3,2)])
  have t: "total d k' = total d k - bal w d + bal w' d"
    using fair w by (simp add: total_def k' msum_put fair_state_def)
  note W = fair_bal [OF fair w]
  have "0 \<le> lck v d \<and> lck v d \<le> bal v d \<and> lck v d = claims d j k'" if "mget (Wallets k') j = Some v" for j v
    using that W l fair_bal(1-3) [OF fair, of j v] by (auto simp: k' go_map c split: if_splits)
  moreover have "total d k' < 2 ^ 63" using l(3) t by simp
  ultimately show ?thesis unfolding backed_def by blast
qed

lemma backed_frame:
  assumes "backed d k" "Wallets k' = Wallets k" "Orders k' = Orders k" "Pairs k' = Pairs k"
  shows "backed d k'"
  using assms(1) unfolding backed_def total_def assms(2) claims_cong [OF assms(4,3)] .

lemma Deposit_backed:
  assumes "fair_state d k" "denom = d \<Longrightarrow> 0 \<le> x \<and> total d k + x < 2 ^ 63"
  shows "backed d (fst (DepositToWallet i denom x k))"
proof (cases "mget (Wallets k) i")
  case (Some w)
  note W = fair_bal [OF assms(1) Some]
  have b: "bal (add_balance denom x w) d = (if denom = d then bal w d + x else bal w d)"
    using W assms(2) by (auto intro!: add64_exact simp: in64_def)
  show ?thesis
  proof (cases "w_Active w")
    case True
    then have "fst (DepositToWallet i denom x k) = ex_save (put_wallet i (add_balance denom x w) k)"
      by (simp add: DepositToWallet_def Some)
    then show ?thesis
      by (intro backed_put [OF assms(1) Some, where w' = "add_balance denom x w"])
         (use b W assms(2) in \<open>auto split: if_splits\<close>)
  qed (use assms(1) Some in \<open>simp add: DepositToWallet_def fair_backed\<close>)
qed (use assms(1) in \<open>simp add: DepositToWallet_def fair_backed\<close>)

lemma Withdraw_backed:
  assumes "fair_state d k" "denom = d \<Longrightarrow> 0 \<le> x"
  shows "backed d (fst (WithdrawFromWallet i denom x k))"
proof (cases "mget (Wallets k) i")
  case (Some w)
  note W = fair_bal [OF assms(1) Some]
  show ?thesis
  proof (cases "w_Active w \<and> \<not> x > sub64 (bal w denom) (lck w denom)")
    case True
    have s: "sub64 (bal w d) (lck w d) = bal w d - lck w d"
      using W by (intro sub64_exact) (simp add: in64_def)
    have b: "bal (sub_balance denom x w) d = (if denom = d then bal w d - x else bal w d)"
      using W assms(2) True s by (auto intro!: sub64_exact simp: in64_def)
    have "fst (WithdrawFromWallet i denom x k) = ex_save (put_wallet i (sub_balance denom x w) k)"
      using True by (simp add: WithdrawFromWallet_def Some)
    then show ?thesis
      by (intro backed_put [OF assms(1) Some, where w' = "sub_balance denom x w"])
         (use b W assms(2) True s in \<open>auto split: if_splits\<close>)
  qed (use assms(1) Some in \<open>auto simp: WithdrawFromWallet_def Let_def fair_backed\<close>)
qed (use assms(1) in \<open>simp add: WithdrawFromWallet_def fair_backed\<close>)

lemma claims_nobody:
  assumes "orders_ok k" "\<not> has_wallet k i"
  shows "claims d i k = 0"
proof -
  have "distinct (mkeys (Orders k))" using assms(1) by (simp add: orders_ok_def keys_from_def)
  then have "claim d i k a = 0" if "(j, a) \<in> set (Orders k)" for j a
    using orders_okD(3) [OF assms(1), of j a] assms(2) that by (auto simp: claim_def)
  then show ?thesis unfolding claims_def by (rule msum_zero)
qed

lemma CreateWallet_backed:
  assumes ok: "ex_ok k" and b: "backed d k" and seq: "WalletSeq k < 2 ^ 63 - 1"
  shows "backed d (fst (CreateWallet now u l k))"
proof (cases "snd (CreateWallet now u l k)")
  case (Inl e)
  then have "fst (CreateWallet now u l k) = k" by (auto simp: CreateWallet_def Let_def split: if_splits)
  with b show ?thesis by simp
next
  case (Inr w)
  let ?i = "wallet_id (add64 (WalletSeq k) 1)" and ?k = "fst (CreateWallet now u l k)"
  have k': "Wallets ?k = mput ?i w (Wallets k)" "Orders ?k = Orders k" "Pairs ?k = Pairs k"
    and w: "bal w d = 0" "lck w d = 0"
    using Inr by (auto simp: CreateWallet_def Let_def bal_def lck_def split: if_splits)
  have new: "mget (Wallets k) ?i = None"
    using ok seq by (intro wallet_ids.fresh) (simp_all add: ex_ok_def wallets_ok_def)
  have o: "orders_ok k" using ok by (simp add: ex_ok_def)
  have c: "claims d j ?k = claims d j k" for j by (rule claims_cong [OF k'(3,2)])
  have "claims d ?i k = 0" using new by (intro claims_nobody [OF o]) (simp add: has_wallet_def)
  moreover have t: "total d ?k = total d k" using new w by (simp add: total_def k' msum_put_new)
  moreover have "0 \<le> lck v d \<and> lck v d \<le> bal v d \<and> lck v d = claims d j ?k"
    if "mget (Wallets ?k) j = Some v" for j v
  proof (cases "j = ?i")
    case True
    with that have "v = w" by (simp add: k'(1) go_map)
    then show ?thesis using w True \<open>claims d ?i k = 0\<close> c [of ?i] by simp
  next
    case False
    with that have "mget (Wallets k) j = Some v" by (simp add: k'(1) go_map)
    then show ?thesis using b unfolding backed_def c by blast
  qed
  ultimately show ?thesis using b t unfolding backed_def by metis
qed

lemma SubmitKYC_backed:
  assumes "fair_state d k"
  shows "backed d (fst (SubmitKYC now app k))"
proof (cases "snd (SubmitKYC now app k)")
  case (Inl e)
  then have "fst (SubmitKYC now app k) = k"
    by (auto simp: SubmitKYC_eq Let_def split: if_splits option.splits)
  with assms show ?thesis by (simp add: fair_backed)
next
  case (Inr a)
  then obtain w where w: "mget (Wallets k) (a_WalletID app) = Some w"
    and k': "fst (SubmitKYC now app k) = ex_save (put_app (a_ID a) a
      (put_wallet (a_WalletID app) (decided_wallet (screened now k w app) w)
        (k\<lparr>KYCSeq := add64 (KYCSeq k) 1\<rparr>)))"
    by (auto simp: SubmitKYC_eq Let_def split: if_splits option.splits)
  show ?thesis unfolding k'
    by (rule backed_put [OF assms w, where w' = "decided_wallet (screened now k w app) w"])
       (use fair_bal [OF assms w] in simp_all)
qed

lemma ApproveKYC_backed:
  assumes "fair_state d k" "ApproveKYC now i k = Some (k', r)"
  shows "backed d k'"
proof (cases r)
  case (Inl e)
  then have "k' = k"
    using assms(2) by (auto simp: ApproveKYC_def Let_def split: option.splits if_splits bind_splits)
  with assms show ?thesis by (simp add: fair_backed)
next
  case (Inr u)
  then obtain a w where w: "mget (Wallets k) (a_WalletID a) = Some w"
    and e: "k' = ex_save (put_wallet (a_WalletID a) (w\<lparr>w_KYCTier := a_RequestedTier a\<rparr>)
      (put_app i (a\<lparr>a_Status := KYCStatusApproved, a_ApprovedAt := Some now, a_ReviewedAt := Some now\<rparr>) k))"
    using assms(2)
    by (auto simp: ApproveKYC_def Let_def split: option.splits if_splits bind_splits)
  have k': "Wallets k' = mput (a_WalletID a) (w\<lparr>w_KYCTier := a_RequestedTier a\<rparr>) (Wallets k)"
    "Orders k' = Orders k" "Pairs k' = Pairs k" by (simp_all add: e)
  have "bal (w\<lparr>w_KYCTier := a_RequestedTier a\<rparr>) d = bal w d" "lck (w\<lparr>w_KYCTier := a_RequestedTier a\<rparr>) d = lck w d"
    by (simp_all add: bal_def lck_def)
  then show ?thesis
    by (intro backed_put [OF assms(1) w k']) (use fair_bal [OF assms(1) w] in simp_all)
qed

lemma RejectKYC_backed: "backed d k \<Longrightarrow> backed d (fst (RejectKYC now i reason k))"
  by (rule backed_frame [of d k]) (simp_all add: RejectKYC_def split: option.splits)

lemma CancelOrder_backed:
  assumes ok: "ex_ok k" and fair: "fair_state d k" and run: "CancelOrder now oid wid k = Some (k', r)"
  shows "backed d k'"
proof (cases r)
  case (Inl e)
  then show ?thesis using run CancelOrder_error fair fair_backed by blast
next
  case (Inr u)
  with run have "CancelOrder now oid wid k = Some (k', Inr ())" by simp
  then show ?thesis
  proof (cases rule: CancelOrderE)
    case (1 a w pair)
    let ?c = "a\<lparr>o_Status := OrderStatusCancelled, o_UpdatedAt := now\<rparr>" and ?w = "unlock_funds a pair w"
    have k': "Wallets k' = mput wid ?w (Wallets k)" "Orders k' = mput oid ?c (Orders k)" "Pairs k' = Pairs k"
      by (simp_all add: 1(7) removeFromBook_eq)
    have nq: "tp_QuoteDenom pair \<noteq> d" and D: "distinct (mkeys (Wallets k))" "distinct (mkeys (Orders k))"
      using fair 1(6) by (auto simp: fair_state_def never_quoted_def)
    note W = fair_bal [OF fair 1(5)]
    have le: "claim d wid k a \<le> claims d wid k" by (rule fair_claim_le [OF fair 1(1)])
    have pos: "0 \<le> claim d wid k a" using fair 1(1) by (auto simp: fair_state_def intro: claim_nonneg)
    have cl: "claim d wid k a = (if o_Side a = OrderSideSell \<and> tp_BaseDenom pair = d then o_RemainingQty a else 0)"
      using 1(2,4,6) by (simp add: claim_def base_of_def)
    have lk: "lck ?w d = lck w d - claim d wid k a"
      using nq le W cl pos
      by (cases "o_Side a") (auto simp: unlock_funds_def intro!: sub64_exact simp: in64_def)
    have c0: "claim d j k ?c = 0" for j by (simp add: claim_def)
    have cs: "claims d j k' = claims d j k - claim d j k a" for j
      by (simp add: claims_put [OF k'(3,2) 1(1) D(2)] c0)
    have ca: "claim d j k a = 0" if "j \<noteq> wid" for j using that 1(2) by (simp add: claim_def)
    have tot: "total d k' = total d k" using D(1) 1(5) by (simp add: total_def k' msum_put)
    have "0 \<le> lck v d \<and> lck v d \<le> bal v d \<and> lck v d = claims d j k'" if "mget (Wallets k') j = Some v" for j v
      using that W lk le pos cs [of j] ca [of j] fair_bal(1-3) [OF fair, of j v]
      by (auto simp: k' go_map split: if_splits)
    with tot W show ?thesis unfolding backed_def by metis
  qed
qed

lemma PlaceOrder_backed:
  assumes ok: "ex_ok k" and fair: "fair_state d k" and q: "in64 quantity" and seq: "OrderSeq k < 2 ^ 63 - 1"
    and run: "PlaceOrder srt now wid pid side ot price quantity bh k = Some (k', r)"
  shows "backed d k'"
proof (cases r)
  case (Inl e)
  from PlaceOrder_error [OF run [unfolded Inl]] show ?thesis
    by (intro backed_frame [OF fair_backed [OF fair]]) (simp_all add: ex_same_def)
next
  case (Inr res)
  obtain order ts where "res = (order, ts)" by fastforce
  with run Inr have "PlaceOrder srt now wid pid side ot price quantity bh k = Some (k', Inr (order, ts))"
    by simp
  then show ?thesis
  proof (cases rule: PlaceOrderE)
    case (1 kc w pair w' o0 k1 rest order1)
    note kc = check_order_frame [OF 1(1)] and D = check_orderD [OF 1(1)]
    note ready = filed_ready [OF ok q seq 1(1,3)]
    let ?f = "filed wid w' o0 kc"
    have nq: "tp_QuoteDenom pair \<noteq> d" and dist: "distinct (mkeys (Wallets k))" "distinct (mkeys (Orders k))"
      using fair D(2) by (auto simp: fair_state_def never_quoted_def)
    have prs: "Pairs ?f = Pairs k" using kc(4) by (simp add: ex_same_def)
    note W = fair_bal [OF fair D(1)]
    let ?x = "if side = OrderSideSell \<and> tp_BaseDenom pair = d then quantity else 0"
    have pos: "0 < quantity" using ready(2) by (simp add: 1(3) qty_ok_def)
    have av: "?x \<le> bal w d - lck w d"
      using 1(2) W nq by (auto simp: lock_funds_def Let_def sub64_exact in64_def split: if_splits)
    have lk: "lck w' d = lck w d + ?x" "bal w' d = bal w d"
      using lock_fundsD [OF 1(2)] nq av W pos
      by (cases side; auto intro!: add64_exact simp: in64_def)+
    have c0: "claim d j k o0 = (if j = wid then ?x else 0)" for j
      using D(2) by (auto simp: claim_def 1(3) base_of_def)
    have cs: "claims d j ?f = claims d j k + (if j = wid then ?x else 0)" for j
      using msum_put_new [OF ready(1), of "claim d j k" o0] c0 claim_cong [OF prs]
      by (simp add: claims_def kc(2))
    have tot: "total d ?f = total d k" using dist D(1) lk(2) by (simp add: total_def kc(1) msum_put)
    have "0 \<le> lck v d \<and> lck v d \<le> bal v d \<and> lck v d = claims d j ?f" if "mget (Wallets ?f) j = Some v" for j v
      using that W lk av pos cs [of j] fair_bal(1-3) [OF fair, of j v]
      by (auto simp: kc(1) go_map split: if_splits)
    then have "backed d ?f" using tot W unfolding backed_def by metis
    moreover have "0 \<le> o_RemainingQty a" if "mget (Orders ?f) i = Some a" for i a
      using that fair ready(2) by (auto simp: kc(2) go_map fair_state_def qty_ok_def split: if_splits)
    ultimately have "fair_state d ?f"
      using fair dist prs by (auto simp: fair_state_def kc(1,2) never_quoted_def)
    moreover have "mget (Orders ?f) (o_ID o0) = Some o0" by (simp add: go_map)
    moreover have "mget (Pairs ?f) (o_PairID o0) = Some pair" using D(2) prs by (simp add: 1(3))
    ultimately have L: "fair_state d k1" using loop_fair [OF 1(4) ready(3)] by (simp add: 1(3))
    have "mget (Orders ?f) (o_ID o0) = Some o0" by (simp add: go_map)
    from loop_taker [OF 1(4) ready(3) this] 1(5) have "o_Status order1 = OrderStatusOpen"
      by (auto simp: 1(3))
    then have cl: "claim d j k1 order = claim d j k1 order1" for j
      by (simp add: 1(6) claim_def taker_done_def)
    have k': "Wallets k' = Wallets k1" "Pairs k' = Pairs k1"
      "Orders k' = mput (o_ID o0) order (Orders k1)" by (simp_all add: 1(7))
    have c: "claims d j k' = claims d j k1" for j
      using claims_put [OF k'(2,3) 1(5)] L cl by (simp add: fair_state_def)
    show ?thesis using fair_backed [OF L] unfolding backed_def total_def k'(1) c .
  qed
qed

text \<open>One call, and the machine with the backing as part of its invariant.\<close>

definition fair_pre :: "string \<Rightarrow> exchange \<Rightarrow> ex_op \<Rightarrow> bool" where
  "fair_pre d k op \<longleftrightarrow> in_range k op \<and> op_fair d k op"

definition fair_ok :: "string \<Rightarrow> exchange \<Rightarrow> bool" where
  "fair_ok d k \<longleftrightarrow> ex_ok k \<and> backed d k \<and> never_quoted d k"

lemma ex_step_pairs: "ex_step srt k op = Some k' \<Longrightarrow> Pairs k' = Pairs k"
proof (cases op)
  case (OpPlaceOrder now w p s t price q h)
  moreover assume "ex_step srt k op = Some k'"
  ultimately obtain r where "PlaceOrder srt now w p s t price q h k = Some (k', r)" by auto
  then show ?thesis
  proof (cases r)
    case (Inr res)
    obtain order ts where "res = (order, ts)" by fastforce
    with Inr \<open>PlaceOrder srt now w p s t price q h k = Some (k', r)\<close>
    have "PlaceOrder srt now w p s t price q h k = Some (k', Inr (order, ts))" by simp
    then show ?thesis
    proof (cases rule: PlaceOrderE)
      case (1 kc w pair w' o0 k1 rest order1)
      then show ?thesis using match_loop_trades [OF 1(4)] check_order_frame(4) [OF 1(1)]
        by (simp add: ex_same_def)
    qed
  qed (auto dest: PlaceOrder_error simp: ex_same_def)
qed (auto simp: CreateWallet_def DepositToWallet_def WithdrawFromWallet_def CancelOrder_def SubmitKYC_eq
    ApproveKYC_def RejectKYC_def removeFromBook_eq Let_def split: option.splits if_splits bind_splits)

lemma ex_step_backed:
  assumes fo: "fair_ok d k" and pre: "fair_pre d k op" and step: "ex_step srt k op = Some k'"
  shows "backed d k'"
proof -
  have ok: "ex_ok k" and b: "backed d k" and fair: "fair_state d k"
    using fo ex_ok_fair by (auto simp: fair_ok_def)
  have seq: "WalletSeq k < 2 ^ 63 - 1" "OrderSeq k < 2 ^ 63 - 1" "op_typed op" "op_fair d k op"
    using pre by (simp_all add: fair_pre_def in_range_def)
  show ?thesis
  proof (cases op)
    case (OpPlaceOrder now w p s t price q h)
    then obtain r where run: "PlaceOrder srt now w p s t price q h k = Some (k', r)" using step by auto
    have "in64 q" using seq(3) OpPlaceOrder by simp
    from PlaceOrder_backed [OF ok fair this seq(2) run] show ?thesis .
  next
    case (OpCancelOrder now i w)
    then obtain r where "CancelOrder now i w k = Some (k', r)" using step by auto
    then show ?thesis by (rule CancelOrder_backed [OF ok fair])
  next
    case (OpApproveKYC now i)
    then obtain r where "ApproveKYC now i k = Some (k', r)" using step by auto
    then show ?thesis by (rule ApproveKYC_backed [OF fair])
  qed (use step seq CreateWallet_backed [OF ok b] Deposit_backed [OF fair] Withdraw_backed [OF fair]
         SubmitKYC_backed [OF fair] RejectKYC_backed [OF b] in auto)
qed

sublocale sort_slice \<subseteq> fair: state_machine "ex_next srt" "fair_pre d" "fair_ok d" for d
proof unfold_locales
  fix s e assume fo: "fair_ok d s" and pre: "fair_pre d s e"
  then have ok: "ex_ok s" "in_range s e" by (simp_all add: fair_ok_def fair_pre_def)
  then obtain s' where s': "ex_step srt s e = Some s'" using ex_step_some by blast
  then have "ex_next srt s e = s'" by (simp add: ex_next_def)
  moreover have "never_quoted d s'"
    using fo ex_step_pairs [OF s'] by (simp add: fair_ok_def never_quoted_def)
  ultimately show "fair_ok d (ex_next srt s e)"
    using ex_step_ok [OF sort_slice_axioms ok s'] ex_step_backed [OF fo pre s'] by (simp add: fair_ok_def)
qed

lemma fair_ok_new: "fair_ok ''uftg'' (ex_NewKeeper srt None)"
  using ex_ok_new [of srt]
  by (simp add: fair_ok_def backed_def never_quoted_def total_def msum_def ex_NewKeeper_def Let_def
      ex_empty_def initDefaultPairs_def rebuildOrderBooks_def defaultPair_def)

context sort_slice begin

lemma ex_run_fair:
  "all_pre (ex_next srt) (fair_pre ''uftg'') (ex_NewKeeper srt None) ops \<Longrightarrow> fair_ok ''uftg'' (ex_run srt ops)"
  unfolding ex_run_def by (rule fair.run_ok [OF fair_ok_new])

end

end
