(* ===== verification/ExchangeViews.thy ===== *)
theory ExchangeViews
  imports ExchangeSolvency
begin

text \<open>
  What the keeper shows and rebuilds: the price levels of a book, the recent trades, and the
  books that \<open>NewKeeper\<close> rebuilds from the saved orders.
\<close>

section \<open>Price levels\<close>

definition at_price :: "order list \<Rightarrow> int64 \<Rightarrow> order list" where
  "at_price os p = filter (\<lambda>a. o_Price a = p) os"

definition level_of :: "order list \<Rightarrow> int64 \<Rightarrow> book_level" where
  "level_of os p =
     \<lparr>lv_Price = p, lv_Quantity = i64 (sum_list (map o_RemainingQty (at_price os p))),
      lv_Orders = i64 (int (length (at_price os p)))\<rparr>"

lemma i64_0 [simp]: "i64 0 = 0"
  by (rule i64_id) (simp add: in64_def)

lemma levels_get:
  "list_all (\<lambda>a. in64 (o_RemainingQty a)) os \<Longrightarrow>
   mget (foldl (\<lambda>m a. add_level a m) [] os) p =
     (if at_price os p = [] then None else Some (level_of os p))"
proof (induction os rule: rev_induct)
  case (snoc a os)
  then have r: "i64 (o_RemainingQty a) = o_RemainingQty a" by (simp add: i64_id)
  have one: "i64 1 = 1" by (rule i64_id) (simp add: in64_def)
  show ?case
  proof (cases "p = o_Price a")
    case True
    have at: "at_price (os @ [a]) p = at_price os p @ [a]" using True by (simp add: at_price_def)
    show ?thesis
    proof (cases "at_price os p = []")
      case True
      then show ?thesis using snoc \<open>p = o_Price a\<close> at
        by (simp add: add_level_def go_map level_of_def r one)
    next
      case False
      then show ?thesis using snoc \<open>p = o_Price a\<close> at
        by (simp add: add_level_def go_map level_of_def go_arith add.commute)
    qed
  next
    case False
    then have "at_price (os @ [a]) p = at_price os p" by (simp add: at_price_def)
    with False snoc show ?thesis
      by (simp add: add_level_def go_map level_of_def split: option.splits)
  qed
qed (simp add: at_price_def)

lemma levels_distinct: "distinct (mkeys (foldl (\<lambda>m a. add_level a m) [] os))"
  by (induction os rule: rev_induct) (simp_all add: add_level_def split: option.splits)

lemma book_levels_set:
  assumes "list_all (\<lambda>a. in64 (o_RemainingQty a)) os"
  shows "set (book_levels os) = level_of os ` (o_Price ` set os)"
proof -
  let ?m = "foldl (\<lambda>m a. add_level a m) [] os"
  have g: "(p, l) \<in> set ?m \<longleftrightarrow> p \<in> o_Price ` set os \<and> l = level_of os p" for p l
  proof -
    have "at_price os p \<noteq> [] \<longleftrightarrow> p \<in> o_Price ` set os" by (auto simp: at_price_def filter_empty_conv)
    moreover have "(p, l) \<in> set ?m \<longleftrightarrow> mget ?m p = Some l"
      using mget_iff [OF levels_distinct] by blast
    ultimately show ?thesis using levels_get [OF assms, of p] by auto
  qed
  have "set (book_levels os) = snd ` set ?m" by (simp add: book_levels_def)
  also have "\<dots> = level_of os ` (o_Price ` set os)" using g by force
  finally show ?thesis .
qed

lemma book_levels_distinct:
  assumes "list_all (\<lambda>a. in64 (o_RemainingQty a)) os"
  shows "distinct (map lv_Price (book_levels os))"
proof -
  let ?m = "foldl (\<lambda>m a. add_level a m) [] os"
  have "lv_Price l = p" if "(p, l) \<in> set ?m" for p l
  proof -
    have "mget ?m p = Some l" using that mget_iff [OF levels_distinct] by blast
    then show ?thesis using levels_get [OF assms, of p] by (auto simp: level_of_def split: if_splits)
  qed
  then have e: "map (\<lambda>e. lv_Price (snd e)) ?m = mkeys ?m" by (auto intro!: map_cong)
  have "map lv_Price (book_levels os) = map (\<lambda>e. lv_Price (snd e)) ?m" by (simp add: book_levels_def)
  then show ?thesis using levels_distinct [of os] e by metis
qed

lemma insertion_sort_set: "set (insertion_sort lt xs) = set xs"
  by (metis insertion_sort_def mset_foldl_ins add_0 mset.simps(1) mset_rev mset_eq_setD)

lemma insertion_sort_sorted: "sorted (map f (insertion_sort (\<lambda>a b. f a < (f b :: int)) xs))"
  using sorted_foldl_ins [of f "[]" xs] by (simp add: insertion_sort_def rev_map)

lemma insertion_sort_desc: "sorted (map (\<lambda>a. - f a) (insertion_sort (\<lambda>a b. f a > (f b :: int)) xs))"
  using insertion_sort_sorted [of "\<lambda>a. - f a" xs] by simp

section \<open>Recent trades\<close>

lemma GetRecentTrades_eq:
  "GetRecentTrades p n k =
     (let ts = filter (\<lambda>t. t_PairID t = p) (Trades k)
      in if n > 0 then rev (take (nat n) (rev ts)) else ts)"
  by (auto simp: GetRecentTrades_def Let_def take_rev)

section \<open>Rebuilding the books\<close>

lemma book_append_get:
  "mgetd [] (book_append os side bk) p =
     mgetd [] bk p @ map fst (filter (\<lambda>(_, a). live a \<and> o_Side a = side \<and> o_PairID a = p) os)"
proof (induction os side bk rule: book_append.induct)
  case (2 oid order rest side book)
  then show ?case by (simp add: go_map split: if_splits)
qed simp

lemma mgetd_map: "mgetd [] (map (\<lambda>(p, b). (p, f b)) m) p = (if mget m p = None then [] else f (mgetd [] m p))"
  by (induction m) (auto simp: mgetd_def)

definition saved_book :: "order_side \<Rightarrow> string \<Rightarrow> exchange \<Rightarrow> string list" where
  "saved_book side p k =
     map fst (filter (\<lambda>(_, a). live a \<and> o_Side a = side \<and> o_PairID a = p) (Orders k))"

lemma rebuild_frame [simp]:
  "Wallets (rebuildOrderBooks srt k) = Wallets k" "Orders (rebuildOrderBooks srt k) = Orders k"
  "Trades (rebuildOrderBooks srt k) = Trades k" "KYCApps (rebuildOrderBooks srt k) = KYCApps k"
  "Pairs (rebuildOrderBooks srt k) = Pairs k" "Config (rebuildOrderBooks srt k) = Config k"
  "DailyLimits (rebuildOrderBooks srt k) = DailyLimits k"
  "WalletSeq (rebuildOrderBooks srt k) = WalletSeq k" "OrderSeq (rebuildOrderBooks srt k) = OrderSeq k"
  "TradeSeq (rebuildOrderBooks srt k) = TradeSeq k" "KYCSeq (rebuildOrderBooks srt k) = KYCSeq k"
  by (simp_all add: rebuildOrderBooks_def)

lemma sort_nil: "sort_slice srt \<Longrightarrow> srt (side_less side k) [] = []"
  using side_sort(1) [of srt side k "[]"] by simp

lemma rebuilt_book:
  assumes "sort_slice srt"
  shows "book_at side (rebuildOrderBooks srt k) p = srt (side_less side k) (saved_book side p k)"
proof -
  have g: "mgetd [] (book_append (Orders k) s []) p = saved_book s p k" for s
    by (simp add: book_append_get saved_book_def)
  have n: "mget (book_append (Orders k) s []) p = None \<Longrightarrow> saved_book s p k = []" for s
    using g [of s] by (simp add: mgetd_def)
  show ?thesis
    using sort_nil [OF assms, of OrderSideBuy k] sort_nil [OF assms, of OrderSideSell k] n g
    by (cases side) (auto simp: book_at_def rebuildOrderBooks_def mgetd_map side_less_def)
qed

lemma saved_book_set:
  assumes "distinct (mkeys (Orders k))"
  shows "i \<in> set (saved_book side p k) \<longleftrightarrow>
    (\<exists>a. mget (Orders k) i = Some a \<and> live a \<and> o_Side a = side \<and> o_PairID a = p)"
  using assms by (force simp: saved_book_def)

lemma rebuild_ok:
  assumes srt: "sort_slice srt" and d: "distinct (mkeys (Orders k))"
    and lim: "\<And>i a. mget (Orders k) i = Some a \<Longrightarrow> live a \<Longrightarrow> o_Type a = OrderTypeLimit"
  shows "book_ok side p (rebuildOrderBooks srt k)"
proof -
  let ?k = "rebuildOrderBooks srt k"
  note S = side_sort [OF srt]
  have "price_of ?k = price_of k" by (simp add: price_of_def fun_eq_iff)
  then have "sorted_book side ?k (book_at side ?k p)"
    using S(3) [of side k "saved_book side p k"] by (simp add: rebuilt_book [OF srt] sorted_book_def)
  moreover have "distinct (saved_book side p k)"
    using d by (simp add: saved_book_def distinct_map_filter)
  moreover have "in_book side p ?k i \<longleftrightarrow> i \<in> set (saved_book side p k)" for i
    using lim by (auto simp: in_book_def saved_book_set [OF d])
  ultimately show ?thesis by (simp add: book_ok_def rebuilt_book [OF srt] S)
qed

end
