(* ===== verification/ExchangeProps.thy ===== *)
theory ExchangeProps
  imports ExchangeViews
begin

text \<open>
  The properties of the exchange keeper, over runs from a fresh keeper where they are invariants
  and over any state with the invariant where they describe one operation; and a small run used
  as the concrete input of their examples.
\<close>

section \<open>A run for the examples\<close>

definition demo_app :: "string \<Rightarrow> string \<Rightarrow> string \<Rightarrow> kyc_application" where
  "demo_app user wid country =
     \<lparr>a_ID = '''', a_UserID = user, a_WalletID = wid, a_RequestedTier = KYCTierBasic,
      a_CurrentTier = KYCTierNone, a_Status = KYCStatusNone, a_Email = '''', a_Phone = '''',
      a_Country = country, a_FullName = '''', a_DateOfBirth = '''', a_IDType = '''',
      a_IDNumber = '''', a_IDDocumentHash = '''', a_ProofOfAddress = '''', a_CompanyName = '''',
      a_CompanyRegNo = '''', a_CompanyCountry = '''', a_AMLRiskScore = 0, a_PEPCheck = False,
      a_SanctionsCheck = False, a_SubmittedAt = 0, a_ReviewedAt = None, a_ApprovedAt = None,
      a_RejectedReason = ''''\<rparr>"

text \<open>
  Alice offers 5 FTG at 5 USDC; Bob has 100 USDC; Carol has passed KYC and has nothing.
\<close>

definition demo_ops :: "ex_op list" where
  "demo_ops =
     [OpCreateWallet 0 ''alice'' '''', OpSubmitKYC 0 (demo_app ''alice'' ''FTG-W-000001'' ''US''),
      OpDeposit ''FTG-W-000001'' ''uftg'' 10000000,
      OpCreateWallet 0 ''bob'' '''', OpSubmitKYC 0 (demo_app ''bob'' ''FTG-W-000002'' ''US''),
      OpDeposit ''FTG-W-000002'' ''uusdc'' 100000000,
      OpCreateWallet 0 ''carol'' '''', OpSubmitKYC 0 (demo_app ''carol'' ''FTG-W-000003'' ''US''),
      OpPlaceOrder 0 ''FTG-W-000001'' ''FTG-USDC'' OrderSideSell OrderTypeLimit 5000000 5000000 100]"

definition demo :: exchange where
  "demo = ex_run insertion_sort demo_ops"

definition demo_buy :: "string \<Rightarrow> order_type \<Rightarrow> int64 \<Rightarrow> int64 \<Rightarrow> (exchange \<times> (ex_error + order \<times> trade list)) option" where
  "demo_buy wid ot price quantity =
     PlaceOrder insertion_sort 0 wid ''FTG-USDC'' OrderSideBuy ot price quantity 101 demo"

lemma demo_ok: "ex_ok demo"
  unfolding demo_def
  by (rule ex_run_invariant [OF ins_sort.sort_slice_axioms]) (simp_all add: demo_ops_def in64_def)

lemma demo_seq: "OrderSeq demo = 1 \<and> WalletSeq demo = 3 \<and> KYCSeq demo = 3"
  by code_simp

lemma demo_pair: "mget (Pairs demo) ''FTG-USDC'' = Some defaultPair"
  by code_simp

text \<open>Bob buys 3 FTG at a limit of 6 USDC and pays 5.\<close>

lemma some_inr:
  "(case x of Some (k, Inr r) \<Rightarrow> True | _ \<Rightarrow> False) \<Longrightarrow> \<exists>k r. x = Some (k, Inr r)"
  by (cases x; cases "snd (the x)") (auto simp: case_prod_beta prod_eq_iff)

lemma demo_bought:
  obtains k' order ts where
    "PlaceOrder insertion_sort 0 ''FTG-W-000002'' ''FTG-USDC'' OrderSideBuy OrderTypeLimit 6000000 3000000 101 demo =
       Some (k', Inr (order, ts))"
proof -
  have "case demo_buy ''FTG-W-000002'' OrderTypeLimit 6000000 3000000 of
      Some (k, Inr res) \<Rightarrow> True | _ \<Rightarrow> False" by code_simp
  from some_inr [OF this] obtain k' res where
    "demo_buy ''FTG-W-000002'' OrderTypeLimit 6000000 3000000 = Some (k', Inr res)" by blast
  with that show ?thesis by (cases res) (simp add: demo_buy_def)
qed

lemma demo_room: "OrderSeq demo < 2 ^ 63 - 1" "WalletSeq demo < 2 ^ 63 - 1" "in64 3000000"
  using demo_seq by (simp_all add: in64_def)

lemma demo_typed: "list_all op_typed demo_ops" "int (length demo_ops) < 2 ^ 63 - 1"
  by (simp_all add: demo_ops_def in64_def)

section \<open>Invariants of every run\<close>

text \<open>
  C2: Books. After any run from a fresh keeper, for every pair and side, the book holds each live
  limit order of that pair and side exactly once and nothing else, from the best price to
  the worst.
\<close>

theorem books_exact_and_sorted:
  assumes "sort_slice srt" "list_all op_typed ops" "int (length ops) < 2 ^ 63"
  shows "distinct (book_at side (ex_run srt ops) p) \<and>
    (\<forall>i. i \<in> set (book_at side (ex_run srt ops) p) \<longleftrightarrow>
       (\<exists>a. mget (Orders (ex_run srt ops)) i = Some a \<and> live a \<and> o_Type a = OrderTypeLimit \<and>
            o_Side a = side \<and> o_PairID a = p)) \<and>
    sorted (map (\<lambda>i. price_key side (price_of (ex_run srt ops) i)) (book_at side (ex_run srt ops) p))"
proof -
  have "book_ok side p (ex_run srt ops)" using ex_run_invariant [OF assms] by (simp add: ex_ok_def)
  then show ?thesis by (auto simp: book_ok_def sorted_book_def in_book_def)
qed

theorem books_exact_and_sorted_witness:
  "distinct (book_at OrderSideSell demo ''FTG-USDC'') \<and>
   book_at OrderSideSell demo ''FTG-USDC'' = [''FTG-ORD-00000001'']"
proof
  show "distinct (book_at OrderSideSell demo ''FTG-USDC'')"
    using books_exact_and_sorted [OF ins_sort.sort_slice_axioms demo_typed(1), of OrderSideSell "''FTG-USDC''"]
    by (simp add: demo_def demo_ops_def)
  show "book_at OrderSideSell demo ''FTG-USDC'' = [''FTG-ORD-00000001'']" by code_simp
qed

text \<open>
  C5: Crossing. After any run, a live bid of a pair is priced below every live ask of the pair,
  unless both are of the same wallet: the matching leaves no trade between two wallets undone.
\<close>

theorem book_never_crossed:
  assumes "sort_slice srt" "list_all op_typed ops" "int (length ops) < 2 ^ 63"
    and "i \<in> set (book_at OrderSideBuy (ex_run srt ops) p)" "mget (Orders (ex_run srt ops)) i = Some bid"
    and "j \<in> set (book_at OrderSideSell (ex_run srt ops) p)" "mget (Orders (ex_run srt ops)) j = Some ask"
  shows "o_Price bid < o_Price ask \<or> o_WalletID bid = o_WalletID ask"
proof -
  have "book_ok OrderSideBuy p (ex_run srt ops)" "book_ok OrderSideSell p (ex_run srt ops)"
    "uncrossed (ex_run srt ops)"
    using ex_run_invariant [OF assms(1-3)] by (simp_all add: ex_ok_def)
  then show ?thesis using assms(4-7) unfolding uncrossed_def by (metis book_okD(3))
qed

definition demo_bid_ops :: "ex_op list" where
  "demo_bid_ops = demo_ops @
     [OpPlaceOrder 0 ''FTG-W-000002'' ''FTG-USDC'' OrderSideBuy OrderTypeLimit 4000000 2000000 101]"

definition demo_bid :: exchange where
  "demo_bid = ex_run insertion_sort demo_bid_ops"

lemma demo_bid_eval:
  "book_at OrderSideBuy demo_bid ''FTG-USDC'' = [''FTG-ORD-00000002''] \<and>
   book_at OrderSideSell demo_bid ''FTG-USDC'' = [''FTG-ORD-00000001''] \<and>
   map_option o_Price (mget (Orders demo_bid) ''FTG-ORD-00000002'') = Some 4000000 \<and>
   map_option o_Price (mget (Orders demo_bid) ''FTG-ORD-00000001'') = Some 5000000"
  by code_simp

lemma demo_bid_typed: "list_all op_typed demo_bid_ops" "int (length demo_bid_ops) < 2 ^ 63"
  by (simp_all add: demo_bid_ops_def demo_ops_def in64_def)

theorem book_never_crossed_witness:
  "\<exists>bid ask. mget (Orders demo_bid) ''FTG-ORD-00000002'' = Some bid \<and>
     mget (Orders demo_bid) ''FTG-ORD-00000001'' = Some ask \<and>
     (o_Price bid < o_Price ask \<or> o_WalletID bid = o_WalletID ask)"
proof -
  from demo_bid_eval obtain bid ask where
    o: "mget (Orders demo_bid) ''FTG-ORD-00000002'' = Some bid"
      "mget (Orders demo_bid) ''FTG-ORD-00000001'' = Some ask" by auto
  have "o_Price bid < o_Price ask \<or> o_WalletID bid = o_WalletID ask"
    by (rule book_never_crossed [OF ins_sort.sort_slice_axioms demo_bid_typed, folded demo_bid_def,
          of "''FTG-ORD-00000002''" "''FTG-USDC''" bid "''FTG-ORD-00000001''" ask])
       (use demo_bid_eval o in simp_all)
  with o show ?thesis by blast
qed

text \<open>
  C6: Order accounting. After any run every order belongs to an existing wallet and pair, its
  filled and remaining quantities are nonnegative and add up to its quantity, its filled quantity
  is what the recorded trades that name it executed, and its status says which of the two is
  zero.
\<close>

theorem orders_accounted:
  assumes "sort_slice srt" "list_all op_typed ops" "int (length ops) < 2 ^ 63"
    and "mget (Orders (ex_run srt ops)) i = Some a"
  shows "o_ID a = i \<and> 0 \<le> o_FilledQty a \<and> 0 \<le> o_RemainingQty a \<and>
    o_FilledQty a + o_RemainingQty a = o_Quantity a \<and>
    o_FilledQty a = traded i (Trades (ex_run srt ops)) \<and>
    status_ok (o_Status a) (o_FilledQty a) (o_RemainingQty a) \<and>
    has_wallet (ex_run srt ops) (o_WalletID a)"
proof -
  have "orders_ok (ex_run srt ops)" using ex_run_invariant [OF assms(1-3)] by (simp add: ex_ok_def)
  note A = orders_okD [OF this assms(4)]
  then show ?thesis by (simp add: order_ok_def qty_ok_def)
qed

theorem orders_accounted_witness:
  "\<exists>a. mget (Orders demo) ''FTG-ORD-00000001'' = Some a \<and>
     o_FilledQty a + o_RemainingQty a = o_Quantity a \<and> o_FilledQty a = traded ''FTG-ORD-00000001'' (Trades demo)"
proof -
  have "mget (Orders demo) ''FTG-ORD-00000001'' \<noteq> None" by code_simp
  then obtain a where a: "mget (Orders demo) ''FTG-ORD-00000001'' = Some a" by blast
  then show ?thesis
    using orders_accounted [OF ins_sort.sort_slice_axioms demo_typed(1), of "''FTG-ORD-00000001''" a]
    by (simp add: demo_def demo_ops_def)
qed

text \<open>
  No panic. In a state that any run reaches, no call dereferences a missing wallet, pair or
  order: every call returns.
\<close>

theorem calls_never_panic:
  assumes "sort_slice srt" "list_all op_typed ops" "op_typed op" "int (length ops) < 2 ^ 63 - 1"
  shows "ex_step srt (ex_run srt ops) op \<noteq> None"
proof -
  have "seqs_le (ex_NewKeeper srt None) 0"
    by (simp add: seqs_le_def ex_NewKeeper_def Let_def ex_empty_def initDefaultPairs_def
        rebuildOrderBooks_def)
  moreover from this have "all_pre (ex_next srt) in_range (ex_NewKeeper srt None) ops"
    using assms by (intro run_in_range [OF _ ex_ok_new]) auto
  ultimately have "seqs_le (ex_run srt ops) (int (length ops))"
    unfolding ex_run_def using run_seqs [OF assms(1) ex_ok_new, of srt 0 ops] by simp
  then have "in_range (ex_run srt ops) op"
    using assms(3,4) by (auto simp: in_range_def seqs_le_def)
  moreover have "ex_ok (ex_run srt ops)" using ex_run_invariant [OF assms(1,2)] assms(4) by simp
  ultimately show ?thesis by (intro ex_step_some)
qed

theorem calls_never_panic_witness:
  "ex_step insertion_sort demo (OpCancelOrder 0 ''FTG-ORD-00000001'' ''FTG-W-000001'') \<noteq> None"
  unfolding demo_def
  by (rule calls_never_panic [OF ins_sort.sort_slice_axioms demo_typed(1) _ demo_typed(2)]) simp

lemma find_unique:
  assumes "set xs = set ys" "\<And>x y. x \<in> set xs \<Longrightarrow> y \<in> set xs \<Longrightarrow> P x \<Longrightarrow> P y \<Longrightarrow> x = y"
  shows "find P xs = find P ys"
proof (cases "find P xs")
  case None
  then have "find P ys = None" using assms(1) by (auto simp: find_None_iff)
  with None show ?thesis by simp
next
  case (Some x)
  then have x: "x \<in> set xs" "P x" by (auto simp: find_Some_iff)
  with assms(1) obtain y where "find P ys = Some y" by (cases "find P ys") (auto simp: find_None_iff)
  then have "y \<in> set xs" "P y" using assms(1) by (auto simp: find_Some_iff)
  with x assms(2) Some \<open>find P ys = Some y\<close> show ?thesis by auto
qed

lemma GetWalletByUser_perm:
  assumes "wallets_ok k" "set ws = set (Wallets k)"
  shows "GetWalletByUser u (k\<lparr>Wallets := ws\<rparr>) = GetWalletByUser u k"
proof -
  have "find (\<lambda>(_, w). w_UserID w = u \<and> w_Active w) (Wallets k) =
      find (\<lambda>(_, w). w_UserID w = u \<and> w_Active w) ws"
  proof (rule find_unique)
    fix x y assume x: "x \<in> set (Wallets k)" "y \<in> set (Wallets k)"
      and P: "case x of (_, w) \<Rightarrow> w_UserID w = u \<and> w_Active w" "case y of (_, w) \<Rightarrow> w_UserID w = u \<and> w_Active w"
    obtain i v j w where [simp]: "x = (i, v)" "y = (j, w)" by (cases x; cases y)
    have d: "distinct (mkeys (Wallets k))" using assms(1) by (simp add: wallets_ok_def keys_from_def)
    then have g: "mget (Wallets k) i = Some v" "mget (Wallets k) j = Some w" using x by simp_all
    moreover have "i = j" using assms(1) g P unfolding wallets_ok_def by simp
    ultimately show "x = y" by simp
  qed (simp add: assms(2))
  then show ?thesis by (simp add: GetWalletByUser_def)
qed

text \<open>
  One active wallet per user. After any run, looking a wallet up by its user gives the same
  answer whatever the order in which the map of wallets is iterated.
\<close>

theorem wallet_of_user_unique:
  assumes "sort_slice srt" "list_all op_typed ops" "int (length ops) < 2 ^ 63"
    and "set ws = set (Wallets (ex_run srt ops))"
  shows "GetWalletByUser u ((ex_run srt ops)\<lparr>Wallets := ws\<rparr>) = GetWalletByUser u (ex_run srt ops)"
  using ex_run_invariant [OF assms(1-3)] assms(4) by (intro GetWalletByUser_perm) (simp_all add: ex_ok_def)

theorem wallet_of_user_unique_witness:
  "GetWalletByUser ''bob'' (demo\<lparr>Wallets := rev (Wallets demo)\<rparr>) = GetWalletByUser ''bob'' demo"
  unfolding demo_def
  by (rule wallet_of_user_unique [OF ins_sort.sort_slice_axioms demo_typed(1)])
     (simp_all add: demo_ops_def)

text \<open>
  C20: History. From any state with the invariant, a run of further calls never removes an order
  or a trade, never changes an order's owner, pair, side, type, price or quantity, only increases
  what it has filled, and leaves an order that is filled or cancelled exactly as it is.
\<close>

theorem order_history:
  assumes "sort_slice srt" "ex_ok k" "all_pre (ex_next srt) in_range k ops"
    and "mget (Orders k) i = Some a"
  shows "\<exists>b ts. mget (Orders (foldl (ex_next srt) k ops)) i = Some b \<and> same_terms a b \<and>
    o_FilledQty a \<le> o_FilledQty b \<and> (\<not> live a \<longrightarrow> b = a) \<and>
    Trades (foldl (ex_next srt) k ops) = Trades k @ ts"
  using sort_slice.ex_run_history [OF assms(1-3)] assms(4) unfolding history_def by blast

lemma demo_in_range: "in_range demo op \<longleftrightarrow> op_typed op"
  using demo_seq by (simp add: in_range_def)

theorem order_history_witness:
  "\<exists>b ts. mget (Orders (foldl (ex_next insertion_sort) demo
       [OpPlaceOrder 0 ''FTG-W-000002'' ''FTG-USDC'' OrderSideBuy OrderTypeLimit 6000000 3000000 101]))
     ''FTG-ORD-00000001'' = Some b \<and> o_Price b = 5000000 \<and>
     Trades (foldl (ex_next insertion_sort) demo
       [OpPlaceOrder 0 ''FTG-W-000002'' ''FTG-USDC'' OrderSideBuy OrderTypeLimit 6000000 3000000 101]) =
       Trades demo @ ts"
proof -
  have "map_option o_Price (mget (Orders demo) ''FTG-ORD-00000001'') = Some 5000000" by code_simp
  then obtain a where a: "mget (Orders demo) ''FTG-ORD-00000001'' = Some a" "o_Price a = 5000000" by auto
  let ?ops = "[OpPlaceOrder 0 ''FTG-W-000002'' ''FTG-USDC'' OrderSideBuy OrderTypeLimit 6000000 3000000 101]"
  have "all_pre (ex_next insertion_sort) in_range demo ?ops"
    by (simp add: demo_in_range in64_def)
  from order_history [OF ins_sort.sort_slice_axioms demo_ok this a(1)] a(2)
  show ?thesis by (auto simp: same_terms_def)
qed

text \<open>
  C8: Backing of FTG. In a run whose uftg deposits and withdrawals are nonnegative and whose
  total stays below \<open>2 ^ 63\<close>, every wallet's locked uftg is exactly what its live sell orders
  still offer, is nonnegative, and is covered by its balance.
\<close>

theorem uftg_backed:
  assumes "sort_slice srt" "all_pre (ex_next srt) (fair_pre ''uftg'') (ex_NewKeeper srt None) ops"
    and "mget (Wallets (ex_run srt ops)) i = Some w"
  shows "0 \<le> lck w ''uftg'' \<and> lck w ''uftg'' \<le> bal w ''uftg'' \<and>
    lck w ''uftg'' = claims ''uftg'' i (ex_run srt ops)"
proof -
  have "backed ''uftg'' (ex_run srt ops)"
    using sort_slice.ex_run_fair [OF assms(1,2)] by (simp add: fair_ok_def)
  then show ?thesis using assms(3) unfolding backed_def by blast
qed

theorem uftg_backed_witness:
  "\<exists>w. mget (Wallets demo) ''FTG-W-000001'' = Some w \<and> lck w ''uftg'' = claims ''uftg'' ''FTG-W-000001'' demo \<and>
     lck w ''uftg'' = 5000000"
proof -
  have "map_option (\<lambda>w. lck w ''uftg'') (mget (Wallets demo) ''FTG-W-000001'') = Some 5000000" by code_simp
  then obtain w where w: "mget (Wallets demo) ''FTG-W-000001'' = Some w" "lck w ''uftg'' = 5000000" by auto
  have "all_pre (ex_next insertion_sort) (fair_pre ''uftg'') (ex_NewKeeper insertion_sort None) demo_ops"
    by code_simp
  from uftg_backed [OF ins_sort.sort_slice_axioms this] w show ?thesis by (simp add: demo_def)
qed

end
