(* ===== verification/Settlement.thy ===== *)
theory Settlement
  imports Prelude
begin

text \<open>
  The settlement keeper, \<open>x/settlement/keeper/keeper.go\<close> and \<open>types.go\<close>: deposits, withdrawals
  and escrows. Each method holds the keeper's lock and runs at the instant \<open>now\<close>; an error is
  \<open>Inl\<close> with the state the method leaves, which an expiry does change.
\<close>

section \<open>Data\<close>

text \<open>A payment method is a string that a request chooses; only the five constants are ever enabled.\<close>

datatype payment_method =
    PaymentMethodBankWire | PaymentMethodCircleMint | PaymentMethodNobleIBC
  | PaymentMethodStablecoin | PaymentMethodStripe | PaymentMethodOther string

datatype settlement_status =
    StatusPending | StatusFunded | StatusExecuting | StatusCompleted | StatusFailed
  | StatusRefunded | StatusDisputed

record escrow =
  e_ID :: string
  e_TradeID :: string
  e_BuyerWalletID :: string
  e_SellerWalletID :: string
  e_AmountUSDC :: int64
  e_FeeUSDC :: int64
  e_Status :: settlement_status
  e_PaymentMethod :: payment_method
  e_PaymentRef :: string
  e_CreatedAt :: time
  e_FundedAt :: "time option"
  e_CompletedAt :: "time option"
  e_ExpiresAt :: time

record settlement_record =
  s_ID :: string
  s_EscrowID :: string
  s_TradeID :: string
  s_BuyerWalletID :: string
  s_SellerWalletID :: string
  s_FTGAmount :: int64
  s_USDCAmount :: int64
  s_PricePerFTG :: int64
  s_FeeCollected :: int64
  s_PaymentMethod :: payment_method
  s_BlockHeight :: int64
  s_SettledAt :: time

record deposit_intent =
  d_ID :: string
  d_WalletID :: string
  d_UserID :: string
  d_Amount :: int64
  d_PaymentMethod :: payment_method
  d_Status :: string
  d_PaymentRef :: string
  d_DepositAddress :: string
  d_CreatedAt :: time
  d_ConfirmedAt :: "time option"
  d_ExpiresAt :: time

record withdrawal_request =
  r_ID :: string
  r_WalletID :: string
  r_UserID :: string
  r_Amount :: int64
  r_PaymentMethod :: payment_method
  r_Status :: string
  r_DestinationRef :: string
  r_CreatedAt :: time
  r_ProcessedAt :: "time option"

record settlement_config =
  EscrowTimeoutHours :: int64
  MinSettlementUSDC :: int64
  MaxSettlementUSDC :: int64
  SettlementFeeBPS :: int64
  WithdrawalFeeFlat :: int64
  WithdrawalFeeBPS :: int64
  BankWireEnabled :: bool
  StripeEnabled :: bool
  CryptoEnabled :: bool
  NobleIBCEnabled :: bool
  CircleAPIEnabled :: bool

record settlement_json =
  Escrows :: "(string, escrow) gomap"
  Settlements :: "settlement_record list"
  Deposits :: "(string, deposit_intent) gomap"
  Withdrawals :: "(string, withdrawal_request) gomap"
  SConfig :: settlement_config
  TotalSettledUSDC :: int64
  TotalFeesCollected :: int64
  TotalDeposited :: int64
  TotalWithdrawn :: int64
  ActiveEscrows :: int64
  EscrowSeq :: int64
  SettlementSeq :: int64
  DepositSeq :: int64
  WithdrawalSeq :: int64

record settlement = settlement_json +
  st_disk :: "settlement_json option"

datatype st_error =
    DepositBelowMinimum int64 | MethodNotEnabled payment_method
  | DepositNotFound string | DepositAlready string string | DepositExpired string
  | WithdrawalBelowFee int64 | WithdrawalNotFound string | WithdrawalAlready string string
  | SettlementBelowMinimum int64 | SettlementAboveMaximum int64
  | EscrowNotFound string | EscrowCannotFund string settlement_status | EscrowExpired string
  | EscrowNotFunded string settlement_status | CannotRefundCompleted string

definition escrow_id :: "int64 \<Rightarrow> string" where "escrow_id n = ''ESC-'' @ fmt0d 6 n"
definition settlement_id :: "int64 \<Rightarrow> string" where "settlement_id n = ''STL-'' @ fmt0d 6 n"
definition deposit_id :: "int64 \<Rightarrow> string" where "deposit_id n = ''DEP-'' @ fmt0d 6 n"
definition withdrawal_id :: "int64 \<Rightarrow> string" where "withdrawal_id n = ''WDR-'' @ fmt0d 6 n"

interpretation escrow_ids: id_store escrow_id
  using prefixed_id_store [of "''ESC-''" 6] by (simp only: escrow_id_def [abs_def])

interpretation deposit_ids: id_store deposit_id
  using prefixed_id_store [of "''DEP-''" 6] by (simp only: deposit_id_def [abs_def])

interpretation withdrawal_ids: id_store withdrawal_id
  using prefixed_id_store [of "''WDR-''" 6] by (simp only: withdrawal_id_def [abs_def])

section \<open>Creating and loading\<close>

definition DefaultSettlementConfig :: settlement_config where
  "DefaultSettlementConfig =
     \<lparr>EscrowTimeoutHours = 24, MinSettlementUSDC = 500000, MaxSettlementUSDC = 1000000000000,
      SettlementFeeBPS = 10, WithdrawalFeeFlat = 1000000, WithdrawalFeeBPS = 5,
      BankWireEnabled = False, StripeEnabled = True, CryptoEnabled = True,
      NobleIBCEnabled = False, CircleAPIEnabled = False\<rparr>"

definition st_NewKeeper :: "settlement_json option \<Rightarrow> settlement" where
  "st_NewKeeper disk =
     (case disk of
        None \<Rightarrow>
          \<lparr>Escrows = [], Settlements = [], Deposits = [], Withdrawals = [],
           SConfig = DefaultSettlementConfig, TotalSettledUSDC = 0, TotalFeesCollected = 0,
           TotalDeposited = 0, TotalWithdrawn = 0, ActiveEscrows = 0, EscrowSeq = 0,
           SettlementSeq = 0, DepositSeq = 0, WithdrawalSeq = 0, st_disk = None\<rparr>
      | Some j \<Rightarrow> settlement_json.extend j \<lparr>st_disk = Some j\<rparr>)"

definition st_save :: "settlement \<Rightarrow> settlement" where
  "st_save k = k\<lparr>st_disk := Some (settlement_json.truncate k)\<rparr>"

fun isMethodEnabled :: "settlement \<Rightarrow> payment_method \<Rightarrow> bool" where
  "isMethodEnabled k PaymentMethodBankWire = BankWireEnabled (SConfig k)"
| "isMethodEnabled k PaymentMethodStripe = StripeEnabled (SConfig k)"
| "isMethodEnabled k PaymentMethodStablecoin = CryptoEnabled (SConfig k)"
| "isMethodEnabled k PaymentMethodNobleIBC = NobleIBCEnabled (SConfig k)"
| "isMethodEnabled k PaymentMethodCircleMint = CircleAPIEnabled (SConfig k)"
| "isMethodEnabled k (PaymentMethodOther s) = False"

definition put_deposit :: "deposit_intent \<Rightarrow> settlement \<Rightarrow> settlement" where
  "put_deposit d k = k\<lparr>Deposits := mput (d_ID d) d (Deposits k)\<rparr>"

definition put_withdrawal :: "withdrawal_request \<Rightarrow> settlement \<Rightarrow> settlement" where
  "put_withdrawal r k = k\<lparr>Withdrawals := mput (r_ID r) r (Withdrawals k)\<rparr>"

definition put_escrow :: "string \<Rightarrow> escrow \<Rightarrow> settlement \<Rightarrow> settlement" where
  "put_escrow i e k = k\<lparr>Escrows := mput i e (Escrows k)\<rparr>"

section \<open>Deposits\<close>

definition CreateDepositIntent ::
  "time \<Rightarrow> string \<Rightarrow> string \<Rightarrow> int64 \<Rightarrow> payment_method \<Rightarrow> settlement \<Rightarrow>
   settlement \<times> (st_error + deposit_intent)" where
  "CreateDepositIntent now walletID userID amount pm k =
     (if amount < MinSettlementUSDC (SConfig k)
      then (k, Inl (DepositBelowMinimum (MinSettlementUSDC (SConfig k))))
      else if \<not> isMethodEnabled k pm then (k, Inl (MethodNotEnabled pm))
      else
        let seq = add64 (DepositSeq k) 1;
            intent = \<lparr>d_ID = deposit_id seq, d_WalletID = walletID, d_UserID = userID,
                      d_Amount = amount, d_PaymentMethod = pm, d_Status = ''pending'',
                      d_PaymentRef = '''',
                      d_DepositAddress =
                        (if pm = PaymentMethodStablecoin \<or> pm = PaymentMethodNobleIBC
                         then ''ftg1deposit'' @ deposit_id seq else ''''),
                      d_CreatedAt = now, d_ConfirmedAt = None,
                      d_ExpiresAt = now + EscrowTimeoutHours (SConfig k) * hour_ns\<rparr>
        in (st_save (put_deposit intent (k\<lparr>DepositSeq := seq\<rparr>)), Inr intent))"

definition ConfirmDeposit ::
  "time \<Rightarrow> string \<Rightarrow> string \<Rightarrow> settlement \<Rightarrow> settlement \<times> (st_error + deposit_intent)" where
  "ConfirmDeposit now depositID paymentRef k =
     (case mget (Deposits k) depositID of
        None \<Rightarrow> (k, Inl (DepositNotFound depositID))
      | Some intent \<Rightarrow>
          if d_Status intent \<noteq> ''pending'' then (k, Inl (DepositAlready depositID (d_Status intent)))
          else if now > d_ExpiresAt intent
          then (st_save (k\<lparr>Deposits := mput depositID (intent\<lparr>d_Status := ''expired''\<rparr>) (Deposits k)\<rparr>),
                Inl (DepositExpired depositID))
          else
            let intent = intent\<lparr>d_Status := ''confirmed'', d_PaymentRef := paymentRef,
                                d_ConfirmedAt := Some now\<rparr>
            in (st_save (k\<lparr>Deposits := mput depositID intent (Deposits k),
                           TotalDeposited := add64 (TotalDeposited k) (d_Amount intent)\<rparr>),
                Inr intent))"

section \<open>Withdrawals\<close>

definition withdrawal_fee :: "settlement_config \<Rightarrow> int64 \<Rightarrow> int64" where
  "withdrawal_fee c amount =
     add64 (WithdrawalFeeFlat c) (quo64 (mul64 amount (WithdrawalFeeBPS c)) 10000)"

definition CreateWithdrawalRequest ::
  "time \<Rightarrow> string \<Rightarrow> string \<Rightarrow> int64 \<Rightarrow> payment_method \<Rightarrow> string \<Rightarrow> settlement \<Rightarrow>
   settlement \<times> (st_error + withdrawal_request)" where
  "CreateWithdrawalRequest now walletID userID amount pm destinationRef k =
     (if \<not> isMethodEnabled k pm then (k, Inl (MethodNotEnabled pm))
      else
        let fee = withdrawal_fee (SConfig k) amount
        in if amount \<le> fee then (k, Inl (WithdrawalBelowFee fee))
           else
             let seq = add64 (WithdrawalSeq k) 1;
                 req = \<lparr>r_ID = withdrawal_id seq, r_WalletID = walletID, r_UserID = userID,
                        r_Amount = amount, r_PaymentMethod = pm, r_Status = ''pending'',
                        r_DestinationRef = destinationRef, r_CreatedAt = now,
                        r_ProcessedAt = None\<rparr>
             in (st_save (put_withdrawal req (k\<lparr>WithdrawalSeq := seq\<rparr>)), Inr req))"

definition ProcessWithdrawal ::
  "time \<Rightarrow> string \<Rightarrow> settlement \<Rightarrow> settlement \<times> (st_error + withdrawal_request)" where
  "ProcessWithdrawal now withdrawalID k =
     (case mget (Withdrawals k) withdrawalID of
        None \<Rightarrow> (k, Inl (WithdrawalNotFound withdrawalID))
      | Some req \<Rightarrow>
          if r_Status req \<noteq> ''pending''
          then (k, Inl (WithdrawalAlready withdrawalID (r_Status req)))
          else
            let req = req\<lparr>r_Status := ''completed'', r_ProcessedAt := Some now\<rparr>;
                fee = withdrawal_fee (SConfig k) (r_Amount req)
            in (st_save (k\<lparr>Withdrawals := mput withdrawalID req (Withdrawals k),
                           TotalWithdrawn := add64 (TotalWithdrawn k) (r_Amount req),
                           TotalFeesCollected := add64 (TotalFeesCollected k) fee\<rparr>),
                Inr req))"

section \<open>Escrows\<close>

definition CreateEscrow ::
  "time \<Rightarrow> string \<Rightarrow> string \<Rightarrow> string \<Rightarrow> int64 \<Rightarrow> payment_method \<Rightarrow> settlement \<Rightarrow>
   settlement \<times> (st_error + escrow)" where
  "CreateEscrow now tradeID buyerWalletID sellerWalletID amountUSDC pm k =
     (if amountUSDC < MinSettlementUSDC (SConfig k)
      then (k, Inl (SettlementBelowMinimum (MinSettlementUSDC (SConfig k))))
      else if amountUSDC > MaxSettlementUSDC (SConfig k)
      then (k, Inl (SettlementAboveMaximum (MaxSettlementUSDC (SConfig k))))
      else
        let fee = quo64 (mul64 amountUSDC (SettlementFeeBPS (SConfig k))) 10000;
            seq = add64 (EscrowSeq k) 1;
            escrow = \<lparr>e_ID = escrow_id seq, e_TradeID = tradeID, e_BuyerWalletID = buyerWalletID,
                      e_SellerWalletID = sellerWalletID, e_AmountUSDC = amountUSDC,
                      e_FeeUSDC = fee, e_Status = StatusPending, e_PaymentMethod = pm,
                      e_PaymentRef = '''', e_CreatedAt = now, e_FundedAt = None,
                      e_CompletedAt = None,
                      e_ExpiresAt = now + EscrowTimeoutHours (SConfig k) * hour_ns\<rparr>
        in (st_save (put_escrow (e_ID escrow) escrow
              (k\<lparr>EscrowSeq := seq, ActiveEscrows := add64 (ActiveEscrows k) 1\<rparr>)),
            Inr escrow))"

definition FundEscrow ::
  "time \<Rightarrow> string \<Rightarrow> string \<Rightarrow> settlement \<Rightarrow> settlement \<times> (st_error + escrow)" where
  "FundEscrow now escrowID paymentRef k =
     (case mget (Escrows k) escrowID of
        None \<Rightarrow> (k, Inl (EscrowNotFound escrowID))
      | Some escrow \<Rightarrow>
          if e_Status escrow \<noteq> StatusPending
          then (k, Inl (EscrowCannotFund escrowID (e_Status escrow)))
          else if now > e_ExpiresAt escrow
          then (st_save (put_escrow escrowID (escrow\<lparr>e_Status := StatusFailed\<rparr>)
                  (k\<lparr>ActiveEscrows := sub64 (ActiveEscrows k) 1\<rparr>)),
                Inl (EscrowExpired escrowID))
          else
            let escrow = escrow\<lparr>e_Status := StatusFunded, e_PaymentRef := paymentRef,
                                e_FundedAt := Some now\<rparr>
            in (st_save (put_escrow escrowID escrow k), Inr escrow))"

definition ExecuteSettlement ::
  "time \<Rightarrow> string \<Rightarrow> int64 \<Rightarrow> int64 \<Rightarrow> settlement \<Rightarrow> settlement \<times> (st_error + settlement_record)"
where
  "ExecuteSettlement now escrowID ftgAmount blockHeight k =
     (case mget (Escrows k) escrowID of
        None \<Rightarrow> (k, Inl (EscrowNotFound escrowID))
      | Some escrow \<Rightarrow>
          if e_Status escrow \<noteq> StatusFunded
          then (k, Inl (EscrowNotFunded escrowID (e_Status escrow)))
          else
            let escrow = escrow\<lparr>e_Status := StatusCompleted, e_CompletedAt := Some now\<rparr>;
                pricePerFTG =
                  (if ftgAmount > 0 then quo64 (mul64 (e_AmountUSDC escrow) 1000000) ftgAmount
                   else 0);
                seq = add64 (SettlementSeq k) 1;
                rec = \<lparr>s_ID = settlement_id seq, s_EscrowID = escrowID,
                       s_TradeID = e_TradeID escrow, s_BuyerWalletID = e_BuyerWalletID escrow,
                       s_SellerWalletID = e_SellerWalletID escrow, s_FTGAmount = ftgAmount,
                       s_USDCAmount = e_AmountUSDC escrow, s_PricePerFTG = pricePerFTG,
                       s_FeeCollected = e_FeeUSDC escrow,
                       s_PaymentMethod = e_PaymentMethod escrow, s_BlockHeight = blockHeight,
                       s_SettledAt = now\<rparr>
            in (st_save (put_escrow escrowID escrow
                  (k\<lparr>ActiveEscrows := sub64 (ActiveEscrows k) 1, SettlementSeq := seq,
                     Settlements := Settlements k @ [rec],
                     TotalSettledUSDC := add64 (TotalSettledUSDC k) (e_AmountUSDC escrow),
                     TotalFeesCollected := add64 (TotalFeesCollected k) (e_FeeUSDC escrow)\<rparr>)),
                Inr rec))"

text \<open>
  The status is overwritten before it is tested, so the decrement of \<open>ActiveEscrows\<close> is never
  reached; the test is kept as the code has it.
\<close>

definition RefundEscrow ::
  "string \<Rightarrow> string \<Rightarrow> settlement \<Rightarrow> settlement \<times> (st_error + unit)" where
  "RefundEscrow escrowID reason k =
     (case mget (Escrows k) escrowID of
        None \<Rightarrow> (k, Inl (EscrowNotFound escrowID))
      | Some escrow \<Rightarrow>
          if e_Status escrow = StatusCompleted then (k, Inl (CannotRefundCompleted escrowID))
          else
            let escrow = escrow\<lparr>e_Status := StatusRefunded\<rparr>;
                k = put_escrow escrowID escrow k;
                k = (if e_Status escrow = StatusFunded \<or> e_Status escrow = StatusPending
                     then k\<lparr>ActiveEscrows := sub64 (ActiveEscrows k) 1\<rparr> else k)
            in (st_save k, Inr ()))"

section \<open>Queries\<close>

definition GetEscrow :: "string \<Rightarrow> settlement \<Rightarrow> st_error + escrow" where
  "GetEscrow escrowID k =
     (case mget (Escrows k) escrowID of None \<Rightarrow> Inl (EscrowNotFound escrowID) | Some e \<Rightarrow> Inr e)"

definition GetSettlements :: "int64 \<Rightarrow> settlement \<Rightarrow> settlement_record list" where
  "GetSettlements limit k =
     (let n = int (length (Settlements k));
          limit = (if limit \<le> 0 \<or> limit > n then n else limit);
          start = (if n - limit < 0 then 0 else n - limit)
      in rev (drop (nat start) (Settlements k)))"

definition GetDeposit :: "string \<Rightarrow> settlement \<Rightarrow> st_error + deposit_intent" where
  "GetDeposit depositID k =
     (case mget (Deposits k) depositID of None \<Rightarrow> Inl (DepositNotFound depositID) | Some d \<Rightarrow> Inr d)"

definition GetUserDeposits :: "string \<Rightarrow> settlement \<Rightarrow> deposit_intent list" where
  "GetUserDeposits userID k = filter (\<lambda>d. d_UserID d = userID) (map snd (Deposits k))"

definition GetUserWithdrawals :: "string \<Rightarrow> settlement \<Rightarrow> withdrawal_request list" where
  "GetUserWithdrawals userID k = filter (\<lambda>r. r_UserID r = userID) (map snd (Withdrawals k))"

record settlement_stats =
  ss_total_settlements :: nat
  ss_total_settled_usdc :: int64
  ss_total_fees_collected :: int64
  ss_total_deposited_usdc :: int64
  ss_total_withdrawn_usdc :: int64
  ss_active_escrows :: int64
  ss_pending_deposits :: nat
  ss_pending_withdrawals :: nat
  ss_settlement_fee_bps :: int64
  ss_stripe_enabled :: bool
  ss_crypto_enabled :: bool
  ss_bank_wire_enabled :: bool
  ss_noble_ibc_enabled :: bool

text \<open>The \<open>_usd\<close> entries of the map are the same totals as floating point divided by a million.\<close>

definition st_GetStats :: "settlement \<Rightarrow> settlement_stats" where
  "st_GetStats k =
     \<lparr>ss_total_settlements = length (Settlements k), ss_total_settled_usdc = TotalSettledUSDC k,
      ss_total_fees_collected = TotalFeesCollected k, ss_total_deposited_usdc = TotalDeposited k,
      ss_total_withdrawn_usdc = TotalWithdrawn k, ss_active_escrows = ActiveEscrows k,
      ss_pending_deposits = length (filter (\<lambda>(_, d). d_Status d = ''pending'') (Deposits k)),
      ss_pending_withdrawals = length (filter (\<lambda>(_, r). r_Status r = ''pending'') (Withdrawals k)),
      ss_settlement_fee_bps = SettlementFeeBPS (SConfig k),
      ss_stripe_enabled = StripeEnabled (SConfig k), ss_crypto_enabled = CryptoEnabled (SConfig k),
      ss_bank_wire_enabled = BankWireEnabled (SConfig k),
      ss_noble_ibc_enabled = NobleIBCEnabled (SConfig k)\<rparr>"

end
