(* ===== verification/SettlementInv.thy ===== *)
theory SettlementInv
  imports Settlement
begin

text \<open>
  The life of an escrow as a step relation, the keeper's invariant \<open>st_ok\<close> (identifiers, limits
  and fees of the escrows, one settlement record per completed escrow, totals equal to sums, the
  file equal to the memory), and that every method keeps the one and follows the other.
\<close>

section \<open>The life of an escrow\<close>

inductive escrow_step :: "settlement_status \<Rightarrow> settlement_status \<Rightarrow> bool" where
  fund: "escrow_step StatusPending StatusFunded"
| expire: "escrow_step StatusPending StatusFailed"
| execute: "escrow_step StatusFunded StatusCompleted"
| refund: "s \<noteq> StatusCompleted \<Longrightarrow> escrow_step s StatusRefunded"

inductive_cases from_completed: "escrow_step StatusCompleted s"
inductive_cases from_refunded: "escrow_step StatusRefunded s"
inductive_cases from_failed: "escrow_step StatusFailed s"
inductive_cases to_completed: "escrow_step s StatusCompleted"
inductive_cases to_funded: "escrow_step s StatusFunded"
inductive_simps escrow_step_iff: "escrow_step s t"

definition escrow_life :: "settlement_status \<Rightarrow> settlement_status \<Rightarrow> bool" where
  "escrow_life = escrow_step\<^sup>*\<^sup>*"

lemma life_refl [simp]: "escrow_life s s"
  by (simp add: escrow_life_def)

lemma life_trans: "escrow_life s t \<Longrightarrow> escrow_life t u \<Longrightarrow> escrow_life s u"
  by (simp add: escrow_life_def)

lemma life_step: "escrow_step s t \<Longrightarrow> escrow_life s t"
  by (simp add: escrow_life_def)

lemma life_completed: "escrow_life StatusCompleted s \<Longrightarrow> s = StatusCompleted"
  unfolding escrow_life_def by (induction rule: rtranclp_induct) (auto elim: from_completed)

lemma life_refunded: "escrow_life StatusRefunded s \<Longrightarrow> s = StatusRefunded"
  unfolding escrow_life_def by (induction rule: rtranclp_induct) (auto elim: from_refunded)

lemma life_failed: "escrow_life StatusFailed s \<Longrightarrow> s = StatusFailed \<or> s = StatusRefunded"
  unfolding escrow_life_def
  by (induction rule: rtranclp_induct) (auto elim: from_failed from_refunded)

section \<open>The invariant\<close>

definition escrow_ok :: "settlement_config \<Rightarrow> string \<Rightarrow> escrow \<Rightarrow> bool" where
  "escrow_ok c i e \<longleftrightarrow>
     e_ID e = i \<and> MinSettlementUSDC c \<le> e_AmountUSDC e \<and> e_AmountUSDC e \<le> MaxSettlementUSDC c \<and>
     e_FeeUSDC e = quo64 (mul64 (e_AmountUSDC e) (SettlementFeeBPS c)) 10000 \<and>
     e_Status e \<in> {StatusPending, StatusFunded, StatusCompleted, StatusFailed, StatusRefunded} \<and>
     (e_Status e \<in> {StatusFunded, StatusCompleted} \<longrightarrow> e_FundedAt e \<noteq> None)"

definition records_escrow :: "settlement_record \<Rightarrow> escrow \<Rightarrow> bool" where
  "records_escrow s e \<longleftrightarrow>
     e_Status e = StatusCompleted \<and> s_USDCAmount s = e_AmountUSDC e \<and> s_FeeCollected s = e_FeeUSDC e \<and>
     s_TradeID s = e_TradeID e \<and> s_BuyerWalletID s = e_BuyerWalletID e \<and>
     s_SellerWalletID s = e_SellerWalletID e"

definition escrows_ok :: "settlement \<Rightarrow> bool" where
  "escrows_ok k \<longleftrightarrow>
     keys_from escrow_id (EscrowSeq k) (Escrows k) \<and>
     (\<forall>i e. mget (Escrows k) i = Some e \<longrightarrow> escrow_ok (SConfig k) i e) \<and>
     distinct (map s_EscrowID (Settlements k)) \<and>
     (\<forall>s \<in> set (Settlements k). \<exists>e. mget (Escrows k) (s_EscrowID s) = Some e \<and> records_escrow s e) \<and>
     (\<forall>i e. mget (Escrows k) i = Some e \<longrightarrow> e_Status e = StatusCompleted \<longrightarrow>
        i \<in> s_EscrowID ` set (Settlements k)) \<and>
     TotalSettledUSDC k = i64 (sum_list (map s_USDCAmount (Settlements k)))"

definition deposit_value :: "deposit_intent \<Rightarrow> int" where
  "deposit_value d = (if d_Status d = ''confirmed'' then d_Amount d else 0)"

definition deposits_ok :: "settlement \<Rightarrow> bool" where
  "deposits_ok k \<longleftrightarrow>
     keys_from deposit_id (DepositSeq k) (Deposits k) \<and>
     (\<forall>i d. mget (Deposits k) i = Some d \<longrightarrow>
        d_ID d = i \<and> d_Status d \<in> {''pending'', ''confirmed'', ''expired''} \<and>
        MinSettlementUSDC (SConfig k) \<le> d_Amount d) \<and>
     TotalDeposited k = i64 (msum deposit_value (Deposits k))"

definition withdrawal_value :: "withdrawal_request \<Rightarrow> int" where
  "withdrawal_value r = (if r_Status r = ''completed'' then r_Amount r else 0)"

definition fee_value :: "settlement_config \<Rightarrow> withdrawal_request \<Rightarrow> int" where
  "fee_value c r = (if r_Status r = ''completed'' then withdrawal_fee c (r_Amount r) else 0)"

definition withdrawals_ok :: "settlement \<Rightarrow> bool" where
  "withdrawals_ok k \<longleftrightarrow>
     keys_from withdrawal_id (WithdrawalSeq k) (Withdrawals k) \<and>
     (\<forall>i r. mget (Withdrawals k) i = Some r \<longrightarrow>
        r_ID r = i \<and> r_Status r \<in> {''pending'', ''completed''} \<and>
        withdrawal_fee (SConfig k) (r_Amount r) < r_Amount r) \<and>
     TotalWithdrawn k = i64 (msum withdrawal_value (Withdrawals k)) \<and>
     TotalFeesCollected k =
       i64 (sum_list (map s_FeeCollected (Settlements k)) + msum (fee_value (SConfig k)) (Withdrawals k))"

definition st_ok :: "settlement \<Rightarrow> bool" where
  "st_ok k \<longleftrightarrow> escrows_ok k \<and> deposits_ok k \<and> withdrawals_ok k \<and> st_NewKeeper (st_disk k) = k"

lemmas st_parts = st_ok_def escrows_ok_def deposits_ok_def withdrawals_ok_def

text \<open>Reloading what was saved.\<close>

lemma st_reload [simp]: "st_NewKeeper (st_disk (st_save k)) = st_save k"
  by (cases k) (simp add: st_NewKeeper_def st_save_def settlement_json.defs)

lemma st_save_fields [simp]:
  "Escrows (st_save k) = Escrows k" "Settlements (st_save k) = Settlements k"
  "Deposits (st_save k) = Deposits k" "Withdrawals (st_save k) = Withdrawals k"
  "SConfig (st_save k) = SConfig k" "TotalSettledUSDC (st_save k) = TotalSettledUSDC k"
  "TotalFeesCollected (st_save k) = TotalFeesCollected k" "TotalDeposited (st_save k) = TotalDeposited k"
  "TotalWithdrawn (st_save k) = TotalWithdrawn k" "ActiveEscrows (st_save k) = ActiveEscrows k"
  "EscrowSeq (st_save k) = EscrowSeq k" "SettlementSeq (st_save k) = SettlementSeq k"
  "DepositSeq (st_save k) = DepositSeq k" "WithdrawalSeq (st_save k) = WithdrawalSeq k"
  by (simp_all add: st_save_def)

lemma st_save_okI:
  "escrows_ok k \<Longrightarrow> deposits_ok k \<Longrightarrow> withdrawals_ok k \<Longrightarrow> st_ok (st_save k)"
  by (simp add: st_parts)

section \<open>Deposits\<close>

lemma deposits_put:
  assumes ok: "deposits_ok k" and d: "mget (Deposits k) i = Some d"
    and d': "d_ID d' = d_ID d" "d_Amount d' = d_Amount d" "d_Status d' \<in> {''pending'', ''confirmed'', ''expired''}"
    and k': "Deposits k' = mput i d' (Deposits k)" "DepositSeq k' = DepositSeq k" "SConfig k' = SConfig k"
      "i64 (TotalDeposited k') = TotalDeposited k'"
      "i64 (TotalDeposited k') = i64 (TotalDeposited k - deposit_value d + deposit_value d')"
  shows "deposits_ok k'"
proof -
  have D: "keys_from deposit_id (DepositSeq k) (Deposits k)" "TotalDeposited k = i64 (msum deposit_value (Deposits k))"
    and all: "\<And>j c. mget (Deposits k) j = Some c \<Longrightarrow> d_ID c = j \<and>
        d_Status c \<in> {''pending'', ''confirmed'', ''expired''} \<and> MinSettlementUSDC (SConfig k) \<le> d_Amount c"
    using ok by (auto simp: deposits_ok_def)
  have "keys_from deposit_id (DepositSeq k) (Deposits k')" unfolding k' by (rule keys_from_update [OF D(1) d])
  moreover have "d_ID c = j \<and> d_Status c \<in> {''pending'', ''confirmed'', ''expired''} \<and>
      MinSettlementUSDC (SConfig k) \<le> d_Amount c" if "mget (Deposits k') j = Some c" for j c
    using that all [of j c] all [OF d] d' by (cases "j = i") (auto simp: k' go_map)
  moreover have "TotalDeposited k' = i64 (msum deposit_value (Deposits k'))"
    using k'(4,5) D keys_from_distinct [OF D(1)] d
    by (simp add: k'(1) msum_put go_arith)
  ultimately show ?thesis unfolding deposits_ok_def k'(2,3) by blast
qed

lemma CreateDepositIntent_ok:
  assumes ok: "st_ok k" and s: "DepositSeq k < 2 ^ 63 - 1"
  shows "st_ok (fst (CreateDepositIntent now w u x pm k))"
proof (cases "x < MinSettlementUSDC (SConfig k) \<or> \<not> isMethodEnabled k pm")
  case True
  then show ?thesis using ok by (auto simp: CreateDepositIntent_def)
next
  case False
  let ?i = "deposit_id (add64 (DepositSeq k) 1)"
  obtain d where k': "fst (CreateDepositIntent now w u x pm k) =
      st_save (k\<lparr>DepositSeq := add64 (DepositSeq k) 1, Deposits := mput ?i d (Deposits k)\<rparr>)"
    and d: "d_ID d = ?i" "d_Amount d = x" "d_Status d = ''pending''"
    using False by (auto simp: CreateDepositIntent_def Let_def put_deposit_def)
  have kf: "keys_from deposit_id (DepositSeq k) (Deposits k)" using ok by (simp add: st_parts)
  note new = deposit_ids.fresh [OF kf s] and ins = deposit_ids.insert_next [OF kf s, of d]
  have "deposit_value d = 0" by (simp add: deposit_value_def d)
  then show ?thesis unfolding k'
    using ok False ins by (intro st_save_okI) (auto simp: st_parts msum_put_new [OF new] go_map d)
qed

lemma ConfirmDeposit_ok:
  assumes ok: "st_ok k"
  shows "st_ok (fst (ConfirmDeposit now i ref k))"
proof (cases "mget (Deposits k) i")
  case (Some d)
  have parts: "escrows_ok k" "deposits_ok k" "withdrawals_ok k" using ok by (simp_all add: st_ok_def)
  have TD: "i64 (TotalDeposited k) = TotalDeposited k" using parts(2) by (auto simp: deposits_ok_def)
  show ?thesis
  proof (cases "d_Status d = ''pending''")
    case True
    let ?e = "k\<lparr>Deposits := mput i (d\<lparr>d_Status := ''expired''\<rparr>) (Deposits k)\<rparr>"
    let ?d = "d\<lparr>d_Status := ''confirmed'', d_PaymentRef := ref, d_ConfirmedAt := Some now\<rparr>"
    let ?c = "k\<lparr>Deposits := mput i ?d (Deposits k), TotalDeposited := add64 (TotalDeposited k) (d_Amount d)\<rparr>"
    have "deposits_ok ?e"
      by (rule deposits_put [OF parts(2) Some, of "d\<lparr>d_Status := ''expired''\<rparr>"])
         (simp_all add: True deposit_value_def TD)
    moreover have "deposits_ok ?c"
      by (rule deposits_put [OF parts(2) Some, of ?d])
         (simp_all add: True deposit_value_def add64_def)
    moreover have "escrows_ok ?e" "escrows_ok ?c" "withdrawals_ok ?e" "withdrawals_ok ?c"
      using parts by (simp_all add: escrows_ok_def withdrawals_ok_def)
    ultimately show ?thesis
      using Some True by (simp add: ConfirmDeposit_def Let_def st_save_okI)
  qed (use ok Some in \<open>simp add: ConfirmDeposit_def\<close>)
qed (use ok in \<open>simp add: ConfirmDeposit_def\<close>)

section \<open>Withdrawals\<close>

lemma CreateWithdrawalRequest_ok:
  assumes ok: "st_ok k" and s: "WithdrawalSeq k < 2 ^ 63 - 1"
  shows "st_ok (fst (CreateWithdrawalRequest now w u x pm dest k))"
proof (cases "isMethodEnabled k pm \<and> withdrawal_fee (SConfig k) x < x")
  case False
  then show ?thesis using ok by (auto simp: CreateWithdrawalRequest_def Let_def)
next
  case True
  let ?i = "withdrawal_id (add64 (WithdrawalSeq k) 1)"
  obtain r where k': "fst (CreateWithdrawalRequest now w u x pm dest k) =
      st_save (k\<lparr>WithdrawalSeq := add64 (WithdrawalSeq k) 1, Withdrawals := mput ?i r (Withdrawals k)\<rparr>)"
    and r: "r_ID r = ?i" "r_Amount r = x" "r_Status r = ''pending''"
    using True by (auto simp: CreateWithdrawalRequest_def Let_def put_withdrawal_def)
  have kf: "keys_from withdrawal_id (WithdrawalSeq k) (Withdrawals k)" using ok by (simp add: st_parts)
  note new = withdrawal_ids.fresh [OF kf s] and ins = withdrawal_ids.insert_next [OF kf s, of r]
  have "withdrawal_value r = 0" "fee_value (SConfig k) r = 0"
    by (simp_all add: withdrawal_value_def fee_value_def r)
  then show ?thesis unfolding k'
    using ok True ins by (intro st_save_okI) (auto simp: st_parts msum_put_new [OF new] go_map r)
qed

lemma ProcessWithdrawal_ok:
  assumes ok: "st_ok k"
  shows "st_ok (fst (ProcessWithdrawal now i k))"
proof (cases "mget (Withdrawals k) i")
  case (Some r)
  show ?thesis
  proof (cases "r_Status r = ''pending''")
    case True
    let ?r = "r\<lparr>r_Status := ''completed'', r_ProcessedAt := Some now\<rparr>"
    let ?fee = "withdrawal_fee (SConfig k) (r_Amount r)"
    let ?k = "k\<lparr>Withdrawals := mput i ?r (Withdrawals k), TotalWithdrawn := add64 (TotalWithdrawn k) (r_Amount r),
      TotalFeesCollected := add64 (TotalFeesCollected k) ?fee\<rparr>"
    have W: "withdrawals_ok k" and kf: "keys_from withdrawal_id (WithdrawalSeq k) (Withdrawals k)"
      using ok by (simp_all add: st_parts)
    note D = keys_from_distinct [OF kf]
    have v: "withdrawal_value r = 0" "withdrawal_value ?r = r_Amount r" "fee_value (SConfig k) r = 0"
      "fee_value (SConfig k) ?r = ?fee" by (simp_all add: withdrawal_value_def fee_value_def True)
    have all: "r_ID c = j \<and> r_Status c \<in> {''pending'', ''completed''} \<and>
        withdrawal_fee (SConfig k) (r_Amount c) < r_Amount c" if "mget (Withdrawals k) j = Some c" for j c
      using W that unfolding withdrawals_ok_def by blast
    have "r_ID c = j \<and> r_Status c \<in> {''pending'', ''completed''} \<and>
        withdrawal_fee (SConfig k) (r_Amount c) < r_Amount c" if "mget (Withdrawals ?k) j = Some c" for j c
      using that all [of j c] all [OF Some] by (cases "j = i") (auto simp: go_map)
    moreover have "TotalWithdrawn ?k = i64 (msum withdrawal_value (Withdrawals ?k))"
      "TotalFeesCollected ?k = i64 (sum_list (map s_FeeCollected (Settlements ?k)) +
         msum (fee_value (SConfig ?k)) (Withdrawals ?k))"
      using W msum_put [OF D Some, of withdrawal_value ?r] msum_put [OF D Some, of "fee_value (SConfig k)" ?r]
      by (simp_all add: withdrawals_ok_def v go_arith add.assoc)
    moreover have "keys_from withdrawal_id (WithdrawalSeq k) (Withdrawals ?k)"
      using keys_from_update [OF kf Some] by simp
    ultimately have "withdrawals_ok ?k" unfolding withdrawals_ok_def by simp
    moreover have "escrows_ok ?k" "deposits_ok ?k" using ok by (simp_all add: st_parts)
    ultimately show ?thesis using Some True by (simp add: ProcessWithdrawal_def Let_def st_save_okI)
  qed (use ok Some in \<open>simp add: ProcessWithdrawal_def\<close>)
qed (use ok in \<open>simp add: ProcessWithdrawal_def\<close>)

section \<open>Escrows\<close>

text \<open>A change of an escrow that is not completed and does not complete it.\<close>

lemma put_escrow_fields [simp]:
  "Escrows (put_escrow i e k) = mput i e (Escrows k)" "Settlements (put_escrow i e k) = Settlements k"
  "Deposits (put_escrow i e k) = Deposits k" "Withdrawals (put_escrow i e k) = Withdrawals k"
  "SConfig (put_escrow i e k) = SConfig k" "TotalSettledUSDC (put_escrow i e k) = TotalSettledUSDC k"
  "TotalFeesCollected (put_escrow i e k) = TotalFeesCollected k"
  "TotalDeposited (put_escrow i e k) = TotalDeposited k" "TotalWithdrawn (put_escrow i e k) = TotalWithdrawn k"
  "ActiveEscrows (put_escrow i e k) = ActiveEscrows k" "EscrowSeq (put_escrow i e k) = EscrowSeq k"
  "SettlementSeq (put_escrow i e k) = SettlementSeq k" "DepositSeq (put_escrow i e k) = DepositSeq k"
  "WithdrawalSeq (put_escrow i e k) = WithdrawalSeq k"
  by (simp_all add: put_escrow_def)

lemma escrows_okD:
  assumes "escrows_ok k"
  shows "keys_from escrow_id (EscrowSeq k) (Escrows k)"
    "mget (Escrows k) i = Some e \<Longrightarrow> escrow_ok (SConfig k) i e"
    "distinct (map s_EscrowID (Settlements k))"
    "s \<in> set (Settlements k) \<Longrightarrow> \<exists>e. mget (Escrows k) (s_EscrowID s) = Some e \<and> records_escrow s e"
    "mget (Escrows k) i = Some e \<Longrightarrow> e_Status e = StatusCompleted \<Longrightarrow> i \<in> s_EscrowID ` set (Settlements k)"
    "TotalSettledUSDC k = i64 (sum_list (map s_USDCAmount (Settlements k)))"
  using assms unfolding escrows_ok_def by blast+

lemma escrows_put:
  assumes ok: "escrows_ok k" and e: "mget (Escrows k) i = Some e" "e_Status e \<noteq> StatusCompleted"
    and e': "escrow_ok (SConfig k) i e'" "e_Status e' \<noteq> StatusCompleted"
    and k': "Escrows k' = mput i e' (Escrows k)" "Settlements k' = Settlements k" "EscrowSeq k' = EscrowSeq k"
      "SConfig k' = SConfig k" "TotalSettledUSDC k' = TotalSettledUSDC k"
  shows "escrows_ok k'"
proof -
  note O = escrows_okD [OF ok]
  have "keys_from escrow_id (EscrowSeq k) (Escrows k')" unfolding k' by (rule keys_from_update [OF O(1) e(1)])
  moreover have "escrow_ok (SConfig k) j c" if "mget (Escrows k') j = Some c" for j c
    using that O(2) [of j c] e'(1) by (cases "j = i") (simp_all add: k' go_map)
  moreover have "\<exists>c. mget (Escrows k') (s_EscrowID s) = Some c \<and> records_escrow s c"
    if "s \<in> set (Settlements k)" for s
    using O(4) [OF that] e by (auto simp: k' go_map records_escrow_def)
  moreover have "j \<in> s_EscrowID ` set (Settlements k)"
    if "mget (Escrows k') j = Some c" "e_Status c = StatusCompleted" for j c
    using that O(5) [of j c] e'(2) by (cases "j = i") (auto simp: k' go_map)
  ultimately show ?thesis using O(3,6) unfolding escrows_ok_def k'(2-5) by blast
qed

lemma CreateEscrow_ok:
  assumes ok: "st_ok k" and s: "EscrowSeq k < 2 ^ 63 - 1"
  shows "st_ok (fst (CreateEscrow now t b sl x pm k))"
proof (cases "MinSettlementUSDC (SConfig k) \<le> x \<and> x \<le> MaxSettlementUSDC (SConfig k)")
  case False
  then show ?thesis using ok by (auto simp: CreateEscrow_def)
next
  case True
  let ?i = "escrow_id (add64 (EscrowSeq k) 1)"
  obtain e where k': "fst (CreateEscrow now t b sl x pm k) = st_save (put_escrow ?i e
      (k\<lparr>EscrowSeq := add64 (EscrowSeq k) 1, ActiveEscrows := add64 (ActiveEscrows k) 1\<rparr>))"
    and e: "escrow_ok (SConfig k) ?i e" "e_Status e = StatusPending"
    using True by (auto simp: CreateEscrow_def Let_def escrow_ok_def)
  have E: "escrows_ok k" using ok by (simp add: st_ok_def)
  note O = escrows_okD [OF E]
  note new = escrow_ids.fresh [OF O(1) s] and ins = escrow_ids.insert_next [OF O(1) s, of e]
  have rec: "\<exists>c. mget (mput ?i e (Escrows k)) (s_EscrowID s) = Some c \<and> records_escrow s c"
    if "s \<in> set (Settlements k)" for s
    using O(4) [OF that] new by (auto simp: go_map)
  let ?k = "put_escrow ?i e (k\<lparr>EscrowSeq := add64 (EscrowSeq k) 1, ActiveEscrows := add64 (ActiveEscrows k) 1\<rparr>)"
  have "escrow_ok (SConfig k) j c" if "mget (mput ?i e (Escrows k)) j = Some c" for j c
    using that O(2) [of j c] e by (cases "j = ?i") (simp_all add: go_map)
  moreover have "j \<in> s_EscrowID ` set (Settlements k)"
    if "mget (mput ?i e (Escrows k)) j = Some c" "e_Status c = StatusCompleted" for j c
    using that O(5) [of j c] e by (cases "j = ?i") (auto simp: go_map)
  ultimately have "escrows_ok ?k"
    unfolding escrows_ok_def using ins rec O(3,6) by simp
  moreover have "deposits_ok ?k" "withdrawals_ok ?k" using ok by (simp_all add: st_parts)
  ultimately show ?thesis unfolding k' by (rule st_save_okI)
qed

text \<open>The parts that an escrow operation does not touch.\<close>

lemma deposits_frame:
  "deposits_ok k \<Longrightarrow> Deposits k' = Deposits k \<Longrightarrow> DepositSeq k' = DepositSeq k \<Longrightarrow> SConfig k' = SConfig k \<Longrightarrow>
   TotalDeposited k' = TotalDeposited k \<Longrightarrow> deposits_ok k'"
  by (simp add: deposits_ok_def)

lemma withdrawals_frame:
  "withdrawals_ok k \<Longrightarrow> Withdrawals k' = Withdrawals k \<Longrightarrow> WithdrawalSeq k' = WithdrawalSeq k \<Longrightarrow>
   SConfig k' = SConfig k \<Longrightarrow> TotalWithdrawn k' = TotalWithdrawn k \<Longrightarrow> Settlements k' = Settlements k \<Longrightarrow>
   TotalFeesCollected k' = TotalFeesCollected k \<Longrightarrow> withdrawals_ok k'"
  by (simp add: withdrawals_ok_def)

lemma escrow_change_ok:
  assumes ok: "st_ok k" and e: "mget (Escrows k) i = Some e" "e_Status e \<noteq> StatusCompleted"
    and e': "escrow_ok (SConfig k) i e'" "e_Status e' \<noteq> StatusCompleted"
  shows "st_ok (st_save (put_escrow i e' (k\<lparr>ActiveEscrows := n\<rparr>)))"
proof (rule st_save_okI)
  have p: "escrows_ok k" "deposits_ok k" "withdrawals_ok k" using ok by (simp_all add: st_ok_def)
  show "escrows_ok (put_escrow i e' (k\<lparr>ActiveEscrows := n\<rparr>))"
    by (rule escrows_put [OF p(1) e e']) simp_all
  show "deposits_ok (put_escrow i e' (k\<lparr>ActiveEscrows := n\<rparr>))" by (rule deposits_frame [OF p(2)]) simp_all
  show "withdrawals_ok (put_escrow i e' (k\<lparr>ActiveEscrows := n\<rparr>))" by (rule withdrawals_frame [OF p(3)]) simp_all
qed

lemma active_same: "k\<lparr>ActiveEscrows := ActiveEscrows k\<rparr> = k"
  by simp

lemma FundEscrow_ok:
  assumes ok: "st_ok k"
  shows "st_ok (fst (FundEscrow now i ref k))"
proof (cases "mget (Escrows k) i")
  case (Some e)
  have E: "escrow_ok (SConfig k) i e" using ok Some by (auto simp: st_ok_def intro: escrows_okD(2))
  show ?thesis
  proof (cases "e_Status e = StatusPending")
    case True
    then have nc: "e_Status e \<noteq> StatusCompleted" by simp
    have "st_ok (st_save (put_escrow i (e\<lparr>e_Status := StatusFailed\<rparr>)
        (k\<lparr>ActiveEscrows := sub64 (ActiveEscrows k) 1\<rparr>)))"
      using E by (intro escrow_change_ok [OF ok Some nc]) (auto simp: escrow_ok_def)
    moreover have "st_ok (st_save (put_escrow i
        (e\<lparr>e_Status := StatusFunded, e_PaymentRef := ref, e_FundedAt := Some now\<rparr>)
        (k\<lparr>ActiveEscrows := ActiveEscrows k\<rparr>)))"
      using E by (intro escrow_change_ok [OF ok Some nc]) (auto simp: escrow_ok_def)
    ultimately show ?thesis using Some True by (simp add: FundEscrow_def Let_def)
  qed (use ok Some in \<open>simp add: FundEscrow_def\<close>)
qed (use ok in \<open>simp add: FundEscrow_def\<close>)

lemma RefundEscrow_eq:
  "RefundEscrow i reason k =
     (case mget (Escrows k) i of
        None \<Rightarrow> (k, Inl (EscrowNotFound i))
      | Some e \<Rightarrow>
          if e_Status e = StatusCompleted then (k, Inl (CannotRefundCompleted i))
          else (st_save (put_escrow i (e\<lparr>e_Status := StatusRefunded\<rparr>) k), Inr ()))"
  by (simp add: RefundEscrow_def Let_def split: option.splits)

lemma RefundEscrow_ok:
  assumes ok: "st_ok k"
  shows "st_ok (fst (RefundEscrow i reason k))"
proof (cases "mget (Escrows k) i")
  case (Some e)
  have E: "escrow_ok (SConfig k) i e" using ok Some by (auto simp: st_ok_def intro: escrows_okD(2))
  show ?thesis
  proof (cases "e_Status e = StatusCompleted")
    case False
    have "st_ok (st_save (put_escrow i (e\<lparr>e_Status := StatusRefunded\<rparr>) (k\<lparr>ActiveEscrows := ActiveEscrows k\<rparr>)))"
      using E by (intro escrow_change_ok [OF ok Some False]) (auto simp: escrow_ok_def)
    then show ?thesis using Some False by (simp add: RefundEscrow_eq)
  qed (use ok Some in \<open>simp add: RefundEscrow_eq\<close>)
qed (use ok in \<open>simp add: RefundEscrow_eq\<close>)

section \<open>Execution\<close>

lemma ExecuteSettlementE:
  assumes "ExecuteSettlement now i ftg h k = (k', Inr rec)"
  obtains e where "mget (Escrows k) i = Some e" "e_Status e = StatusFunded"
    "s_ID rec = settlement_id (add64 (SettlementSeq k) 1)" "s_EscrowID rec = i"
    "records_escrow rec (e\<lparr>e_Status := StatusCompleted, e_CompletedAt := Some now\<rparr>)"
    "s_FTGAmount rec = ftg"
    "s_PricePerFTG rec = (if ftg > 0 then quo64 (mul64 (e_AmountUSDC e) 1000000) ftg else 0)"
    "k' = st_save (put_escrow i (e\<lparr>e_Status := StatusCompleted, e_CompletedAt := Some now\<rparr>)
       (k\<lparr>ActiveEscrows := sub64 (ActiveEscrows k) 1, SettlementSeq := add64 (SettlementSeq k) 1,
          Settlements := Settlements k @ [rec],
          TotalSettledUSDC := add64 (TotalSettledUSDC k) (e_AmountUSDC e),
          TotalFeesCollected := add64 (TotalFeesCollected k) (e_FeeUSDC e)\<rparr>))"
  using assms
  by (auto simp: ExecuteSettlement_def Let_def records_escrow_def split: option.splits if_splits)

lemma ExecuteSettlement_error: "ExecuteSettlement now i ftg h k = (k', Inl err) \<Longrightarrow> k' = k"
  by (auto simp: ExecuteSettlement_def Let_def split: option.splits if_splits)

lemma ExecuteSettlement_ok:
  assumes ok: "st_ok k"
  shows "st_ok (fst (ExecuteSettlement now i ftg h k))"
proof (cases "ExecuteSettlement now i ftg h k")
  case (Pair k' r)
  show ?thesis
  proof (cases r)
    case (Inl err)
    with Pair have "ExecuteSettlement now i ftg h k = (k', Inl err)" by simp
    from ExecuteSettlement_error [OF this] show ?thesis using Pair ok by simp
  next
    case (Inr rec)
    with Pair have "ExecuteSettlement now i ftg h k = (k', Inr rec)" by simp
    then show ?thesis
    proof (cases rule: ExecuteSettlementE)
      case (1 e)
      let ?e = "e\<lparr>e_Status := StatusCompleted, e_CompletedAt := Some now\<rparr>"
      let ?k = "put_escrow i ?e (k\<lparr>ActiveEscrows := sub64 (ActiveEscrows k) 1,
          SettlementSeq := add64 (SettlementSeq k) 1, Settlements := Settlements k @ [rec],
          TotalSettledUSDC := add64 (TotalSettledUSDC k) (e_AmountUSDC e),
          TotalFeesCollected := add64 (TotalFeesCollected k) (e_FeeUSDC e)\<rparr>)"
      have p: "escrows_ok k" "deposits_ok k" "withdrawals_ok k" using ok by (simp_all add: st_ok_def)
      note O = escrows_okD [OF p(1)]
      have fresh: "i \<notin> s_EscrowID ` set (Settlements k)"
        using O(4) 1(1,2) by (fastforce simp: records_escrow_def)
      have "escrow_ok (SConfig k) i ?e" using O(2) [OF 1(1)] 1(2) by (simp add: escrow_ok_def)
      then have "escrow_ok (SConfig ?k) j c" if "mget (Escrows ?k) j = Some c" for j c
        using that O(2) [of j c] by (cases "j = i") (simp_all add: go_map)
      moreover have "\<exists>c. mget (Escrows ?k) (s_EscrowID s) = Some c \<and> records_escrow s c"
        if "s \<in> set (Settlements ?k)" for s
      proof (cases "s = rec")
        case False
        then have "s \<in> set (Settlements k)" "s_EscrowID s \<noteq> i" using that fresh by auto
        then show ?thesis using O(4) [of s] by (simp add: go_map)
      qed (use 1(4,5) in \<open>simp add: go_map\<close>)
      moreover have "j \<in> s_EscrowID ` set (Settlements ?k)"
        if "mget (Escrows ?k) j = Some c" "e_Status c = StatusCompleted" for j c
        using that O(5) [of j c] 1(4) by (cases "j = i") (auto simp: go_map)
      moreover have "keys_from escrow_id (EscrowSeq ?k) (Escrows ?k)"
        using keys_from_update [OF O(1) 1(1)] by simp
      moreover have "distinct (map s_EscrowID (Settlements ?k))" using O(3) fresh 1(4) by simp
      moreover have "TotalSettledUSDC ?k = i64 (sum_list (map s_USDCAmount (Settlements ?k)))"
        using O(6) 1(5) by (simp add: records_escrow_def go_arith)
      ultimately have "escrows_ok ?k" unfolding escrows_ok_def by blast
      moreover have "deposits_ok ?k" by (rule deposits_frame [OF p(2)]) simp_all
      moreover have "withdrawals_ok ?k"
        using p(3) 1(5) by (simp add: withdrawals_ok_def records_escrow_def go_arith algebra_simps)
      ultimately show ?thesis using Pair 1(8) st_save_okI by simp
    qed
  qed
qed

section \<open>Runs\<close>

datatype st_op =
    OpCreateDepositIntent time string string int64 payment_method
  | OpConfirmDeposit time string string
  | OpCreateWithdrawal time string string int64 payment_method string
  | OpProcessWithdrawal time string
  | OpCreateEscrow time string string string int64 payment_method
  | OpFundEscrow time string string
  | OpExecuteSettlement time string int64 int64
  | OpRefundEscrow string string

fun st_step :: "settlement \<Rightarrow> st_op \<Rightarrow> settlement" where
  "st_step k (OpCreateDepositIntent now w u x pm) = fst (CreateDepositIntent now w u x pm k)"
| "st_step k (OpConfirmDeposit now i ref) = fst (ConfirmDeposit now i ref k)"
| "st_step k (OpCreateWithdrawal now w u x pm dest) = fst (CreateWithdrawalRequest now w u x pm dest k)"
| "st_step k (OpProcessWithdrawal now i) = fst (ProcessWithdrawal now i k)"
| "st_step k (OpCreateEscrow now t b s x pm) = fst (CreateEscrow now t b s x pm k)"
| "st_step k (OpFundEscrow now i ref) = fst (FundEscrow now i ref k)"
| "st_step k (OpExecuteSettlement now i ftg h) = fst (ExecuteSettlement now i ftg h k)"
| "st_step k (OpRefundEscrow i reason) = fst (RefundEscrow i reason k)"

definition st_room :: "settlement \<Rightarrow> st_op \<Rightarrow> bool" where
  "st_room k op \<longleftrightarrow> DepositSeq k < 2 ^ 63 - 1 \<and> WithdrawalSeq k < 2 ^ 63 - 1 \<and> EscrowSeq k < 2 ^ 63 - 1"

lemma st_step_ok: "st_ok k \<Longrightarrow> st_room k op \<Longrightarrow> st_ok (st_step k op)"
  by (cases op) (simp_all add: st_room_def CreateDepositIntent_ok ConfirmDeposit_ok
      CreateWithdrawalRequest_ok ProcessWithdrawal_ok CreateEscrow_ok FundEscrow_ok
      ExecuteSettlement_ok RefundEscrow_ok)

text \<open>
  From a state to a later one: an escrow keeps its parties, amount and fee and its status moves
  along \<open>escrow_life\<close>; settlement records are appended.
\<close>

definition same_escrow :: "escrow \<Rightarrow> escrow \<Rightarrow> bool" where
  "same_escrow a b \<longleftrightarrow>
     e_ID b = e_ID a \<and> e_TradeID b = e_TradeID a \<and> e_BuyerWalletID b = e_BuyerWalletID a \<and>
     e_SellerWalletID b = e_SellerWalletID a \<and> e_AmountUSDC b = e_AmountUSDC a \<and>
     e_FeeUSDC b = e_FeeUSDC a \<and> e_PaymentMethod b = e_PaymentMethod a \<and>
     e_ExpiresAt b = e_ExpiresAt a \<and> escrow_life (e_Status a) (e_Status b)"

definition escrow_progress :: "settlement \<Rightarrow> settlement \<Rightarrow> bool" where
  "escrow_progress k k' \<longleftrightarrow>
     (\<forall>i a. mget (Escrows k) i = Some a \<longrightarrow> (\<exists>b. mget (Escrows k') i = Some b \<and> same_escrow a b)) \<and>
     (\<exists>rs. Settlements k' = Settlements k @ rs) \<and> SConfig k' = SConfig k"

lemma progress_refl [simp]: "escrow_progress k k"
  by (simp add: escrow_progress_def same_escrow_def)

lemma progress_trans: "escrow_progress a b \<Longrightarrow> escrow_progress b c \<Longrightarrow> escrow_progress a c"
  unfolding escrow_progress_def same_escrow_def by (fastforce intro: life_trans)

lemma progress_same:
  "Escrows k' = Escrows k \<Longrightarrow> Settlements k' = Settlements k \<Longrightarrow> SConfig k' = SConfig k \<Longrightarrow> escrow_progress k k'"
  by (simp add: escrow_progress_def same_escrow_def)

lemma progress_put:
  assumes "mget (Escrows k) i = Some a" "same_escrow a b" "Escrows k' = mput i b (Escrows k)"
    "Settlements k' = Settlements k @ rs" "SConfig k' = SConfig k"
  shows "escrow_progress k k'"
  using assms by (auto simp: escrow_progress_def go_map same_escrow_def)

lemma progress_new:
  assumes "mget (Escrows k) i = None" "Escrows k' = mput i b (Escrows k)"
    "Settlements k' = Settlements k" "SConfig k' = SConfig k"
  shows "escrow_progress k k'"
  using assms by (auto simp: escrow_progress_def go_map same_escrow_def)

lemma st_step_progress:
  assumes ok: "st_ok k" and r: "st_room k op"
  shows "escrow_progress k (st_step k op)"
proof (cases op)
  case (OpCreateEscrow now t b s x pm)
  have "mget (Escrows k) (escrow_id (add64 (EscrowSeq k) 1)) = None"
    using ok r by (intro escrow_ids.fresh) (auto simp: st_parts st_room_def)
  then show ?thesis unfolding OpCreateEscrow
    by (auto simp: CreateEscrow_def Let_def intro: progress_new)
next
  case (OpFundEscrow now i ref)
  show ?thesis unfolding OpFundEscrow
    by (auto simp: FundEscrow_def Let_def same_escrow_def split: option.splits
        intro!: progress_put [where rs = "[]"] life_step escrow_step.intros)
next
  case (OpExecuteSettlement now i ftg h)
  show ?thesis
  proof (cases "ExecuteSettlement now i ftg h k")
    case (Pair k' res)
    then show ?thesis unfolding OpExecuteSettlement
    proof (cases res)
      case (Inr rec)
      with Pair have "ExecuteSettlement now i ftg h k = (k', Inr rec)" by simp
      then show "escrow_progress k (st_step k (OpExecuteSettlement now i ftg h))"
      proof (cases rule: ExecuteSettlementE)
        case (1 e)
        have "same_escrow e (e\<lparr>e_Status := StatusCompleted, e_CompletedAt := Some now\<rparr>)"
          using 1(2) by (simp add: same_escrow_def life_step escrow_step.intros)
        then show ?thesis using Pair 1(8)
          by (intro progress_put [OF 1(1), where rs = "[rec]"]) simp_all
      qed
    qed (auto dest: ExecuteSettlement_error)
  qed
next
  case (OpRefundEscrow i reason)
  show ?thesis unfolding OpRefundEscrow
    by (auto simp: RefundEscrow_eq same_escrow_def split: option.splits
        intro!: progress_put [where rs = "[]"] life_step escrow_step.intros)
qed (auto simp: CreateDepositIntent_def ConfirmDeposit_def CreateWithdrawalRequest_def ProcessWithdrawal_def
    put_deposit_def put_withdrawal_def Let_def split: option.splits intro!: progress_same)

interpretation st: related_machine st_step st_room st_ok escrow_progress
  by unfold_locales (auto intro: st_step_ok progress_trans st_step_progress)

lemma st_ok_new: "st_ok (st_NewKeeper None)"
  by (simp add: st_parts st_NewKeeper_def msum_def i64_def)

definition st_run :: "st_op list \<Rightarrow> settlement" where
  "st_run ops = foldl st_step (st_NewKeeper None) ops"

end
