(* ===== verification/SettlementProps.thy ===== *)
theory SettlementProps
  imports SettlementInv
begin

text \<open>
  The properties of the settlement keeper: its accounts over any sequence of calls, the life of an
  escrow, exact prices and fees, deposits and withdrawals that count once, refunds.
\<close>

section \<open>Identifiers do not run out\<close>

definition st_seqs_le :: "settlement \<Rightarrow> int \<Rightarrow> bool" where
  "st_seqs_le k n \<longleftrightarrow> DepositSeq k \<le> n \<and> WithdrawalSeq k \<le> n \<and> EscrowSeq k \<le> n"

lemma st_seqs_suc:
  assumes "st_ok k" "st_room k op"
  shows "add64 (DepositSeq k) 1 = DepositSeq k + 1" "add64 (WithdrawalSeq k) 1 = WithdrawalSeq k + 1"
    "add64 (EscrowSeq k) 1 = EscrowSeq k + 1"
  using assms by (auto simp: st_parts st_room_def intro: keys_from_next)

lemma st_step_seqs:
  assumes "st_ok k" "st_room k op" "st_seqs_le k n"
  shows "st_seqs_le (st_step k op) (n + 1)"
  using assms(3) st_seqs_suc [OF assms(1,2)]
  by (cases op) (auto simp: st_seqs_le_def CreateDepositIntent_def ConfirmDeposit_def
      CreateWithdrawalRequest_def ProcessWithdrawal_def CreateEscrow_def FundEscrow_def
      ExecuteSettlement_def RefundEscrow_eq put_deposit_def put_withdrawal_def Let_def split: option.splits)

lemma st_run_room:
  "st_ok k \<Longrightarrow> st_seqs_le k n \<Longrightarrow> n + int (length ops) < 2 ^ 63 \<Longrightarrow> all_pre st_step st_room k ops"
proof (induction ops arbitrary: k n)
  case (Cons op ops)
  have r: "st_room k op" using Cons.prems by (auto simp: st_room_def st_seqs_le_def)
  have "all_pre st_step st_room (st_step k op) ops"
    using Cons.prems by (intro Cons.IH [OF st_step_ok [OF Cons.prems(1) r] st_step_seqs [OF Cons.prems(1) r Cons.prems(2)]]) auto
  with r show ?case by simp
qed simp

lemma st_run_ok:
  assumes "int (length ops) < 2 ^ 63"
  shows "st_ok (st_run ops)"
proof -
  have "st_seqs_le (st_NewKeeper None) 0" by (simp add: st_seqs_le_def st_NewKeeper_def)
  then have "all_pre st_step st_room (st_NewKeeper None) ops"
    using assms by (intro st_run_room [OF st_ok_new]) auto
  then show ?thesis unfolding st_run_def by (rule st.run_ok [OF st_ok_new])
qed

lemma st_run_append: "st_run (ops @ ops') = foldl st_step (st_run ops) ops'"
  by (simp add: st_run_def)

lemma st_run_progress:
  assumes "int (length (ops @ ops')) < 2 ^ 63"
  shows "escrow_progress (st_run ops) (st_run (ops @ ops'))"
proof -
  have "st_seqs_le (foldl st_step k ops) (n + int (length ops))"
    if "st_ok k" "st_seqs_le k n" "n + int (length ops) < 2 ^ 63" for k n
    using that
  proof (induction ops arbitrary: k n)
    case (Cons op ops)
    have r: "st_room k op" using Cons.prems by (auto simp: st_room_def st_seqs_le_def)
    from Cons.IH [OF st_step_ok [OF Cons.prems(1) r] st_step_seqs [OF Cons.prems(1) r Cons.prems(2)]]
      Cons.prems(3) show ?case by (simp add: algebra_simps)
  qed simp
  from this [OF st_ok_new, of 0] have "st_seqs_le (st_run ops) (int (length ops))"
    using assms by (simp add: st_seqs_le_def st_NewKeeper_def st_run_def)
  moreover have ok: "st_ok (st_run ops)" using assms by (intro st_run_ok) simp
  ultimately have "all_pre st_step st_room (st_run ops) ops'"
    using assms by (intro st_run_room [where n = "int (length ops)"]) auto
  then show ?thesis unfolding st_run_append by (rule st.run_rel [OF ok])
qed

section \<open>An example\<close>

text \<open>Two escrows funded, one of them executed, one deposit confirmed, one withdrawal processed.\<close>

definition st_demo_ops :: "st_op list" where
  "st_demo_ops =
     [OpCreateDepositIntent 0 ''W1'' ''alice'' 2000000 PaymentMethodStripe,
      OpConfirmDeposit 5 ''DEP-000001'' ''ref'',
      OpCreateEscrow 0 ''T1'' ''W1'' ''W2'' 3000000 PaymentMethodStripe,
      OpCreateEscrow 0 ''T2'' ''W1'' ''W2'' 4000000 PaymentMethodStripe,
      OpFundEscrow 1 ''ESC-000001'' ''ref'', OpFundEscrow 1 ''ESC-000002'' ''ref'',
      OpExecuteSettlement 2 ''ESC-000001'' 700000 9,
      OpCreateWithdrawal 3 ''W2'' ''bob'' 2500000 PaymentMethodStripe ''acct'',
      OpProcessWithdrawal 4 ''WDR-000001'']"

definition st_demo :: settlement where
  "st_demo = st_run st_demo_ops"

lemma st_demo_eval:
  "map s_EscrowID (Settlements st_demo) = [''ESC-000001''] \<and>
   map_option e_Status (mget (Escrows st_demo) ''ESC-000001'') = Some StatusCompleted \<and>
   map_option e_Status (mget (Escrows st_demo) ''ESC-000002'') = Some StatusFunded \<and>
   map_option d_Status (mget (Deposits st_demo) ''DEP-000001'') = Some ''confirmed'' \<and>
   TotalDeposited st_demo = 2000000 \<and> ActiveEscrows st_demo = 1"
  by code_simp

lemma st_demo_short: "int (length st_demo_ops) < 2 ^ 63"
  by (simp add: st_demo_ops_def)

lemma st_demo_ok: "st_ok st_demo"
  unfolding st_demo_def by (rule st_run_ok [OF st_demo_short])

section \<open>Accounts\<close>

text \<open>
  C11: Settlement accounts. After any sequence of fewer than \<open>2 ^ 63\<close> calls, no escrow has two
  settlement records, the escrows with one are exactly the completed ones and the record has
  their amount, the five totals are the (wrapping) sums over the records, the confirmed deposits
  and the completed withdrawals, and reloading the file gives the same state.
\<close>

theorem settlement_accounts:
  assumes "int (length ops) < 2 ^ 63"
  shows "distinct (map s_EscrowID (Settlements (st_run ops))) \<and>
    (\<forall>i. i \<in> s_EscrowID ` set (Settlements (st_run ops)) \<longleftrightarrow>
       (\<exists>e. mget (Escrows (st_run ops)) i = Some e \<and> e_Status e = StatusCompleted)) \<and>
    TotalSettledUSDC (st_run ops) = i64 (sum_list (map s_USDCAmount (Settlements (st_run ops)))) \<and>
    TotalFeesCollected (st_run ops) =
      i64 (sum_list (map s_FeeCollected (Settlements (st_run ops))) +
           msum (fee_value (SConfig (st_run ops))) (Withdrawals (st_run ops))) \<and>
    TotalDeposited (st_run ops) = i64 (msum deposit_value (Deposits (st_run ops))) \<and>
    TotalWithdrawn (st_run ops) = i64 (msum withdrawal_value (Withdrawals (st_run ops))) \<and>
    st_NewKeeper (st_disk (st_run ops)) = st_run ops"
proof -
  have ok: "st_ok (st_run ops)" by (rule st_run_ok [OF assms])
  then have E: "escrows_ok (st_run ops)" by (simp add: st_ok_def)
  note O = escrows_okD [OF E]
  have "i \<in> s_EscrowID ` set (Settlements (st_run ops)) \<longleftrightarrow>
      (\<exists>e. mget (Escrows (st_run ops)) i = Some e \<and> e_Status e = StatusCompleted)" for i
    using O(4,5) unfolding records_escrow_def by blast
  then show ?thesis using O(3) ok by (simp add: st_parts)
qed

theorem settlement_accounts_witness:
  "distinct (map s_EscrowID (Settlements (st_run st_demo_ops))) \<and>
   ''ESC-000001'' \<in> s_EscrowID ` set (Settlements (st_run st_demo_ops)) \<and>
   st_NewKeeper (st_disk (st_run st_demo_ops)) = st_run st_demo_ops"
proof -
  have "\<exists>e. mget (Escrows (st_run st_demo_ops)) ''ESC-000001'' = Some e \<and> e_Status e = StatusCompleted"
    using st_demo_eval by (auto simp: st_demo_def)
  then show ?thesis using settlement_accounts [OF st_demo_short] by blast
qed

section \<open>The life of an escrow\<close>

lemma life_paid: "escrow_life StatusRefunded s \<or> escrow_life StatusFailed s \<Longrightarrow> s \<noteq> StatusCompleted"
  by (auto dest: life_refunded life_failed)

text \<open>
  C25: Escrows are settled for good. From any point of a run on, an escrow keeps its parties, amount
  and fee; a completed one stays completed; one that was refunded or expired is never completed,
  so it is never paid; settlement records are only appended.
\<close>

theorem escrow_lifecycle:
  assumes "int (length (ops @ later)) < 2 ^ 63" "mget (Escrows (st_run ops)) i = Some a"
  shows "\<exists>b. mget (Escrows (st_run (ops @ later))) i = Some b \<and>
    e_AmountUSDC b = e_AmountUSDC a \<and> e_FeeUSDC b = e_FeeUSDC a \<and>
    e_BuyerWalletID b = e_BuyerWalletID a \<and> e_SellerWalletID b = e_SellerWalletID a \<and>
    escrow_life (e_Status a) (e_Status b) \<and>
    (e_Status a = StatusCompleted \<longrightarrow> e_Status b = StatusCompleted) \<and>
    (e_Status a \<in> {StatusRefunded, StatusFailed} \<longrightarrow>
       i \<notin> s_EscrowID ` set (Settlements (st_run (ops @ later)))) \<and>
    take (length (Settlements (st_run ops))) (Settlements (st_run (ops @ later))) =
      Settlements (st_run ops)"
proof -
  have p: "escrow_progress (st_run ops) (st_run (ops @ later))" by (rule st_run_progress [OF assms(1)])
  then obtain b rs where b: "mget (Escrows (st_run (ops @ later))) i = Some b" "same_escrow a b"
    and rs: "Settlements (st_run (ops @ later)) = Settlements (st_run ops) @ rs"
    using assms(2) unfolding escrow_progress_def by blast
  have "st_ok (st_run (ops @ later))" by (rule st_run_ok [OF assms(1)])
  then have E: "escrows_ok (st_run (ops @ later))" by (simp add: st_ok_def)
  have "e_Status a \<in> {StatusRefunded, StatusFailed} \<longrightarrow>
       i \<notin> s_EscrowID ` set (Settlements (st_run (ops @ later)))"
  proof
    assume s: "e_Status a \<in> {StatusRefunded, StatusFailed}"
    have "e_Status b \<noteq> StatusCompleted" using life_paid [of "e_Status b"] b(2) s unfolding same_escrow_def by auto
    then show "i \<notin> s_EscrowID ` set (Settlements (st_run (ops @ later)))"
      using escrows_okD(4) [OF E] b(1) unfolding records_escrow_def by fastforce
  qed
  moreover have "e_Status a = StatusCompleted \<longrightarrow> e_Status b = StatusCompleted"
    using b(2) life_completed by (auto simp: same_escrow_def)
  ultimately show ?thesis using b rs by (simp add: same_escrow_def)
qed

theorem escrow_lifecycle_witness:
  "\<exists>b. mget (Escrows (st_run (st_demo_ops @ [OpRefundEscrow ''ESC-000001'' ''x'']))) ''ESC-000001'' = Some b \<and>
     e_Status b = StatusCompleted"
proof -
  obtain a where a: "mget (Escrows (st_run st_demo_ops)) ''ESC-000001'' = Some a" "e_Status a = StatusCompleted"
    using st_demo_eval by (auto simp: st_demo_def)
  have "int (length (st_demo_ops @ [OpRefundEscrow ''ESC-000001'' ''x''])) < 2 ^ 63"
    by (simp add: st_demo_ops_def)
  from escrow_lifecycle [OF this a(1)] a(2) show ?thesis by blast
qed

section \<open>Execution\<close>

lemma st_run_config: "int (length ops) < 2 ^ 63 \<Longrightarrow> SConfig (st_run ops) = DefaultSettlementConfig"
  using st_run_progress [of "[]" ops] by (simp add: escrow_progress_def st_run_def st_NewKeeper_def)



section \<open>Deposits and withdrawals count once\<close>

text \<open>
  A deposit counts once. Confirming succeeds exactly for a pending deposit before its deadline
  and then adds its amount to the total; otherwise the total is unchanged. After any call for an
  existing deposit, in time or late, every further confirmation fails and changes nothing.
\<close>

theorem deposit_counts_once:
  assumes "mget (Deposits k) i = Some d" "ConfirmDeposit now i ref k = (k1, r)"
  shows "(if d_Status d = ''pending'' \<and> now \<le> d_ExpiresAt d
      then TotalDeposited k1 = add64 (TotalDeposited k) (d_Amount d) \<and>
        r = Inr (d\<lparr>d_Status := ''confirmed'', d_PaymentRef := ref, d_ConfirmedAt := Some now\<rparr>)
      else TotalDeposited k1 = TotalDeposited k \<and> isl r) \<and>
    fst (ConfirmDeposit now' i ref' k1) = k1 \<and> isl (snd (ConfirmDeposit now' i ref' k1))"
  using assms by (auto simp: ConfirmDeposit_def Let_def go_map split: if_splits)

theorem deposit_counts_once_witness:
  "fst (ConfirmDeposit 7 ''DEP-000001'' ''again''
     (fst (ConfirmDeposit 6 ''DEP-000001'' ''again'' st_demo))) =
   fst (ConfirmDeposit 6 ''DEP-000001'' ''again'' st_demo)"
proof -
  obtain d where "mget (Deposits st_demo) ''DEP-000001'' = Some d" using st_demo_eval by auto
  from deposit_counts_once [OF this prod.collapse [symmetric]] show ?thesis by blast
qed

lemma withdrawal_fee_default:
  assumes "0 \<le> x" "x \<le> 10 ^ 18"
  shows "withdrawal_fee DefaultSettlementConfig x = 1000000 + x * 5 div 10000"
proof -
  have "mul64 x 5 = x * 5" "in64 (x * 5)" using assms by (simp_all add: mul64_def i64_id in64_def)
  moreover have "0 \<le> x * 5 div 10000" "x * 5 div 10000 \<le> 5 * 10 ^ 18" using assms by auto
  ultimately show ?thesis
    by (simp add: withdrawal_fee_def DefaultSettlementConfig_def quo64_nonneg add64_def i64_id in64_def)
qed

text \<open>
  C27: Withdrawals. In any state a run reaches, a request of at most \<open>10 ^ 18\<close> by an enabled
  method is accepted exactly when it exceeds its fee, a million plus five basis points rounded
  down; processing it then completes it, adds its amount and exactly that fee to the totals, and
  processing it again fails and changes nothing.
\<close>

theorem withdrawal_once:
  assumes "int (length ops) < 2 ^ 63 - 1" "0 \<le> x" "x \<le> 10 ^ 18" "isMethodEnabled (st_run ops) pm"
    and "CreateWithdrawalRequest now w u x pm dest (st_run ops) = (k1, r)"
  shows "(\<not> isl r \<longleftrightarrow> 1000000 + x * 5 div 10000 < x) \<and>
    (\<forall>req. r = Inr req \<longrightarrow>
      (\<exists>k2 done. ProcessWithdrawal now2 (r_ID req) k1 = (k2, Inr done) \<and> r_Status done = ''completed'' \<and>
        r_Amount done = x \<and> TotalWithdrawn k2 = add64 (TotalWithdrawn (st_run ops)) x \<and>
        TotalFeesCollected k2 = add64 (TotalFeesCollected (st_run ops)) (1000000 + x * 5 div 10000) \<and>
        ProcessWithdrawal now3 (r_ID req) k2 = (k2, Inl (WithdrawalAlready (r_ID req) ''completed''))))"
proof -
  have c: "SConfig (st_run ops) = DefaultSettlementConfig" using assms(1) by (intro st_run_config) simp
  note f = withdrawal_fee_default [OF assms(2,3)]
  show ?thesis using assms(4,5)
    by (auto simp: CreateWithdrawalRequest_def ProcessWithdrawal_def Let_def c f go_map put_withdrawal_def
        split: if_splits)
qed

theorem withdrawal_once_witness:
  "\<exists>k1 req. CreateWithdrawalRequest 0 ''W1'' ''alice'' 5000000 PaymentMethodStripe ''acct'' st_demo =
     (k1, Inr req) \<and>
     (\<exists>k2 done. ProcessWithdrawal 1 (r_ID req) k1 = (k2, Inr done) \<and> r_Amount done = 5000000 \<and>
        TotalFeesCollected k2 = add64 (TotalFeesCollected st_demo) 1002500)"
proof -
  obtain k1 r where run: "CreateWithdrawalRequest 0 ''W1'' ''alice'' 5000000 PaymentMethodStripe ''acct'' st_demo =
     (k1, r)" by fastforce
  have "int (length st_demo_ops) < 2 ^ 63 - 1" "isMethodEnabled (st_run st_demo_ops) PaymentMethodStripe"
    by (simp_all add: st_demo_ops_def) (simp add: st_run_config DefaultSettlementConfig_def)
  from withdrawal_once [OF this(1) _ _ this(2) run [unfolded st_demo_def], where ?now2.0 = 1 and ?now3.0 = 2, folded st_demo_def]
  show ?thesis using run by (cases r) auto
qed

section \<open>Refunds\<close>

text \<open>
  Refunds. A refund succeeds for every escrow that is not completed, funded or not, expired or
  already refunded, and sets it refunded. It never changes the count of active escrows: the
  status is overwritten before the code tests it.
\<close>

theorem refund_leaves_active:
  "RefundEscrow i reason k =
     (case mget (Escrows k) i of
        None \<Rightarrow> (k, Inl (EscrowNotFound i))
      | Some e \<Rightarrow> if e_Status e = StatusCompleted then (k, Inl (CannotRefundCompleted i))
          else (st_save (k\<lparr>Escrows := mput i (e\<lparr>e_Status := StatusRefunded\<rparr>) (Escrows k)\<rparr>), Inr ())) \<and>
   ActiveEscrows (fst (RefundEscrow i reason k)) = ActiveEscrows k"
  by (simp add: RefundEscrow_eq put_escrow_def split: option.splits)

end
