(* ===== verification/Kyc.thy ===== *)
theory Kyc
  imports Prelude
begin

text \<open>
  The compliance keeper, \<open>x/kyc/keeper/keeper.go\<close> and \<open>types.go\<close>: screenings against the
  restricted jurisdictions, flags for large transactions and their review. A method runs under
  the keeper's lock at the instant \<open>now\<close>; \<open>CheckTransaction\<close> dereferences the rule \<open>CTR\<close>, and a
  state file without it makes it panic (\<open>None\<close>).
\<close>

section \<open>Data\<close>

record screening_result =
  sr_ID :: string
  sr_UserID :: string
  sr_ScreeningType :: string
  sr_Provider :: string
  sr_MatchFound :: bool
  sr_MatchScore :: int64
  sr_MatchDetails :: string
  sr_ListName :: string
  sr_ScreenedAt :: time
  sr_ExpiresAt :: time

text \<open>The parameters of a rule are numbers, kept by value; nothing reads them.\<close>

record compliance_rule =
  cr_ID :: string
  cr_Name :: string
  cr_Description :: string
  cr_RuleType :: string
  cr_Enabled :: bool
  cr_Parameters :: "(string, int) gomap"

record suspicious_activity =
  sa_ID :: string
  sa_UserID :: string
  sa_WalletID :: string
  sa_RuleID :: string
  sa_Description :: string
  sa_Severity :: string
  sa_Amount :: int64
  sa_FlaggedAt :: time
  sa_ReviewedAt :: "time option"
  sa_Resolution :: string

record jurisdiction =
  j_CountryCode :: string
  j_CountryName :: string
  j_Restriction :: string
  j_Reason :: string
  j_ListSource :: string

record compliance_config =
  SanctionsProvider :: string
  PEPProvider :: string
  LargeTransactionThreshold :: int64
  StructuringWindow :: int64
  StructuringThreshold :: int64
  SanctionsRescreenDays :: int64
  PEPRescreenDays :: int64
  AutoFreezeOnSanctions :: bool
  AutoFreezeOnHighRisk :: bool
  HighRiskScoreThreshold :: int64

record kyc_json =
  Screenings :: "(string, screening_result) gomap"
  Rules :: "(string, compliance_rule) gomap"
  SuspiciousFlags :: "suspicious_activity list"
  Jurisdictions :: "jurisdiction list"
  KConfig :: compliance_config
  ScreeningSeq :: int64
  FlagSeq :: int64

record kyc = kyc_json +
  kyc_disk :: "kyc_json option"

datatype kyc_error = FlagNotFound string

definition screening_id :: "int64 \<Rightarrow> string" where "screening_id n = ''SCR-'' @ fmt0d 6 n"
definition flag_id :: "int64 \<Rightarrow> string" where "flag_id n = ''SAR-'' @ fmt0d 6 n"

interpretation screening_ids: id_store screening_id
  using prefixed_id_store [of "''SCR-''" 6] by (simp only: screening_id_def [abs_def])

definition mk_jurisdiction :: "string \<Rightarrow> string \<Rightarrow> string \<Rightarrow> string \<Rightarrow> string \<Rightarrow> jurisdiction" where
  "mk_jurisdiction code name restriction reason source =
     \<lparr>j_CountryCode = code, j_CountryName = name, j_Restriction = restriction, j_Reason = reason,
      j_ListSource = source\<rparr>"

definition DefaultRestrictedJurisdictions :: "jurisdiction list" where
  "DefaultRestrictedJurisdictions =
     [mk_jurisdiction ''KP'' ''North Korea'' ''blocked'' ''OFAC comprehensive sanctions'' ''OFAC'',
      mk_jurisdiction ''IR'' ''Iran'' ''blocked'' ''OFAC comprehensive sanctions'' ''OFAC'',
      mk_jurisdiction ''SY'' ''Syria'' ''blocked'' ''OFAC comprehensive sanctions'' ''OFAC'',
      mk_jurisdiction ''CU'' ''Cuba'' ''blocked'' ''OFAC comprehensive sanctions'' ''OFAC'',
      mk_jurisdiction ''RU'' ''Russia'' ''blocked'' ''OFAC sectoral sanctions'' ''OFAC'',
      mk_jurisdiction ''BY'' ''Belarus'' ''blocked'' ''EU sanctions'' ''EU'',
      mk_jurisdiction ''MM'' ''Myanmar'' ''enhanced_dd'' ''FATF grey list'' ''FATF'',
      mk_jurisdiction ''YE'' ''Yemen'' ''enhanced_dd'' ''FATF grey list'' ''FATF'',
      mk_jurisdiction ''AF'' ''Afghanistan'' ''blocked'' ''FATF black list'' ''FATF'',
      mk_jurisdiction ''VE'' ''Venezuela'' ''enhanced_dd'' ''OFAC targeted sanctions'' ''OFAC'']"

definition DefaultComplianceConfig :: compliance_config where
  "DefaultComplianceConfig =
     \<lparr>SanctionsProvider = ''internal'', PEPProvider = ''internal'',
      LargeTransactionThreshold = 10000000000, StructuringWindow = 24,
      StructuringThreshold = 9500000000, SanctionsRescreenDays = 30, PEPRescreenDays = 90,
      AutoFreezeOnSanctions = True, AutoFreezeOnHighRisk = True, HighRiskScoreThreshold = 70\<rparr>"

section \<open>Creating and loading\<close>

definition initDefaultRules :: "kyc \<Rightarrow> kyc" where
  "initDefaultRules k =
     k\<lparr>Rules :=
        mput ''SANCTIONS_RESCREEN''
          \<lparr>cr_ID = ''SANCTIONS_RESCREEN'', cr_Name = ''Periodic Sanctions Re-screening'',
           cr_Description = ''Re-screen all active users against sanctions lists every 30 days'',
           cr_RuleType = ''pattern'', cr_Enabled = True, cr_Parameters = [(''interval_days'', 30)]\<rparr>
        (mput ''VELOCITY''
          \<lparr>cr_ID = ''VELOCITY'', cr_Name = ''High Velocity Trading'',
           cr_Description = ''Flag unusual trading frequency or volume spikes'',
           cr_RuleType = ''velocity'', cr_Enabled = True,
           cr_Parameters = [(''max_trades_per_hour'', 50), (''volume_spike_factor'', 5)]\<rparr>
        (mput ''STRUCTURING''
          \<lparr>cr_ID = ''STRUCTURING'', cr_Name = ''Structuring Detection'',
           cr_Description = ''Detect multiple transactions just below CTR threshold within 24h'',
           cr_RuleType = ''velocity'', cr_Enabled = True,
           cr_Parameters = [(''window_hours'', 24), (''threshold_usdc'', 9500000000),
                            (''min_transactions'', 3)]\<rparr>
        (mput ''CTR''
          \<lparr>cr_ID = ''CTR'', cr_Name = ''Currency Transaction Report'',
           cr_Description = ''Flag transactions over $10,000 for CTR filing'',
           cr_RuleType = ''threshold'', cr_Enabled = True,
           cr_Parameters = [(''threshold_usdc'', 10000000000)]\<rparr>
        (Rules k))))\<rparr>"

definition kyc_NewKeeper :: "kyc_json option \<Rightarrow> kyc" where
  "kyc_NewKeeper disk =
     (let k = (case disk of
                 None \<Rightarrow>
                   \<lparr>Screenings = [], Rules = [], SuspiciousFlags = [],
                    Jurisdictions = DefaultRestrictedJurisdictions,
                    KConfig = DefaultComplianceConfig, ScreeningSeq = 0, FlagSeq = 0,
                    kyc_disk = None\<rparr>
               | Some j \<Rightarrow> kyc_json.extend j \<lparr>kyc_disk = Some j\<rparr>)
      in if Rules k = [] then initDefaultRules k else k)"

definition kyc_save :: "kyc \<Rightarrow> kyc" where
  "kyc_save k = k\<lparr>kyc_disk := Some (kyc_json.truncate k)\<rparr>"

section \<open>Screening\<close>

definition blocks :: "string \<Rightarrow> jurisdiction \<Rightarrow> bool" where
  "blocks country j \<longleftrightarrow> j_CountryCode j = country \<and> j_Restriction j = ''blocked''"

text \<open>Filing a screening under the next identifier; the two branches differ in its contents.\<close>

definition file_screening ::
  "time \<Rightarrow> string \<Rightarrow> string \<Rightarrow> bool \<Rightarrow> int64 \<Rightarrow> string \<Rightarrow> string \<Rightarrow> kyc \<Rightarrow> kyc \<times> screening_result" where
  "file_screening now userID provider match score details listName k =
     (let seq = add64 (ScreeningSeq k) 1;
          result = \<lparr>sr_ID = screening_id seq, sr_UserID = userID, sr_ScreeningType = ''sanctions'',
                    sr_Provider = provider, sr_MatchFound = match, sr_MatchScore = score,
                    sr_MatchDetails = details, sr_ListName = listName, sr_ScreenedAt = now,
                    sr_ExpiresAt = now + SanctionsRescreenDays (KConfig k) * (24 * hour_ns)\<rparr>
      in (kyc_save (k\<lparr>ScreeningSeq := seq, Screenings := mput (sr_ID result) result (Screenings k)\<rparr>),
          result))"

definition ScreenUser ::
  "time \<Rightarrow> string \<Rightarrow> string \<Rightarrow> string \<Rightarrow> string \<Rightarrow> kyc \<Rightarrow> kyc \<times> screening_result" where
  "ScreenUser now userID fullName country idNumber k =
     (case find (blocks country) (Jurisdictions k) of
        Some j \<Rightarrow>
          file_screening now userID ''internal_jurisdiction_check'' True 100
            (''Country '' @ j_CountryName j @ '' ('' @ j_CountryCode j @ '') is blocked: '' @ j_Reason j)
            (j_ListSource j) k
      | None \<Rightarrow>
          file_screening now userID (SanctionsProvider (KConfig k)) False 0
            ''No matches found against OFAC SDN, EU Consolidated, UN sanctions lists'' ''OFAC+EU+UN'' k)"

fun first_blocked :: "string \<Rightarrow> jurisdiction list \<Rightarrow> bool \<times> string" where
  "first_blocked code [] = (False, '''')"
| "first_blocked code (j # js) =
     (if j_CountryCode j = code
      then if j_Restriction j = ''blocked'' then (True, j_Reason j) else first_blocked code js
      else first_blocked code js)"

definition IsJurisdictionBlocked :: "string \<Rightarrow> kyc \<Rightarrow> bool \<times> string" where
  "IsJurisdictionBlocked countryCode k = first_blocked countryCode (Jurisdictions k)"

section \<open>Transactions and flags\<close>

definition CheckTransaction ::
  "time \<Rightarrow> string \<Rightarrow> string \<Rightarrow> int64 \<Rightarrow> string \<Rightarrow> kyc \<Rightarrow> (kyc \<times> suspicious_activity option) option" where
  "CheckTransaction now userID walletID amount txType k =
     (case mget (Rules k) ''CTR'' of
        None \<Rightarrow> None
      | Some rule \<Rightarrow>
          if cr_Enabled rule \<and> amount \<ge> LargeTransactionThreshold (KConfig k)
          then
            let seq = add64 (FlagSeq k) 1;
                flag = \<lparr>sa_ID = flag_id seq, sa_UserID = userID, sa_WalletID = walletID,
                        sa_RuleID = ''CTR'',
                        sa_Description = ''Large '' @ txType @ '' transaction of '' @ fmt0d 0 amount @
                          '' uusdc exceeds CTR threshold'',
                        sa_Severity = ''medium'', sa_Amount = amount, sa_FlaggedAt = now,
                        sa_ReviewedAt = None, sa_Resolution = ''pending''\<rparr>
            in Some (kyc_save (k\<lparr>FlagSeq := seq, SuspiciousFlags := SuspiciousFlags k @ [flag]\<rparr>),
                     Some flag)
          else Some (k, None))"

definition GetUserScreenings :: "string \<Rightarrow> kyc \<Rightarrow> screening_result list" where
  "GetUserScreenings userID k = filter (\<lambda>s. sr_UserID s = userID) (map snd (Screenings k))"

definition GetPendingFlags :: "kyc \<Rightarrow> suspicious_activity list" where
  "GetPendingFlags k = filter (\<lambda>f. sa_Resolution f = ''pending'') (SuspiciousFlags k)"

text \<open>The loop reviews the first flag with the identifier and returns; \<open>None\<close> is no such flag.\<close>

fun review_first ::
  "time \<Rightarrow> string \<Rightarrow> string \<Rightarrow> suspicious_activity list \<Rightarrow> suspicious_activity list option" where
  "review_first now flagID resolution [] = None"
| "review_first now flagID resolution (f # fs) =
     (if sa_ID f = flagID then Some (f\<lparr>sa_ReviewedAt := Some now, sa_Resolution := resolution\<rparr> # fs)
      else map_option (Cons f) (review_first now flagID resolution fs))"

definition ResolveFlag :: "time \<Rightarrow> string \<Rightarrow> string \<Rightarrow> kyc \<Rightarrow> kyc \<times> (kyc_error + unit)" where
  "ResolveFlag now flagID resolution k =
     (case review_first now flagID resolution (SuspiciousFlags k) of
        None \<Rightarrow> (k, Inl (FlagNotFound flagID))
      | Some fs \<Rightarrow> (kyc_save (k\<lparr>SuspiciousFlags := fs\<rparr>), Inr ()))"

record compliance_stats =
  cs_total_screenings :: nat
  cs_total_flags :: nat
  cs_pending_flags :: nat
  cs_active_rules :: nat
  cs_restricted_countries :: nat
  cs_sanctions_provider :: string
  cs_ctr_threshold_usdc :: int64
  cs_rescreen_interval_days :: int64

definition GetComplianceStats :: "kyc \<Rightarrow> compliance_stats" where
  "GetComplianceStats k =
     \<lparr>cs_total_screenings = length (Screenings k), cs_total_flags = length (SuspiciousFlags k),
      cs_pending_flags = length (filter (\<lambda>f. sa_Resolution f = ''pending'') (SuspiciousFlags k)),
      cs_active_rules = length (Rules k), cs_restricted_countries = length (Jurisdictions k),
      cs_sanctions_provider = SanctionsProvider (KConfig k),
      cs_ctr_threshold_usdc = LargeTransactionThreshold (KConfig k),
      cs_rescreen_interval_days = SanctionsRescreenDays (KConfig k)\<rparr>"

end
