(* ===== verification/KycProps.thy ===== *)
theory KycProps
  imports Kyc
begin

text \<open>
  The properties of the compliance keeper: the invariant of its records over any calls, screening
  as the blocked-country test, flags exactly for large amounts, the review of a flag.
\<close>

section \<open>The invariant\<close>

definition flags_ok :: "kyc \<Rightarrow> bool" where
  "flags_ok k \<longleftrightarrow>
     FlagSeq k = int (length (SuspiciousFlags k)) \<and>
     map sa_ID (SuspiciousFlags k) = map (\<lambda>n. flag_id (int n)) [1..<Suc (length (SuspiciousFlags k))] \<and>
     (\<forall>f \<in> set (SuspiciousFlags k). LargeTransactionThreshold (KConfig k) \<le> sa_Amount f)"

definition screenings_ok :: "kyc \<Rightarrow> bool" where
  "screenings_ok k \<longleftrightarrow>
     keys_from screening_id (ScreeningSeq k) (Screenings k) \<and>
     (\<forall>i s. mget (Screenings k) i = Some s \<longrightarrow>
        sr_ID s = i \<and> sr_ExpiresAt s = sr_ScreenedAt s + SanctionsRescreenDays (KConfig k) * (24 * hour_ns))"

definition ctr_on :: "kyc \<Rightarrow> bool" where
  "ctr_on k \<longleftrightarrow> (\<exists>rule. mget (Rules k) ''CTR'' = Some rule \<and> cr_Enabled rule)"

definition kyc_ok :: "kyc \<Rightarrow> bool" where
  "kyc_ok k \<longleftrightarrow> screenings_ok k \<and> flags_ok k \<and> ctr_on k \<and> kyc_NewKeeper (kyc_disk k) = k"

lemma kyc_reload: "ctr_on k \<Longrightarrow> kyc_NewKeeper (kyc_disk (kyc_save k)) = kyc_save k"
  by (cases k) (auto simp: kyc_NewKeeper_def kyc_save_def kyc_json.defs ctr_on_def Let_def)

lemma kyc_save_fields [simp]:
  "Screenings (kyc_save k) = Screenings k" "Rules (kyc_save k) = Rules k"
  "SuspiciousFlags (kyc_save k) = SuspiciousFlags k" "Jurisdictions (kyc_save k) = Jurisdictions k"
  "KConfig (kyc_save k) = KConfig k" "ScreeningSeq (kyc_save k) = ScreeningSeq k"
  "FlagSeq (kyc_save k) = FlagSeq k"
  by (simp_all add: kyc_save_def)

lemma kyc_save_ok: "screenings_ok k \<Longrightarrow> flags_ok k \<Longrightarrow> ctr_on k \<Longrightarrow> kyc_ok (kyc_save k)"
  by (simp add: kyc_ok_def kyc_reload) (simp add: screenings_ok_def flags_ok_def ctr_on_def)

lemma kyc_ok_new: "kyc_ok (kyc_NewKeeper None)"
  by (simp add: kyc_ok_def screenings_ok_def flags_ok_def ctr_on_def kyc_NewKeeper_def initDefaultRules_def
      go_map keys_from_def in64_def Let_def)

section \<open>Each call\<close>

lemma file_screening_ok:
  assumes ok: "kyc_ok k" and s: "ScreeningSeq k < 2 ^ 63 - 1"
  shows "kyc_ok (fst (file_screening now u p b x d l k))"
proof -
  let ?i = "screening_id (add64 (ScreeningSeq k) 1)"
  obtain r where r: "fst (file_screening now u p b x d l k) =
      kyc_save (k\<lparr>ScreeningSeq := add64 (ScreeningSeq k) 1, Screenings := mput ?i r (Screenings k)\<rparr>)"
      "sr_ID r = ?i" "sr_ExpiresAt r = sr_ScreenedAt r + SanctionsRescreenDays (KConfig k) * (24 * hour_ns)"
    by (simp add: file_screening_def Let_def)
  have S: "screenings_ok k" "flags_ok k" "ctr_on k" using ok by (simp_all add: kyc_ok_def)
  then have kf: "keys_from screening_id (ScreeningSeq k) (Screenings k)" by (simp add: screenings_ok_def)
  note ins = screening_ids.insert_next [OF kf s, of r]
  show ?thesis unfolding r(1)
    using S ins r(2,3)
    by (intro kyc_save_ok) (auto simp: screenings_ok_def flags_ok_def ctr_on_def go_map)
qed

lemma ScreenUser_ok:
  "kyc_ok k \<Longrightarrow> ScreeningSeq k < 2 ^ 63 - 1 \<Longrightarrow> kyc_ok (fst (ScreenUser now u n c d k))"
  by (simp add: ScreenUser_def file_screening_ok split: option.splits)

lemma CheckTransaction_eq:
  assumes "kyc_ok k"
  shows "CheckTransaction now u w x t k =
    (if LargeTransactionThreshold (KConfig k) \<le> x
     then let flag = \<lparr>sa_ID = flag_id (add64 (FlagSeq k) 1), sa_UserID = u, sa_WalletID = w, sa_RuleID = ''CTR'',
                sa_Description = ''Large '' @ t @ '' transaction of '' @ fmt0d 0 x @ '' uusdc exceeds CTR threshold'',
                sa_Severity = ''medium'', sa_Amount = x, sa_FlaggedAt = now, sa_ReviewedAt = None,
                sa_Resolution = ''pending''\<rparr>
          in Some (kyc_save (k\<lparr>FlagSeq := add64 (FlagSeq k) 1,
               SuspiciousFlags := SuspiciousFlags k @ [flag]\<rparr>), Some flag)
     else Some (k, None))"
  using assms by (auto simp: kyc_ok_def ctr_on_def CheckTransaction_def Let_def)

lemma flags_append:
  assumes "flags_ok k" "FlagSeq k < 2 ^ 63 - 1" "LargeTransactionThreshold (KConfig k) \<le> sa_Amount f"
    "sa_ID f = flag_id (add64 (FlagSeq k) 1)"
  shows "flags_ok (k\<lparr>FlagSeq := add64 (FlagSeq k) 1, SuspiciousFlags := SuspiciousFlags k @ [f]\<rparr>)"
proof -
  have "add64 (FlagSeq k) 1 = FlagSeq k + 1"
    using assms(1,2) by (simp add: flags_ok_def add64_def i64_id in64_def)
  then show ?thesis using assms by (simp add: flags_ok_def algebra_simps)
qed

lemma CheckTransaction_ok:
  assumes ok: "kyc_ok k" and s: "FlagSeq k < 2 ^ 63 - 1"
  shows "\<exists>k' r. CheckTransaction now u w x t k = Some (k', r) \<and> kyc_ok k'"
proof (cases "LargeTransactionThreshold (KConfig k) \<le> x")
  case True
  then obtain f where f: "CheckTransaction now u w x t k = Some (kyc_save (k\<lparr>FlagSeq := add64 (FlagSeq k) 1,
       SuspiciousFlags := SuspiciousFlags k @ [f]\<rparr>), Some f)"
    "sa_Amount f = x" "sa_ID f = flag_id (add64 (FlagSeq k) 1)"
    by (simp add: CheckTransaction_eq ok Let_def)
  have S: "screenings_ok k" "flags_ok k" "ctr_on k" using ok by (simp_all add: kyc_ok_def)
  have "flags_ok (k\<lparr>FlagSeq := add64 (FlagSeq k) 1, SuspiciousFlags := SuspiciousFlags k @ [f]\<rparr>)"
    by (rule flags_append [OF S(2) s]) (use True f in simp_all)
  then show ?thesis unfolding f(1)
    using S by (auto intro!: kyc_save_ok simp: screenings_ok_def ctr_on_def)
qed (simp add: CheckTransaction_eq ok)

lemma review_first_fields:
  "review_first now i r fs = Some fs' \<Longrightarrow> map sa_ID fs' = map sa_ID fs \<and> map sa_Amount fs' = map sa_Amount fs \<and>
     map sa_UserID fs' = map sa_UserID fs \<and> length fs' = length fs"
  by (induction fs arbitrary: fs') (auto split: if_splits)

lemma review_first_None: "review_first now i r fs = None \<longleftrightarrow> i \<notin> sa_ID ` set fs"
  by (induction fs) auto

lemma review_first_others:
  "review_first now i r fs = Some fs' \<Longrightarrow> distinct (map sa_ID fs) \<Longrightarrow>
   fs' = map (\<lambda>f. if sa_ID f = i then f\<lparr>sa_ReviewedAt := Some now, sa_Resolution := r\<rparr> else f) fs"
proof (induction fs arbitrary: fs')
  case (Cons f fs)
  show ?case
  proof (cases "sa_ID f = i")
    case True
    then have "map (\<lambda>f. if sa_ID f = i then f\<lparr>sa_ReviewedAt := Some now, sa_Resolution := r\<rparr> else f) fs = fs"
      using Cons.prems(2) by (intro map_idI) (auto simp: image_iff)
    with True Cons.prems show ?thesis by simp
  qed (use Cons in auto)
qed simp

lemma amounts_set: "map sa_Amount fs' = map sa_Amount fs \<Longrightarrow> sa_Amount ` set fs' = sa_Amount ` set fs"
  by (metis list.set_map)

lemma ResolveFlag_ok:
  assumes ok: "kyc_ok k"
  shows "kyc_ok (fst (ResolveFlag now i r k))"
proof (cases "review_first now i r (SuspiciousFlags k)")
  case (Some fs)
  note F = review_first_fields [OF Some]
  have S: "screenings_ok k" "flags_ok k" "ctr_on k" using ok by (simp_all add: kyc_ok_def)
  have "\<forall>f \<in> set fs. LargeTransactionThreshold (KConfig k) \<le> sa_Amount f"
    using S(2) amounts_set [of fs "SuspiciousFlags k"] F unfolding flags_ok_def by (metis image_iff)
  then have "flags_ok (k\<lparr>SuspiciousFlags := fs\<rparr>)" using S(2) F by (simp add: flags_ok_def)
  then show ?thesis using Some S
    by (simp add: ResolveFlag_def kyc_save_ok screenings_ok_def ctr_on_def)
qed (simp add: ResolveFlag_def ok)

section \<open>Runs\<close>

datatype kyc_op =
    OpScreenUser time string string string string
  | OpCheckTransaction time string string int64 string
  | OpResolveFlag time string string

fun kyc_step :: "kyc \<Rightarrow> kyc_op \<Rightarrow> kyc option" where
  "kyc_step k (OpScreenUser now u n c d) = Some (fst (ScreenUser now u n c d k))"
| "kyc_step k (OpCheckTransaction now u w x t) = map_option fst (CheckTransaction now u w x t k)"
| "kyc_step k (OpResolveFlag now i r) = Some (fst (ResolveFlag now i r k))"

definition kyc_next :: "kyc \<Rightarrow> kyc_op \<Rightarrow> kyc" where
  "kyc_next k op = (case kyc_step k op of None \<Rightarrow> k | Some k' \<Rightarrow> k')"

definition kyc_room :: "kyc \<Rightarrow> kyc_op \<Rightarrow> bool" where
  "kyc_room k op \<longleftrightarrow> ScreeningSeq k < 2 ^ 63 - 1 \<and> FlagSeq k < 2 ^ 63 - 1"

lemma kyc_step_ok:
  assumes "kyc_ok k" "kyc_room k op"
  shows "\<exists>k'. kyc_step k op = Some k' \<and> kyc_ok k'"
proof (cases op)
  case (OpCheckTransaction now u w x t)
  then show ?thesis
    using assms CheckTransaction_ok [of k now u w x t] by (auto simp: kyc_room_def)
qed (use assms in \<open>auto simp: kyc_room_def ScreenUser_ok ResolveFlag_ok\<close>)

lemma kyc_next_ok: "kyc_ok k \<Longrightarrow> kyc_room k op \<Longrightarrow> kyc_ok (kyc_next k op)"
  using kyc_step_ok [of k op] by (auto simp: kyc_next_def)

text \<open>
  What a call leaves of the earlier records: every screening as it is, and of every flag all but
  its review.
\<close>

definition flag_facts :: "suspicious_activity \<Rightarrow> string \<times> string \<times> string \<times> int64 \<times> time" where
  "flag_facts f = (sa_ID f, sa_UserID f, sa_WalletID f, sa_Amount f, sa_FlaggedAt f)"

definition kyc_kept :: "kyc \<Rightarrow> kyc \<Rightarrow> bool" where
  "kyc_kept k k' \<longleftrightarrow>
     (\<forall>i s. mget (Screenings k) i = Some s \<longrightarrow> mget (Screenings k') i = Some s) \<and>
     (\<exists>fs. map flag_facts (SuspiciousFlags k') = map flag_facts (SuspiciousFlags k) @ fs)"

lemma kept_refl [simp]: "kyc_kept k k"
  by (simp add: kyc_kept_def)

lemma kept_trans: "kyc_kept a b \<Longrightarrow> kyc_kept b c \<Longrightarrow> kyc_kept a c"
  unfolding kyc_kept_def by fastforce

lemma review_first_facts:
  "review_first now i r fs = Some fs' \<Longrightarrow> map flag_facts fs' = map flag_facts fs"
  by (induction fs arbitrary: fs') (auto simp: flag_facts_def split: if_splits)

lemma kyc_next_kept:
  assumes ok: "kyc_ok k" and r: "kyc_room k op"
  shows "kyc_kept k (kyc_next k op)"
proof (cases op)
  case (OpScreenUser now u n c d)
  have "mget (Screenings k) (screening_id (add64 (ScreeningSeq k) 1)) = None"
    using ok r by (intro screening_ids.fresh) (simp_all add: kyc_ok_def screenings_ok_def kyc_room_def)
  then show ?thesis
    by (auto simp: OpScreenUser kyc_next_def ScreenUser_def file_screening_def Let_def kyc_kept_def go_map
        split: option.splits)
next
  case (OpCheckTransaction now u w x t)
  then show ?thesis
    by (auto simp: kyc_next_def CheckTransaction_eq ok Let_def kyc_kept_def)
next
  case (OpResolveFlag now i r)
  then show ?thesis
    by (auto simp: kyc_next_def ResolveFlag_def kyc_kept_def dest: review_first_facts split: option.splits)
qed

interpretation kyc: related_machine kyc_next kyc_room kyc_ok kyc_kept
  by unfold_locales (auto intro: kyc_next_ok kept_trans kyc_next_kept)

definition kyc_run :: "kyc_op list \<Rightarrow> kyc" where
  "kyc_run ops = foldl kyc_next (kyc_NewKeeper None) ops"

lemma kyc_next_seqs:
  assumes ok: "kyc_ok k" and r: "kyc_room k op" and n: "ScreeningSeq k \<le> n" "FlagSeq k \<le> n"
  shows "ScreeningSeq (kyc_next k op) \<le> n + 1" "FlagSeq (kyc_next k op) \<le> n + 1"
proof -
  have "add64 (ScreeningSeq k) 1 = ScreeningSeq k + 1"
    using ok r by (auto simp: kyc_ok_def screenings_ok_def kyc_room_def intro: keys_from_next)
  moreover have "add64 (FlagSeq k) 1 = FlagSeq k + 1"
    using ok r by (simp add: kyc_ok_def flags_ok_def kyc_room_def add64_def i64_id in64_def)
  ultimately have "ScreeningSeq (kyc_next k op) \<le> n + 1 \<and> FlagSeq (kyc_next k op) \<le> n + 1"
    using n by (cases op) (auto simp: kyc_next_def ScreenUser_def file_screening_def CheckTransaction_eq ok
        ResolveFlag_def Let_def split: option.splits)
  then show "ScreeningSeq (kyc_next k op) \<le> n + 1" "FlagSeq (kyc_next k op) \<le> n + 1" by simp_all
qed

lemma kyc_run_room:
  "kyc_ok k \<Longrightarrow> ScreeningSeq k \<le> n \<Longrightarrow> FlagSeq k \<le> n \<Longrightarrow> n + int (length ops) < 2 ^ 63 \<Longrightarrow>
   all_pre kyc_next kyc_room k ops"
proof (induction ops arbitrary: k n)
  case (Cons op ops)
  have r: "kyc_room k op" using Cons.prems by (auto simp: kyc_room_def)
  note S = kyc_next_seqs [OF Cons.prems(1) r Cons.prems(2,3)]
  have "all_pre kyc_next kyc_room (kyc_next k op) ops"
    using Cons.prems by (intro Cons.IH [OF kyc_next_ok [OF Cons.prems(1) r] S]) auto
  with r show ?case by simp
qed simp

lemma kyc_run_ok:
  assumes "int (length ops) < 2 ^ 63"
  shows "kyc_ok (kyc_run ops)"
  unfolding kyc_run_def
  by (rule kyc.run_ok [OF kyc_ok_new kyc_run_room [OF kyc_ok_new, of 0]])
     (use assms in \<open>simp_all add: kyc_NewKeeper_def initDefaultRules_def\<close>)

section \<open>Properties\<close>


definition kyc_demo_ops :: "kyc_op list" where
  "kyc_demo_ops =
     [OpScreenUser 0 ''alice'' ''Alice'' ''RU'' ''1'', OpCheckTransaction 1 ''alice'' ''W1'' 12000000000 ''deposit'',
      OpCheckTransaction 2 ''bob'' ''W2'' 20000000000 ''deposit'',
      OpResolveFlag 3 ''SAR-000001'' ''cleared'']"

lemma kyc_demo_eval:
  "map sa_ID (SuspiciousFlags (kyc_run kyc_demo_ops)) = [''SAR-000001'', ''SAR-000002''] \<and>
   map sa_Resolution (SuspiciousFlags (kyc_run kyc_demo_ops)) = [''cleared'', ''pending'']"
  by code_simp


lemma first_blocked_iff: "fst (first_blocked c js) \<longleftrightarrow> (\<exists>j \<in> set js. blocks c j)"
  by (induction js) (auto simp: blocks_def)

lemma first_blocked_reason:
  "first_blocked c js = (case find (blocks c) js of None \<Rightarrow> (False, '''') | Some j \<Rightarrow> (True, j_Reason j))"
  by (induction js) (auto simp: blocks_def)

text \<open>
  C29: Screening. A screening finds a match exactly when the country is one that
  \<open>IsJurisdictionBlocked\<close> reports, with full score, and then quotes the same reason; it is filed
  under a fresh identifier, leaving every earlier screening in place; name and document number
  have no influence.
\<close>

theorem screening_decides:
  assumes "int (length ops) < 2 ^ 63 - 1"
    and "ScreenUser now u name c doc (kyc_run ops) = (k', res)"
  shows "(sr_MatchFound res \<longleftrightarrow> fst (IsJurisdictionBlocked c (kyc_run ops))) \<and>
    sr_MatchScore res = (if sr_MatchFound res then 100 else 0) \<and>
    (sr_MatchFound res \<longrightarrow> (\<exists>s. sr_MatchDetails res =
       s @ '' is blocked: '' @ snd (IsJurisdictionBlocked c (kyc_run ops)))) \<and>
    mget (Screenings (kyc_run ops)) (sr_ID res) = None \<and>
    Screenings k' = mput (sr_ID res) res (Screenings (kyc_run ops)) \<and>
    ScreenUser now u name' c doc' (kyc_run ops) = (k', res)"
proof -
  have ok: "kyc_ok (kyc_run ops)" by (rule kyc_run_ok) (use assms in simp)
  have "ScreeningSeq (foldl kyc_next k ops) \<le> n + int (length ops)"
    if "kyc_ok k" "ScreeningSeq k \<le> n" "FlagSeq k \<le> n" "n + int (length ops) < 2 ^ 63" for k n
    using that
  proof (induction ops arbitrary: k n)
    case (Cons op ops)
    have r: "kyc_room k op" using Cons.prems by (auto simp: kyc_room_def)
    from Cons.IH [OF kyc_next_ok [OF Cons.prems(1) r] kyc_next_seqs [OF Cons.prems(1) r Cons.prems(2,3)]]
      Cons.prems(4) show ?case by (simp add: algebra_simps)
  qed simp
  from this [OF kyc_ok_new, of 0] have "ScreeningSeq (kyc_run ops) < 2 ^ 63 - 1"
    using assms(1) by (simp add: kyc_run_def kyc_NewKeeper_def initDefaultRules_def)
  then have "mget (Screenings (kyc_run ops)) (screening_id (add64 (ScreeningSeq (kyc_run ops)) 1)) = None"
    using ok by (intro screening_ids.fresh) (simp_all add: kyc_ok_def screenings_ok_def)
  then show ?thesis using assms(2)
    by (auto simp: ScreenUser_def file_screening_def Let_def IsJurisdictionBlocked_def first_blocked_reason
        split: option.splits)
qed

theorem screening_decides_witness:
  "sr_MatchFound (snd (ScreenUser 5 ''carl'' ''Carl'' ''CU'' ''7'' (kyc_run [])))"
proof -
  have "int (length ([] :: kyc_op list)) < 2 ^ 63 - 1" by simp
  from screening_decides [OF this prod.collapse [symmetric], of 5 "''carl''" "''Carl''" "''CU''" "''7''"]
  have "sr_MatchFound (snd (ScreenUser 5 ''carl'' ''Carl'' ''CU'' ''7'' (kyc_run []))) =
    fst (IsJurisdictionBlocked ''CU'' (kyc_run []))" by blast
  also have "\<dots>" by code_simp
  finally show ?thesis .
qed

text \<open>
  C30: Large transactions. A transaction is flagged exactly when its amount reaches the threshold,
  whatever came before: amounts below it leave the state as it is, however many there are in a
  day, although the rule \<open>STRUCTURING\<close> is enabled and names a lower total.
\<close>

theorem only_large_flagged:
  assumes "int (length ops) < 2 ^ 63 - 1"
  shows "(\<forall>k' r. CheckTransaction now u w x t (kyc_run ops) = Some (k', r) \<longrightarrow>
      (r \<noteq> None \<longleftrightarrow> LargeTransactionThreshold (KConfig (kyc_run ops)) \<le> x) \<and>
      (r = None \<longrightarrow> k' = kyc_run ops)) \<and>
    kyc_run (ops @ map (\<lambda>(now, y). OpCheckTransaction now u w y t)
      (filter (\<lambda>(_, y). y < LargeTransactionThreshold (KConfig (kyc_run ops))) xs)) = kyc_run ops"
proof -
  have ok: "kyc_ok (kyc_run ops)" by (rule kyc_run_ok) (use assms in simp)
  have "foldl kyc_next (kyc_run ops) (map (\<lambda>(now, y). OpCheckTransaction now u w y t)
      (filter (\<lambda>(_, y). y < LargeTransactionThreshold (KConfig (kyc_run ops))) xs)) = kyc_run ops"
    by (induction xs) (auto simp: kyc_next_def CheckTransaction_eq ok)
  then show ?thesis by (auto simp: kyc_run_def CheckTransaction_eq ok [unfolded kyc_run_def] Let_def)
qed

theorem only_large_flagged_witness:
  "kyc_run ([] @ map (\<lambda>(now, y). OpCheckTransaction now ''eve'' ''W9'' y ''deposit'')
      (filter (\<lambda>(_, y). y < LargeTransactionThreshold (KConfig (kyc_run [])))
        [(0, 9999999999), (1, 9999999999), (2, 9999999999)])) = kyc_run []"
proof -
  have "int (length ([] :: kyc_op list)) < 2 ^ 63 - 1" by simp
  from only_large_flagged [OF this] show ?thesis by blast
qed

lemma flag_ids_distinct:
  assumes "flags_ok k"
  shows "distinct (map sa_ID (SuspiciousFlags k))"
proof -
  have "inj_on (\<lambda>n. flag_id (int n)) A" for A
    by (auto simp: inj_on_def flag_id_def dest: fmt0d_inj)
  then show ?thesis using assms unfolding flags_ok_def by (simp add: distinct_map)
qed

text \<open>
  Review. In any reachable state, resolving fails, changing nothing, exactly for an identifier
  that was never issued; otherwise it changes that flag's review alone, and with a resolution
  other than pending the pending flags become the others that were pending.
\<close>

theorem flag_review:
  assumes "int (length ops) < 2 ^ 63 - 1" "ResolveFlag now i r (kyc_run ops) = (k', res)" "r \<noteq> ''pending''"
  shows "(case res of
      Inl e \<Rightarrow> i \<notin> sa_ID ` set (SuspiciousFlags (kyc_run ops)) \<and> k' = kyc_run ops
    | Inr _ \<Rightarrow> i \<in> sa_ID ` set (SuspiciousFlags (kyc_run ops)) \<and>
        map flag_facts (SuspiciousFlags k') = map flag_facts (SuspiciousFlags (kyc_run ops)) \<and>
        GetPendingFlags k' = filter (\<lambda>f. sa_ID f \<noteq> i) (GetPendingFlags (kyc_run ops)))"
proof (cases "review_first now i r (SuspiciousFlags (kyc_run ops))")
  case None
  then have "res = Inl (FlagNotFound i)" "k' = kyc_run ops"
    using assms(2) by (simp_all add: ResolveFlag_def)
  with None review_first_None show ?thesis by simp
next
  case (Some fs)
  have "kyc_ok (kyc_run ops)" by (rule kyc_run_ok) (use assms in simp)
  then have D: "distinct (map sa_ID (SuspiciousFlags (kyc_run ops)))"
    by (intro flag_ids_distinct) (simp add: kyc_ok_def)
  have "filter (\<lambda>f. sa_Resolution f = ''pending'') (map (\<lambda>f. if sa_ID f = i
          then f\<lparr>sa_ReviewedAt := Some now, sa_Resolution := r\<rparr> else f) xs) =
        filter (\<lambda>f. sa_ID f \<noteq> i) (filter (\<lambda>f. sa_Resolution f = ''pending'') xs)" for xs
    using assms(3) by (induction xs) auto
  moreover have "i \<in> sa_ID ` set (SuspiciousFlags (kyc_run ops))"
    using Some review_first_None [of now i r "SuspiciousFlags (kyc_run ops)"] by auto
  moreover have "res = Inr ()" "SuspiciousFlags k' = fs" using assms(2) Some by (auto simp: ResolveFlag_def)
  ultimately show ?thesis
    using review_first_others [OF Some D] review_first_facts [OF Some] by (simp add: GetPendingFlags_def)
qed

theorem flag_review_witness:
  "GetPendingFlags (fst (ResolveFlag 9 ''SAR-000002'' ''frozen'' (kyc_run kyc_demo_ops))) =
   filter (\<lambda>f. sa_ID f \<noteq> ''SAR-000002'') (GetPendingFlags (kyc_run kyc_demo_ops))"
proof -
  have l: "int (length kyc_demo_ops) < 2 ^ 63 - 1" by (simp add: kyc_demo_ops_def)
  obtain k' res where run: "ResolveFlag 9 ''SAR-000002'' ''frozen'' (kyc_run kyc_demo_ops) = (k', res)"
    by fastforce
  have "list_ex (\<lambda>f. sa_ID f = ''SAR-000002'') (SuspiciousFlags (kyc_run kyc_demo_ops))" by code_simp
  then have "''SAR-000002'' \<in> sa_ID ` set (SuspiciousFlags (kyc_run kyc_demo_ops))"
    unfolding list_ex_iff by force
  with flag_review [OF l run] have "GetPendingFlags k' =
      filter (\<lambda>f. sa_ID f \<noteq> ''SAR-000002'') (GetPendingFlags (kyc_run kyc_demo_ops))"
    by (cases res) simp_all
  with run show ?thesis by simp
qed

end
