(* ===== verification/Http.thy ===== *)
theory Http
  imports ChainState Exchange Settlement Kyc
begin

text \<open>
  What the handlers of \<open>cmd/ftgd/rpc_*.go\<close> see of a request and give as a response. A request
  is its method, its query parameters and its body, already parsed into a JSON value (\<open>None\<close>
  when it cannot be read or is not JSON); decoding that value into a request struct, which is
  where a handler's arguments get their types, is modelled as \<open>encoding/json\<close> does it.
\<close>

section \<open>JSON values and decoding into a struct\<close>

text \<open>A number literal with a fraction or an exponent is \<open>JFrac\<close>: no integer field takes it.\<close>

datatype json =
    JNull | JBool bool | JInt int | JFrac | JStr string | JArr "json list"
  | JObj "(string \<times> json) list"

datatype field_kind = FStr | FInt

datatype field_value = VStr string | VInt int64

type_synonym fields = "(string \<times> field_kind) list"
type_synonym vals = "(string, field_value) gomap"

text \<open>
  A member is decoded into the field of its name, or else into one whose name is equal under
  case folding; besides the ASCII letters, U+017F folds to \<open>s\<close> and U+212A to \<open>k\<close>.
\<close>

definition lower_char :: "char \<Rightarrow> char" where
  "lower_char c =
     (let n = of_char c :: nat in if 65 \<le> n \<and> n \<le> 90 then char_of (n + 32) else c)"

fun fold_key :: "string \<Rightarrow> string" where
  "fold_key [] = []"
| "fold_key [c] = [lower_char c]"
| "fold_key [c, d] =
     (if c = char_of (0xC5 :: nat) \<and> d = char_of (0xBF :: nat) then ''s'' else [lower_char c, lower_char d])"
| "fold_key (c # d # e # s) =
     (if c = char_of (0xC5 :: nat) \<and> d = char_of (0xBF :: nat) then CHR ''s'' # fold_key (e # s)
      else if c = char_of (0xE2 :: nat) \<and> d = char_of (0x84 :: nat) \<and> e = char_of (0xAA :: nat)
      then CHR ''k'' # fold_key s
      else lower_char c # fold_key (d # e # s))"

definition field_of :: "fields \<Rightarrow> string \<Rightarrow> (string \<times> field_kind) option" where
  "field_of fs key =
     (case find (\<lambda>(n, _). n = key) fs of
        Some f \<Rightarrow> Some f
      | None \<Rightarrow> find (\<lambda>(n, _). fold_key n = fold_key key) fs)"

text \<open>
  One member: \<open>null\<close> leaves the field as it is, a value of another type or an integer outside
  \<open>int64\<close> is an error, an unknown name is ignored, a repeated one overwrites.
\<close>

definition decode_member :: "fields \<Rightarrow> vals option \<Rightarrow> string \<times> json \<Rightarrow> vals option" where
  "decode_member fs acc = (\<lambda>(key, v).
     (case (acc, field_of fs key) of
        (None, _) \<Rightarrow> None
      | (Some vs, None) \<Rightarrow> Some vs
      | (Some vs, Some (n, kind)) \<Rightarrow>
          (case (kind, v) of
             (_, JNull) \<Rightarrow> Some vs
           | (FStr, JStr s) \<Rightarrow> Some (mput n (VStr s) vs)
           | (FInt, JInt i) \<Rightarrow> if in64 i then Some (mput n (VInt i) vs) else None
           | _ \<Rightarrow> None)))"

fun decode :: "fields \<Rightarrow> json \<Rightarrow> vals option" where
  "decode fs (JObj ms) = foldl (decode_member fs) (Some []) ms"
| "decode fs JNull = Some []"
| "decode fs _ = None"

text \<open>A field that was not set has its zero value.\<close>

definition str :: "vals \<Rightarrow> string \<Rightarrow> string" where
  "str vs n = (case mget vs n of Some (VStr s) \<Rightarrow> s | _ \<Rightarrow> '''')"

definition num :: "vals \<Rightarrow> string \<Rightarrow> int64" where
  "num vs n = (case mget vs n of Some (VInt i) \<Rightarrow> i | _ \<Rightarrow> 0)"

text \<open>An integer a handler takes from its body is always an \<open>int64\<close>.\<close>

definition ints_typed :: "vals \<Rightarrow> bool" where
  "ints_typed vs \<longleftrightarrow> (\<forall>n i. mget vs n = Some (VInt i) \<longrightarrow> in64 i)"

lemma decode_member_None [simp]: "decode_member fs None m = None"
  by (cases m) (simp add: decode_member_def)

lemma decode_members_None [simp]: "foldl (decode_member fs) None ms = None"
  by (induction ms) simp_all

lemma decode_member_typed:
  "ints_typed vs \<Longrightarrow> decode_member fs (Some vs) m = Some vs' \<Longrightarrow> ints_typed vs'"
  by (cases m) (auto simp: decode_member_def ints_typed_def go_map
      split: option.splits field_kind.splits json.splits if_splits prod.splits)

lemma decode_members_typed:
  "ints_typed vs \<Longrightarrow> foldl (decode_member fs) (Some vs) ms = Some vs' \<Longrightarrow> ints_typed vs'"
proof (induction ms arbitrary: vs)
  case (Cons m ms)
  then show ?case
    by (cases "decode_member fs (Some vs) m") (auto dest: decode_member_typed)
qed simp

lemma decode_typed: "decode fs j = Some vs \<Longrightarrow> ints_typed vs"
proof (cases j)
  case (JObj ms)
  then show "decode fs j = Some vs \<Longrightarrow> ints_typed vs"
    using decode_members_typed [of "[]" fs ms vs] by (simp add: ints_typed_def)
qed (auto simp: ints_typed_def)

lemma num_typed [simp]: "ints_typed vs \<Longrightarrow> in64 (num vs n)"
  by (auto simp: num_def ints_typed_def in64_def split: option.splits field_value.splits)

section \<open>Requests\<close>

record request =
  meth :: string
  query :: "(string \<times> string) list"
  body :: "json option"

definition query_get :: "request \<Rightarrow> string \<Rightarrow> string" where
  "query_get r k = (case map_of (query r) k of Some v \<Rightarrow> v | None \<Rightarrow> '''')"

definition readJSON :: "fields \<Rightarrow> request \<Rightarrow> vals option" where
  "readJSON fs r = (case body r of None \<Rightarrow> None | Some j \<Rightarrow> decode fs j)"

lemma readJSON_typed: "readJSON fs r = Some vs \<Longrightarrow> ints_typed vs"
  by (auto simp: readJSON_def dest: decode_typed split: option.splits)

text \<open>\<open>strconv.Atoi\<close>: an optional sign and decimal digits, in the range of \<open>int64\<close>.\<close>

definition is_digit :: "char \<Rightarrow> bool" where
  "is_digit c \<longleftrightarrow> (let n = of_char c :: nat in 48 \<le> n \<and> n \<le> 57)"

definition atoi :: "string \<Rightarrow> int64 option" where
  "atoi s =
     (let (sign, ds) = (case s of
            CHR ''-'' # ds \<Rightarrow> (- 1, ds) | CHR ''+'' # ds \<Rightarrow> (1, ds) | ds \<Rightarrow> (1, ds));
          i = sign * int (dec_value 0 ds)
      in if ds \<noteq> [] \<and> list_all is_digit ds \<and> in64 i then Some i else None)"

text \<open>The query parameter of a count, or its default when it is absent or not a number.\<close>

definition query_int :: "request \<Rightarrow> string \<Rightarrow> int64 \<Rightarrow> int64" where
  "query_int r k dflt = (case atoi (query_get r k) of Some i \<Rightarrow> i | None \<Rightarrow> dflt)"

section \<open>Responses\<close>

text \<open>The ways a request is refused with status 400; the text of the error is its constructor.\<close>

datatype rpc_error =
    InvalidBody | ParameterRequired string | SideInvalid | OrderTypeInvalid | MintArguments
  | ExchangeError ex_error | SettlementError st_error | KycError kyc_error | ChainError cs_error

text \<open>
  \<open>PostRequired\<close> is status 405, \<open>BadRequest\<close> status 400, \<open>Success\<close> status 200 with the result
  object; floating-point renderings of its integers are left out.
\<close>

datatype 'a reply = PostRequired | BadRequest rpc_error | Success 'a

text \<open>The head of every handler that changes state: \<open>POST\<close>, then the body, then the call.\<close>

definition with_body :: "fields \<Rightarrow> request \<Rightarrow> 's \<Rightarrow> (vals \<Rightarrow> 's \<times> 'a reply) \<Rightarrow> 's \<times> 'a reply" where
  "with_body fs r s h =
     (if meth r \<noteq> ''POST'' then (s, PostRequired)
      else case readJSON fs r of None \<Rightarrow> (s, BadRequest InvalidBody) | Some vs \<Rightarrow> h vs)"

text \<open>The same for a call that may panic.\<close>

definition with_body_opt ::
  "fields \<Rightarrow> request \<Rightarrow> 's \<Rightarrow> (vals \<Rightarrow> ('s \<times> 'a reply) option) \<Rightarrow> ('s \<times> 'a reply) option" where
  "with_body_opt fs r s h =
     (if meth r \<noteq> ''POST'' then Some (s, PostRequired)
      else case readJSON fs r of None \<Rightarrow> Some (s, BadRequest InvalidBody) | Some vs \<Rightarrow> h vs)"

definition answer :: "('e \<Rightarrow> rpc_error) \<Rightarrow> ('b \<Rightarrow> 'a) \<Rightarrow> 'e + 'b \<Rightarrow> 'a reply" where
  "answer err ok res = (case res of Inl e \<Rightarrow> BadRequest (err e) | Inr x \<Rightarrow> Success (ok x))"

lemma with_body_cases:
  assumes "with_body fs r s h = (s', rep)"
  obtains "s' = s" "rep = PostRequired" "meth r \<noteq> ''POST''"
  | "s' = s" "rep = BadRequest InvalidBody" "meth r = ''POST''"
  | vs where "readJSON fs r = Some vs" "ints_typed vs" "meth r = ''POST''" "h vs = (s', rep)"
  using assms by (auto simp: with_body_def dest: readJSON_typed split: if_splits option.splits)

lemma with_body_opt_cases:
  assumes "with_body_opt fs r s h = Some (s', rep)"
  obtains "s' = s" "rep = PostRequired" "meth r \<noteq> ''POST''"
  | "s' = s" "rep = BadRequest InvalidBody" "meth r = ''POST''"
  | vs where "readJSON fs r = Some vs" "ints_typed vs" "meth r = ''POST''" "h vs = Some (s', rep)"
  using assms by (auto simp: with_body_opt_def dest: readJSON_typed split: if_splits option.splits)

end
