(* ===== verification/ExchangeRpc.thy ===== *)
theory ExchangeRpc
  imports Http
begin

text \<open>
  The handlers of \<open>cmd/ftgd/rpc_exchange.go\<close>: each reads its request, calls the exchange or the
  compliance keeper and answers. \<open>height\<close> is the node's block height when the handler reads it.
  A handler that panics has the value \<open>None\<close>. A request is one step; the two calls of
  \<open>handleKYCSubmit\<close> are to keepers that share no state.
\<close>

section \<open>State and results\<close>

record exchange_rpc =
  er_exchange :: exchange
  er_kyc :: kyc

definition NewExchangeRPC :: "slice_sort \<Rightarrow> exchange_json option \<Rightarrow> kyc_json option \<Rightarrow> exchange_rpc" where
  "NewExchangeRPC srt ex_file kyc_file =
     \<lparr>er_exchange = ex_NewKeeper srt ex_file, er_kyc = kyc_NewKeeper kyc_file\<rparr>"

record pair_info =
  pi_id :: string
  pi_base_symbol :: string
  pi_quote_symbol :: string
  pi_base_denom :: string
  pi_quote_denom :: string
  pi_min_order_size :: int64
  pi_maker_fee_bps :: int64
  pi_taker_fee_bps :: int64
  pi_active :: bool
  pi_price_anchor :: string

datatype ex_result =
    RWallet wallet | RMoved string string string int64 | ROrder order "trade list" string
  | RCancelled string string | ROrders "order list" nat | RBook book_snapshot
  | RTrades "trade list" nat | RPairs "pair_info list" bool | RStats exchange_stats
  | RApplication kyc_application | RApproved string string | RRejected string string string
  | RScreening screening_result | RCompliance compliance_stats
  | RFlags "suspicious_activity list" nat | RFlagResolved string string string
  | RJurisdiction string bool string

type_synonym ex_handler =
  "request \<Rightarrow> exchange_rpc \<Rightarrow> (exchange_rpc \<times> ex_result reply) option"

text \<open>A call of one keeper: its new state is put back and its result answered.\<close>

definition in_exchange ::
  "('b \<Rightarrow> ex_result) \<Rightarrow> exchange_rpc \<Rightarrow> exchange \<times> (ex_error + 'b) \<Rightarrow> exchange_rpc \<times> ex_result reply" where
  "in_exchange ok e kr = (e\<lparr>er_exchange := fst kr\<rparr>, answer ExchangeError ok (snd kr))"

section \<open>Wallets\<close>

definition CreateWalletRequest_fields :: fields where
  "CreateWalletRequest_fields = [(''user_id'', FStr), (''label'', FStr)]"

definition handleCreateWallet :: "time \<Rightarrow> request \<Rightarrow> exchange_rpc \<Rightarrow> exchange_rpc \<times> ex_result reply" where
  "handleCreateWallet now r e =
     with_body CreateWalletRequest_fields r e (\<lambda>req.
       in_exchange RWallet e (CreateWallet now (str req ''user_id'') (str req ''label'') (er_exchange e)))"

definition handleGetWallet :: "request \<Rightarrow> exchange_rpc \<Rightarrow> exchange_rpc \<times> ex_result reply" where
  "handleGetWallet r e =
     (let walletID = query_get r ''wallet_id''; userID = query_get r ''user_id''
      in if walletID \<noteq> '''' then (e, answer ExchangeError RWallet (GetWallet walletID (er_exchange e)))
         else if userID \<noteq> ''''
         then (e, answer ExchangeError RWallet (GetWalletByUser userID (er_exchange e)))
         else (e, BadRequest (ParameterRequired ''wallet_id or user_id'')))"

definition DepositRequest_fields :: fields where
  "DepositRequest_fields = [(''wallet_id'', FStr), (''denom'', FStr), (''amount'', FInt)]"

definition handleDeposit :: "request \<Rightarrow> exchange_rpc \<Rightarrow> exchange_rpc \<times> ex_result reply" where
  "handleDeposit r e =
     with_body DepositRequest_fields r e (\<lambda>req.
       let w = str req ''wallet_id''; d = str req ''denom''; x = num req ''amount''
       in in_exchange (\<lambda>_. RMoved ''Deposit successful'' w d x) e
            (DepositToWallet w d x (er_exchange e)))"

definition WithdrawRequest_fields :: fields where
  "WithdrawRequest_fields = [(''wallet_id'', FStr), (''denom'', FStr), (''amount'', FInt)]"

definition handleWithdraw :: "request \<Rightarrow> exchange_rpc \<Rightarrow> exchange_rpc \<times> ex_result reply" where
  "handleWithdraw r e =
     with_body WithdrawRequest_fields r e (\<lambda>req.
       let w = str req ''wallet_id''; d = str req ''denom''; x = num req ''amount''
       in in_exchange (\<lambda>_. RMoved ''Withdrawal successful'' w d x) e
            (WithdrawFromWallet w d x (er_exchange e)))"

section \<open>Orders\<close>

definition PlaceOrderRequest_fields :: fields where
  "PlaceOrderRequest_fields =
     [(''wallet_id'', FStr), (''pair_id'', FStr), (''side'', FStr), (''order_type'', FStr),
      (''price'', FInt), (''quantity'', FInt)]"

definition parse_side :: "string \<Rightarrow> order_side option" where
  "parse_side s =
     (if s = ''buy'' then Some OrderSideBuy else if s = ''sell'' then Some OrderSideSell else None)"

definition parse_order_type :: "string \<Rightarrow> order_type option" where
  "parse_order_type s =
     (if s = ''limit'' then Some OrderTypeLimit else if s = ''market'' then Some OrderTypeMarket
      else None)"

definition placed_message :: "order \<Rightarrow> trade list \<Rightarrow> string" where
  "placed_message order trades =
     ''Order '' @ o_ID order @ '' placed. '' @ fmt0d 0 (int (length trades)) @ '' trade(s) executed.''"

definition handlePlaceOrder :: "slice_sort \<Rightarrow> time \<Rightarrow> int64 \<Rightarrow> ex_handler" where
  "handlePlaceOrder srt now height r e =
     with_body_opt PlaceOrderRequest_fields r e (\<lambda>req.
       case parse_side (str req ''side'') of
         None \<Rightarrow> Some (e, BadRequest SideInvalid)
       | Some side \<Rightarrow>
           (case parse_order_type (str req ''order_type'') of
              None \<Rightarrow> Some (e, BadRequest OrderTypeInvalid)
            | Some orderType \<Rightarrow>
                map_option (in_exchange (\<lambda>(order, trades). ROrder order trades (placed_message order trades)) e)
                  (PlaceOrder srt now (str req ''wallet_id'') (str req ''pair_id'') side orderType
                     (num req ''price'') (num req ''quantity'') height (er_exchange e))))"

definition CancelOrderRequest_fields :: fields where
  "CancelOrderRequest_fields = [(''order_id'', FStr), (''wallet_id'', FStr)]"

definition handleCancelOrder :: "time \<Rightarrow> ex_handler" where
  "handleCancelOrder now r e =
     with_body_opt CancelOrderRequest_fields r e (\<lambda>req.
       map_option (in_exchange (\<lambda>_. RCancelled ''Order cancelled'' (str req ''order_id'')) e)
         (CancelOrder now (str req ''order_id'') (str req ''wallet_id'') (er_exchange e)))"

definition handleListOrders :: "slice_sort \<Rightarrow> request \<Rightarrow> exchange_rpc \<Rightarrow> exchange_rpc \<times> ex_result reply" where
  "handleListOrders srt r e =
     (let walletID = query_get r ''wallet_id''
      in if walletID = '''' then (e, BadRequest (ParameterRequired ''wallet_id''))
         else
           let activeOnly = (query_get r ''active_only'' = ''true'');
               orders = GetUserOrders srt walletID activeOnly (er_exchange e)
           in (e, Success (ROrders orders (length orders))))"

section \<open>Market data\<close>

definition query_pair :: "request \<Rightarrow> string" where
  "query_pair r = (if query_get r ''pair_id'' = '''' then ''FTG-USDC'' else query_get r ''pair_id'')"

definition handleOrderBook :: "time \<Rightarrow> request \<Rightarrow> exchange_rpc \<Rightarrow> exchange_rpc \<times> ex_result reply" where
  "handleOrderBook now r e =
     (e, Success (RBook (GetOrderBook now (query_pair r) (query_int r ''depth'' 20) (er_exchange e))))"

definition handleRecentTrades :: "request \<Rightarrow> exchange_rpc \<Rightarrow> exchange_rpc \<times> ex_result reply" where
  "handleRecentTrades r e =
     (let trades = GetRecentTrades (query_pair r) (query_int r ''limit'' 50) (er_exchange e)
      in (e, Success (RTrades trades (length trades))))"

text \<open>The list of pairs is a constant of the handler, not the keeper's map.\<close>

definition handlePairs :: "time \<Rightarrow> request \<Rightarrow> exchange_rpc \<Rightarrow> exchange_rpc \<times> ex_result reply" where
  "handlePairs now r e =
     (e, Success (RPairs
       [\<lparr>pi_id = ''FTG-USDC'', pi_base_symbol = ''FTG'', pi_quote_symbol = ''USDC'',
         pi_base_denom = ''uftg'', pi_quote_denom = ''uusdc'', pi_min_order_size = 1000000,
         pi_maker_fee_bps = 10, pi_taker_fee_bps = 25, pi_active = True, pi_price_anchor = ''$5.00''\<rparr>]
       (es_trading_enabled (GetExchangeStats now (er_exchange e)))))"

definition handleExchangeStats :: "time \<Rightarrow> request \<Rightarrow> exchange_rpc \<Rightarrow> exchange_rpc \<times> ex_result reply" where
  "handleExchangeStats now r e = (e, Success (RStats (GetExchangeStats now (er_exchange e))))"

section \<open>KYC\<close>

definition KYCSubmitRequest_fields :: fields where
  "KYCSubmitRequest_fields =
     [(''user_id'', FStr), (''wallet_id'', FStr), (''requested_tier'', FInt), (''email'', FStr),
      (''phone'', FStr), (''country'', FStr), (''full_name'', FStr), (''date_of_birth'', FStr),
      (''id_type'', FStr), (''id_number'', FStr), (''company_name'', FStr), (''company_reg_no'', FStr)]"

text \<open>
  The application built from the request; the fields it does not set are zero. The status (an
  empty string in the code) and the submission time are overwritten before they are read.
\<close>

definition submitted :: "vals \<Rightarrow> kyc_application" where
  "submitted req =
     \<lparr>a_ID = '''', a_UserID = str req ''user_id'', a_WalletID = str req ''wallet_id'',
      a_RequestedTier = num req ''requested_tier'', a_CurrentTier = 0, a_Status = KYCStatusNone,
      a_Email = str req ''email'', a_Phone = str req ''phone'', a_Country = str req ''country'',
      a_FullName = str req ''full_name'', a_DateOfBirth = str req ''date_of_birth'',
      a_IDType = str req ''id_type'', a_IDNumber = str req ''id_number'', a_IDDocumentHash = '''',
      a_ProofOfAddress = '''', a_CompanyName = str req ''company_name'',
      a_CompanyRegNo = str req ''company_reg_no'', a_CompanyCountry = '''', a_AMLRiskScore = 0,
      a_PEPCheck = False, a_SanctionsCheck = False, a_SubmittedAt = 0, a_ReviewedAt = None,
      a_ApprovedAt = None, a_RejectedReason = ''''\<rparr>"

text \<open>The screening runs after the application is decided, and its result is not used.\<close>

definition handleKYCSubmit :: "time \<Rightarrow> request \<Rightarrow> exchange_rpc \<Rightarrow> exchange_rpc \<times> ex_result reply" where
  "handleKYCSubmit now r e =
     with_body KYCSubmitRequest_fields r e (\<lambda>req.
       let kr = SubmitKYC now (submitted req) (er_exchange e);
           e = e\<lparr>er_exchange := fst kr\<rparr>
       in case snd kr of
            Inl err \<Rightarrow> (e, BadRequest (ExchangeError err))
          | Inr result \<Rightarrow>
              (if str req ''full_name'' \<noteq> '''' \<and> str req ''country'' \<noteq> ''''
               then e\<lparr>er_kyc := fst (ScreenUser now (str req ''user_id'') (str req ''full_name'')
                                      (str req ''country'') (str req ''id_number'') (er_kyc e))\<rparr>
               else e,
               Success (RApplication result)))"

definition KYCApproveRequest_fields :: fields where
  "KYCApproveRequest_fields = [(''application_id'', FStr)]"

definition handleKYCApprove :: "time \<Rightarrow> ex_handler" where
  "handleKYCApprove now r e =
     with_body_opt KYCApproveRequest_fields r e (\<lambda>req.
       map_option (in_exchange (\<lambda>_. RApproved ''KYC application approved'' (str req ''application_id'')) e)
         (ApproveKYC now (str req ''application_id'') (er_exchange e)))"

definition KYCRejectRequest_fields :: fields where
  "KYCRejectRequest_fields = [(''application_id'', FStr), (''reason'', FStr)]"

definition handleKYCReject :: "time \<Rightarrow> request \<Rightarrow> exchange_rpc \<Rightarrow> exchange_rpc \<times> ex_result reply" where
  "handleKYCReject now r e =
     with_body KYCRejectRequest_fields r e (\<lambda>req.
       in_exchange (\<lambda>_. RRejected ''KYC application rejected'' (str req ''application_id'') (str req ''reason'')) e
         (RejectKYC now (str req ''application_id'') (str req ''reason'') (er_exchange e)))"

definition ScreenRequest_fields :: fields where
  "ScreenRequest_fields =
     [(''user_id'', FStr), (''full_name'', FStr), (''country'', FStr), (''id_number'', FStr)]"

definition handleKYCScreen :: "time \<Rightarrow> request \<Rightarrow> exchange_rpc \<Rightarrow> exchange_rpc \<times> ex_result reply" where
  "handleKYCScreen now r e =
     with_body ScreenRequest_fields r e (\<lambda>req.
       let kr = ScreenUser now (str req ''user_id'') (str req ''full_name'') (str req ''country'')
                  (str req ''id_number'') (er_kyc e)
       in (e\<lparr>er_kyc := fst kr\<rparr>, Success (RScreening (snd kr))))"

section \<open>Compliance\<close>

definition handleComplianceStats :: "request \<Rightarrow> exchange_rpc \<Rightarrow> exchange_rpc \<times> ex_result reply" where
  "handleComplianceStats r e = (e, Success (RCompliance (GetComplianceStats (er_kyc e))))"

definition handleComplianceFlags :: "request \<Rightarrow> exchange_rpc \<Rightarrow> exchange_rpc \<times> ex_result reply" where
  "handleComplianceFlags r e =
     (let flags = GetPendingFlags (er_kyc e) in (e, Success (RFlags flags (length flags))))"

definition ResolveFlagRequest_fields :: fields where
  "ResolveFlagRequest_fields = [(''flag_id'', FStr), (''resolution'', FStr)]"

definition handleComplianceResolve ::
  "time \<Rightarrow> request \<Rightarrow> exchange_rpc \<Rightarrow> exchange_rpc \<times> ex_result reply" where
  "handleComplianceResolve now r e =
     with_body ResolveFlagRequest_fields r e (\<lambda>req.
       let kr = ResolveFlag now (str req ''flag_id'') (str req ''resolution'') (er_kyc e)
       in (e\<lparr>er_kyc := fst kr\<rparr>,
           answer KycError (\<lambda>_. RFlagResolved ''Flag resolved'' (str req ''flag_id'') (str req ''resolution''))
             (snd kr)))"

definition handleCheckJurisdiction :: "request \<Rightarrow> exchange_rpc \<Rightarrow> exchange_rpc \<times> ex_result reply" where
  "handleCheckJurisdiction r e =
     (let country = query_get r ''country''
      in if country = '''' then (e, BadRequest (ParameterRequired ''country''))
         else
           let (blocked, reason) = IsJurisdictionBlocked country (er_kyc e)
           in (e, Success (RJurisdiction country blocked reason)))"

section \<open>Routes\<close>

definition returns :: "(request \<Rightarrow> exchange_rpc \<Rightarrow> exchange_rpc \<times> ex_result reply) \<Rightarrow> ex_handler" where
  "returns h r e = Some (h r e)"

definition exchange_routes :: "slice_sort \<Rightarrow> time \<Rightarrow> int64 \<Rightarrow> (string \<times> ex_handler) list" where
  "exchange_routes srt now height =
     [(''/exchange/wallet/create'', returns (handleCreateWallet now)),
      (''/exchange/wallet/get'', returns handleGetWallet),
      (''/exchange/wallet/deposit'', returns handleDeposit),
      (''/exchange/wallet/withdraw'', returns handleWithdraw),
      (''/exchange/order/place'', handlePlaceOrder srt now height),
      (''/exchange/order/cancel'', handleCancelOrder now),
      (''/exchange/order/list'', returns (handleListOrders srt)),
      (''/exchange/orderbook'', returns (handleOrderBook now)),
      (''/exchange/trades'', returns handleRecentTrades),
      (''/exchange/pairs'', returns (handlePairs now)),
      (''/exchange/stats'', returns (handleExchangeStats now)),
      (''/exchange/kyc/submit'', returns (handleKYCSubmit now)),
      (''/exchange/kyc/approve'', handleKYCApprove now),
      (''/exchange/kyc/reject'', returns (handleKYCReject now)),
      (''/exchange/kyc/screen'', returns (handleKYCScreen now)),
      (''/exchange/compliance/stats'', returns handleComplianceStats),
      (''/exchange/compliance/flags'', returns handleComplianceFlags),
      (''/exchange/compliance/resolve'', returns (handleComplianceResolve now)),
      (''/exchange/compliance/check-jurisdiction'', returns handleCheckJurisdiction)]"

end
