(* ===== verification/SettlementRpc.thy ===== *)
theory SettlementRpc
  imports Http
begin

text \<open>
  The handlers of \<open>cmd/ftgd/rpc_settlement.go\<close>: each reads its request, calls the settlement
  keeper and answers. \<open>height\<close> is the node's block height when the handler reads it.
\<close>

section \<open>Results\<close>

datatype st_result =
    RDeposit deposit_intent | RDeposits "deposit_intent list" nat | RWithdrawal withdrawal_request
  | RWithdrawals "withdrawal_request list" nat | REscrow escrow | RSettled settlement_record
  | RRefunded string string | RHistory "settlement_record list" nat | RSettlementStats settlement_stats

type_synonym st_handler = "request \<Rightarrow> settlement \<Rightarrow> settlement \<times> st_result reply"

definition st_answer ::
  "('b \<Rightarrow> st_result) \<Rightarrow> settlement \<times> (st_error + 'b) \<Rightarrow> settlement \<times> st_result reply" where
  "st_answer ok kr = (fst kr, answer SettlementError ok (snd kr))"

text \<open>\<open>types.PaymentMethod(s)\<close>: the constants by their text, any other string as itself.\<close>

definition parse_method :: "string \<Rightarrow> payment_method" where
  "parse_method s =
     (if s = ''bank_wire'' then PaymentMethodBankWire
      else if s = ''circle_mint'' then PaymentMethodCircleMint
      else if s = ''noble_ibc'' then PaymentMethodNobleIBC
      else if s = ''stablecoin'' then PaymentMethodStablecoin
      else if s = ''stripe'' then PaymentMethodStripe
      else PaymentMethodOther s)"

section \<open>Deposits\<close>

definition CreateDepositRequest_fields :: fields where
  "CreateDepositRequest_fields =
     [(''wallet_id'', FStr), (''user_id'', FStr), (''amount'', FInt), (''payment_method'', FStr)]"

definition handleCreateDeposit :: "time \<Rightarrow> st_handler" where
  "handleCreateDeposit now r k =
     with_body CreateDepositRequest_fields r k (\<lambda>req.
       st_answer RDeposit
         (CreateDepositIntent now (str req ''wallet_id'') (str req ''user_id'') (num req ''amount'')
            (parse_method (str req ''payment_method'')) k))"

definition ConfirmDepositRequest_fields :: fields where
  "ConfirmDepositRequest_fields = [(''deposit_id'', FStr), (''payment_ref'', FStr)]"

definition handleConfirmDeposit :: "time \<Rightarrow> st_handler" where
  "handleConfirmDeposit now r k =
     with_body ConfirmDepositRequest_fields r k (\<lambda>req.
       st_answer RDeposit (ConfirmDeposit now (str req ''deposit_id'') (str req ''payment_ref'') k))"

definition handleGetDeposit :: st_handler where
  "handleGetDeposit r k =
     (let depositID = query_get r ''deposit_id''
      in if depositID = '''' then (k, BadRequest (ParameterRequired ''deposit_id''))
         else (k, answer SettlementError RDeposit (GetDeposit depositID k)))"

definition handleListDeposits :: st_handler where
  "handleListDeposits r k =
     (let userID = query_get r ''user_id''
      in if userID = '''' then (k, BadRequest (ParameterRequired ''user_id''))
         else let deposits = GetUserDeposits userID k
              in (k, Success (RDeposits deposits (length deposits))))"

section \<open>Withdrawals\<close>

definition CreateWithdrawalRequest_fields :: fields where
  "CreateWithdrawalRequest_fields =
     [(''wallet_id'', FStr), (''user_id'', FStr), (''amount'', FInt), (''payment_method'', FStr),
      (''destination_ref'', FStr)]"

definition handleCreateWithdrawal :: "time \<Rightarrow> st_handler" where
  "handleCreateWithdrawal now r k =
     with_body CreateWithdrawalRequest_fields r k (\<lambda>req.
       st_answer RWithdrawal
         (CreateWithdrawalRequest now (str req ''wallet_id'') (str req ''user_id'') (num req ''amount'')
            (parse_method (str req ''payment_method'')) (str req ''destination_ref'') k))"

definition ProcessWithdrawalRequest_fields :: fields where
  "ProcessWithdrawalRequest_fields = [(''withdrawal_id'', FStr)]"

definition handleProcessWithdrawal :: "time \<Rightarrow> st_handler" where
  "handleProcessWithdrawal now r k =
     with_body ProcessWithdrawalRequest_fields r k (\<lambda>req.
       st_answer RWithdrawal (ProcessWithdrawal now (str req ''withdrawal_id'') k))"

definition handleListWithdrawals :: st_handler where
  "handleListWithdrawals r k =
     (let userID = query_get r ''user_id''
      in if userID = '''' then (k, BadRequest (ParameterRequired ''user_id''))
         else let withdrawals = GetUserWithdrawals userID k
              in (k, Success (RWithdrawals withdrawals (length withdrawals))))"

section \<open>Escrows\<close>

definition CreateEscrowRequest_fields :: fields where
  "CreateEscrowRequest_fields =
     [(''trade_id'', FStr), (''buyer_wallet_id'', FStr), (''seller_wallet_id'', FStr),
      (''amount_usdc'', FInt), (''payment_method'', FStr)]"

definition handleCreateEscrow :: "time \<Rightarrow> st_handler" where
  "handleCreateEscrow now r k =
     with_body CreateEscrowRequest_fields r k (\<lambda>req.
       st_answer REscrow
         (CreateEscrow now (str req ''trade_id'') (str req ''buyer_wallet_id'') (str req ''seller_wallet_id'')
            (num req ''amount_usdc'') (parse_method (str req ''payment_method'')) k))"

definition FundEscrowRequest_fields :: fields where
  "FundEscrowRequest_fields = [(''escrow_id'', FStr), (''payment_ref'', FStr)]"

definition handleFundEscrow :: "time \<Rightarrow> st_handler" where
  "handleFundEscrow now r k =
     with_body FundEscrowRequest_fields r k (\<lambda>req.
       st_answer REscrow (FundEscrow now (str req ''escrow_id'') (str req ''payment_ref'') k))"

definition ExecuteSettlementRequest_fields :: fields where
  "ExecuteSettlementRequest_fields = [(''escrow_id'', FStr), (''ftg_amount'', FInt)]"

definition handleExecuteSettlement :: "time \<Rightarrow> int64 \<Rightarrow> st_handler" where
  "handleExecuteSettlement now height r k =
     with_body ExecuteSettlementRequest_fields r k (\<lambda>req.
       st_answer RSettled
         (ExecuteSettlement now (str req ''escrow_id'') (num req ''ftg_amount'') height k))"

definition RefundEscrowRequest_fields :: fields where
  "RefundEscrowRequest_fields = [(''escrow_id'', FStr), (''reason'', FStr)]"

definition handleRefundEscrow :: st_handler where
  "handleRefundEscrow r k =
     with_body RefundEscrowRequest_fields r k (\<lambda>req.
       st_answer (\<lambda>_. RRefunded ''Escrow refunded'' (str req ''escrow_id''))
         (RefundEscrow (str req ''escrow_id'') (str req ''reason'') k))"

definition handleGetEscrow :: st_handler where
  "handleGetEscrow r k =
     (let escrowID = query_get r ''escrow_id''
      in if escrowID = '''' then (k, BadRequest (ParameterRequired ''escrow_id''))
         else (k, answer SettlementError REscrow (GetEscrow escrowID k)))"

section \<open>Queries\<close>

definition handleSettlementHistory :: st_handler where
  "handleSettlementHistory r k =
     (let settlements = GetSettlements (query_int r ''limit'' 50) k
      in (k, Success (RHistory settlements (length settlements))))"

definition handleSettlementStats :: st_handler where
  "handleSettlementStats r k = (k, Success (RSettlementStats (st_GetStats k)))"

section \<open>Routes\<close>

definition settlement_routes :: "time \<Rightarrow> int64 \<Rightarrow> (string \<times> st_handler) list" where
  "settlement_routes now height =
     [(''/settlement/deposit/create'', handleCreateDeposit now),
      (''/settlement/deposit/confirm'', handleConfirmDeposit now),
      (''/settlement/deposit/get'', handleGetDeposit),
      (''/settlement/deposit/list'', handleListDeposits),
      (''/settlement/withdrawal/create'', handleCreateWithdrawal now),
      (''/settlement/withdrawal/process'', handleProcessWithdrawal now),
      (''/settlement/withdrawal/list'', handleListWithdrawals),
      (''/settlement/escrow/create'', handleCreateEscrow now),
      (''/settlement/escrow/fund'', handleFundEscrow now),
      (''/settlement/escrow/execute'', handleExecuteSettlement now height),
      (''/settlement/escrow/refund'', handleRefundEscrow),
      (''/settlement/escrow/get'', handleGetEscrow),
      (''/settlement/history'', handleSettlementHistory),
      (''/settlement/stats'', handleSettlementStats)]"

end
