(* ===== verification/Node.thy ===== *)
theory Node
  imports ExchangeRpc SettlementRpc
begin

text \<open>
  The running node, \<open>cmd/ftgd/start_real.go\<close> and \<open>rpc_server.go\<close>: the block counter, the
  handlers of the chain state, the routing of a request to its handler, starting from the files
  on disk and stopping. The components are the ones the node creates in \<open>Start\<close>; its events are
  the ticks of the block loop and the requests, each one step. A handler's panic (\<open>None\<close>) is
  caught by the HTTP server, which drops the connection.
\<close>

section \<open>The node and its blocks\<close>

record node_config =
  nc_Moniker :: string
  nc_ChainID :: string
  nc_NodeID :: string
  nc_ListenAddr :: string
  nc_RPCAddr :: string
  nc_P2PAddr :: string

text \<open>The file \<open>node_config.json\<close>: missing, not parsable, or a configuration.\<close>

datatype config_file = NoConfig | BadConfig | GoodConfig node_config

datatype start_error = ConfigUnread | ConfigUnparsed

record block_state =
  bs_Height :: int64
  bs_AppHash :: string
  bs_Timestamp :: time
  bs_ChainID :: string

text \<open>\<open>n_file\<close> is the content of \<open>data/state.json\<close>.\<close>

record ftg_node =
  n_ChainID :: string
  n_Moniker :: string
  n_State :: block_state
  n_file :: "block_state option"

definition empty_hash :: string where
  "empty_hash = ''e3b0c44298fc1c149afbf4c8996fb92427ae41e4649b934ca495991b7852b855''"

definition NewFTGNode :: "time \<Rightarrow> config_file \<Rightarrow> block_state option \<Rightarrow> start_error + ftg_node" where
  "NewFTGNode now config file =
     (case config of
        NoConfig \<Rightarrow> Inl ConfigUnread
      | BadConfig \<Rightarrow> Inl ConfigUnparsed
      | GoodConfig c \<Rightarrow>
          let state = \<lparr>bs_Height = 0, bs_AppHash = empty_hash, bs_Timestamp = now,
                       bs_ChainID = nc_ChainID c\<rparr>;
              state = (case file of Some saved \<Rightarrow> saved | None \<Rightarrow> state)
          in Inr \<lparr>n_ChainID = nc_ChainID c, n_Moniker = nc_Moniker c, n_State = state, n_file = file\<rparr>)"

definition saveState :: "ftg_node \<Rightarrow> ftg_node" where
  "saveState n = n\<lparr>n_file := Some (n_State n)\<rparr>"

definition produceBlock :: "time \<Rightarrow> ftg_node \<Rightarrow> ftg_node" where
  "produceBlock now n =
     (let n = n\<lparr>n_State := (n_State n)\<lparr>bs_Height := add64 (bs_Height (n_State n)) 1, bs_Timestamp := now\<rparr>\<rparr>
      in if bs_Height (n_State n) mod 100 = 0 then saveState n else n)"

section \<open>The server\<close>

record server =
  s_node :: ftg_node
  s_chain :: chain_state
  s_exchange :: exchange_rpc
  s_settlement :: settlement

definition height :: "server \<Rightarrow> int64" where
  "height s = bs_Height (n_State (s_node s))"

record node_status =
  ns_p2p :: string
  ns_block :: string
  ns_app :: string
  ns_id :: string
  ns_network :: string
  ns_moniker :: string
  ns_version :: string
  ns_latest_block_hash :: string
  ns_latest_block_height :: string
  ns_latest_block_time :: time
  ns_catching_up :: bool
  ns_address :: string
  ns_voting_power :: string

record mint_result =
  mr_tx_hash :: string
  mr_block_height :: int64
  mr_certificate_id :: string
  mr_mwh_amount :: int64
  mr_uftg_minted :: int64
  mr_provider :: string
  mr_ipfs_hash :: string
  mr_timestamp :: time

record burn_result =
  br_tx_hash :: string
  br_block_height :: int64
  br_amount_uftg :: int64
  br_burn_type :: string
  br_timestamp :: time

datatype query_value = QMinted int64 int64 | QBurned int64 nat | QNothing

datatype rpc_result =
    RStatus node_status | RHealth | RBlock string string time string | RGenesis string string
  | RNetInfo bool "string list" string "string list" | RBroadcast int64 string string
  | RMint mint_result | RBurn burn_result | RChainStats cs_stats
  | RCertificates "certificate list" nat | RTreasury int64 int64 int64 int64
  | RCommitted int64 string | RLiquidity int64 | RTransactions "transaction list" nat
  | RQuery int64 query_value
  | RExchange ex_result | RSettlement st_result

type_synonym handler = "request \<Rightarrow> server \<Rightarrow> server \<times> rpc_result reply"

section \<open>Reading the node\<close>

definition handleStatus :: handler where
  "handleStatus r s =
     (s, Success (RStatus
       \<lparr>ns_p2p = ''8'', ns_block = ''11'', ns_app = ''0'',
        ns_id = ''4cc50879b244c02262b83ddf835efd5d4a6df34c'', ns_network = n_ChainID (s_node s),
        ns_moniker = n_Moniker (s_node s), ns_version = ''0.38.0'',
        ns_latest_block_hash = bs_AppHash (n_State (s_node s)),
        ns_latest_block_height = fmt0d 0 (height s),
        ns_latest_block_time = bs_Timestamp (n_State (s_node s)), ns_catching_up = False,
        ns_address = ''4CC50879B244C02262B83DDF835EFD5D4A6DF34C'', ns_voting_power = ''1000000''\<rparr>))"

definition handleHealth :: handler where
  "handleHealth r s = (s, Success RHealth)"

definition handleBlock :: handler where
  "handleBlock r s =
     (s, Success (RBlock (n_ChainID (s_node s)) (fmt0d 0 (height s)) (bs_Timestamp (n_State (s_node s)))
                    (bs_AppHash (n_State (s_node s)))))"

definition handleGenesis :: handler where
  "handleGenesis r s = (s, Success (RGenesis (n_ChainID (s_node s)) ''2026-05-10T00:00:00Z''))"

definition handleNetInfo :: handler where
  "handleNetInfo r s = (s, Success (RNetInfo True [''Listener(@tcp://0.0.0.0:26656)''] ''0'' []))"

text \<open>Every broadcast transaction is answered as accepted; its content is not read.\<close>

definition handleBroadcastTx :: "time \<Rightarrow> handler" where
  "handleBroadcastTx now r s = (s, Success (RBroadcast 0 (''TX_'' @ fmt0d 0 now) ''tx accepted''))"

section \<open>Minting and burning\<close>

definition MintRequest_fields :: fields where
  "MintRequest_fields =
     [(''certificate_id'', FStr), (''provider'', FStr), (''mwh_amount'', FInt), (''ipfs_hash'', FStr),
      (''provenance_type'', FStr), (''source_type'', FStr), (''vintage_year'', FInt), (''minter'', FStr)]"

text \<open>The certificate is passed by value: the amount the mint computes is not in the answer.\<close>

definition mint_certificate :: "int64 \<Rightarrow> vals \<Rightarrow> certificate" where
  "mint_certificate h req =
     \<lparr>cert_ID = ''cert_'' @ fmt0d 0 h @ ''_'' @ str req ''certificate_id'',
      cert_ExternalID = str req ''certificate_id'', cert_Provider = str req ''provider'',
      cert_MWhAmount = num req ''mwh_amount'', cert_TokensMinted = 0,
      cert_IPFSHash = str req ''ipfs_hash'', cert_ProvenanceType = str req ''provenance_type'',
      cert_SourceType = str req ''source_type'', cert_VintageYear = num req ''vintage_year'',
      cert_MintedAt = 0, cert_MintedInBlock = 0, cert_Minter = str req ''minter''\<rparr>"

definition handleMint :: "time \<Rightarrow> handler" where
  "handleMint now r s =
     with_body MintRequest_fields r s (\<lambda>req.
       if str req ''certificate_id'' = '''' \<or> num req ''mwh_amount'' \<le> 0
       then (s, BadRequest MintArguments)
       else
         let h = height s;
             cert = mint_certificate h req;
             (cs, res) = cs_MintFromCertificate now cert h (s_chain s)
         in (s\<lparr>s_chain := cs\<rparr>,
             answer ChainError (\<lambda>tx. RMint
               \<lparr>mr_tx_hash = tx_Hash tx, mr_block_height = h,
                mr_certificate_id = str req ''certificate_id'', mr_mwh_amount = num req ''mwh_amount'',
                mr_uftg_minted = cert_TokensMinted cert, mr_provider = str req ''provider'',
                mr_ipfs_hash = str req ''ipfs_hash'', mr_timestamp = tx_Timestamp tx\<rparr>) res))"

definition BurnRequest_fields :: fields where
  "BurnRequest_fields =
     [(''amount'', FInt), (''burn_type'', FStr), (''burner'', FStr), (''reason'', FStr)]"

definition burn_of_request :: "time \<Rightarrow> vals \<Rightarrow> burn_event" where
  "burn_of_request now req =
     \<lparr>burn_ID = ''burn_'' @ fmt0d 0 now, burn_Amount = num req ''amount'',
      burn_BurnType = str req ''burn_type'', burn_Burner = str req ''burner'',
      burn_Reason = str req ''reason'', burn_BurnedAt = 0, burn_BlockHeight = 0\<rparr>"

definition handleBurn :: "time \<Rightarrow> handler" where
  "handleBurn now r s =
     with_body BurnRequest_fields r s (\<lambda>req.
       let h = height s;
           (cs, res) = cs_BurnTokens now (burn_of_request now req) h (s_chain s)
       in (s\<lparr>s_chain := cs\<rparr>,
           answer ChainError (\<lambda>tx. RBurn
             \<lparr>br_tx_hash = tx_Hash tx, br_block_height = h, br_amount_uftg = num req ''amount'',
              br_burn_type = str req ''burn_type'', br_timestamp = tx_Timestamp tx\<rparr>) res))"

section \<open>Chain data and treasury\<close>

definition handleStats :: handler where
  "handleStats r s = (s, Success (RChainStats (cs_GetStats (s_chain s))))"

definition handleCertificates :: handler where
  "handleCertificates r s =
     (s, Success (RCertificates (Certificates (s_chain s)) (length (Certificates (s_chain s)))))"

definition handleTreasury :: handler where
  "handleTreasury r s =
     (s, Success (RTreasury (TreasuryMinting (s_chain s)) (TreasuryCommitted (s_chain s))
          (TreasuryLiquidity (s_chain s))
          (add64 (add64 (TreasuryMinting (s_chain s)) (TreasuryCommitted (s_chain s)))
             (TreasuryLiquidity (s_chain s)))))"

definition TreasuryCommitRequest_fields :: fields where
  "TreasuryCommitRequest_fields = [(''amount'', FInt), (''buyer_ref'', FStr)]"

definition handleTreasuryCommit :: handler where
  "handleTreasuryCommit r s =
     with_body TreasuryCommitRequest_fields r s (\<lambda>req.
       let (cs, res) = cs_TransferFromMintingToCommitted (num req ''amount'') (str req ''buyer_ref'') (s_chain s)
       in (s\<lparr>s_chain := cs\<rparr>,
           answer ChainError (\<lambda>_. RCommitted (num req ''amount'') (str req ''buyer_ref'')) res))"

definition TreasuryLiquidityRequest_fields :: fields where
  "TreasuryLiquidityRequest_fields = [(''amount'', FInt)]"

definition handleTreasuryToLiquidity :: handler where
  "handleTreasuryToLiquidity r s =
     with_body TreasuryLiquidityRequest_fields r s (\<lambda>req.
       let (cs, res) = cs_TransferFromMintingToLiquidity (num req ''amount'') (s_chain s)
       in (s\<lparr>s_chain := cs\<rparr>, answer ChainError (\<lambda>_. RLiquidity (num req ''amount'')) res))"

definition handleTransactions :: handler where
  "handleTransactions r s =
     (s, Success (RTransactions (Transactions (s_chain s)) (length (Transactions (s_chain s)))))"

definition handleABCIQuery :: handler where
  "handleABCIQuery r s =
     (let path = query_get r ''path'';
          value = (if path = ''/ftgchain.energymint.v1.Query/TotalMinted''
                   then QMinted (TotalMinted (s_chain s)) (TotalMWh (s_chain s))
                   else if path = ''/ftgchain.burn.v1.Query/BurnStats''
                   then QBurned (TotalBurned (s_chain s)) (length (BurnEvents (s_chain s)))
                   else QNothing)
      in (s, Success (RQuery 0 value)))"

section \<open>Routing\<close>

definition chain_routes :: "time \<Rightarrow> (string \<times> handler) list" where
  "chain_routes now =
     [(''/status'', handleStatus), (''/health'', handleHealth), (''/block'', handleBlock),
      (''/genesis'', handleGenesis), (''/net_info'', handleNetInfo),
      (''/broadcast_tx_sync'', handleBroadcastTx now), (''/broadcast_tx_commit'', handleBroadcastTx now),
      (''/ftg/mint'', handleMint now), (''/ftg/burn'', handleBurn now), (''/ftg/stats'', handleStats),
      (''/ftg/certificates'', handleCertificates), (''/ftg/treasury'', handleTreasury),
      (''/ftg/treasury/commit'', handleTreasuryCommit),
      (''/ftg/treasury/to-liquidity'', handleTreasuryToLiquidity),
      (''/ftg/transactions'', handleTransactions), (''/abci_query'', handleABCIQuery)]"

fun map_reply :: "('a \<Rightarrow> 'b) \<Rightarrow> 'a reply \<Rightarrow> 'b reply" where
  "map_reply f PostRequired = PostRequired"
| "map_reply f (BadRequest e) = BadRequest e"
| "map_reply f (Success x) = Success (f x)"

text \<open>All patterns are exact paths; a path that is not registered is answered 404.\<close>

datatype response = NotFound | Response "rpc_result reply"

definition serve :: "slice_sort \<Rightarrow> time \<Rightarrow> string \<Rightarrow> request \<Rightarrow> server \<Rightarrow> (server \<times> response) option" where
  "serve srt now path r s =
     (case map_of (chain_routes now) path of
        Some h \<Rightarrow> let (s, rep) = h r s in Some (s, Response rep)
      | None \<Rightarrow>
     (case map_of (exchange_routes srt now (height s)) path of
        Some h \<Rightarrow>
          (case h r (s_exchange s) of
             None \<Rightarrow> None
           | Some (e, rep) \<Rightarrow> Some (s\<lparr>s_exchange := e\<rparr>, Response (map_reply RExchange rep)))
      | None \<Rightarrow>
     (case map_of (settlement_routes now (height s)) path of
        Some h \<Rightarrow>
          let (k, rep) = h r (s_settlement s)
          in Some (s\<lparr>s_settlement := k\<rparr>, Response (map_reply RSettlement rep))
      | None \<Rightarrow> Some (s, NotFound))))"

section \<open>Starting, running, stopping\<close>

text \<open>The files of the node's home directory.\<close>

record files =
  f_state :: "block_state option"
  f_chain :: "chain_json option"
  f_exchange :: "exchange_json option"
  f_kyc :: "kyc_json option"
  f_settlement :: "settlement_json option"

definition no_files :: files where
  "no_files = \<lparr>f_state = None, f_chain = None, f_exchange = None, f_kyc = None, f_settlement = None\<rparr>"

definition files_of :: "server \<Rightarrow> files" where
  "files_of s =
     \<lparr>f_state = n_file (s_node s), f_chain = cs_disk (s_chain s),
      f_exchange = ex_disk (er_exchange (s_exchange s)), f_kyc = kyc_disk (er_kyc (s_exchange s)),
      f_settlement = st_disk (s_settlement s)\<rparr>"

definition boot :: "slice_sort \<Rightarrow> time \<Rightarrow> config_file \<Rightarrow> files \<Rightarrow> start_error + server" where
  "boot srt now config f =
     (case NewFTGNode now config (f_state f) of
        Inl e \<Rightarrow> Inl e
      | Inr n \<Rightarrow>
          Inr \<lparr>s_node = n, s_chain = NewChainState (f_chain f),
               s_exchange = NewExchangeRPC srt (f_exchange f) (f_kyc f),
               s_settlement = st_NewKeeper (f_settlement f)\<rparr>)"

datatype event = Tick time | Request time string request

definition node_step :: "slice_sort \<Rightarrow> server \<Rightarrow> event \<Rightarrow> server option" where
  "node_step srt s ev =
     (case ev of
        Tick now \<Rightarrow> Some (s\<lparr>s_node := produceBlock now (s_node s)\<rparr>)
      | Request now path r \<Rightarrow> map_option fst (serve srt now path r s))"

definition node_next :: "slice_sort \<Rightarrow> server \<Rightarrow> event \<Rightarrow> server" where
  "node_next srt s ev = (case node_step srt s ev of Some s' \<Rightarrow> s' | None \<Rightarrow> s)"

text \<open>A graceful stop saves the block state once more.\<close>

definition stop :: "server \<Rightarrow> server" where
  "stop s = s\<lparr>s_node := saveState (s_node s)\<rparr>"

end
