(* ===== verification/NodeInv.thy ===== *)
theory NodeInv
  imports Node ChainProps ExchangeRun SettlementProps KycProps
begin

text \<open>
  Every event of the node is at most one call of each component, so a run of the node projects to
  runs of the components and their invariants hold of it. The handlers are classified once, by
  route table; nothing here depends on what a handler answers.
\<close>

section \<open>What one handler does to one component\<close>

definition ex_moves :: "slice_sort \<Rightarrow> exchange \<Rightarrow> exchange \<Rightarrow> bool" where
  "ex_moves srt k k' \<longleftrightarrow> k' = k \<or> (\<exists>op. op_typed op \<and> ex_step srt k op = Some k')"

definition kyc_moves :: "kyc \<Rightarrow> kyc \<Rightarrow> bool" where
  "kyc_moves k k' \<longleftrightarrow> k' = k \<or> (\<exists>op. kyc_step k op = Some k')"

definition st_moves :: "settlement \<Rightarrow> settlement \<Rightarrow> bool" where
  "st_moves k k' \<longleftrightarrow> k' = k \<or> (\<exists>op. k' = st_step k op)"

definition cs_moves :: "chain_state \<Rightarrow> chain_state \<Rightarrow> bool" where
  "cs_moves k k' \<longleftrightarrow> k' = k \<or> (\<exists>op. k' = cs_step k op)"

lemma moves_refl [simp]:
  "ex_moves srt k k" "kyc_moves c c" "st_moves t t" "cs_moves d d"
  by (simp_all add: ex_moves_def kyc_moves_def st_moves_def cs_moves_def)

lemma ex_movesI: "op_typed op \<Longrightarrow> ex_step srt k op = Some k' \<Longrightarrow> ex_moves srt k k'"
  unfolding ex_moves_def by blast

lemma kyc_movesI: "kyc_step k op = Some k' \<Longrightarrow> kyc_moves k k'"
  unfolding kyc_moves_def by blast

text \<open>A handler of the exchange: it moves both keepers by at most a call, and panics only with one.\<close>

definition ex_handler_ok :: "slice_sort \<Rightarrow> ex_handler \<Rightarrow> bool" where
  "ex_handler_ok srt h \<longleftrightarrow>
     (\<forall>r e. case h r e of
        None \<Rightarrow> \<exists>op. op_typed op \<and> ex_step srt (er_exchange e) op = None
      | Some (e', rep) \<Rightarrow>
          ex_moves srt (er_exchange e) (er_exchange e') \<and> kyc_moves (er_kyc e) (er_kyc e') \<and>
          (meth r \<noteq> ''POST'' \<longrightarrow> e' = e))"

lemma handler_okI_total:
  assumes "\<And>r e e' rep. h r e = (e', rep) \<Longrightarrow>
    ex_moves srt (er_exchange e) (er_exchange e') \<and> kyc_moves (er_kyc e) (er_kyc e') \<and>
    (meth r \<noteq> ''POST'' \<longrightarrow> e' = e)"
  shows "ex_handler_ok srt (returns h)"
  using assms by (auto simp: ex_handler_ok_def returns_def split: prod.splits)

text \<open>A handler that only reads.\<close>

lemma handler_okI_query:
  assumes "\<And>r e. fst (h r e) = e"
  shows "ex_handler_ok srt (returns h)"
  by (rule handler_okI_total) (metis assms fst_conv moves_refl)

lemma handler_okI_body:
  assumes "\<And>r e vs. ints_typed vs \<Longrightarrow> ex_moves srt (er_exchange e) (er_exchange (fst (g e vs)))"
    and "\<And>r e vs. kyc_moves (er_kyc e) (er_kyc (fst (g e vs)))"
  shows "ex_handler_ok srt (returns (\<lambda>r e. with_body fs r e (g e)))"
proof (rule handler_okI_total)
  fix r e e' rep assume "with_body fs r e (g e) = (e', rep)"
  then show "ex_moves srt (er_exchange e) (er_exchange e') \<and> kyc_moves (er_kyc e) (er_kyc e') \<and>
      (meth r \<noteq> ''POST'' \<longrightarrow> e' = e)"
    by (cases rule: with_body_cases) (auto dest: assms(1), metis assms(1,2) fst_conv, metis assms(2) fst_conv)
qed

text \<open>A handler of one exchange call that may panic.\<close>

definition one_call ::
  "slice_sort \<Rightarrow> exchange_rpc \<Rightarrow> (exchange_rpc \<times> ex_result reply) option \<Rightarrow> bool" where
  "one_call srt e out \<longleftrightarrow>
     (\<exists>rep. out = Some (e, rep)) \<or>
     (\<exists>op. op_typed op \<and> ex_step srt (er_exchange e) op = map_option (er_exchange \<circ> fst) out \<and>
        (\<forall>e' rep. out = Some (e', rep) \<longrightarrow> er_kyc e' = er_kyc e))"

lemma one_call_in_exchange:
  "op_typed op \<Longrightarrow> ex_step srt (er_exchange e) op = map_option fst res \<Longrightarrow>
   one_call srt e (map_option (in_exchange f e) res)"
  unfolding one_call_def by (rule disjI2) (cases res; auto simp: in_exchange_def)

lemma handler_okI_call:
  assumes "\<And>e vs. ints_typed vs \<Longrightarrow> one_call srt e (g e vs)"
  shows "ex_handler_ok srt (\<lambda>r e. with_body_opt fs r e (g e))"
  unfolding ex_handler_ok_def
proof (intro allI)
  fix r e
  consider "meth r \<noteq> ''POST''" | "meth r = ''POST''" "readJSON fs r = None"
    | vs where "meth r = ''POST''" "readJSON fs r = Some vs" "ints_typed vs"
    by (cases "readJSON fs r") (auto dest: readJSON_typed)
  then show "case with_body_opt fs r e (g e) of
      None \<Rightarrow> \<exists>op. op_typed op \<and> ex_step srt (er_exchange e) op = None
    | Some (e', rep) \<Rightarrow> ex_moves srt (er_exchange e) (er_exchange e') \<and> kyc_moves (er_kyc e) (er_kyc e') \<and>
        (meth r \<noteq> ''POST'' \<longrightarrow> e' = e)"
  proof cases
    case 3
    from assms [OF 3(3), of e] show ?thesis
      by (cases "g e vs") (auto simp: 3 with_body_opt_def one_call_def intro: ex_movesI)
  qed (simp_all add: with_body_opt_def)
qed

section \<open>The routes\<close>

lemma route_call:
  "ex_handler_ok srt (handlePlaceOrder srt now h)" "ex_handler_ok srt (handleCancelOrder now)"
  "ex_handler_ok srt (handleKYCApprove now)"
proof -
  show "ex_handler_ok srt (handlePlaceOrder srt now h)"
    unfolding handlePlaceOrder_def
  proof (rule handler_okI_call)
    fix e vs assume t: "ints_typed vs"
    let ?op = "\<lambda>side ot. OpPlaceOrder now (str vs ''wallet_id'') (str vs ''pair_id'') side ot
      (num vs ''price'') (num vs ''quantity'') h"
    have "op_typed (?op side ot)" for side ot using t by simp
    then show "one_call srt e
       (case parse_side (str vs ''side'') of None \<Rightarrow> Some (e, BadRequest SideInvalid)
        | Some side \<Rightarrow>
            (case parse_order_type (str vs ''order_type'') of None \<Rightarrow> Some (e, BadRequest OrderTypeInvalid)
             | Some orderType \<Rightarrow>
                 map_option (in_exchange (\<lambda>(order, trades). ROrder order trades (placed_message order trades)) e)
                   (PlaceOrder srt now (str vs ''wallet_id'') (str vs ''pair_id'') side orderType
                      (num vs ''price'') (num vs ''quantity'') h (er_exchange e))))"
      by (auto split: option.splits intro!: one_call_in_exchange [of "?op _ _"]) (simp_all add: one_call_def)
  qed
  show "ex_handler_ok srt (handleCancelOrder now)"
    unfolding handleCancelOrder_def
    by (rule handler_okI_call, rule one_call_in_exchange [of "OpCancelOrder now (str _ ''order_id'') (str _ ''wallet_id'')"])
       simp_all
  show "ex_handler_ok srt (handleKYCApprove now)"
    unfolding handleKYCApprove_def
    by (rule handler_okI_call, rule one_call_in_exchange [of "OpApproveKYC now (str _ ''application_id'')"]) simp_all
qed

lemma route_body:
  "ex_handler_ok srt (returns (handleCreateWallet now))" "ex_handler_ok srt (returns handleDeposit)"
  "ex_handler_ok srt (returns handleWithdraw)" "ex_handler_ok srt (returns (handleKYCSubmit now))"
  "ex_handler_ok srt (returns (handleKYCReject now))" "ex_handler_ok srt (returns (handleKYCScreen now))"
  "ex_handler_ok srt (returns (handleComplianceResolve now))"
  unfolding handleCreateWallet_def [abs_def] handleDeposit_def [abs_def] handleWithdraw_def [abs_def]
    handleKYCSubmit_def [abs_def] handleKYCReject_def [abs_def] handleKYCScreen_def [abs_def]
    handleComplianceResolve_def [abs_def]
  by (rule handler_okI_body;
      auto simp: in_exchange_def Let_def split: sum.splits
        intro: ex_movesI [of "OpCreateWallet now _ _"] ex_movesI [of "OpDeposit _ _ _"]
          ex_movesI [of "OpWithdraw _ _ _"] ex_movesI [of "OpSubmitKYC now _"] ex_movesI [of "OpRejectKYC now _ _"]
          kyc_movesI [of _ "OpScreenUser now _ _ _ _"] kyc_movesI [of _ "OpResolveFlag now _ _"])+

lemma route_query:
  "ex_handler_ok srt (returns handleGetWallet)" "ex_handler_ok srt (returns (handleListOrders srt))"
  "ex_handler_ok srt (returns (handleOrderBook now))" "ex_handler_ok srt (returns handleRecentTrades)"
  "ex_handler_ok srt (returns (handlePairs now))" "ex_handler_ok srt (returns (handleExchangeStats now))"
  "ex_handler_ok srt (returns handleComplianceStats)" "ex_handler_ok srt (returns handleComplianceFlags)"
  "ex_handler_ok srt (returns handleCheckJurisdiction)"
  by (rule handler_okI_query;
      simp add: handleGetWallet_def handleListOrders_def handleOrderBook_def handleRecentTrades_def
        handlePairs_def handleExchangeStats_def handleComplianceStats_def handleComplianceFlags_def
        handleCheckJurisdiction_def Let_def split: prod.splits)+

lemma exchange_routes_ok: "(path, h) \<in> set (exchange_routes srt now ht) \<Longrightarrow> ex_handler_ok srt h"
  unfolding exchange_routes_def by (auto intro: route_call route_body route_query)

section \<open>The other handlers\<close>

definition st_handler_ok :: "st_handler \<Rightarrow> bool" where
  "st_handler_ok h \<longleftrightarrow>
     (\<forall>r k k' rep. h r k = (k', rep) \<longrightarrow> st_moves k k' \<and> (meth r \<noteq> ''POST'' \<longrightarrow> k' = k))"

lemma st_okI_query: "(\<And>r k. fst (h r k) = k) \<Longrightarrow> st_handler_ok h"
  unfolding st_handler_ok_def by (metis fst_conv moves_refl(3))

lemma st_okI_body:
  assumes "\<And>k vs. st_moves k (fst (g k vs))"
  shows "st_handler_ok (\<lambda>r k. with_body fs r k (g k))"
  unfolding st_handler_ok_def
proof (intro allI impI)
  fix r k k' rep assume "with_body fs r k (g k) = (k', rep)"
  then show "st_moves k k' \<and> (meth r \<noteq> ''POST'' \<longrightarrow> k' = k)"
    by (cases rule: with_body_cases) (auto, metis assms fst_conv)
qed

lemma st_movesI: "st_moves k (st_step k op)"
  unfolding st_moves_def by blast

lemma settlement_routes_ok: "(path, h) \<in> set (settlement_routes now ht) \<Longrightarrow> st_handler_ok h"
proof -
  have call:
    "st_handler_ok (handleCreateDeposit now)" "st_handler_ok (handleConfirmDeposit now)"
    "st_handler_ok (handleCreateWithdrawal now)" "st_handler_ok (handleProcessWithdrawal now)"
    "st_handler_ok (handleCreateEscrow now)" "st_handler_ok (handleFundEscrow now)"
    "st_handler_ok (handleExecuteSettlement now ht)" "st_handler_ok handleRefundEscrow"
    unfolding handleCreateDeposit_def [abs_def] handleConfirmDeposit_def [abs_def]
      handleCreateWithdrawal_def [abs_def] handleProcessWithdrawal_def [abs_def]
      handleCreateEscrow_def [abs_def] handleFundEscrow_def [abs_def]
      handleExecuteSettlement_def [abs_def] handleRefundEscrow_def [abs_def]
    by (rule st_okI_body;
        simp add: st_answer_def st_movesI [where op = "OpCreateDepositIntent now _ _ _ _", simplified]
          st_movesI [where op = "OpConfirmDeposit now _ _", simplified]
          st_movesI [where op = "OpCreateWithdrawal now _ _ _ _ _", simplified]
          st_movesI [where op = "OpProcessWithdrawal now _", simplified]
          st_movesI [where op = "OpCreateEscrow now _ _ _ _ _", simplified]
          st_movesI [where op = "OpFundEscrow now _ _", simplified]
          st_movesI [where op = "OpExecuteSettlement now _ _ _", simplified]
          st_movesI [where op = "OpRefundEscrow _ _", simplified])+
  have query: "st_handler_ok handleGetDeposit" "st_handler_ok handleListDeposits"
    "st_handler_ok handleListWithdrawals" "st_handler_ok handleGetEscrow"
    "st_handler_ok handleSettlementHistory" "st_handler_ok handleSettlementStats"
    by (rule st_okI_query; simp add: handleGetDeposit_def handleListDeposits_def handleListWithdrawals_def
        handleGetEscrow_def handleSettlementHistory_def handleSettlementStats_def Let_def)+
  show "(path, h) \<in> set (settlement_routes now ht) \<Longrightarrow> st_handler_ok h"
    unfolding settlement_routes_def by (auto intro: call query)
qed

definition chain_handler_ok :: "handler \<Rightarrow> bool" where
  "chain_handler_ok h \<longleftrightarrow>
     (\<forall>r s s' rep. h r s = (s', rep) \<longrightarrow>
        (\<exists>cs. s' = s\<lparr>s_chain := cs\<rparr> \<and> cs_moves (s_chain s) cs) \<and> (meth r \<noteq> ''POST'' \<longrightarrow> s' = s))"

lemma server_same: "s\<lparr>s_chain := s_chain s\<rparr> = s"
  by simp

lemma chain_okI_query: "(\<And>r s. fst (h r s) = s) \<Longrightarrow> chain_handler_ok h"
  unfolding chain_handler_ok_def by (metis fst_conv moves_refl(4) server_same)

lemma chain_okI_body:
  assumes "\<And>s vs. \<exists>cs. fst (g s vs) = s\<lparr>s_chain := cs\<rparr> \<and> cs_moves (s_chain s) cs"
  shows "chain_handler_ok (\<lambda>r s. with_body fs r s (g s))"
  unfolding chain_handler_ok_def
proof (intro allI impI)
  fix r s s' rep assume "with_body fs r s (g s) = (s', rep)"
  then show "(\<exists>cs. s' = s\<lparr>s_chain := cs\<rparr> \<and> cs_moves (s_chain s) cs) \<and> (meth r \<noteq> ''POST'' \<longrightarrow> s' = s)"
  proof (cases rule: with_body_cases)
    case (3 vs)
    then show ?thesis using assms [of s vs] by simp
  qed (auto intro: exI [of _ "s_chain s"])
qed

lemma cs_movesI: "cs_moves k (cs_step k op)"
  unfolding cs_moves_def by blast

lemma chain_move:
  "fst x = s\<lparr>s_chain := cs_step (s_chain s) op\<rparr> \<Longrightarrow> \<exists>cs. fst x = s\<lparr>s_chain := cs\<rparr> \<and> cs_moves (s_chain s) cs"
  using cs_movesI by blast

lemma chain_routes_ok: "(path, h) \<in> set (chain_routes now) \<Longrightarrow> chain_handler_ok h"
proof -
  have "chain_handler_ok (handleMint now)"
    unfolding handleMint_def [abs_def]
  proof (rule chain_okI_body)
    fix s vs
    show "\<exists>cs. fst (if str vs ''certificate_id'' = '''' \<or> num vs ''mwh_amount'' \<le> 0
          then (s, BadRequest MintArguments)
          else let h = height s; cert = mint_certificate h vs;
                 (cs, res) = cs_MintFromCertificate now cert h (s_chain s)
               in (s\<lparr>s_chain := cs\<rparr>, answer ChainError (\<lambda>tx. RMint
                 \<lparr>mr_tx_hash = tx_Hash tx, mr_block_height = h, mr_certificate_id = str vs ''certificate_id'',
                  mr_mwh_amount = num vs ''mwh_amount'', mr_uftg_minted = cert_TokensMinted cert,
                  mr_provider = str vs ''provider'', mr_ipfs_hash = str vs ''ipfs_hash'',
                  mr_timestamp = tx_Timestamp tx\<rparr>) res)) = s\<lparr>s_chain := cs\<rparr> \<and> cs_moves (s_chain s) cs"
    proof (cases "str vs ''certificate_id'' = '''' \<or> num vs ''mwh_amount'' \<le> 0")
      case True
      then show ?thesis by (auto intro: exI [of _ "s_chain s"])
    qed (rule chain_move [where op = "OpMint now (mint_certificate (height s) vs) (height s)"],
         simp add: Let_def split_beta)
  qed
  moreover have "chain_handler_ok (handleBurn now)" "chain_handler_ok handleTreasuryCommit"
    "chain_handler_ok handleTreasuryToLiquidity"
    unfolding handleBurn_def [abs_def] handleTreasuryCommit_def [abs_def] handleTreasuryToLiquidity_def [abs_def]
    by (rule chain_okI_body, rule chain_move [where op = "OpBurn now (burn_of_request now _) (height _)"],
        simp add: Let_def split_beta)
       (rule chain_okI_body, rule chain_move [where op = "OpCommit (num _ ''amount'') (str _ ''buyer_ref'')"],
        simp add: Let_def split_beta,
        rule chain_okI_body, rule chain_move [where op = "OpLiquidity (num _ ''amount'')"],
        simp add: Let_def split_beta)
  moreover have "chain_handler_ok handleStatus" "chain_handler_ok handleHealth" "chain_handler_ok handleBlock"
    "chain_handler_ok handleGenesis" "chain_handler_ok handleNetInfo" "chain_handler_ok (handleBroadcastTx now)"
    "chain_handler_ok handleStats" "chain_handler_ok handleCertificates" "chain_handler_ok handleTreasury"
    "chain_handler_ok handleTransactions" "chain_handler_ok handleABCIQuery"
    by (rule chain_okI_query; simp add: handleStatus_def handleHealth_def handleBlock_def handleGenesis_def
        handleNetInfo_def handleBroadcastTx_def handleStats_def handleCertificates_def handleTreasury_def
        handleTransactions_def handleABCIQuery_def Let_def)+
  ultimately show "(path, h) \<in> set (chain_routes now) \<Longrightarrow> chain_handler_ok h"
    unfolding chain_routes_def by (elim set_ConsD [THEN disjE]) auto
qed

section \<open>A request\<close>

text \<open>
  A request is at most one call of one of the three parts, and only a \<open>POST\<close> is a call.
\<close>

lemma serve_some:
  assumes "serve srt now path r s = Some (s', rep)"
  shows "s_node s' = s_node s"
    "cs_moves (s_chain s) (s_chain s')"
    "ex_moves srt (er_exchange (s_exchange s)) (er_exchange (s_exchange s'))"
    "kyc_moves (er_kyc (s_exchange s)) (er_kyc (s_exchange s'))"
    "st_moves (s_settlement s) (s_settlement s')"
    "meth r \<noteq> ''POST'' \<Longrightarrow> s' = s"
    "s' = s\<lparr>s_chain := s_chain s'\<rparr> \<or> s' = s\<lparr>s_exchange := s_exchange s'\<rparr> \<or>
     s' = s\<lparr>s_settlement := s_settlement s'\<rparr>"
proof -
  have "s_node s' = s_node s \<and> cs_moves (s_chain s) (s_chain s') \<and>
    ex_moves srt (er_exchange (s_exchange s)) (er_exchange (s_exchange s')) \<and>
    kyc_moves (er_kyc (s_exchange s)) (er_kyc (s_exchange s')) \<and>
    st_moves (s_settlement s) (s_settlement s') \<and> (meth r \<noteq> ''POST'' \<longrightarrow> s' = s) \<and>
    (s' = s\<lparr>s_chain := s_chain s'\<rparr> \<or> s' = s\<lparr>s_exchange := s_exchange s'\<rparr> \<or>
     s' = s\<lparr>s_settlement := s_settlement s'\<rparr>)"
  proof (cases "map_of (chain_routes now) path")
    case (Some h)
    then have "chain_handler_ok h" by (intro chain_routes_ok) (rule map_of_SomeD)
    moreover from assms Some obtain x where "h r s = (s', x)" by (auto simp: serve_def split: prod.splits)
    ultimately have "(\<exists>cs. s' = s\<lparr>s_chain := cs\<rparr> \<and> cs_moves (s_chain s) cs) \<and> (meth r \<noteq> ''POST'' \<longrightarrow> s' = s)"
      unfolding chain_handler_ok_def by blast
    then show ?thesis by fastforce
  next
    case None
    note no_chain = None
    show ?thesis
    proof (cases "map_of (exchange_routes srt now (height s)) path")
      case (Some h)
      then have "ex_handler_ok srt h" by (intro exchange_routes_ok) (rule map_of_SomeD)
      moreover from assms no_chain Some obtain e x where e: "h r (s_exchange s) = Some (e, x)"
        "s' = s\<lparr>s_exchange := e\<rparr>" by (auto simp: serve_def split: option.splits)
      ultimately have "case Some (e, x) of
          None \<Rightarrow> \<exists>op. op_typed op \<and> ex_step srt (er_exchange (s_exchange s)) op = None
        | Some (e', rep) \<Rightarrow> ex_moves srt (er_exchange (s_exchange s)) (er_exchange e') \<and>
            kyc_moves (er_kyc (s_exchange s)) (er_kyc e') \<and> (meth r \<noteq> ''POST'' \<longrightarrow> e' = s_exchange s)"
        unfolding ex_handler_ok_def e(1) [symmetric] by blast
      then have "ex_moves srt (er_exchange (s_exchange s)) (er_exchange e) \<and>
          kyc_moves (er_kyc (s_exchange s)) (er_kyc e) \<and> (meth r \<noteq> ''POST'' \<longrightarrow> e = s_exchange s)"
        by simp
      then show ?thesis by (simp add: e(2))
    next
      case None
      then show ?thesis
      proof (cases "map_of (settlement_routes now (height s)) path")
        case (Some h)
        then have "st_handler_ok h" by (intro settlement_routes_ok) (rule map_of_SomeD)
        moreover from assms no_chain None Some obtain k x where k: "h r (s_settlement s) = (k, x)"
          "s' = s\<lparr>s_settlement := k\<rparr>" by (auto simp: serve_def split: prod.splits)
        ultimately have "st_moves (s_settlement s) k \<and> (meth r \<noteq> ''POST'' \<longrightarrow> k = s_settlement s)"
          unfolding st_handler_ok_def by blast
        then show ?thesis by (simp add: k(2))
      qed (use assms no_chain None in \<open>simp add: serve_def\<close>)
    qed
  qed
  then show "s_node s' = s_node s"
    "cs_moves (s_chain s) (s_chain s')"
    "ex_moves srt (er_exchange (s_exchange s)) (er_exchange (s_exchange s'))"
    "kyc_moves (er_kyc (s_exchange s)) (er_kyc (s_exchange s'))"
    "st_moves (s_settlement s) (s_settlement s')"
    "meth r \<noteq> ''POST'' \<Longrightarrow> s' = s"
    "s' = s\<lparr>s_chain := s_chain s'\<rparr> \<or> s' = s\<lparr>s_exchange := s_exchange s'\<rparr> \<or>
     s' = s\<lparr>s_settlement := s_settlement s'\<rparr>" by blast+
qed

lemma serve_none:
  assumes "serve srt now path r s = None"
  shows "\<exists>op. op_typed op \<and> ex_step srt (er_exchange (s_exchange s)) op = None"
proof -
  from assms obtain h where h: "map_of (exchange_routes srt now (height s)) path = Some h"
    "h r (s_exchange s) = None" by (auto simp: serve_def split: option.splits prod.splits)
  then have "ex_handler_ok srt h" by (intro exchange_routes_ok) (rule map_of_SomeD)
  then have "case h r (s_exchange s) of
        None \<Rightarrow> \<exists>op. op_typed op \<and> ex_step srt (er_exchange (s_exchange s)) op = None
      | Some (e', rep) \<Rightarrow> ex_moves srt (er_exchange (s_exchange s)) (er_exchange e') \<and>
          kyc_moves (er_kyc (s_exchange s)) (er_kyc e') \<and> (meth r \<noteq> ''POST'' \<longrightarrow> e' = s_exchange s)"
    unfolding ex_handler_ok_def by blast
  then show ?thesis by (simp add: h(2))
qed

section \<open>The invariant of the node\<close>

definition node_ok :: "server \<Rightarrow> bool" where
  "node_ok s \<longleftrightarrow>
     chain_ok (s_chain s) \<and> ex_ok (er_exchange (s_exchange s)) \<and> kyc_ok (er_kyc (s_exchange s)) \<and>
     st_ok (s_settlement s)"

definition node_seqs_le :: "server \<Rightarrow> int \<Rightarrow> bool" where
  "node_seqs_le s n \<longleftrightarrow>
     seqs_le (er_exchange (s_exchange s)) n \<and> st_seqs_le (s_settlement s) n \<and>
     ScreeningSeq (er_kyc (s_exchange s)) \<le> n \<and> FlagSeq (er_kyc (s_exchange s)) \<le> n"

text \<open>Room for one more identifier in every store.\<close>

definition node_room :: "server \<Rightarrow> event \<Rightarrow> bool" where
  "node_room s ev \<longleftrightarrow> node_seqs_le s (2 ^ 63 - 2)"

lemma ex_moves_ok:
  assumes "sort_slice srt" "ex_ok k" "seqs_le k (2 ^ 63 - 2)" "ex_moves srt k k'"
  shows "ex_ok k'"
proof (cases "k' = k")
  case False
  then obtain op where op: "op_typed op" "ex_step srt k op = Some k'" using assms(4) unfolding ex_moves_def by blast
  then have "in_range k op" using assms(3) by (auto simp: in_range_def seqs_le_def)
  then show ?thesis using ex_step_ok assms(1,2) op by blast
qed (use assms in simp)

lemma ex_moves_seqs:
  assumes "ex_ok k" "seqs_le k (2 ^ 63 - 2)" "ex_moves srt k k'" "seqs_le k n"
  shows "seqs_le k' (n + 1)"
proof (cases "k' = k")
  case False
  then obtain op where op: "op_typed op" "ex_step srt k op = Some k'" using assms(3) unfolding ex_moves_def by blast
  then have "in_range k op" using assms(2) by (auto simp: in_range_def seqs_le_def)
  from ex_next_seqs [OF assms(1) this assms(4), of srt] op show ?thesis by (simp add: ex_next_def)
qed (use assms in \<open>simp add: seqs_le_def\<close>)

lemma kyc_moves_ok:
  assumes "kyc_ok k" "kyc_room k op0" "kyc_moves k k'"
  shows "kyc_ok k' \<and> (ScreeningSeq k \<le> n \<and> FlagSeq k \<le> n \<longrightarrow> ScreeningSeq k' \<le> n + 1 \<and> FlagSeq k' \<le> n + 1)"
proof (cases "k' = k")
  case False
  then obtain op where op: "kyc_step k op = Some k'" using assms(3) unfolding kyc_moves_def by blast
  then have n: "kyc_next k op = k'" by (simp add: kyc_next_def)
  have r: "kyc_room k op" using assms(2) by (simp add: kyc_room_def)
  show ?thesis using kyc_next_ok [OF assms(1) r] kyc_next_seqs [OF assms(1) r] unfolding n by blast
qed (use assms in auto)

lemma st_moves_ok:
  assumes "st_ok k" "st_room k op0" "st_moves k k'"
  shows "st_ok k' \<and> (st_seqs_le k n \<longrightarrow> st_seqs_le k' (n + 1))"
proof (cases "k' = k")
  case False
  then obtain op where op: "k' = st_step k op" using assms(3) unfolding st_moves_def by blast
  have r: "st_room k op" using assms(2) by (simp add: st_room_def)
  show ?thesis unfolding op using st_step_ok [OF assms(1) r] st_step_seqs [OF assms(1) r] by blast
qed (use assms in \<open>auto simp: st_seqs_le_def\<close>)

lemma cs_moves_ok: "chain_ok k \<Longrightarrow> cs_moves k k' \<Longrightarrow> chain_ok k'"
  unfolding cs_moves_def by (auto intro: chain.step_ok)

lemma node_step_ok:
  assumes srt: "sort_slice srt" and ok: "node_ok s" and room: "node_room s ev"
  shows "\<exists>s'. node_step srt s ev = Some s' \<and> node_ok s' \<and> (\<forall>n. node_seqs_le s n \<longrightarrow> node_seqs_le s' (n + 1))"
proof (cases ev)
  case (Tick now)
  then show ?thesis using ok
    by (auto simp: node_step_def node_ok_def node_seqs_le_def seqs_le_def st_seqs_le_def)
next
  case (Request now path r)
  let ?k = "er_exchange (s_exchange s)" and ?c = "er_kyc (s_exchange s)" and ?t = "s_settlement s"
  have O: "chain_ok (s_chain s)" "ex_ok ?k" "kyc_ok ?c" "st_ok ?t" using ok by (simp_all add: node_ok_def)
  have R: "seqs_le ?k (2 ^ 63 - 2)" "kyc_room ?c op" "st_room ?t op'" for op op'
    using room by (simp_all add: node_room_def node_seqs_le_def kyc_room_def st_room_def st_seqs_le_def)
  have "serve srt now path r s \<noteq> None"
  proof
    assume "serve srt now path r s = None"
    from serve_none [OF this] obtain op where op: "op_typed op" "ex_step srt ?k op = None" by blast
    then have "in_range ?k op" using R(1) by (auto simp: in_range_def seqs_le_def)
    with ex_step_some O(2) op show False by blast
  qed
  then obtain s' rep where run: "serve srt now path r s = Some (s', rep)" by fastforce
  note S = serve_some [OF run]
  have "node_ok s'"
    unfolding node_ok_def
    using cs_moves_ok [OF O(1) S(2)] ex_moves_ok [OF srt O(2) R(1) S(3)] kyc_moves_ok [OF O(3) R(2) S(4)]
      st_moves_ok [OF O(4) R(3) S(5)] by blast
  moreover have "node_seqs_le s n \<longrightarrow> node_seqs_le s' (n + 1)" for n
    unfolding node_seqs_le_def
    using ex_moves_seqs [OF O(2) R(1) S(3)] kyc_moves_ok [OF O(3) R(2) S(4)] st_moves_ok [OF O(4) R(3) S(5)] by blast
  ultimately show ?thesis using run Request by (simp add: node_step_def)
qed

lemma node_next_ok:
  assumes "sort_slice srt" "node_ok s" "node_room s ev"
  shows "node_ok (node_next srt s ev)" "node_seqs_le s n \<Longrightarrow> node_seqs_le (node_next srt s ev) (n + 1)"
  using node_step_ok [OF assms] by (auto simp: node_next_def)

sublocale sort_slice \<subseteq> node: state_machine "node_next srt" node_room node_ok
  by unfold_locales (rule node_next_ok(1) [OF sort_slice_axioms])

lemma node_run_room:
  assumes srt: "sort_slice srt"
  shows "node_ok s \<Longrightarrow> node_seqs_le s n \<Longrightarrow> n + int (length evs) < 2 ^ 63 \<Longrightarrow>
    all_pre (node_next srt) node_room s evs"
proof (induction evs arbitrary: s n)
  case (Cons ev evs)
  have r: "node_room s ev"
    using Cons.prems by (auto simp: node_room_def node_seqs_le_def seqs_le_def st_seqs_le_def)
  note N = node_next_ok [OF srt Cons.prems(1) r]
  have "all_pre (node_next srt) node_room (node_next srt s ev) evs"
    using Cons.prems by (intro Cons.IH [OF N(1) N(2) [OF Cons.prems(2)]]) auto
  with r show ?case by simp
qed simp

section \<open>Runs of a node started on an empty home directory\<close>

definition node_run :: "slice_sort \<Rightarrow> time \<Rightarrow> node_config \<Rightarrow> event list \<Rightarrow> server" where
  "node_run srt now c evs =
     (case boot srt now (GoodConfig c) no_files of Inr s \<Rightarrow> foldl (node_next srt) s evs)"

definition fresh_server :: "slice_sort \<Rightarrow> time \<Rightarrow> node_config \<Rightarrow> server" where
  "fresh_server srt now c =
     \<lparr>s_node = \<lparr>n_ChainID = nc_ChainID c, n_Moniker = nc_Moniker c,
         n_State = \<lparr>bs_Height = 0, bs_AppHash = empty_hash, bs_Timestamp = now, bs_ChainID = nc_ChainID c\<rparr>,
         n_file = None\<rparr>,
      s_chain = NewChainState None, s_exchange = NewExchangeRPC srt None None, s_settlement = st_NewKeeper None\<rparr>"

lemma boot_fresh: "boot srt now (GoodConfig c) no_files = Inr (fresh_server srt now c)"
  by (simp add: boot_def NewFTGNode_def no_files_def fresh_server_def)

lemma node_run_eq: "node_run srt now c evs = foldl (node_next srt) (fresh_server srt now c) evs"
  by (simp add: node_run_def boot_fresh)

lemma fresh_ok: "node_ok (fresh_server srt now c)"
  by (simp add: node_ok_def fresh_server_def NewExchangeRPC_def chain_ok_init ex_ok_new kyc_ok_new st_ok_new)

lemma fresh_seqs: "node_seqs_le (fresh_server srt now c) 0"
  by (simp add: fresh_server_def NewExchangeRPC_def node_seqs_le_def seqs_le_def st_seqs_le_def ex_NewKeeper_def
      Let_def ex_empty_def initDefaultPairs_def rebuildOrderBooks_def st_NewKeeper_def kyc_NewKeeper_def
      initDefaultRules_def)

context sort_slice begin

lemma node_run_kept: "node_ok s \<Longrightarrow> all_pre (node_next srt) node_room s evs \<Longrightarrow> node_ok (foldl (node_next srt) s evs)"
  by (rule node.run_ok)

end

lemma node_run_ok:
  assumes "sort_slice srt" "int (length evs) < 2 ^ 63"
  shows "node_ok (node_run srt now c evs)"
  unfolding node_run_eq
  by (rule sort_slice.node_run_kept [OF assms(1) fresh_ok])
     (rule node_run_room [OF assms(1) fresh_ok fresh_seqs], use assms in simp)

lemma node_run_seqs:
  assumes srt: "sort_slice srt"
  shows "node_ok s \<Longrightarrow> node_seqs_le s n \<Longrightarrow> n + int (length evs) < 2 ^ 63 \<Longrightarrow>
    node_seqs_le (foldl (node_next srt) s evs) (n + int (length evs))"
proof (induction evs arbitrary: s n)
  case (Cons ev evs)
  have r: "node_room s ev"
    using Cons.prems by (auto simp: node_room_def node_seqs_le_def seqs_le_def st_seqs_le_def)
  note N = node_next_ok [OF srt Cons.prems(1) r]
  from Cons.IH [OF N(1) N(2) [OF Cons.prems(2)]] Cons.prems(3) show ?case by (simp add: algebra_simps)
qed simp

end
