(* ===== verification/ExchangeRestart.thy ===== *)
theory ExchangeRestart
  imports ExchangeRun ExchangeViews
begin

text \<open>
  What a restart keeps of the exchange. Everything but the daily limits is saved by the call that
  changes it, so a keeper created from the file has the same wallets, orders, trades and
  applications; the order books are rebuilt from the orders.
\<close>

section \<open>What is on file\<close>

definition ex_core ::
  "'a exchange_json_scheme \<Rightarrow> (string, wallet) gomap \<times> (string, order) gomap \<times> trade list \<times>
     (string, kyc_application) gomap \<times> (string, trading_pair) gomap \<times> exchange_config \<times>
     int64 \<times> int64 \<times> int64 \<times> int64" where
  "ex_core k = (Wallets k, Orders k, Trades k, KYCApps k, Pairs k, Config k, WalletSeq k, OrderSeq k,
                TradeSeq k, KYCSeq k)"

definition synced :: "exchange \<Rightarrow> bool" where
  "synced k \<longleftrightarrow>
     Config k = defaultConfig \<and> Pairs k \<noteq> [] \<and>
     (case ex_disk k of None \<Rightarrow> ex_core k = ex_core (initDefaultPairs ex_empty) | Some j \<Rightarrow> ex_core k = ex_core j)"

lemma merge_default: "merge_config defaultConfig = defaultConfig"
  by (simp add: merge_config_def defaultConfig_def)

lemma reload_core:
  assumes "synced k"
  shows "ex_core (ex_NewKeeper srt (ex_disk k)) = ex_core k"
proof (cases "ex_disk k")
  case None
  then show ?thesis using assms
    by (simp add: synced_def ex_NewKeeper_def Let_def ex_core_def ex_empty_def initDefaultPairs_def)
next
  case (Some j)
  then have "ex_core k = ex_core j" "Config k = defaultConfig" "Pairs k \<noteq> []"
    using assms by (simp_all add: synced_def)
  then have "Config j = defaultConfig" "Pairs j \<noteq> []" "ex_core k = ex_core j"
    by (auto simp: ex_core_def)
  then show ?thesis using Some
    by (simp add: ex_NewKeeper_def Let_def ex_core_def merge_default exchange_json.defs)
qed

lemma synced_save: "Config k = defaultConfig \<Longrightarrow> Pairs k \<noteq> [] \<Longrightarrow> synced (ex_save k)"
  by (simp add: synced_def ex_core_def ex_save_def exchange_json.defs)

lemma synced_same: "synced k \<Longrightarrow> ex_core k' = ex_core k \<Longrightarrow> ex_disk k' = ex_disk k \<Longrightarrow> synced k'"
  by (auto simp: synced_def ex_core_def split: option.splits)

lemma synced_new: "synced (ex_NewKeeper srt None)"
  by (simp add: synced_def ex_NewKeeper_def Let_def ex_core_def ex_empty_def initDefaultPairs_def
      rebuildOrderBooks_def)

section \<open>Every call\<close>

lemma checkDailyLimit_disk:
  "checkDailyLimit now w price quantity k = (k', r) \<Longrightarrow> ex_disk k' = ex_disk k"
  by (auto simp: checkDailyLimit_def put_daily_def Let_def split: if_splits)

lemma check_order_disk:
  "check_order now wid pid ot price quantity k = (k', r) \<Longrightarrow> ex_disk k' = ex_disk k"
  by (auto simp: check_order_def split: option.splits if_splits prod.splits dest: checkDailyLimit_disk)

lemma PlaceOrder_synced:
  assumes s: "synced k" and run: "PlaceOrder srt now wid pid side ot price quantity bh k = Some (k', r)"
  shows "synced k'"
proof (cases r)
  case (Inl e)
  have "ex_core k' = ex_core k \<and> ex_disk k' = ex_disk k"
    using run unfolding Inl
    by (auto simp: PlaceOrder_def ex_core_def ex_same_def split: prod.splits sum.splits option.splits bind_splits
        dest: check_order_disk check_order_frame)
  then show ?thesis using s synced_same by blast
next
  case (Inr res)
  obtain order ts where "res = (order, ts)" by fastforce
  with run Inr have "PlaceOrder srt now wid pid side ot price quantity bh k = Some (k', Inr (order, ts))" by simp
  then show ?thesis
  proof (cases rule: PlaceOrderE)
    case (1 kc w pair w' o0 k1 rest order1)
    have "ex_same (filed wid w' o0 kc) k1" using match_loop_trades [OF 1(4)] by blast
    then have "Config k1 = Config k \<and> Pairs k1 = Pairs k"
      using check_order_frame(4) [OF 1(1)] by (simp add: ex_same_def)
    then show ?thesis unfolding 1(7) using s by (intro synced_save) (simp_all add: synced_def)
  qed
qed

lemma ex_step_synced:
  assumes s: "synced k" and run: "ex_step srt k op = Some k'"
  shows "synced k'"
proof -
  have c: "Config k = defaultConfig" "Pairs k \<noteq> []" using s by (simp_all add: synced_def)
  note save = synced_save
  show ?thesis
  proof (cases op)
    case (OpPlaceOrder now w p sd t price q h)
    then show ?thesis using run s by (auto intro: PlaceOrder_synced)
  next
    case (OpCancelOrder now i w)
    with run obtain r where r: "CancelOrder now i w k = Some (k', r)" by auto
    show ?thesis
    proof (cases r)
      case (Inl e)
      then show ?thesis using r CancelOrder_error s by blast
    next
      case (Inr u)
      with r have "CancelOrder now i w k = Some (k', Inr ())" by simp
      then show ?thesis
        by (cases rule: CancelOrderE) (simp add: removeFromBook_eq save c)
    qed
  next
    case (OpApproveKYC now i)
    with run obtain r where "ApproveKYC now i k = Some (k', r)" by auto
    then show ?thesis using s c
      by (auto simp: ApproveKYC_def Let_def put_app_def split: option.splits if_splits bind_splits
          intro!: save)
  qed (use run s c in \<open>auto simp: CreateWallet_def DepositToWallet_def WithdrawFromWallet_def SubmitKYC_eq
        RejectKYC_def put_app_def Let_def split: option.splits if_splits intro!: save\<close>)
qed

section \<open>The books after a restart\<close>

text \<open>The file knows which orders are live, not which were booked.\<close>

lemma reload_books:
  assumes srt: "sort_slice srt" and s: "synced k" and d: "distinct (mkeys (Orders k))"
  shows "set (book_at side (ex_NewKeeper srt (ex_disk k)) p) =
      {i. \<exists>a. mget (Orders k) i = Some a \<and> live a \<and> o_Side a = side \<and> o_PairID a = p}"
    "sorted_book side k (book_at side (ex_NewKeeper srt (ex_disk k)) p)"
proof -
  obtain k0 where k0: "ex_NewKeeper srt (ex_disk k) = rebuildOrderBooks srt k0" "Orders k0 = Orders k"
    using reload_core [OF s, of srt] by (simp add: ex_NewKeeper_def Let_def ex_core_def)
  have d0: "distinct (mkeys (Orders k0))" using d k0(2) by simp
  note S = side_sort [OF srt]
  show "set (book_at side (ex_NewKeeper srt (ex_disk k)) p) =
      {i. \<exists>a. mget (Orders k) i = Some a \<and> live a \<and> o_Side a = side \<and> o_PairID a = p}"
    unfolding k0(1) rebuilt_book [OF srt] S using saved_book_set [OF d0] k0(2) by auto
  have "price_of k0 = price_of k" using k0(2) by (simp add: price_of_def fun_eq_iff)
  then show "sorted_book side k (book_at side (ex_NewKeeper srt (ex_disk k)) p)"
    unfolding k0(1) rebuilt_book [OF srt] using S(3) [of side k0 "saved_book side p k0"]
    by (simp add: sorted_book_def)
qed

end
