(* ===== verification/NodeProps.thy ===== *)
theory NodeProps
  imports NodeInv ExchangeRestart
begin

text \<open>
  The properties of the whole node: what any events leave true, how a run of the node is a run of
  each of its components, what a request can change, and what a stop or a crash followed by a
  restart keeps.
\<close>

section \<open>A run of the node is a run of each component\<close>





lemma node_step_moves:
  assumes "node_step srt s ev = Some s'"
  shows "cs_moves (s_chain s) (s_chain s')"
    "ex_moves srt (er_exchange (s_exchange s)) (er_exchange (s_exchange s'))"
    "kyc_moves (er_kyc (s_exchange s)) (er_kyc (s_exchange s'))"
    "st_moves (s_settlement s) (s_settlement s')"
  using assms
  by (cases ev; auto simp: node_step_def dest: serve_some)+

lemma node_next_moves:
  "cs_moves (s_chain s) (s_chain (node_next srt s ev))"
  "ex_moves srt (er_exchange (s_exchange s)) (er_exchange (s_exchange (node_next srt s ev)))"
  "kyc_moves (er_kyc (s_exchange s)) (er_kyc (s_exchange (node_next srt s ev)))"
  "st_moves (s_settlement s) (s_settlement (node_next srt s ev))"
  by (cases "node_step srt s ev"; simp add: node_next_def node_step_moves)+

lemma node_run_snoc: "node_run srt now c (evs @ [ev]) = node_next srt (node_run srt now c evs) ev"
  by (simp add: node_run_eq)


section \<open>Properties\<close>


text \<open>
  C31: No request breaks the node. After any fewer than \<open>2 ^ 63 - 1\<close> events the four components
  satisfy their invariants, and no request, on any path, with any method, query and body, makes
  its handler panic.
\<close>

theorem node_never_panics:
  assumes "sort_slice srt" "int (length evs) < 2 ^ 63 - 1"
  shows "node_ok (node_run srt now c evs) \<and> serve srt now' path r (node_run srt now c evs) \<noteq> None"
proof
  have "node_seqs_le (node_run srt now c evs) (0 + int (length evs))"
    unfolding node_run_eq by (rule node_run_seqs [OF assms(1) fresh_ok fresh_seqs]) (use assms in simp)
  then have room: "node_room (node_run srt now c evs) (Request now' path r)"
    using assms(2) by (simp add: node_room_def node_seqs_le_def seqs_le_def st_seqs_le_def)
  show ok: "node_ok (node_run srt now c evs)" by (rule node_run_ok [OF assms(1)]) (use assms in simp)
  show "serve srt now' path r (node_run srt now c evs) \<noteq> None"
    using node_step_ok [OF assms(1) ok room] by (auto simp: node_step_def)
qed

definition demo_config :: node_config where
  "demo_config =
     \<lparr>nc_Moniker = ''node'', nc_ChainID = ''ftg-1'', nc_NodeID = '''', nc_ListenAddr = '''',
      nc_RPCAddr = '''', nc_P2PAddr = ''''\<rparr>"

definition post :: "(string \<times> json) list \<Rightarrow> request" where
  "post ms = \<lparr>meth = ''POST'', query = [], body = Some (JObj ms)\<rparr>"

theorem node_never_panics_witness:
  "serve insertion_sort 1 ''/exchange/order/place'' (post [(''side'', JStr ''buy'')])
     (node_run insertion_sort 0 demo_config [Tick 5]) \<noteq> None"
  using node_never_panics [OF ins_sort.sort_slice_axioms, of "[Tick 5]" 0 demo_config 1
      "''/exchange/order/place''" "post [(''side'', JStr ''buy'')]"] by simp

text \<open>
  C32: What a request can change. A request that is not a \<open>POST\<close> changes nothing; any request
  changes at most one of the chain state, the exchange with its compliance keeper and the
  settlement keeper, and never the block state. So no deposit or escrow that settles ever moves a
  balance of the exchange, and no exchange trade moves settlement funds.
\<close>

theorem request_changes_one_part:
  assumes "serve srt now path r s = Some (s', rep)"
  shows "s_node s' = s_node s \<and> (meth r \<noteq> ''POST'' \<longrightarrow> s' = s) \<and>
    (s' = s\<lparr>s_chain := s_chain s'\<rparr> \<or> s' = s\<lparr>s_exchange := s_exchange s'\<rparr> \<or>
     s' = s\<lparr>s_settlement := s_settlement s'\<rparr>)"
  using serve_some [OF assms] by blast

theorem request_changes_one_part_witness:
  "s_exchange (fst (the (serve insertion_sort 1 ''/settlement/deposit/create''
      (post [(''amount'', JInt 2000000), (''payment_method'', JStr ''stripe'')])
      (node_run insertion_sort 0 demo_config [])))) =
   s_exchange (node_run insertion_sort 0 demo_config [])"
proof -
  let ?s = "node_run insertion_sort 0 demo_config []"
  let ?r = "post [(''amount'', JInt 2000000), (''payment_method'', JStr ''stripe'')]"
  have e: "case serve insertion_sort 1 ''/settlement/deposit/create'' ?r ?s of
      None \<Rightarrow> False | Some (s', rep) \<Rightarrow> DepositSeq (s_settlement s') = 1 \<and> DepositSeq (s_settlement ?s) = 0"
    by code_simp
  then obtain s' rep where run: "serve insertion_sort 1 ''/settlement/deposit/create'' ?r ?s = Some (s', rep)"
    and d: "DepositSeq (s_settlement s') = 1" "DepositSeq (s_settlement ?s) = 0"
    by (cases "serve insertion_sort 1 ''/settlement/deposit/create'' ?r ?s") auto
  from d have n: "s_settlement s' \<noteq> s_settlement ?s" by auto
  from request_changes_one_part [OF run] n have "s' = ?s\<lparr>s_settlement := s_settlement s'\<rparr>"
    by (metis (no_types, lifting) server.select_convs(4) server.surjective server.update_convs(2,3))
  then have "s_exchange s' = s_exchange ?s" by (metis server.select_convs(3) server.surjective server.update_convs(4))
  then show ?thesis by (simp add: run)
qed

section \<open>Stopping, crashing, restarting\<close>

lemma node_synced: "synced (er_exchange (s_exchange (node_run srt now c evs)))"
proof (induction evs rule: rev_induct)
  case Nil
  show ?case by (simp add: node_run_eq fresh_server_def NewExchangeRPC_def synced_new)
next
  case (snoc ev evs)
  then show ?case unfolding node_run_snoc
    using node_next_moves(2) [where s = "node_run srt now c evs" and srt = srt and ev = ev] ex_step_synced
    unfolding ex_moves_def by metis
qed

fun is_tick :: "event \<Rightarrow> bool" where
  "is_tick (Tick now) = True"
| "is_tick (Request now path r) = False"

definition ticks :: "event list \<Rightarrow> int" where
  "ticks evs = int (length (filter is_tick evs))"

definition blocks_ok :: "node_config \<Rightarrow> int \<Rightarrow> ftg_node \<Rightarrow> bool" where
  "blocks_ok c t n \<longleftrightarrow>
     n_ChainID n = nc_ChainID c \<and> n_Moniker n = nc_Moniker c \<and> bs_Height (n_State n) = t \<and>
     (case n_file n of None \<Rightarrow> t < 100 | Some st \<Rightarrow> bs_Height st = t - t mod 100)"

lemma not_block_end:
  assumes "(t + 1) mod 100 \<noteq> (0 :: int)"
  shows "t + 1 - (t + 1) mod 100 = t - t mod 100"
proof -
  define a where "a = t div 100"
  define b where "b = t mod 100"
  have t: "t = 100 * a + b" "0 \<le> b" "b < 100" by (simp_all add: a_def b_def)
  have "b + 1 \<noteq> 100"
  proof
    assume "b + 1 = 100"
    then have "t + 1 = 100 * (a + 1)" using t(1) by simp
    with assms show False by (metis mod_mult_self1_is_0)
  qed
  then have "(t + 1) mod 100 = b + 1"
    using t mod_pos_pos_trivial [of "b + 1" 100] mod_mult_self2 [of "b + 1" 100 a] by (simp add: algebra_simps)
  then show ?thesis by (simp add: b_def)
qed

lemma produceBlock_ok:
  assumes "blocks_ok c t n" "0 \<le> t" "t + 1 < 2 ^ 63"
  shows "blocks_ok c (t + 1) (produceBlock now n)"
proof -
  have t: "add64 t 1 = t + 1" using assms by (simp add: add64_def i64_id in64_def)
  show ?thesis
  proof (cases "(t + 1) mod 100 = 0")
    case True
    then show ?thesis using assms by (simp add: blocks_ok_def produceBlock_def Let_def saveState_def t)
  next
    case False
    then have "t < 100 \<Longrightarrow> t + 1 < 100" by (cases "t + 1 = 100") auto
    then show ?thesis using assms False not_block_end [OF False]
      by (auto simp: blocks_ok_def produceBlock_def Let_def t split: option.splits)
  qed
qed

lemma node_next_node:
  "s_node (node_next srt s (Tick now)) = produceBlock now (s_node s)"
  "s_node (node_next srt s (Request now path r)) = s_node s"
  by (auto simp: node_next_def node_step_def dest: serve_some(1) split: option.splits)

lemma node_blocks:
  "int (length evs) < 2 ^ 63 \<Longrightarrow> blocks_ok c (ticks evs) (s_node (node_run srt now c evs))"
proof (induction evs rule: rev_induct)
  case Nil
  show ?case by (simp add: blocks_ok_def node_run_eq fresh_server_def ticks_def)
next
  case (snoc ev evs)
  have le: "ticks evs \<le> int (length evs)" by (simp add: ticks_def)
  show ?case
  proof (cases ev)
    case (Tick t)
    have "0 \<le> ticks evs" by (simp add: ticks_def)
    moreover have "ticks evs + 1 < 2 ^ 63" using snoc.prems le by simp
    ultimately have "blocks_ok c (ticks evs + 1) (produceBlock t (s_node (node_run srt now c evs)))"
      using snoc by (intro produceBlock_ok) simp_all
    then show ?thesis by (simp add: Tick node_run_snoc node_next_node ticks_def add.commute)
  next
    case (Request t path r)
    then show ?thesis using snoc by (simp add: node_run_snoc node_next_node ticks_def)
  qed
qed

text \<open>What a node started again from some files of a run has, whichever block state it finds.\<close>

definition resumed :: "slice_sort \<Rightarrow> server \<Rightarrow> server \<Rightarrow> bool" where
  "resumed srt s s' \<longleftrightarrow>
     s_chain s' = s_chain s \<and> s_settlement s' = s_settlement s \<and>
     er_kyc (s_exchange s') = er_kyc (s_exchange s) \<and>
     ex_core (er_exchange (s_exchange s')) = ex_core (er_exchange (s_exchange s)) \<and>
     (\<forall>side p. set (book_at side (er_exchange (s_exchange s')) p) =
        {i. \<exists>a. mget (Orders (er_exchange (s_exchange s))) i = Some a \<and> live a \<and> o_Side a = side \<and>
             o_PairID a = p})"

lemma resumed_boot:
  assumes srt: "sort_slice srt" and ok: "node_ok s" and syn: "synced (er_exchange (s_exchange s))"
  shows "resumed srt s
    \<lparr>s_node = n, s_chain = NewChainState (f_chain (files_of s)),
     s_exchange = NewExchangeRPC srt (f_exchange (files_of s)) (f_kyc (files_of s)),
     s_settlement = st_NewKeeper (f_settlement (files_of s))\<rparr>"
proof -
  let ?k = "er_exchange (s_exchange s)"
  have "keys_from order_id (OrderSeq ?k) (Orders ?k)"
    using ok by (simp add: node_ok_def ex_ok_def orders_ok_def)
  then have d: "distinct (mkeys (Orders ?k))" by (simp add: keys_from_def)
  show ?thesis
    using ok reload_core [OF syn, of srt] reload_books(1) [OF srt syn d]
    by (simp add: resumed_def files_of_def NewExchangeRPC_def node_ok_def chain_ok_def kyc_ok_def st_ok_def)
qed

lemma files_of_stop: "files_of (stop s) = (files_of s)\<lparr>f_state := Some (n_State (s_node s))\<rparr>"
  by (simp add: files_of_def stop_def saveState_def)

text \<open>
  C33: Restart after a stop. A node that is stopped after any events and started again from its
  files has the same blocks, chain state, settlement and compliance records, the same wallets,
  orders, trades and applications, and in each book exactly the live orders of that pair and side.
\<close>

theorem restart_after_stop:
  assumes "sort_slice srt" "int (length evs) < 2 ^ 63"
  shows "\<exists>s'. boot srt now' (GoodConfig c) (files_of (stop (node_run srt now c evs))) = Inr s' \<and>
    n_State (s_node s') = n_State (s_node (node_run srt now c evs)) \<and>
    resumed srt (node_run srt now c evs) s'"
  using resumed_boot [OF assms(1) node_run_ok [OF assms] node_synced]
  by (simp add: boot_def NewFTGNode_def files_of_stop Let_def)

theorem restart_after_stop_witness:
  "\<exists>s'. boot insertion_sort 9 (GoodConfig demo_config)
       (files_of (stop (node_run insertion_sort 0 demo_config [Tick 5, Tick 6]))) = Inr s' \<and>
     n_State (s_node s') = n_State (s_node (node_run insertion_sort 0 demo_config [Tick 5, Tick 6]))"
  using restart_after_stop [OF ins_sort.sort_slice_axioms, of "[Tick 5, Tick 6]" 9 demo_config 0] by auto

text \<open>
  C34: A crash. A node that dies without stopping comes back with everything it had recorded, but
  at the height of the last hundredth block: up to 99 heights are produced a second time, and
  transactions and settlements already recorded at them refer to blocks above the node's height.
\<close>

theorem crash_rolls_blocks_back:
  assumes "sort_slice srt" "int (length evs) < 2 ^ 63"
  shows "\<exists>s'. boot srt now' (GoodConfig c) (files_of (node_run srt now c evs)) = Inr s' \<and>
    height (node_run srt now c evs) = ticks evs \<and> height s' = ticks evs - ticks evs mod 100 \<and>
    resumed srt (node_run srt now c evs) s'"
proof -
  let ?s = "node_run srt now c evs"
  have B: "blocks_ok c (ticks evs) (s_node ?s)" by (rule node_blocks [OF assms(2)])
  have t: "0 \<le> ticks evs" by (simp add: ticks_def)
  obtain n where n: "NewFTGNode now' (GoodConfig c) (n_file (s_node ?s)) = Inr n"
      "bs_Height (n_State n) = ticks evs - ticks evs mod 100"
    using B t by (cases "n_file (s_node ?s)") (auto simp: NewFTGNode_def Let_def blocks_ok_def)
  have "resumed srt ?s
    \<lparr>s_node = n, s_chain = NewChainState (f_chain (files_of ?s)),
     s_exchange = NewExchangeRPC srt (f_exchange (files_of ?s)) (f_kyc (files_of ?s)),
     s_settlement = st_NewKeeper (f_settlement (files_of ?s))\<rparr>"
    by (rule resumed_boot [OF assms(1) node_run_ok [OF assms] node_synced])
  moreover have "f_state (files_of ?s) = n_file (s_node ?s)" by (simp add: files_of_def)
  ultimately show ?thesis using n B by (simp add: boot_def height_def blocks_ok_def)
qed

theorem crash_rolls_blocks_back_witness:
  "\<exists>s'. boot insertion_sort 9 (GoodConfig demo_config)
       (files_of (node_run insertion_sort 0 demo_config (replicate 150 (Tick 5)))) = Inr s' \<and>
     height (node_run insertion_sort 0 demo_config (replicate 150 (Tick 5))) = 150 \<and> height s' = 100"
proof -
  have "ticks (replicate 150 (Tick 5)) = 150" by (simp add: ticks_def filter_replicate)
  then show ?thesis
    using crash_rolls_blocks_back [OF ins_sort.sort_slice_axioms, of "replicate 150 (Tick 5)" 9 demo_config 0]
    by auto
qed

section \<open>What a mint answers\<close>

text \<open>
  The answer of a mint. A mint of a new certificate for \<open>n\<close> MWh, up to \<open>9 * 10 ^ 10\<close>, adds
  \<open>n * 10 ^ 8\<close> uftg to the supply and answers success with \<open>uftg_minted\<close> zero: the handler's
  copy of the certificate never gets the amount.
\<close>

theorem mint_answer_says_zero:
  assumes "meth r = ''POST''" "readJSON MintRequest_fields r = Some req"
    and "str req ''certificate_id'' \<noteq> ''''" "0 < num req ''mwh_amount''" "num req ''mwh_amount'' \<le> 90000000000"
    and "\<forall>x \<in> set (Certificates (s_chain s)). cert_ExternalID x \<noteq> str req ''certificate_id''"
  shows "\<exists>s' m. handleMint now r s = (s', Success (RMint m)) \<and> mr_uftg_minted m = 0 \<and>
    TotalSupply (s_chain s') = add64 (TotalSupply (s_chain s)) (num req ''mwh_amount'' * 10 ^ 8) \<and>
    map cert_TokensMinted (Certificates (s_chain s')) =
      map cert_TokensMinted (Certificates (s_chain s)) @ [num req ''mwh_amount'' * 10 ^ 8]"
proof -
  have "mul64 (mul64 (num req ''mwh_amount'') 100) 1000000 = num req ''mwh_amount'' * 10 ^ 8"
    using assms(4,5) by (simp add: mul64_def i64_id in64_def)
  then show ?thesis using assms
    by (auto simp: handleMint_def with_body_def mint_certificate_def cs_MintFromCertificate_def Let_def
        list_ex_iff answer_def)
qed

theorem mint_answer_says_zero_witness:
  "\<exists>s' m. handleMint 3 (post [(''certificate_id'', JStr ''C1''), (''mwh_amount'', JInt 5)])
      (node_run insertion_sort 0 demo_config []) = (s', Success (RMint m)) \<and> mr_uftg_minted m = 0 \<and>
    TotalSupply (s_chain s') = 500000000"
proof -
  let ?r = "post [(''certificate_id'', JStr ''C1''), (''mwh_amount'', JInt 5)]"
  let ?s = "node_run insertion_sort 0 demo_config []"
  obtain req where req: "readJSON MintRequest_fields ?r = Some req" "str req ''certificate_id'' = ''C1''"
    "num req ''mwh_amount'' = 5"
    by (simp add: readJSON_def post_def MintRequest_fields_def decode_member_def field_of_def in64_def str_def
        num_def)
  have s: "Certificates (s_chain ?s) = []" "TotalSupply (s_chain ?s) = 0" by code_simp+
  have "meth ?r = ''POST''" by (simp add: post_def)
  from mint_answer_says_zero [OF this req(1), of ?s 3] show ?thesis
    by (simp add: req s add64_def i64_id in64_def) blast
qed

end
