(* ===== verification/ExchangeTrade.thy ===== *)
theory ExchangeTrade
  imports ExchangeProps ExchangeRpc KycProps
begin

text \<open>
  What one call on the exchange does: an order trades fairly and moves value without creating
  any, an order that is refused leaves no trace, and a KYC application is decided by the
  exchange's own list of countries.
\<close>

section \<open>Placing an order\<close>

text \<open>
  C3: Fair matching. In a state with the invariant, a refused order leaves wallets, orders and
  trades as they were. An accepted one gets the next identifier; every trade it makes is with
  another wallet, at the price of an order resting on the other side, within its own limit, and
  the trades go from the best price on; what its trades executed is what it has filled; and if
  something remains, every order left on the other side is its own wallet's or beyond its limit.
\<close>

theorem matching_fair:
  assumes "sort_slice srt" "ex_ok k" "in64 quantity" "OrderSeq k < 2 ^ 63 - 1"
    "PlaceOrder srt now wid pid side ot price quantity bh k = Some (k', r)"
  shows "case r of
      Inl e \<Rightarrow> Wallets k' = Wallets k \<and> Orders k' = Orders k \<and> Trades k' = Trades k
    | Inr (order, ts) \<Rightarrow>
        o_ID order = order_id (OrderSeq k + 1) \<and> mget (Orders k) (o_ID order) = None \<and>
        mget (Orders k') (o_ID order) = Some order \<and> Trades k' = Trades k @ ts \<and>
        o_FilledQty order = traded (o_ID order) ts \<and>
        (\<forall>t \<in> set ts. 0 < t_Quantity t \<and> t_TakerWallet t = wid \<and> t_MakerWallet t \<noteq> wid \<and>
           t_MakerOrder t \<in> set (book_at (opp side) k pid) \<and> t_Price t = price_of k (t_MakerOrder t) \<and>
           (ot = OrderTypeLimit \<longrightarrow> price_key (opp side) (t_Price t) \<le> price_key (opp side) price)) \<and>
        sorted (map (\<lambda>t. price_key (opp side) (t_Price t)) ts) \<and>
        (0 < o_RemainingQty order \<longrightarrow> (\<forall>i \<in> set (book_at (opp side) k' pid). \<exists>m. mget (Orders k') i = Some m \<and>
           (o_WalletID m = wid \<or>
            ot = OrderTypeLimit \<and> price_key (opp side) price < price_key (opp side) (o_Price m))))"
proof (cases r)
  case (Inl e)
  then show ?thesis using PlaceOrder_error assms(5) by fastforce
next
  case (Inr res)
  obtain order ts where res: "res = (order, ts)" by fastforce
  have run: "PlaceOrder srt now wid pid side ot price quantity bh k = Some (k', Inr (order, ts))"
    using assms(5) Inr res by simp
  obtain rest w pair where A: "accepted k k' order ts rest" and
    o: "o_WalletID order = wid" "o_PairID order = pid" "o_Side order = side" "o_Type order = ot"
      "o_Price order = price" "o_ID order = order_id (OrderSeq k + 1)" and
    book: "\<And>s r. book_at s k' r =
       (if r = pid \<and> s = side \<and> 0 < o_RemainingQty order \<and> ot = OrderTypeLimit
        then srt (side_less side k') (book_at side k pid @ [o_ID order])
        else if r = pid \<and> s = opp side then rest else book_at s k r)"
    by (rule PlaceOrder_accepted [OF run assms(2-4)]) blast
  note D = acceptedD [OF A]
  have left: "book_at (opp side) k' pid = rest" unfolding book by (cases side) simp_all
  have trades: "0 < t_Quantity t \<and> t_TakerWallet t = wid \<and> t_MakerWallet t \<noteq> wid \<and>
      t_MakerOrder t \<in> set (book_at (opp side) k pid) \<and> t_Price t = price_of k (t_MakerOrder t) \<and>
      (ot = OrderTypeLimit \<longrightarrow> price_key (opp side) (t_Price t) \<le> price_key (opp side) price)"
    if "t \<in> set ts" for t
    using that A o unfolding accepted_def trade_ok_def list_all_iff by auto
  have rest: "\<exists>m. mget (Orders k') i = Some m \<and> (o_WalletID m = wid \<or>
      ot = OrderTypeLimit \<and> price_key (opp side) price < price_key (opp side) (o_Price m))"
    if "0 < o_RemainingQty order" "i \<in> set rest" for i
    using D(10) [OF that(1)] that(2) o unfolding list_all_iff unmatched_def price_stop_key by auto
  show ?thesis
    using D(1,2,4,6) o(6) trades rest A o(3) unfolding Inr res left accepted_def by simp
qed

theorem matching_fair_witness:
  "\<exists>k' order ts. PlaceOrder insertion_sort 0 ''FTG-W-000002'' ''FTG-USDC'' OrderSideBuy OrderTypeLimit
      6000000 3000000 101 demo = Some (k', Inr (order, ts)) \<and> Trades k' = Trades demo @ ts \<and>
    o_FilledQty order = traded (o_ID order) ts"
proof -
  obtain k' order ts where run: "PlaceOrder insertion_sort 0 ''FTG-W-000002'' ''FTG-USDC'' OrderSideBuy OrderTypeLimit
      6000000 3000000 101 demo = Some (k', Inr (order, ts))" by (rule demo_bought)
  from matching_fair [OF ins_sort.sort_slice_axioms demo_ok demo_room(3,1) this] show ?thesis
    using run by simp
qed




text \<open>
  The products are \<open>int64\<close>: a limit buy of 2,000,000 FTG at 5 USDC locks a negative amount, and
  the taker fee of 80,000 FTG at 5 USDC is negative. A buyer whose limit is above the price paid
  keeps the difference locked.
\<close>

lemma buy_lock_wraps: "quote_amount 5000000 2000000000000 < 0"
  by code_simp

lemma taker_fee_wraps: "fee 80000000000 5000000 25 < 0"
  by code_simp

lemma price_improvement_stays_locked:
  "map_option (\<lambda>(k, _). map_option (\<lambda>w. lck w ''uusdc'') (mget (Wallets k) ''FTG-W-000002''))
     (demo_buy ''FTG-W-000002'' OrderTypeLimit 6000000 3000000) = Some (Some 3000000)"
  by code_simp

section \<open>Deciding a KYC application\<close>

lemma screened_submitted:
  "a_RequestedTier (screened now k w (submitted req)) = num req ''requested_tier''"
  "a_SanctionsCheck (screened now k w (submitted req)) \<longleftrightarrow> str req ''country'' \<in> set highRiskCountries"
  "a_AMLRiskScore (screened now k w (submitted req)) =
     (if str req ''country'' \<in> set highRiskCountries then 80 else 0)"
  "\<not> a_PEPCheck (screened now k w (submitted req))"
  "a_Status (screened now k w (submitted req)) = KYCStatusPending"
  unfolding screened_def runAMLChecks_def submitted_def Let_def
  by (cases "str req ''country'' \<in> set highRiskCountries"; simp add: add64_def i64_def)+

lemma screened_aml: "a_AMLRiskScore (screened now k w (submitted req)) =
    (if a_SanctionsCheck (screened now k w (submitted req)) then 80 else 0)"
  by (simp only: screened_submitted)

lemma decided_by_country:
  assumes "a_AMLRiskScore s = (if a_SanctionsCheck s then 80 else 0)" "\<not> a_PEPCheck s" "a_Status s = KYCStatusPending"
  shows "a_Status (decided now s) = (if a_SanctionsCheck s then KYCStatusRejected
      else if a_RequestedTier s = KYCTierBasic then KYCStatusApproved else KYCStatusPending)"
    "w_Active (decided_wallet s w) \<longleftrightarrow> w_Active w \<and> \<not> a_SanctionsCheck s"
    "w_KYCTier (decided_wallet s w) =
       (if a_Status (decided now s) = KYCStatusApproved then KYCTierBasic else w_KYCTier w)"
  unfolding decided_def decided_wallet_def clean_def
  by (cases "a_SanctionsCheck s"; cases "a_RequestedTier s = KYCTierBasic"; simp only: assms if_True if_False; simp)+

text \<open>
  C38: The answer to a KYC submission
  that has a wallet below the requested tier and no pending
  application of the user depends on the requested tier and on whether the country is one of the
  exchange's own six: rejected with the wallet deactivated, else approved for the basic tier,
  else pending. The compliance keeper, which screens the same country against its own list, has
  no influence on the answer or on the exchange.
\<close>

theorem kyc_decision:
  assumes "meth r = ''POST''" "readJSON KYCSubmitRequest_fields r = Some req"
    "\<not> list_ex (\<lambda>(_, a). a_UserID a = str req ''user_id'' \<and> a_Status a = KYCStatusPending)
       (KYCApps (er_exchange e))"
    "mget (Wallets (er_exchange e)) (str req ''wallet_id'') = Some w"
    "w_KYCTier w < num req ''requested_tier''"
  shows "\<exists>e' a w'. handleKYCSubmit now r e = (e', Success (RApplication a)) \<and>
    mget (Wallets (er_exchange e')) (str req ''wallet_id'') = Some w' \<and>
    a_Status a = (if str req ''country'' \<in> set highRiskCountries then KYCStatusRejected
      else if num req ''requested_tier'' = KYCTierBasic then KYCStatusApproved else KYCStatusPending) \<and>
    w_Active w' = (w_Active w \<and> str req ''country'' \<notin> set highRiskCountries) \<and>
    w_KYCTier w' = (if a_Status a = KYCStatusApproved then KYCTierBasic else w_KYCTier w) \<and>
    (\<forall>c. snd (handleKYCSubmit now r (e\<lparr>er_kyc := c\<rparr>)) = Success (RApplication a) \<and>
       er_exchange (fst (handleKYCSubmit now r (e\<lparr>er_kyc := c\<rparr>))) = er_exchange e')"
proof -
  let ?k = "er_exchange e"
  let ?s = "screened now ?k w (submitted req)"
  let ?a = "decided now ?s"
  let ?w = "decided_wallet ?s w"
  have s: "SubmitKYC now (submitted req) ?k =
      (ex_save (put_app (a_ID ?a) ?a (put_wallet (str req ''wallet_id'') ?w
         (?k\<lparr>KYCSeq := add64 (KYCSeq ?k) 1\<rparr>))), Inr ?a)"
    using assms(3-5) by (simp add: SubmitKYC_eq pending_def submitted_def Let_def)
  have run: "snd (handleKYCSubmit now r (e\<lparr>er_kyc := c\<rparr>)) = Success (RApplication ?a) \<and>
      er_exchange (fst (handleKYCSubmit now r (e\<lparr>er_kyc := c\<rparr>))) = fst (SubmitKYC now (submitted req) ?k)" for c
    using assms(1,2) by (simp add: handleKYCSubmit_def with_body_def Let_def s)
  have run0: "handleKYCSubmit now r e = (fst (handleKYCSubmit now r e), Success (RApplication ?a))"
    "er_exchange (fst (handleKYCSubmit now r e)) = fst (SubmitKYC now (submitted req) ?k)"
    using assms(1,2) by (simp_all add: handleKYCSubmit_def with_body_def Let_def s)
  have w: "mget (Wallets (er_exchange (fst (handleKYCSubmit now r e)))) (str req ''wallet_id'') = Some ?w"
    unfolding run0(2) s by (simp add: put_app_def go_map)
  have d: "a_Status ?a = (if str req ''country'' \<in> set highRiskCountries then KYCStatusRejected
      else if num req ''requested_tier'' = KYCTierBasic then KYCStatusApproved else KYCStatusPending)"
    "w_Active ?w = (w_Active w \<and> str req ''country'' \<notin> set highRiskCountries)"
    by (simp_all only: decided_by_country(1,2) [OF screened_aml screened_submitted(4,5)] screened_submitted)
  note t = decided_by_country(3) [OF screened_aml screened_submitted(4,5)]
  show ?thesis
    by (rule exI, rule exI, rule exI, intro conjI allI)
      (rule run0(1) w d t run [THEN conjunct1] run [THEN conjunct2, folded run0(2)])+
qed

text \<open>
  Cuba is blocked for the compliance keeper and unknown to the exchange's own list.
\<close>

definition cuba_request :: request where
  "cuba_request = \<lparr>meth = ''POST'', query = [], body = Some (JObj
     [(''user_id'', JStr ''dan''), (''wallet_id'', JStr ''FTG-W-000001''),
      (''requested_tier'', JInt 1), (''country'', JStr ''CU''), (''full_name'', JStr ''Dan'')])\<rparr>"

definition cuba_rpc :: exchange_rpc where
  "cuba_rpc = \<lparr>er_exchange = ex_run insertion_sort [OpCreateWallet 0 ''dan'' ''''], er_kyc = kyc_run []\<rparr>"

lemma cuba_eval:
  "meth cuba_request = ''POST''"
  "case readJSON KYCSubmitRequest_fields cuba_request of None \<Rightarrow> False
   | Some req \<Rightarrow> str req ''user_id'' = ''dan'' \<and> str req ''wallet_id'' = ''FTG-W-000001'' \<and>
       num req ''requested_tier'' = 1 \<and> str req ''country'' = ''CU''"
  "KYCApps (er_exchange cuba_rpc) = []"
  "map_option w_KYCTier (mget (Wallets (er_exchange cuba_rpc)) ''FTG-W-000001'') = Some 0"
  "fst (IsJurisdictionBlocked ''CU'' (er_kyc cuba_rpc))"
  by code_simp+

theorem kyc_decision_witness:
  "fst (IsJurisdictionBlocked ''CU'' (er_kyc cuba_rpc)) \<and>
   (\<exists>e' a. handleKYCSubmit 3 cuba_request cuba_rpc = (e', Success (RApplication a)) \<and>
     a_Status a = KYCStatusApproved)"
proof -
  obtain req where req: "readJSON KYCSubmitRequest_fields cuba_request = Some req" "str req ''user_id'' = ''dan''"
    "str req ''wallet_id'' = ''FTG-W-000001''" "num req ''requested_tier'' = 1" "str req ''country'' = ''CU''"
    using cuba_eval(2) by (auto split: option.splits)
  obtain w where w: "mget (Wallets (er_exchange cuba_rpc)) ''FTG-W-000001'' = Some w" "w_KYCTier w = 0"
    using cuba_eval(4) by auto
  have "''CU'' \<notin> set highRiskCountries" by (simp add: highRiskCountries_def)
  moreover have "KYCTierBasic = 1" by simp
  ultimately show ?thesis
    using kyc_decision [OF cuba_eval(1) req(1), of cuba_rpc w 3] cuba_eval(3,5) w req by auto
qed

end
