(* ===== verification/ExchangeMatch.thy ===== *)
theory ExchangeMatch
  imports ExchangeProps "HOL-Library.While_Combinator"
begin

text \<open>
  What matching computes. Two views of the loop of \<open>matchOrder\<close>: the loop as the code writes it,
  with an index into a slice it removes elements from, which ends and does what \<open>match_loop\<close>
  does; and an abstract matcher on offers, a wallet, a price and a quantity each, which says
  nothing of orders, wallets' balances or trades' other fields. An accepted order trades exactly
  as the abstract matcher does, hence fills all that is on offer within its limit.
\<close>

section \<open>The loop with the code's index\<close>

text \<open>
  The variables of the loop: whether it has left by \<open>break\<close>, the index, the slice, the trades
  made, the keeper. \<open>Panicked\<close> is a nil dereference in the body.
\<close>

datatype loop = Panicked | Loop bool nat "string list" "trade list" exchange

fun loop_cond :: "string \<Rightarrow> loop \<Rightarrow> bool" where
  "loop_cond oid Panicked = False"
| "loop_cond oid (Loop left i book ts k) =
     (\<not> left \<and> i < length book \<and>
      (case mget (Orders k) oid of None \<Rightarrow> False | Some order \<Rightarrow> 0 < o_RemainingQty order))"

fun loop_body :: "time \<Rightarrow> trading_pair \<Rightarrow> int64 \<Rightarrow> string \<Rightarrow> loop \<Rightarrow> loop" where
  "loop_body now pair blockHeight oid Panicked = Panicked"
| "loop_body now pair blockHeight oid (Loop left i book ts k) =
     (case (mget (Orders k) oid, mget (Orders k) (book ! i)) of
        (Some order, Some maker) \<Rightarrow>
          if price_stop order maker then Loop True i book ts k
          else if o_WalletID maker = o_WalletID order then Loop False (i + 1) book ts k
          else (case fill_order now pair blockHeight oid (book ! i) order maker k of
              None \<Rightarrow> Panicked
            | Some (k, t) \<Rightarrow>
                if sub64 (o_RemainingQty maker) (t_Quantity t) = 0
                then Loop False i (take i book @ drop (i + 1) book) (ts @ [t]) k
                else Loop False (i + 1) book (ts @ [t]) k)
      | _ \<Rightarrow> Panicked)"

definition match_while ::
  "time \<Rightarrow> trading_pair \<Rightarrow> int64 \<Rightarrow> string \<Rightarrow> string list \<Rightarrow> exchange \<Rightarrow> loop option" where
  "match_while now pair blockHeight oid book k =
     while_option (loop_cond oid) (loop_body now pair blockHeight oid) (Loop False 0 book [] k)"

fun loop_left :: "loop \<Rightarrow> nat" where
  "loop_left Panicked = 0"
| "loop_left (Loop left i book ts k) = (if left then 0 else Suc (length book - i))"

lemma loop_body_less:
  "loop_cond oid s \<Longrightarrow> loop_left (loop_body now pair bh oid s) < loop_left s"
  by (cases s) (auto split: option.splits)

lemma match_while_returns: "\<exists>s. match_while now pair bh oid book k = Some s"
  unfolding match_while_def
  by (rule measure_while_option_Some [where P = "\<lambda>_. True" and f = loop_left])
    (simp_all add: loop_body_less)

text \<open>
  What the loop holds when it ends, against the result of \<open>match_loop\<close> on the part of the slice
  from the index on: \<open>seen\<close> is the part before it.
\<close>

fun same_result ::
  "loop \<Rightarrow> string list \<Rightarrow> trade list \<Rightarrow> (exchange \<times> string list \<times> trade list) option \<Rightarrow> bool" where
  "same_result Panicked seen ts r = (r = None)"
| "same_result (Loop left i book ts' k) seen ts r =
     (\<exists>rest us. r = Some (k, rest, us) \<and> book = seen @ rest \<and> ts' = ts @ us)"

definition known :: "string list \<Rightarrow> exchange \<Rightarrow> bool" where
  "known ids k \<longleftrightarrow> (\<forall>i \<in> set ids. mget (Orders k) i \<noteq> None)"

lemma same_result_own:
  "same_result s (seen @ [mid]) ts r \<Longrightarrow>
   same_result s seen ts (map_option (\<lambda>(k, rest, us). (k, mid # rest, us)) r)"
  by (cases s) auto

lemma same_result_fill:
  "same_result s (seen @ kept) (ts @ [t]) r \<Longrightarrow>
   same_result s seen ts (map_option (\<lambda>(k, rest, us). (k, kept @ rest, t # us)) r)"
  by (cases s) auto

lemma match_loop_own:
  "mget (Orders k) oid = Some order \<Longrightarrow> mget (Orders k) mid = Some maker \<Longrightarrow> 0 < o_RemainingQty order \<Longrightarrow>
   \<not> price_stop order maker \<Longrightarrow> o_WalletID maker = o_WalletID order \<Longrightarrow>
   match_loop now pair bh oid (mid # mids) k =
     map_option (\<lambda>(k, rest, us). (k, mid # rest, us)) (match_loop now pair bh oid mids k)"
  by (cases "match_loop now pair bh oid mids k") (auto split: prod.splits)

lemma match_loop_fill:
  "mget (Orders k) oid = Some order \<Longrightarrow> mget (Orders k) mid = Some maker \<Longrightarrow> 0 < o_RemainingQty order \<Longrightarrow>
   \<not> price_stop order maker \<Longrightarrow> o_WalletID maker \<noteq> o_WalletID order \<Longrightarrow>
   match_loop now pair bh oid (mid # mids) k =
     (case fill_order now pair bh oid mid order maker k of None \<Rightarrow> None
      | Some (k1, t) \<Rightarrow> map_option
          (\<lambda>(k, rest, us). (k, (if sub64 (o_RemainingQty maker) (t_Quantity t) = 0 then [] else [mid]) @ rest, t # us))
          (match_loop now pair bh oid mids k1))"
  by (cases "fill_order now pair bh oid mid order maker k") (auto split: prod.splits option.splits bind_splits)

lemma fill_known:
  assumes "fill_order now pair bh oid mid order maker k = Some (k1, t)" "o_WalletID maker \<noteq> o_WalletID order"
    "known ids k"
  shows "known ids k1"
  using assms by (auto elim!: fill_orderE simp: known_def go_map)

lemma match_while_from:
  "known (oid # todo) k \<Longrightarrow>
   \<exists>s. while_option (loop_cond oid) (loop_body now pair bh oid) (Loop False (length seen) (seen @ todo) ts k) = Some s \<and>
     same_result s seen ts (match_loop now pair bh oid todo k)"
proof (induction todo arbitrary: seen ts k)
  case Nil
  then show ?case by (simp add: while_option_unfold)
next
  case (Cons mid todo)
  from Cons.prems obtain order maker where
    o: "mget (Orders k) oid = Some order" and m: "mget (Orders k) mid = Some maker"
    and known: "known (oid # todo) k" by (auto simp: known_def)
  let ?W = "while_option (loop_cond oid) (loop_body now pair bh oid)"
  let ?s = "Loop False (length seen) (seen @ mid # todo) ts k"
  show ?case
  proof (cases "0 < o_RemainingQty order")
    case False
    then show ?thesis using o m by (simp add: while_option_unfold)
  next
    case pos: True
    then have unf: "?W ?s = ?W (loop_body now pair bh oid ?s)"
      using o by (subst while_option_unfold) simp
    consider (stop) "price_stop order maker"
      | (own) "\<not> price_stop order maker" "o_WalletID maker = o_WalletID order"
      | (panic) "\<not> price_stop order maker" "o_WalletID maker \<noteq> o_WalletID order"
          "fill_order now pair bh oid mid order maker k = None"
      | (fill) k1 t where "\<not> price_stop order maker" "o_WalletID maker \<noteq> o_WalletID order"
          "fill_order now pair bh oid mid order maker k = Some (k1, t)"
      by (cases "fill_order now pair bh oid mid order maker k") auto
    then show ?thesis
    proof cases
      case stop
      then show ?thesis using o m by (subst unf) (simp add: while_option_unfold)
    next
      case own
      have "loop_body now pair bh oid ?s = Loop False (length (seen @ [mid])) ((seen @ [mid]) @ todo) ts k"
        using own o m by simp
      with Cons.IH [OF known, of "seen @ [mid]" ts] show ?thesis
        unfolding unf match_loop_own [OF o m pos own] using same_result_own by metis
    next
      case panic
      then show ?thesis using o m pos
        by (subst unf) (simp add: while_option_unfold match_loop_fill [OF o m pos])
    next
      case fill
      let ?kept = "if sub64 (o_RemainingQty maker) (t_Quantity t) = 0 then [] else [mid]"
      have "loop_body now pair bh oid ?s =
          Loop False (length (seen @ ?kept)) ((seen @ ?kept) @ todo) (ts @ [t]) k1"
        using fill o m by simp
      with Cons.IH [OF fill_known [OF fill(3,2) known], of "seen @ ?kept" "ts @ [t]"] show ?thesis
        unfolding unf match_loop_fill [OF o m pos fill(1,2)] fill(3) option.case prod.case
        using same_result_fill by metis
    qed
  qed
qed

text \<open>
  C16: The matching loop ends. Written as in the code, with an index into the slice of the
  opposite book from which filled orders are removed, the loop ends for every state and every
  slice, and where the orders of the slice exist it ends with the keeper, the slice and the
  trades of \<open>match_loop\<close>, panicking exactly where that does.
\<close>

theorem matching_loop_ends:
  "\<exists>s. match_while now pair bh oid book k = Some s \<and>
    ((\<forall>i \<in> set (oid # book). mget (Orders k) i \<noteq> None) \<longrightarrow>
     (case match_loop now pair bh oid book k of
        None \<Rightarrow> s = Panicked
      | Some (k', rest, ts) \<Rightarrow> \<exists>left i. s = Loop left i rest ts k'))"
proof -
  obtain s where s: "match_while now pair bh oid book k = Some s" using match_while_returns by blast
  moreover have "case match_loop now pair bh oid book k of None \<Rightarrow> s = Panicked
      | Some (k', rest, ts) \<Rightarrow> \<exists>left i. s = Loop left i rest ts k'"
    if "\<forall>i \<in> set (oid # book). mget (Orders k) i \<noteq> None"
  proof -
    from that have "known (oid # book) k" by (simp add: known_def)
    from match_while_from [OF this, of now pair bh "[]" "[]"] s
    have "same_result s [] [] (match_loop now pair bh oid book k)" by (simp add: match_while_def)
    then show ?thesis by (cases s) auto
  qed
  ultimately show ?thesis by blast
qed

section \<open>An abstract matcher\<close>

text \<open>
  A resting order as a taker sees it, and matching a quantity against a list of them: those of
  the taker's own wallet are passed over, the first one beyond the limit ends it, any other gives
  what it has, up to what is wanted. The result is the fills (offer, price, quantity), the offers
  left and the quantity left.
\<close>

record offer =
  of_ID :: string
  of_Wallet :: string
  of_Price :: int
  of_Left :: int

fun take_offers ::
  "(int \<Rightarrow> bool) \<Rightarrow> string \<Rightarrow> int \<Rightarrow> offer list \<Rightarrow> (string \<times> int \<times> int) list \<times> offer list \<times> int" where
  "take_offers acceptable wid q [] = ([], [], q)"
| "take_offers acceptable wid q (x # xs) =
     (if q \<le> 0 \<or> \<not> acceptable (of_Price x) then ([], x # xs, q)
      else if of_Wallet x = wid then
        let (fills, left, q') = take_offers acceptable wid q xs in (fills, x # left, q')
      else
        let n = min q (of_Left x);
            (fills, left, q') = take_offers acceptable wid (q - n) xs
        in ((of_ID x, of_Price x, n) # fills,
            (if n = of_Left x then left else x\<lparr>of_Left := of_Left x - n\<rparr> # left), q'))"

definition acceptable :: "order_side \<Rightarrow> order_type \<Rightarrow> int \<Rightarrow> int \<Rightarrow> bool" where
  "acceptable side ot limit p \<longleftrightarrow>
     (ot = OrderTypeLimit \<longrightarrow> (if side = OrderSideBuy then p \<le> limit else limit \<le> p))"

definition offer_of :: "exchange \<Rightarrow> string \<Rightarrow> offer" where
  "offer_of k i =
     (case mget (Orders k) i of
        None \<Rightarrow> \<lparr>of_ID = i, of_Wallet = [], of_Price = 0, of_Left = 0\<rparr>
      | Some m \<Rightarrow> \<lparr>of_ID = i, of_Wallet = o_WalletID m, of_Price = o_Price m, of_Left = o_RemainingQty m\<rparr>)"

definition fill_of :: "trade \<Rightarrow> string \<times> int \<times> int" where
  "fill_of t = (t_MakerOrder t, t_Price t, t_Quantity t)"

lemma price_stop_acceptable:
  "price_stop order maker \<longleftrightarrow> \<not> acceptable (o_Side order) (o_Type order) (o_Price order) (o_Price maker)"
  by (simp add: price_stop_def acceptable_def not_less not_le)

lemma offer_of_cong: "mget (Orders k') i = mget (Orders k) i \<Longrightarrow> offer_of k' i = offer_of k i"
  by (simp add: offer_of_def)

lemma offers_cong:
  "(\<And>i. i \<in> set book \<Longrightarrow> mget (Orders k') i = mget (Orders k) i) \<Longrightarrow>
   map (offer_of k') book = map (offer_of k) book"
  by (rule map_cong [OF refl offer_of_cong])

lemma loop_takes:
  "match_loop now pair bh oid book k = Some (k', rest, ts) \<Longrightarrow> loop_ok oid book k \<Longrightarrow>
   mget (Orders k) oid = Some order \<Longrightarrow>
   \<exists>order'. mget (Orders k') oid = Some order' \<and>
     take_offers (acceptable (o_Side order) (o_Type order) (o_Price order)) (o_WalletID order)
       (o_RemainingQty order) (map (offer_of k) book) =
     (map fill_of ts, map (offer_of k') rest, o_RemainingQty order')"
proof (induction arbitrary: order rule: match_loop_induct)
  case (Nil k)
  then show ?case by simp
next
  case (Stop mid mids k taker maker)
  then have "taker = order" by simp
  with Stop show ?case by (auto simp: price_stop_acceptable offer_of_def)
next
  case (Own mid mids k k' rest ts taker maker)
  then have [simp]: "taker = order" by simp
  note tl = loop_ok_tl [OF Own.prems(1)] and E = loop_okE [OF Own.prems(1) Own.hyps(1,2)]
  have keep: "offer_of k' mid = offer_of k mid"
    using loop_frame [OF Own.hyps(6) tl] E(5,8) by (intro offer_of_cong) auto
  have x: "of_Wallet (offer_of k mid) = o_WalletID order" "of_Price (offer_of k mid) = o_Price maker"
    using Own.hyps(2,5) by (simp_all add: offer_of_def)
  from Own.IH [OF tl Own.prems(2)] show ?case
    using Own.hyps(3,4) by (auto simp: x keep price_stop_acceptable)
next
  case (Fill mid mids k k1 t k' rest ts taker maker)
  then have [simp]: "taker = order" by simp
  note step = Fill.prems(1) Fill.hyps(1,2,3,5,6)
  note F = fill_loop [OF step] and E = loop_okE [OF Fill.prems(1) Fill.hyps(1,2)]
    and ok1 = fill_loop_ok [OF step]
  let ?o = "filled (t_Quantity t) order" and ?m = "maker_filled now (t_Quantity t) maker"
  have o1: "mget (Orders k1) oid = Some ?o" using E by (simp add: F(7) go_map)
  have T: "o_Side ?o = o_Side order" "o_Type ?o = o_Type order" "o_Price ?o = o_Price order"
    "o_WalletID ?o = o_WalletID order" by (simp_all add: filled_def)
  have q: "t_Quantity t = min (o_RemainingQty order) (o_RemainingQty maker)"
    by (simp add: F(2) fill_qty_def min_def)
  have rem: "o_RemainingQty ?o = o_RemainingQty order - t_Quantity t"
    using filled_qty(2) [OF E(2), of "t_Quantity t"] F(16) q by simp
  have remm: "o_RemainingQty ?m = o_RemainingQty maker - t_Quantity t"
    using filled_qty(2) [OF E(12), of "t_Quantity t"] F(16) q by simp
  have sub: "sub64 (o_RemainingQty maker) (t_Quantity t) = o_RemainingQty maker - t_Quantity t"
    using remm by (simp add: maker_filled_def filled_def Let_def)
  have others: "map (offer_of k1) mids = map (offer_of k) mids"
    using E by (intro offers_cong) (auto simp: F(7) go_map)
  have x: "offer_of k mid = \<lparr>of_ID = mid, of_Wallet = o_WalletID maker, of_Price = o_Price maker,
      of_Left = o_RemainingQty maker\<rparr>" using Fill.hyps(2) by (simp add: offer_of_def)
  have "mget (Orders k') mid = mget (Orders k1) mid"
    using loop_frame [OF Fill.hyps(7) ok1] E by auto
  then have x': "offer_of k' mid = (offer_of k mid)\<lparr>of_Left := o_RemainingQty maker - t_Quantity t\<rparr>"
    unfolding x using E(5) remm by (simp add: offer_of_def F(7) go_map maker_filled_def filled_def Let_def)
  have f: "fill_of t = (mid, o_Price maker, t_Quantity t)"
    using E by (simp add: fill_of_def F(3) F(1) new_trade_def Let_def)
  from Fill.IH [OF ok1 o1, unfolded T rem others] obtain order' where
    "mget (Orders k') oid = Some order'"
    "take_offers (acceptable (o_Side order) (o_Type order) (o_Price order)) (o_WalletID order)
       (o_RemainingQty order - t_Quantity t) (map (offer_of k) mids) =
     (map fill_of ts, map (offer_of k') rest, o_RemainingQty order')" by blast
  then show ?case
    using Fill.hyps(3-5) by (simp add: x x' f sub price_stop_acceptable q [symmetric] Let_def)
qed

section \<open>Placing an order is taking offers\<close>

lemma PlaceOrder_takes:
  assumes "ex_ok k" "in64 quantity" "OrderSeq k < 2 ^ 63 - 1"
    "PlaceOrder srt now wid pid side ot price quantity bh k = Some (k', Inr (order, ts))"
  shows "take_offers (acceptable side ot price) wid quantity (map (offer_of k) (book_at (opp side) k pid)) =
    (map fill_of ts, map (offer_of k') (book_at (opp side) k' pid), o_RemainingQty order)"
  using assms(4)
proof (cases rule: PlaceOrderE)
  case (1 kc w pair w' o0 k1 rest order1)
  note ready = filed_ready [OF assms(1-3) 1(1,3)] and kc = check_order_frame [OF 1(1)]
  let ?book = "book_at (opp side) k pid" and ?f = "filed wid w' o0 kc"
  have o0: "o_Side o0 = side" "o_Type o0 = ot" "o_Price o0 = price" "o_WalletID o0 = wid"
    "o_RemainingQty o0 = quantity" "o_PairID o0 = pid" by (simp_all add: 1(3))
  have of: "mget (Orders ?f) (o_ID o0) = Some o0" by (simp add: go_map)
  have new: "o_ID o0 \<notin> set ?book" using ready(3) by (simp add: loop_ok_def)
  have before: "map (offer_of ?f) ?book = map (offer_of k) ?book"
    using new by (intro offers_cong) (auto simp: kc(2) go_map)
  have "o_ID o0 \<notin> set rest" using loop_rest [OF 1(4) ready(3)] by (simp add: loop_ok_def)
  then have after: "map (offer_of k') rest = map (offer_of k1) rest"
    by (intro offers_cong) (auto simp: 1(7) go_map)
  from loop_taker [OF 1(4) ready(3) of] 1(5) have t: "o_Side order1 = side" "o_PairID order1 = pid"
    by (auto simp: advanced_def same_terms_def o0)
  have left: "book_at (opp side) k' pid = rest"
    by (simp add: 1(7) t book_at_booked)
  from loop_takes [OF 1(4) ready(3) of] 1(5) have
    "take_offers (acceptable side ot price) wid quantity (map (offer_of k) ?book) =
       (map fill_of ts, map (offer_of k1) rest, o_RemainingQty order1)"
    by (auto simp: o0 before)
  then show ?thesis by (simp add: left after 1(6))
qed

text \<open>
  C1: Matching refines the abstract matcher. In a state with the invariant, an accepted order
  makes exactly the fills \<open>take_offers\<close> computes from the offers of the opposite book, its
  quantity, its wallet and its limit; the book is left with the offers it leaves, and the order
  with the quantity it leaves.
\<close>

theorem matching_refines:
  assumes "ex_ok k" "in64 quantity" "OrderSeq k < 2 ^ 63 - 1"
    "PlaceOrder srt now wid pid side ot price quantity bh k = Some (k', Inr (order, ts))"
  shows "take_offers (acceptable side ot price) wid quantity (map (offer_of k) (book_at (opp side) k pid)) =
    (map fill_of ts, map (offer_of k') (book_at (opp side) k' pid), o_RemainingQty order)"
  by (rule PlaceOrder_takes [OF assms])

section \<open>How much is filled\<close>

definition on_offer :: "(int \<Rightarrow> bool) \<Rightarrow> string \<Rightarrow> offer list \<Rightarrow> int" where
  "on_offer ok wid xs = sum_list (map of_Left (filter (\<lambda>x. of_Wallet x \<noteq> wid \<and> ok (of_Price x)) xs))"

lemma on_offer_nonneg: "\<forall>x \<in> set xs. 0 < of_Left x \<Longrightarrow> 0 \<le> on_offer ok wid xs"
  unfolding on_offer_def by (rule sum_list_nonneg) (use less_imp_le in auto)

lemma on_offer_beyond: "\<forall>x \<in> set xs. \<not> ok (of_Price x) \<Longrightarrow> on_offer ok wid xs = 0"
  by (simp add: on_offer_def)

lemma take_offers_left:
  assumes "0 \<le> q" "\<forall>x \<in> set xs. 0 < of_Left x"
    "sorted_wrt (\<lambda>x y. ok (of_Price y) \<longrightarrow> ok (of_Price x)) xs"
    "take_offers ok wid q xs = (fills, left, q')"
  shows "q' = q - min q (on_offer ok wid xs)"
  using assms
proof (induction xs arbitrary: q fills left q')
  case (Cons x xs)
  have rest: "0 \<le> on_offer ok wid xs" using Cons.prems(2) by (simp add: on_offer_nonneg)
  consider (stop) "q \<le> 0" | (beyond) "0 < q" "\<not> ok (of_Price x)"
    | (own) "0 < q" "ok (of_Price x)" "of_Wallet x = wid"
    | (fill) "0 < q" "ok (of_Price x)" "of_Wallet x \<noteq> wid" by linarith
  then show ?case
  proof cases
    case stop
    then show ?thesis using Cons.prems on_offer_nonneg [of "x # xs" ok wid] by auto
  next
    case beyond
    then have "on_offer ok wid (x # xs) = 0" using Cons.prems(3) by (intro on_offer_beyond) auto
    then show ?thesis using beyond Cons.prems by simp
  next
    case own
    then show ?thesis using Cons.prems Cons.IH [of q] by (auto simp: on_offer_def split: prod.splits)
  next
    case fill
    then have o: "on_offer ok wid (x # xs) = of_Left x + on_offer ok wid xs" by (simp add: on_offer_def)
    obtain fs l where "take_offers ok wid (q - min q (of_Left x)) xs = (fs, l, q')"
      using fill Cons.prems(4) by (auto simp: Let_def split: prod.splits)
    with Cons.IH [OF _ _ _ this] Cons.prems
    have "q' = q - min q (of_Left x) - min (q - min q (of_Left x)) (on_offer ok wid xs)" by simp
    then show ?thesis using rest Cons.prems(2) by (auto simp: o min_def)
  qed
qed (simp add: on_offer_def)

text \<open>The book's order makes the offers within a limit a prefix.\<close>

lemma acceptable_key:
  "acceptable side ot limit p \<longleftrightarrow> (ot = OrderTypeLimit \<longrightarrow> price_key (opp side) p \<le> price_key (opp side) limit)"
  by (cases side) (auto simp: acceptable_def price_key_def)

lemma offers_sorted:
  assumes "sorted_book (opp side) k book" "\<forall>i \<in> set book. mget (Orders k) i \<noteq> None"
  shows "sorted_wrt (\<lambda>x y. acceptable side ot limit (of_Price y) \<longrightarrow> acceptable side ot limit (of_Price x))
    (map (offer_of k) book)"
  using assms
proof (induction book)
  case (Cons i book)
  then have "of_Price (offer_of k j) = price_of k j" if "j \<in> set (i # book)" for j
    using that by (auto simp: offer_of_def price_of_def split: option.splits)
  with Cons show ?case by (auto simp: sorted_book_def acceptable_key)
qed simp

text \<open>
  C4: Whatever is on offer is taken. In a state with the invariant, an accepted order is filled
  with the smaller of its quantity and the sum of what the opposite book offers within its limit
  from other wallets: it is filled entirely as soon as that much is on offer.
\<close>

theorem fills_what_is_offered:
  assumes "ex_ok k" "in64 quantity" "OrderSeq k < 2 ^ 63 - 1"
    "PlaceOrder srt now wid pid side ot price quantity bh k = Some (k', Inr (order, ts))"
    "offered = on_offer (acceptable side ot price) wid (map (offer_of k) (book_at (opp side) k pid))"
  shows "o_FilledQty order = min quantity offered \<and>
    (o_Status order = OrderStatusFilled \<longleftrightarrow> quantity \<le> offered) \<and>
    (o_Status order = OrderStatusOpen \<longleftrightarrow> offered = 0)"
proof -
  let ?book = "book_at (opp side) k pid"
  obtain rest w pair where A: "accepted k k' order ts rest" and q: "o_Quantity order = quantity"
    and o: "o_PairID order = pid" "o_Side order = side"
    by (rule PlaceOrder_accepted [OF assms(4,1-3)]) blast
  have ok: "orders_ok k" "book_ok (opp side) pid k" using assms(1) by (simp_all add: ex_ok_def)
  have live: "\<exists>m. mget (Orders k) i = Some m \<and> 0 < o_RemainingQty m" if "i \<in> set ?book" for i
    using that ok orders_okD(1) [OF ok(1)] order_ok_live by (force simp: book_ok_def in_book_def)
  have pos: "\<forall>x \<in> set (map (offer_of k) ?book). 0 < of_Left x"
    using live by (force simp: offer_of_def)
  have srt: "sorted_wrt (\<lambda>x y. acceptable side ot price (of_Price y) \<longrightarrow> acceptable side ot price (of_Price x))
      (map (offer_of k) ?book)"
    using ok(2) live by (intro offers_sorted) (fastforce simp: book_ok_def)+
  have oo: "qty_ok order" "status_ok (o_Status order) (o_FilledQty order) (o_RemainingQty order)"
    "o_Status order \<noteq> OrderStatusCancelled"
    using acceptedD(3,11) [OF A] by (simp_all add: order_ok_def)
  have "0 \<le> quantity" using oo(1) q by (simp add: qty_ok_def)
  from take_offers_left [OF this pos srt PlaceOrder_takes [OF assms(1-4)]]
  have r: "o_RemainingQty order = quantity - min quantity offered" by (simp add: assms(5))
  moreover have "o_FilledQty order + o_RemainingQty order = quantity" "0 < quantity"
    using oo(1) q by (simp_all add: qty_ok_def)
  moreover have "0 \<le> offered" unfolding assms(5) by (rule on_offer_nonneg [OF pos])
  ultimately show ?thesis using oo(2,3) by (cases "o_Status order") auto
qed

section \<open>On a concrete keeper\<close>

lemma demo_offers:
  "map (offer_of demo) (book_at OrderSideSell demo ''FTG-USDC'') =
   [\<lparr>of_ID = ''FTG-ORD-00000001'', of_Wallet = ''FTG-W-000001'', of_Price = 5000000, of_Left = 5000000\<rparr>]"
  by code_simp

theorem matching_refines_witness:
  "\<exists>k' order ts. PlaceOrder insertion_sort 0 ''FTG-W-000002'' ''FTG-USDC'' OrderSideBuy OrderTypeLimit
      6000000 3000000 101 demo = Some (k', Inr (order, ts)) \<and>
    map fill_of ts = [(''FTG-ORD-00000001'', 5000000, 3000000)] \<and> o_RemainingQty order = 0"
proof -
  obtain k' order ts where run: "PlaceOrder insertion_sort 0 ''FTG-W-000002'' ''FTG-USDC'' OrderSideBuy OrderTypeLimit
      6000000 3000000 101 demo = Some (k', Inr (order, ts))" by (rule demo_bought)
  from matching_refines [OF demo_ok demo_room(3,1) this] show ?thesis
    using run by (simp add: demo_offers acceptable_def min_def Let_def)
qed

theorem fills_what_is_offered_witness:
  "\<exists>k' order ts. PlaceOrder insertion_sort 0 ''FTG-W-000002'' ''FTG-USDC'' OrderSideBuy OrderTypeLimit
      6000000 3000000 101 demo = Some (k', Inr (order, ts)) \<and> o_Status order = OrderStatusFilled"
proof -
  obtain k' order ts where run: "PlaceOrder insertion_sort 0 ''FTG-W-000002'' ''FTG-USDC'' OrderSideBuy OrderTypeLimit
      6000000 3000000 101 demo = Some (k', Inr (order, ts))" by (rule demo_bought)
  from fills_what_is_offered [OF demo_ok demo_room(3,1) this refl] show ?thesis
    using run by (simp add: demo_offers acceptable_def on_offer_def)
qed

text \<open>Bob's order for 3 FTG, filed and about to be matched with the order that rests.\<close>

definition demo_taking :: exchange where
  "demo_taking = put_order ''FTG-ORD-00000002''
     (new_order 0 2 (the (mget (Wallets demo) ''FTG-W-000002'')) ''FTG-W-000002'' ''FTG-USDC''
        OrderSideBuy OrderTypeMarket 5000000 3000000) demo"

theorem matching_loop_ends_witness:
  "\<exists>left i ts k. match_while 0 defaultPair 101 ''FTG-ORD-00000002'' [''FTG-ORD-00000001''] demo_taking =
      Some (Loop left i [''FTG-ORD-00000001''] ts k) \<and> map fill_of ts = [(''FTG-ORD-00000001'', 5000000, 3000000)]"
proof -
  have known: "\<forall>i \<in> set [''FTG-ORD-00000002'', ''FTG-ORD-00000001'']. mget (Orders demo_taking) i \<noteq> None"
    by code_simp
  have "case match_loop 0 defaultPair 101 ''FTG-ORD-00000002'' [''FTG-ORD-00000001''] demo_taking of
      None \<Rightarrow> False
    | Some (k, rest, ts) \<Rightarrow> rest = [''FTG-ORD-00000001''] \<and>
        map fill_of ts = [(''FTG-ORD-00000001'', 5000000, 3000000)]" by code_simp
  with matching_loop_ends [of 0 defaultPair 101 "''FTG-ORD-00000002''" "[''FTG-ORD-00000001'']" demo_taking] known
  show ?thesis by (fastforce split: option.splits prod.splits)
qed

end
