(* ===== verification/ExchangeTyped.thy ===== *)
theory ExchangeTyped
  imports ExchangeProps
begin

text \<open>
  Every integer of the exchange is an \<open>int64\<close>: the model computes with \<open>int\<close> and writes the
  wrap-around out, and no operation forgets it. Where a call's arguments are in range, all that the
  keeper stores is, for any state it is called in.
\<close>

section \<open>Typed values\<close>

definition all_values :: "('v \<Rightarrow> bool) \<Rightarrow> ('k, 'v) gomap \<Rightarrow> bool" where
  "all_values P m \<longleftrightarrow> list_all (\<lambda>(k, v). P v) m"

lemma all_values_get: "all_values P m \<Longrightarrow> mget m k = Some v \<Longrightarrow> P v"
  by (auto simp: all_values_def list_all_iff dest: map_of_SomeD)

lemma all_values_put [simp]: "all_values P m \<Longrightarrow> P v \<Longrightarrow> all_values P (mput k v m)"
  by (induction m) (auto simp: all_values_def)

lemma all_values_Nil [simp]: "all_values P []"
  by (simp add: all_values_def)

lemma in64_small [simp]: "in64 0" "in64 1"
  by (simp_all add: in64_def)

definition wallet_typed :: "wallet \<Rightarrow> bool" where
  "wallet_typed w \<longleftrightarrow> in64 (w_KYCTier w) \<and> all_values in64 (w_Balances w) \<and> all_values in64 (w_Locked w)"

definition order_typed :: "order \<Rightarrow> bool" where
  "order_typed a \<longleftrightarrow> in64 (o_Price a) \<and> in64 (o_Quantity a) \<and> in64 (o_FilledQty a) \<and> in64 (o_RemainingQty a)"

definition trade_typed :: "trade \<Rightarrow> bool" where
  "trade_typed t \<longleftrightarrow> in64 (t_Price t) \<and> in64 (t_Quantity t) \<and> in64 (t_MakerFee t) \<and> in64 (t_TakerFee t) \<and>
     in64 (t_BlockHeight t)"

definition application_typed :: "kyc_application \<Rightarrow> bool" where
  "application_typed a \<longleftrightarrow> in64 (a_RequestedTier a) \<and> in64 (a_CurrentTier a) \<and> in64 (a_AMLRiskScore a)"

definition limit_typed :: "daily_limit \<Rightarrow> bool" where
  "limit_typed d \<longleftrightarrow> in64 (dl_BuyVolume d) \<and> in64 (dl_SellVolume d) \<and> in64 (dl_TotalVolume d)"

definition ex_typed :: "exchange \<Rightarrow> bool" where
  "ex_typed k \<longleftrightarrow>
     all_values wallet_typed (Wallets k) \<and> all_values order_typed (Orders k) \<and>
     list_all trade_typed (Trades k) \<and> all_values application_typed (KYCApps k) \<and>
     all_values limit_typed (DailyLimits k) \<and>
     in64 (WalletSeq k) \<and> in64 (OrderSeq k) \<and> in64 (TradeSeq k) \<and> in64 (KYCSeq k)"

text \<open>A call whose integers come from a request or from the block counter.\<close>

fun op_in64 :: "ex_op \<Rightarrow> bool" where
  "op_in64 (OpDeposit w d x) \<longleftrightarrow> in64 x"
| "op_in64 (OpWithdraw w d x) \<longleftrightarrow> in64 x"
| "op_in64 (OpPlaceOrder now w p s t price quantity h) \<longleftrightarrow> in64 price \<and> in64 quantity \<and> in64 h"
| "op_in64 (OpSubmitKYC now app) \<longleftrightarrow> application_typed app"
| "op_in64 _ \<longleftrightarrow> True"

lemma wallet_typed_mods [simp]:
  "wallet_typed w \<Longrightarrow> wallet_typed (add_balance d x w)" "wallet_typed w \<Longrightarrow> wallet_typed (sub_balance d x w)"
  "wallet_typed w \<Longrightarrow> wallet_typed (add_locked d x w)" "wallet_typed w \<Longrightarrow> wallet_typed (sub_locked d x w)"
  "wallet_typed w \<Longrightarrow> in64 t \<Longrightarrow> wallet_typed (w\<lparr>w_KYCTier := t\<rparr>)"
  "wallet_typed w \<Longrightarrow> wallet_typed (w\<lparr>w_Active := b\<rparr>)"
  by (simp_all add: wallet_typed_def add_balance_def sub_balance_def add_locked_def sub_locked_def)

lemma ex_typed_puts [simp]:
  "ex_typed k \<Longrightarrow> wallet_typed w \<Longrightarrow> ex_typed (put_wallet i w k)"
  "ex_typed k \<Longrightarrow> order_typed a \<Longrightarrow> ex_typed (put_order i a k)"
  "ex_typed k \<Longrightarrow> application_typed p \<Longrightarrow> ex_typed (put_app i p k)"
  "ex_typed k \<Longrightarrow> limit_typed l \<Longrightarrow> ex_typed (put_daily now u l k)"
  "ex_typed (ex_save k) = ex_typed k"
  "ex_typed (put_book s q b k) = ex_typed k"
  by (simp_all add: ex_typed_def put_wallet_def put_order_def put_app_def put_daily_def ex_save_def put_book_def)

lemma ex_typed_get:
  "ex_typed k \<Longrightarrow> mget (Wallets k) i = Some w \<Longrightarrow> wallet_typed w"
  "ex_typed k \<Longrightarrow> mget (Orders k) i = Some a \<Longrightarrow> order_typed a"
  "ex_typed k \<Longrightarrow> mget (KYCApps k) i = Some p \<Longrightarrow> application_typed p"
  "ex_typed k \<Longrightarrow> mget (DailyLimits k) i = Some l \<Longrightarrow> limit_typed l"
  by (auto simp: ex_typed_def dest: all_values_get)

section \<open>Operations\<close>

definition gives_typed :: "exchange option \<Rightarrow> bool" where
  "gives_typed r \<longleftrightarrow> (\<forall>k. r = Some k \<longrightarrow> ex_typed k)"

lemma gives_typed_bind:
  "gives_typed r \<Longrightarrow> (\<And>k. ex_typed k \<Longrightarrow> gives_typed (f k)) \<Longrightarrow> gives_typed (r \<bind> f)"
  by (cases r) (simp_all add: gives_typed_def)

lemma gives_typed_mod:
  "ex_typed k \<Longrightarrow> (\<And>w. wallet_typed w \<Longrightarrow> wallet_typed (f w)) \<Longrightarrow> gives_typed (mod_wallet i f k)"
  by (simp add: gives_typed_def mod_wallet_def ex_typed_get(1) split: option.splits)

lemma daily_entry_typed: "ex_typed k \<Longrightarrow> limit_typed (daily_entry now u k)"
  by (simp add: daily_entry_def limit_typed_def [of "daily_limit.make _ _ _ _ _"] ex_typed_get(4) split: option.splits)
    (simp add: limit_typed_def)

lemma updateDailyLimit_typed: "ex_typed k \<Longrightarrow> ex_typed (updateDailyLimit now u v k)"
  using daily_entry_typed [of k now u] by (simp add: updateDailyLimit_def Let_def limit_typed_def)

lemma checkDailyLimit_typed: "checkDailyLimit now w p q k = (k', r) \<Longrightarrow> ex_typed k \<Longrightarrow> ex_typed k'"
  using daily_entry_typed [of k now "w_UserID w"]
  by (auto simp: checkDailyLimit_def Let_def split: if_splits)

lemma settleTrade_typed:
  assumes "ex_typed k"
  shows "gives_typed (settleTrade now t pair k)"
proof -
  have "gives_typed (do { mw \<leftarrow> mget (Wallets k) i; tw \<leftarrow> mget (Wallets k) j;
      Some (updateDailyLimit now (w_UserID tw) q (updateDailyLimit now (w_UserID mw) q k)) })"
    if "ex_typed k" for k i j q
    using that by (auto simp: gives_typed_def updateDailyLimit_typed split: bind_splits)
  then show ?thesis
    unfolding settleTrade_def Let_def
    by (intro gives_typed_bind gives_typed_mod assms; assumption?)
      (auto intro!: gives_typed_bind gives_typed_mod assms)
qed

text \<open>The loop leaves the book's pointers and the taker's file where they are.\<close>

lemma filled_typed [simp]:
  "order_typed a \<Longrightarrow> order_typed (filled q a)" "order_typed a \<Longrightarrow> order_typed (maker_filled now q a)"
  "order_typed (taker_done now a) = order_typed a"
  by (simp_all add: order_typed_def filled_def maker_filled_def taker_done_def Let_def)

lemma new_trade_typed:
  "order_typed a \<Longrightarrow> order_typed m \<Longrightarrow> in64 h \<Longrightarrow> trade_typed (new_trade now pair h n a m)"
  by (simp add: trade_typed_def new_trade_def order_typed_def fill_qty_def fee_def Let_def)

lemma fill_order_typed:
  assumes "fill_order now pair h oid mid order maker k = Some (k', t)" "ex_typed k" "in64 h"
    "mget (Orders k) oid = Some order" "mget (Orders k) mid = Some maker"
  shows "ex_typed k'"
proof -
  let ?t = "new_trade now pair h (add64 (TradeSeq k) 1) order maker"
  note typed = ex_typed_get(2) [OF assms(2,4)] ex_typed_get(2) [OF assms(2,5)]
  have "ex_typed (k\<lparr>TradeSeq := add64 (TradeSeq k) 1, Trades := Trades k @ [?t]\<rparr>)"
    using assms(2) new_trade_typed [OF typed assms(3)] by (simp add: ex_typed_def)
  with assms(1) typed show ?thesis
    using settleTrade_typed by (fastforce simp: fill_order_def Let_def gives_typed_def split: bind_splits)
qed

lemma match_loop_typed:
  "match_loop now pair h oid book k = Some (k', rest, ts) \<Longrightarrow> ex_typed k \<Longrightarrow> in64 h \<Longrightarrow> ex_typed k'"
proof (induction rule: match_loop_induct)
  case (Fill mid mids k k1 t k' rest ts order maker)
  then show ?case using fill_order_typed by blast
qed simp_all

lemma PlaceOrder_typed:
  assumes "PlaceOrder srt now wid pid side ot price quantity h k = Some (k', r)"
    "ex_typed k" "in64 price" "in64 quantity" "in64 h"
  shows "ex_typed k'"
proof (cases r)
  case (Inl e)
  then show ?thesis
    using assms(1,2) by (auto simp: PlaceOrder_def check_order_def
        split: option.splits if_splits prod.splits sum.splits bind_splits dest: checkDailyLimit_typed)
next
  case (Inr res)
  obtain order ts where "res = (order, ts)" by fastforce
  with Inr assms(1) have "PlaceOrder srt now wid pid side ot price quantity h k = Some (k', Inr (order, ts))"
    by simp
  then show ?thesis
  proof (cases rule: PlaceOrderE)
    case (1 kc w pair w' o0 k1 rest order1)
    have kc: "ex_typed kc"
      using 1(1) assms(2) by (auto simp: check_order_def
          split: option.splits if_splits prod.splits dest: checkDailyLimit_typed)
    have "wallet_typed w" using check_orderD(1) [OF 1(1)] ex_typed_get(1) [OF assms(2)] by blast
    then have "wallet_typed w'" using 1(2) by (auto simp: lock_funds_def Let_def split: if_splits)
    moreover have "order_typed o0" using assms(3,4) by (simp add: 1(3) new_order_def order_typed_def in64_def)
    moreover have "ex_typed (kc\<lparr>OrderSeq := n\<rparr>)" if "in64 n" for n using kc that by (simp add: ex_typed_def)
    ultimately have "ex_typed (filed wid w' o0 kc)" by (simp add: filed_def)
    then have "ex_typed k1" using match_loop_typed [OF 1(4)] assms(5) by blast
    moreover have "order_typed order1" using ex_typed_get(2) [OF \<open>ex_typed k1\<close> 1(5)] .
    ultimately show ?thesis by (simp add: 1(6,7) booked_def add_to_book_eq)
  qed
qed

lemma status_typed [simp]: "order_typed (a\<lparr>o_Status := st, o_UpdatedAt := now\<rparr>) = order_typed a"
  by (simp add: order_typed_def)

lemma CancelOrder_typed:
  assumes "CancelOrder now oid wid k = Some (k', r)" "ex_typed k"
  shows "ex_typed k'"
proof -
  have "ex_typed (removeFromBook a k) = ex_typed k" for a k by (simp add: removeFromBook_eq)
  moreover have "wallet_typed (unlock_funds a pair w)" if "wallet_typed w" for a pair w
    using that by (simp add: unlock_funds_def)
  ultimately show ?thesis using assms
    by (auto simp: CancelOrder_def Let_def ex_typed_get split: option.splits if_splits bind_splits)
qed

lemma ex_step_typed:
  assumes "ex_step srt k op = Some k'" "ex_typed k" "op_in64 op"
  shows "ex_typed k'"
proof (cases op)
  case (OpPlaceOrder now w p s t price quantity h)
  with assms show ?thesis by (auto dest: PlaceOrder_typed)
next
  case (OpCancelOrder now oid wid)
  with assms show ?thesis by (auto dest: CancelOrder_typed)
next
  case (OpSubmitKYC now app)
  show ?thesis
  proof (cases "mget (Wallets k) (a_WalletID app)")
    case None
    then show ?thesis using OpSubmitKYC assms by (simp add: SubmitKYC_eq split: if_splits)
  next
    case (Some w)
    let ?s = "screened now k w app"
    have w: "wallet_typed w" and app: "application_typed app"
      using ex_typed_get(1) [OF assms(2) Some] assms(3) by (simp_all add: OpSubmitKYC)
    then have s: "application_typed ?s"
      by (simp add: application_typed_def wallet_typed_def screened_def runAMLChecks_def Let_def)
    then have "application_typed (decided now ?s)" by (simp add: application_typed_def decided_def)
    moreover have "wallet_typed (decided_wallet ?s w)" using w by (simp add: decided_wallet_def)
    moreover have "ex_typed (k\<lparr>KYCSeq := add64 (KYCSeq k) 1\<rparr>)" using assms(2) by (simp add: ex_typed_def)
    moreover have "k' = fst (SubmitKYC now app k)" using assms(1) by (simp add: OpSubmitKYC)
    ultimately show ?thesis using assms(2) by (simp add: SubmitKYC_eq Some Let_def)
  qed
next
  case (OpCreateWallet now u l)
  have "wallet_typed \<lparr>w_ID = i, w_UserID = u, w_Address = a, w_Label = l, w_CreatedAt = now,
      w_KYCTier = KYCTierNone, w_Balances = [], w_Locked = [], w_Active = True\<rparr>" for i a
    by (simp add: wallet_typed_def)
  then have "ex_typed (k\<lparr>WalletSeq := add64 (WalletSeq k) 1, Wallets := mput i \<lparr>w_ID = i, w_UserID = u,
      w_Address = a, w_Label = l, w_CreatedAt = now, w_KYCTier = KYCTierNone, w_Balances = [], w_Locked = [],
      w_Active = True\<rparr> (Wallets k)\<rparr>)" for i a
    using assms(2) unfolding ex_typed_def by simp
  moreover have "k' = fst (CreateWallet now u l k)" using assms(1) by (simp add: OpCreateWallet)
  ultimately show ?thesis using assms(2) unfolding CreateWallet_def Let_def by (simp split: if_splits)
next
  case (OpApproveKYC now i)
  have "ex_typed (put_wallet j (w\<lparr>w_KYCTier := a_RequestedTier a\<rparr>) (put_app i
      (a\<lparr>a_Status := KYCStatusApproved, a_ApprovedAt := Some now, a_ReviewedAt := Some now\<rparr>) k))"
    if "mget (KYCApps k) i = Some a" "mget (Wallets k) j = Some w" for a j w
    using ex_typed_get(3) [OF assms(2) that(1)] ex_typed_get(1) [OF assms(2) that(2)] assms(2)
    by (simp add: application_typed_def)
  then show ?thesis using OpApproveKYC assms
    by (auto simp: ApproveKYC_def Let_def split: option.splits if_splits bind_splits)
next
  case (OpRejectKYC now i r)
  have "ex_typed (put_app i (a\<lparr>a_Status := KYCStatusRejected, a_RejectedReason := r, a_ReviewedAt := Some now\<rparr>) k)"
    if "mget (KYCApps k) i = Some a" for a
    using ex_typed_get(3) [OF assms(2) that] assms(2) by (simp add: application_typed_def)
  then show ?thesis using OpRejectKYC assms by (auto simp: RejectKYC_def split: option.splits)
qed (use assms in \<open>auto simp: DepositToWallet_def WithdrawFromWallet_def Let_def ex_typed_get split: option.splits if_splits\<close>)

interpretation typed: state_machine "ex_next srt" "\<lambda>_ op. op_in64 op" ex_typed for srt
  by unfold_locales (auto simp: ex_next_def ex_step_typed split: option.splits)




end
