(* ===== verification/FileSystem.thy ===== *)
theory FileSystem
  imports Http "HOL-Library.List_Lexorder" "HOL-Library.Char_ord"
begin

text \<open>
  What the commands of \<open>cmd/ftgd/init_real.go\<close> and \<open>keys_real.go\<close> use of Go's standard library:
  paths (\<open>filepath.Join\<close> and \<open>Ext\<close>), the file system (\<open>os.MkdirAll\<close>, \<open>WriteFile\<close>, \<open>ReadFile\<close>,
  \<open>ReadDir\<close>), the \<open>hex\<close> and \<open>base64\<close> encodings and the RFC 3339 time formats.

  A path is absolute, the list of its elements after cleaning. Links are not modelled. A file
  holds a JSON value or other text; its permission bits are left out. The operating system may
  refuse a path for reasons of its own (permissions, a full disk, an illegal name): the argument
  \<open>ok\<close> says which paths it accepts. A call that is refused leaves the
  files as they are.
\<close>

section \<open>Paths\<close>

type_synonym path = "string list"

fun split_path :: "string \<Rightarrow> string list" where
  "split_path [] = [[]]"
| "split_path (c # s) =
     (if c = CHR ''/'' then [] # split_path s
      else (case split_path s of [] \<Rightarrow> [[c]] | e # es \<Rightarrow> (c # e) # es))"

text \<open>Cleaning: empty elements and \<open>.\<close> vanish, \<open>..\<close> takes the element before it away.\<close>

fun clean_path :: "path \<Rightarrow> string list \<Rightarrow> path" where
  "clean_path before [] = before"
| "clean_path before (e # es) =
     (if e = '''' \<or> e = ''.'' then clean_path before es
      else if e = ''..'' then clean_path (butlast before) es
      else clean_path (before @ [e]) es)"

text \<open>\<open>filepath.Join\<close> of an absolute path with further elements, each of which may hold slashes.\<close>

definition Join :: "string list \<Rightarrow> path" where
  "Join es = clean_path [] (concat (map split_path es))"

text \<open>The extension: from the last dot of the last element on.\<close>

definition Ext :: "string \<Rightarrow> string" where
  "Ext s =
     (let tail = takeWhile (\<lambda>c. c \<noteq> CHR ''.'' \<and> c \<noteq> CHR ''/'') (rev s)
      in if take 1 (drop (length tail) (rev s)) = ''.'' then CHR ''.'' # rev tail else [])"

text \<open>A name that is an element as it stands.\<close>

definition plain :: "string \<Rightarrow> bool" where
  "plain s \<longleftrightarrow> CHR ''/'' \<notin> set s \<and> s \<noteq> '''' \<and> s \<noteq> ''.'' \<and> s \<noteq> ''..''"

lemma split_path_plain: "CHR ''/'' \<notin> set s \<Longrightarrow> split_path s = [s]"
  by (induction s) auto

lemma clean_path_append: "clean_path before (xs @ ys) = clean_path (clean_path before xs) ys"
  by (induction xs arbitrary: before) auto

lemma clean_path_plain: "plain s \<Longrightarrow> clean_path before (split_path s) = before @ [s]"
  by (simp add: plain_def split_path_plain)

lemma Join_plain: "plain s \<Longrightarrow> Join (es @ [s]) = Join es @ [s]"
  by (simp add: Join_def clean_path_append clean_path_plain)

lemma Join_snoc: "Join (es @ [s]) = clean_path (Join es) (split_path s)"
  by (simp add: Join_def clean_path_append)

lemma Ext_json [simp]: "Ext (name @ ''.json'') = ''.json''"
  by (simp add: Ext_def)

lemma Ext_key [simp]: "Ext (name @ ''.key'') = ''.key''"
  by (simp add: Ext_def)

lemma plain_json: "CHR ''/'' \<notin> set name \<Longrightarrow> plain (name @ ''.json'')"
  by (auto simp: plain_def append_eq_Cons_conv)

lemma plain_key: "CHR ''/'' \<notin> set name \<Longrightarrow> plain (name @ ''.key'')"
  by (auto simp: plain_def append_eq_Cons_conv)

section \<open>The file system\<close>

datatype content = Json json | Text string

record file_system =
  Dirs :: "path list"
  Files :: "(path, content) gomap"

definition is_dir :: "file_system \<Rightarrow> path \<Rightarrow> bool" where
  "is_dir fs p \<longleftrightarrow> p = [] \<or> p \<in> set (Dirs fs)"

fun beginnings :: "path \<Rightarrow> path list" where
  "beginnings [] = []"
| "beginnings (e # es) = [e] # map (\<lambda>p. e # p) (beginnings es)"

definition MkdirAll :: "(path \<Rightarrow> bool) \<Rightarrow> path \<Rightarrow> file_system \<Rightarrow> file_system option" where
  "MkdirAll ok p fs =
     (if is_dir fs p then Some fs
      else if \<not> ok p \<or> list_ex (\<lambda>q. mget (Files fs) q \<noteq> None) (beginnings p) then None
      else Some (fs\<lparr>Dirs := beginnings p @ Dirs fs\<rparr>))"

definition WriteFile :: "(path \<Rightarrow> bool) \<Rightarrow> path \<Rightarrow> content \<Rightarrow> file_system \<Rightarrow> file_system option" where
  "WriteFile ok p c fs =
     (if \<not> ok p \<or> is_dir fs p \<or> \<not> is_dir fs (butlast p) then None
      else Some (fs\<lparr>Files := mput p c (Files fs)\<rparr>))"

definition ReadFile :: "path \<Rightarrow> file_system \<Rightarrow> content option" where
  "ReadFile p fs = mget (Files fs) p"

text \<open>The entries of a directory by name, in the order of their names.\<close>

definition ReadDir :: "path \<Rightarrow> file_system \<Rightarrow> string list option" where
  "ReadDir p fs =
     (if is_dir fs p
      then Some (sort (remdups (map last (filter (\<lambda>q. q \<noteq> [] \<and> butlast q = p) (mkeys (Files fs) @ Dirs fs)))))
      else None)"

text \<open>A call whose error the code ignores.\<close>

definition ignoring :: "('s \<Rightarrow> 's option) \<Rightarrow> 's \<Rightarrow> 's" where
  "ignoring f s = (case f s of Some s' \<Rightarrow> s' | None \<Rightarrow> s)"

lemma beginnings_snoc: "beginnings (p @ [e]) = beginnings p @ [p @ [e]]"
  by (induction p) auto

lemma in_beginnings [simp]: "p \<noteq> [] \<Longrightarrow> p \<in> set (beginnings p)"
  by (induction p rule: rev_induct) (simp_all add: beginnings_snoc)

lemma MkdirAll_dir: "MkdirAll ok p fs = Some fs' \<Longrightarrow> is_dir fs' p"
  by (auto simp: MkdirAll_def is_dir_def split: if_splits)

lemma MkdirAll_files: "MkdirAll ok p fs = Some fs' \<Longrightarrow> Files fs' = Files fs"
  by (auto simp: MkdirAll_def split: if_splits)

lemma MkdirAll_dirs: "MkdirAll ok p fs = Some fs' \<Longrightarrow> is_dir fs q \<Longrightarrow> is_dir fs' q"
  by (auto simp: MkdirAll_def is_dir_def split: if_splits)

lemma WriteFile_some:
  "WriteFile ok p c fs = Some fs' \<longleftrightarrow>
   ok p \<and> \<not> is_dir fs p \<and> is_dir fs (butlast p) \<and> fs' = fs\<lparr>Files := mput p c (Files fs)\<rparr>"
  by (auto simp: WriteFile_def)

lemma is_dir_files [simp]: "is_dir (fs\<lparr>Files := m\<rparr>) p = is_dir fs p"
  by (simp add: is_dir_def)

lemma ignoring_WriteFile:
  "ignoring (WriteFile ok p c) fs =
     (if ok p \<and> \<not> is_dir fs p \<and> is_dir fs (butlast p) then fs\<lparr>Files := mput p c (Files fs)\<rparr> else fs)"
  by (simp add: ignoring_def WriteFile_def)

section \<open>Encodings\<close>

type_synonym bytes = "8 word list"

definition hex_digits :: string where
  "hex_digits = ''0123456789abcdef''"

definition hex :: "bytes \<Rightarrow> string" where
  "hex bs = concat (map (\<lambda>b. [hex_digits ! (unat b div 16), hex_digits ! (unat b mod 16)]) bs)"

definition base64_alphabet :: string where
  "base64_alphabet = ''ABCDEFGHIJKLMNOPQRSTUVWXYZabcdefghijklmnopqrstuvwxyz0123456789+/''"

definition base64_char :: "nat \<Rightarrow> char" where
  "base64_char n = base64_alphabet ! n"

fun base64 :: "bytes \<Rightarrow> string" where
  "base64 [] = []"
| "base64 [a] =
     (let a = unat a in [base64_char (a div 4), base64_char (a mod 4 * 16), CHR ''='', CHR ''=''])"
| "base64 [a, b] =
     (let a = unat a; b = unat b
      in [base64_char (a div 4), base64_char (a mod 4 * 16 + b div 16), base64_char (b mod 16 * 4), CHR ''=''])"
| "base64 (a # b # c # bs) =
     (let a = unat a; b = unat b; c = unat c
      in [base64_char (a div 4), base64_char (a mod 4 * 16 + b div 16), base64_char (b mod 16 * 4 + c div 64),
          base64_char (c mod 64)] @ base64 bs)"

text \<open>\<open>RFC3339\<close>, and \<open>RFC3339Nano\<close> with the fraction of a second less its trailing zeros.\<close>

definition clock_utc :: "time \<Rightarrow> string" where
  "clock_utc t =
     (let s = t div 1000000000 mod 86400
      in fmt0d 2 (s div 3600) @ '':'' @ fmt0d 2 (s div 60 mod 60) @ '':'' @ fmt0d 2 (s mod 60))"

definition fraction :: "time \<Rightarrow> string" where
  "fraction t =
     (let ds = rev (dropWhile (\<lambda>c. c = CHR ''0'') (rev (fmt0d 9 (t mod 1000000000))))
      in if ds = [] then [] else CHR ''.'' # ds)"

definition rfc3339 :: "time \<Rightarrow> string" where
  "rfc3339 t = date_utc t @ ''T'' @ clock_utc t @ ''Z''"

definition rfc3339_nano :: "time \<Rightarrow> string" where
  "rfc3339_nano t = date_utc t @ ''T'' @ clock_utc t @ fraction t @ ''Z''"

lemma hex_length: "length (hex bs) = 2 * length bs"
  by (induction bs) (simp_all add: hex_def)

lemma hex_digits_inj:
  assumes "m < 16" "n < 16" "hex_digits ! m = hex_digits ! n"
  shows "m = n"
proof -
  have "distinct hex_digits" "length hex_digits = 16" by (simp_all add: hex_digits_def)
  then show ?thesis using assms by (simp add: nth_eq_iff_index_eq)
qed

lemma hex_inj: "hex as = hex bs \<Longrightarrow> as = bs"
proof (induction as arbitrary: bs)
  case Nil
  then show ?case by (cases bs) (simp_all add: hex_def)
next
  case (Cons a as)
  then obtain b bs' where bs: "bs = b # bs'" by (cases bs) (simp_all add: hex_def)
  have h: "hex_digits ! (unat a div 16) = hex_digits ! (unat b div 16)"
    "hex_digits ! (unat a mod 16) = hex_digits ! (unat b mod 16)" "hex as = hex bs'"
    using Cons.prems by (simp_all add: hex_def bs)
  have lt: "unat (x :: 8 word) div 16 < 16" for x
    using unsigned_less [of x, where 'a = nat] by (simp add: less_mult_imp_div_less)
  from hex_digits_inj [OF lt lt h(1)] hex_digits_inj [OF _ _ h(2)]
  have "unat a = unat b" by (metis div_mult_mod_eq mod_less_divisor zero_less_numeral)
  with Cons.IH [OF h(3)] show ?case by (simp add: bs word_unat_eq_iff)
qed

end
