(* ===== verification/Home.thy ===== *)
theory Home
  imports FileSystem Node
begin

text \<open>
  The home directory of a node: the key store of \<open>cmd/ftgd/keys_real.go\<close> and its commands,
  \<open>ftgd init\<close> of \<open>init_real.go\<close>, the configuration file from which \<open>ftgd start\<close> creates the node,
  and \<open>ftgd query supply\<close> of \<open>root.go\<close>, which reads the genesis file. The commands are functions
  on the file system; what they print is their result, without its layout.

  The keys come from \<open>ed25519\<close> and their addresses from \<open>sha256\<close>. A call of \<open>ed25519.GenerateKey\<close>
  gives a public and a private key, or an error: the argument \<open>draws\<close> says which, and at what
  instant, for each call in turn. The hash is the argument \<open>H\<close>. The seed of a private key is its
  first 32 bytes.
\<close>

section \<open>Keys\<close>

type_synonym keypair = "bytes \<times> bytes"
type_synonym draw = "time \<times> keypair option"
type_synonym hash = "bytes \<Rightarrow> bytes"

record key_info =
  ki_Name :: string
  ki_Address :: string
  ki_PubKeyHex :: string
  ki_Type :: string
  ki_CreatedAt :: string

definition key_info_json :: "key_info \<Rightarrow> json" where
  "key_info_json ki =
     JObj [(''name'', JStr (ki_Name ki)), (''address'', JStr (ki_Address ki)),
           (''pub_key_hex'', JStr (ki_PubKeyHex ki)), (''type'', JStr (ki_Type ki)),
           (''created_at'', JStr (ki_CreatedAt ki))]"

definition KeyInfo_fields :: fields where
  "KeyInfo_fields =
     [(''name'', FStr), (''address'', FStr), (''pub_key_hex'', FStr), (''type'', FStr), (''created_at'', FStr)]"

text \<open>\<open>json.Unmarshal\<close> of a file; text that is not JSON, or not an object, is an error.\<close>

definition unmarshal :: "fields \<Rightarrow> content \<Rightarrow> vals option" where
  "unmarshal fs c = (case c of Json j \<Rightarrow> decode fs j | Text t \<Rightarrow> None)"

definition key_info_of :: "content \<Rightarrow> key_info option" where
  "key_info_of c =
     map_option (\<lambda>vs. \<lparr>ki_Name = str vs ''name'', ki_Address = str vs ''address'',
         ki_PubKeyHex = str vs ''pub_key_hex'', ki_Type = str vs ''type'',
         ki_CreatedAt = str vs ''created_at''\<rparr>)
       (unmarshal KeyInfo_fields c)"

datatype key_error = KeyNotGenerated | InfoNotSaved | PrivateNotSaved | KeyNotFound string | KeyUnreadable

definition keysDir :: "string \<Rightarrow> path" where
  "keysDir home = Join [home, ''keys'']"

definition NewKeyStore :: "(path \<Rightarrow> bool) \<Rightarrow> string \<Rightarrow> file_system \<Rightarrow> file_system" where
  "NewKeyStore ok home = ignoring (MkdirAll ok (keysDir home))"

definition key_file :: "string \<Rightarrow> string \<Rightarrow> path" where
  "key_file home file = Join [home, ''keys'', file]"

definition key_info_for :: "hash \<Rightarrow> string \<Rightarrow> string \<Rightarrow> time \<Rightarrow> bytes \<Rightarrow> key_info" where
  "key_info_for H name keyType now pub =
     \<lparr>ki_Name = name, ki_Address = ''ftg1'' @ hex (take 20 (H pub)), ki_PubKeyHex = hex pub,
      ki_Type = keyType, ki_CreatedAt = rfc3339 now\<rparr>"

definition GenerateKey ::
  "hash \<Rightarrow> (path \<Rightarrow> bool) \<Rightarrow> string \<Rightarrow> string \<Rightarrow> string \<Rightarrow> draw \<Rightarrow> file_system \<Rightarrow>
   file_system \<times> (key_error + key_info \<times> string)" where
  "GenerateKey H ok home name keyType d fs =
     (case d of
        (now, None) \<Rightarrow> (fs, Inl KeyNotGenerated)
      | (now, Some (pub, priv)) \<Rightarrow>
          let keyInfo = key_info_for H name keyType now pub;
              seed = hex (take 32 priv)
          in case WriteFile ok (key_file home (name @ ''.json'')) (Json (key_info_json keyInfo)) fs of
               None \<Rightarrow> (fs, Inl InfoNotSaved)
             | Some fs \<Rightarrow>
                 (case WriteFile ok (key_file home (name @ ''.key'')) (Text (hex priv)) fs of
                    None \<Rightarrow> (fs, Inl PrivateNotSaved)
                  | Some fs \<Rightarrow> (fs, Inr (keyInfo, seed))))"

definition listed_key :: "string \<Rightarrow> file_system \<Rightarrow> string \<Rightarrow> key_info option" where
  "listed_key home fs entry =
     (if Ext entry = ''.json''
      then (case ReadFile (key_file home entry) fs of None \<Rightarrow> None | Some c \<Rightarrow> key_info_of c)
      else None)"

definition ListKeys :: "string \<Rightarrow> file_system \<Rightarrow> key_info list option" where
  "ListKeys home fs = map_option (List.map_filter (listed_key home fs)) (ReadDir (keysDir home) fs)"

definition GetKey :: "string \<Rightarrow> string \<Rightarrow> file_system \<Rightarrow> key_error + key_info" where
  "GetKey home name fs =
     (case ReadFile (key_file home (name @ ''.json'')) fs of
        None \<Rightarrow> Inl (KeyNotFound name)
      | Some c \<Rightarrow> (case key_info_of c of None \<Rightarrow> Inl KeyUnreadable | Some ki \<Rightarrow> Inr ki))"

section \<open>The keys commands\<close>

datatype key_command = GenerateAll | AddKey string | ShowList | ShowKey string

datatype key_answer =
    Generated "(key_info \<times> string) list" | Added key_info string | NoKeysFound | Listed "key_info list"
  | Shown key_info

definition all_keys :: "(string \<times> string) list" where
  "all_keys =
     [(''validator'', ''validator''), (''treasury-minting'', ''treasury-minting''),
      (''treasury-committed'', ''treasury-committed''), (''treasury-liquidity'', ''treasury-liquidity'')]"

fun generate_keys ::
  "hash \<Rightarrow> (path \<Rightarrow> bool) \<Rightarrow> string \<Rightarrow> (string \<times> string) list \<Rightarrow> (nat \<Rightarrow> draw) \<Rightarrow> file_system \<Rightarrow>
   file_system \<times> (key_error + (key_info \<times> string) list)" where
  "generate_keys H ok home [] draws fs = (fs, Inr [])"
| "generate_keys H ok home ((name, keyType) # kts) draws fs =
     (case GenerateKey H ok home name keyType (draws 0) fs of
        (fs, Inl e) \<Rightarrow> (fs, Inl e)
      | (fs, Inr key) \<Rightarrow>
          (case generate_keys H ok home kts (\<lambda>n. draws (n + 1)) fs of
             (fs, Inl e) \<Rightarrow> (fs, Inl e)
           | (fs, Inr keys) \<Rightarrow> (fs, Inr (key # keys))))"

definition keys_command ::
  "hash \<Rightarrow> (path \<Rightarrow> bool) \<Rightarrow> string \<Rightarrow> (nat \<Rightarrow> draw) \<Rightarrow> key_command \<Rightarrow> file_system \<Rightarrow>
   file_system \<times> (key_error + key_answer)" where
  "keys_command H ok home draws cmd fs =
     (let fs = NewKeyStore ok home fs in
      case cmd of
        GenerateAll \<Rightarrow>
          (case generate_keys H ok home all_keys draws fs of
             (fs, Inl e) \<Rightarrow> (fs, Inl e)
           | (fs, Inr keys) \<Rightarrow> (fs, Inr (Generated keys)))
      | AddKey name \<Rightarrow>
          (case GenerateKey H ok home name ''custom'' (draws 0) fs of
             (fs, Inl e) \<Rightarrow> (fs, Inl e)
           | (fs, Inr (ki, seed)) \<Rightarrow> (fs, Inr (Added ki seed)))
      | ShowList \<Rightarrow>
          (fs, Inr (case ListKeys home fs of None \<Rightarrow> NoKeysFound | Some keys \<Rightarrow> Listed keys))
      | ShowKey name \<Rightarrow>
          (fs, case GetKey home name fs of Inl e \<Rightarrow> Inl e | Inr ki \<Rightarrow> Inr (Shown ki)))"

section \<open>The files of init\<close>

record validator_key =
  vk_Address :: string
  vk_PubKeyType :: string
  vk_PubKeyValue :: string
  vk_PrivKeyType :: string
  vk_PrivKeyValue :: string

definition typed_value :: "string \<Rightarrow> string \<Rightarrow> json" where
  "typed_value t v = JObj [(''type'', JStr t), (''value'', JStr v)]"

definition validator_key_json :: "validator_key \<Rightarrow> json" where
  "validator_key_json k =
     JObj [(''address'', JStr (vk_Address k)), (''pub_key'', typed_value (vk_PubKeyType k) (vk_PubKeyValue k)),
           (''priv_key'', typed_value (vk_PrivKeyType k) (vk_PrivKeyValue k))]"

definition new_validator_key :: "hash \<Rightarrow> keypair \<Rightarrow> validator_key" where
  "new_validator_key H = (\<lambda>(pub, priv).
     \<lparr>vk_Address = hex (take 20 (H pub)),
      vk_PubKeyType = ''tendermint/PubKeyEd25519'', vk_PubKeyValue = base64 pub,
      vk_PrivKeyType = ''tendermint/PrivKeyEd25519'', vk_PrivKeyValue = base64 priv\<rparr>)"

text \<open>A Go map is written with its keys in order.\<close>

definition jmap :: "(string \<times> json) list \<Rightarrow> json" where
  "jmap ms = JObj (sort_key fst ms)"

text \<open>The error of the second key is ignored; its keys are then nil.\<close>

definition node_key_json :: "keypair option \<Rightarrow> json" where
  "node_key_json d =
     (let (pub, priv) = (case d of None \<Rightarrow> ([], []) | Some k \<Rightarrow> k)
      in jmap [(''priv_key'', jmap [(''type'', JStr ''tendermint/PrivKeyEd25519''), (''value'', JStr (base64 priv))]),
               (''pub_key'', jmap [(''type'', JStr ''tendermint/PubKeyEd25519''), (''value'', JStr (base64 pub))])])"

definition node_config_json :: "node_config \<Rightarrow> json" where
  "node_config_json c =
     JObj [(''moniker'', JStr (nc_Moniker c)), (''chain_id'', JStr (nc_ChainID c)),
           (''node_id'', JStr (nc_NodeID c)), (''listen_addr'', JStr (nc_ListenAddr c)),
           (''rpc_addr'', JStr (nc_RPCAddr c)), (''p2p_addr'', JStr (nc_P2PAddr c))]"

definition new_node_config :: "string \<Rightarrow> string \<Rightarrow> string \<Rightarrow> node_config" where
  "new_node_config moniker cid nodeID =
     \<lparr>nc_Moniker = moniker, nc_ChainID = cid, nc_NodeID = nodeID,
      nc_ListenAddr = ''tcp://0.0.0.0:26656'', nc_RPCAddr = ''tcp://0.0.0.0:26657'',
      nc_P2PAddr = ''tcp://0.0.0.0:26656''\<rparr>"

definition validator_state_json :: json where
  "validator_state_json =
     jmap [(''height'', JStr ''0''), (''round'', JInt 0), (''step'', JInt 0), (''signature'', JStr ''''),
           (''signbytes'', JStr '''')]"

section \<open>The genesis document\<close>

definition genesis_consensus_params :: json where
  "genesis_consensus_params =
     jmap [(''block'', jmap [(''max_bytes'', JStr ''22020096''), (''max_gas'', JStr ''100000000'')]),
           (''evidence'', jmap [(''max_age_num_blocks'', JStr ''100000''),
              (''max_age_duration'', JStr ''172800000000000''), (''max_bytes'', JStr ''1048576'')]),
           (''validator'', jmap [(''pub_key_types'', JArr [JStr ''ed25519''])])]"

definition genesis_validator :: "string \<Rightarrow> validator_key \<Rightarrow> json" where
  "genesis_validator moniker k =
     jmap [(''address'', JStr (vk_Address k)),
           (''pub_key'', jmap [(''type'', JStr (vk_PubKeyType k)), (''value'', JStr (vk_PubKeyValue k))]),
           (''power'', JStr ''1000000''), (''name'', JStr moniker)]"

definition genesis_energymint :: json where
  "genesis_energymint =
     jmap [(''params'', jmap [(''tokens_per_mwh'', JStr ''100''), (''min_mwh_per_mint'', JStr ''1''),
              (''denom'', JStr ''uftg''), (''max_supply'', JStr ''0''), (''inflation_rate'', JStr ''0''),
              (''require_ipfs_proof'', JBool True)]),
           (''authorized_minters'', JArr []), (''certificates'', JArr []), (''total_minted'', JStr ''0'')]"

definition genesis_ftgburn :: json where
  "genesis_ftgburn =
     jmap [(''params'', jmap [(''burn_address'', JStr ''ftg1000000000000000000000000000000000burn''),
              (''min_burn_amount'', JStr ''1000000''), (''merchant_protocol'', JBool True),
              (''protocol_fee_bps'', JStr ''0'')]),
           (''total_burned'', JStr ''0''), (''burn_events'', JArr [])]"

definition genesis_treasury :: json where
  "genesis_treasury =
     jmap [(''minting_balance'', JStr ''0''), (''committed_balance'', JStr ''0''),
           (''liquidity_balance'', JStr ''0''), (''commitments'', JArr [])]"

definition denom_unit :: "string \<Rightarrow> int \<Rightarrow> string \<Rightarrow> json" where
  "denom_unit denom exponent alias =
     jmap [(''denom'', JStr denom), (''exponent'', JInt exponent), (''aliases'', JArr [JStr alias])]"

text \<open>The description's dash is U+2014, three bytes of UTF-8.\<close>

definition genesis_bank :: json where
  "genesis_bank =
     jmap [(''supply'', JArr [jmap [(''denom'', JStr ''uftg''), (''amount'', JStr ''0'')],
              jmap [(''denom'', JStr ''ustake''), (''amount'', JStr ''1000000000000'')]]),
           (''balances'', JArr []),
           (''denom_metadata'', JArr [jmap
              [(''description'', JStr (''FTG Energy Token '' @ map char_of [0xE2, 0x80, 0x94 :: nat] @
                 '' 1 FTG = 10 kWh of verified stored energy'')),
               (''denom_units'', JArr [denom_unit ''uftg'' 0 ''microftg'', denom_unit ''mftg'' 3 ''milliftg'',
                  denom_unit ''ftg'' 6 ''FTG'']),
               (''base'', JStr ''uftg''), (''display'', JStr ''ftg''), (''name'', JStr ''FTG Energy''),
               (''symbol'', JStr ''FTG'')]])]"

definition genesis_staking :: json where
  "genesis_staking =
     jmap [(''params'', jmap [(''unbonding_time'', JStr ''1814400s''), (''max_validators'', JInt 100),
              (''max_entries'', JInt 7), (''historical_entries'', JInt 10000), (''bond_denom'', JStr ''ustake'')])]"

definition genesis_mint :: json where
  "genesis_mint =
     jmap [(''minter'', jmap [(''inflation'', JStr ''0.000000000000000000''),
              (''annual_provisions'', JStr ''0.000000000000000000'')]),
           (''params'', jmap [(''mint_denom'', JStr ''ustake''),
              (''inflation_rate_change'', JStr ''0.000000000000000000''),
              (''inflation_max'', JStr ''0.000000000000000000''), (''inflation_min'', JStr ''0.000000000000000000''),
              (''goal_bonded'', JStr ''0.670000000000000000''), (''blocks_per_year'', JStr ''6311520'')])]"

definition generateGenesisJSON :: "time \<Rightarrow> string \<Rightarrow> string \<Rightarrow> validator_key \<Rightarrow> json" where
  "generateGenesisJSON now chainID moniker valKey =
     jmap [(''genesis_time'', JStr (rfc3339_nano now)), (''chain_id'', JStr chainID),
           (''initial_height'', JStr ''1''), (''consensus_params'', genesis_consensus_params),
           (''validators'', JArr [genesis_validator moniker valKey]),
           (''app_state'', jmap [(''energymint'', genesis_energymint), (''ftgburn'', genesis_ftgburn),
              (''provenance'', jmap [(''records'', JArr [])]), (''treasury'', genesis_treasury),
              (''bank'', genesis_bank), (''staking'', genesis_staking), (''mint'', genesis_mint)])]"

section \<open>Init\<close>

datatype init_error = DirectoryNotCreated path | ValidatorKeyNotGenerated | ValidatorKeyNotWritten | GenesisNotWritten

definition config_file_at :: "string \<Rightarrow> string \<Rightarrow> path" where
  "config_file_at home file = Join [home, ''config'', file]"

definition data_file_at :: "string \<Rightarrow> string \<Rightarrow> path" where
  "data_file_at home file = Join [home, ''data'', file]"

fun make_dirs :: "(path \<Rightarrow> bool) \<Rightarrow> path list \<Rightarrow> file_system \<Rightarrow> file_system \<times> init_error option" where
  "make_dirs ok [] fs = (fs, None)"
| "make_dirs ok (d # ds) fs =
     (case MkdirAll ok d fs of None \<Rightarrow> (fs, Some (DirectoryNotCreated d)) | Some fs \<Rightarrow> make_dirs ok ds fs)"

definition init_dirs :: "string \<Rightarrow> path list" where
  "init_dirs home = [Join [home, ''config''], Join [home, ''data''], Join [home, ''keys'']]"

text \<open>\<open>draws 0\<close> is the validator's key, \<open>draws 1\<close> the node's; \<open>now\<close> is the time of the genesis.\<close>

definition realInit ::
  "hash \<Rightarrow> (path \<Rightarrow> bool) \<Rightarrow> string \<Rightarrow> string \<Rightarrow> string \<Rightarrow> time \<Rightarrow> (nat \<Rightarrow> draw) \<Rightarrow> file_system \<Rightarrow>
   file_system \<times> (init_error + unit)" where
  "realInit H ok home moniker cid now draws fs =
     (case make_dirs ok (init_dirs home) fs of
        (fs, Some e) \<Rightarrow> (fs, Inl e)
      | (fs, None) \<Rightarrow>
     (case snd (draws 0) of
        None \<Rightarrow> (fs, Inl ValidatorKeyNotGenerated)
      | Some (pub, priv) \<Rightarrow>
          let nodeID = hex (take 20 (H pub));
              valKey = new_validator_key H (pub, priv)
          in case WriteFile ok (config_file_at home ''priv_validator_key.json'')
                    (Json (validator_key_json valKey)) fs of
               None \<Rightarrow> (fs, Inl ValidatorKeyNotWritten)
             | Some fs \<Rightarrow>
                 let fs = ignoring (WriteFile ok (config_file_at home ''node_key.json'')
                            (Json (node_key_json (snd (draws 1))))) fs
                 in case WriteFile ok (config_file_at home ''genesis.json'')
                           (Json (generateGenesisJSON now cid moniker valKey)) fs of
                      None \<Rightarrow> (fs, Inl GenesisNotWritten)
                    | Some fs \<Rightarrow>
                        let fs = ignoring (WriteFile ok (config_file_at home ''node_config.json'')
                              (Json (node_config_json (new_node_config moniker cid nodeID)))) fs;
                            fs = ignoring (WriteFile ok (data_file_at home ''priv_validator_state.json'')
                              (Json validator_state_json)) fs
                        in (fs, Inr ())))"

section \<open>Starting from the home directory\<close>

definition NodeConfig_fields :: fields where
  "NodeConfig_fields =
     [(''moniker'', FStr), (''chain_id'', FStr), (''node_id'', FStr), (''listen_addr'', FStr),
      (''rpc_addr'', FStr), (''p2p_addr'', FStr)]"

text \<open>What \<open>NewFTGNode\<close> reads as its configuration.\<close>

definition config_in :: "string \<Rightarrow> file_system \<Rightarrow> config_file" where
  "config_in home fs =
     (case ReadFile (config_file_at home ''node_config.json'') fs of
        None \<Rightarrow> NoConfig
      | Some c \<Rightarrow>
          (case unmarshal NodeConfig_fields c of
             None \<Rightarrow> BadConfig
           | Some vs \<Rightarrow>
               GoodConfig \<lparr>nc_Moniker = str vs ''moniker'', nc_ChainID = str vs ''chain_id'',
                 nc_NodeID = str vs ''node_id'', nc_ListenAddr = str vs ''listen_addr'',
                 nc_RPCAddr = str vs ''rpc_addr'', nc_P2PAddr = str vs ''p2p_addr''\<rparr>))"

section \<open>The supply query\<close>

text \<open>
  A JSON object decoded into a Go map keeps the last of equal keys; \<open>None\<close> is the nil of a
  missing key. A type assertion that fails is a panic.
\<close>

definition json_get :: "string \<Rightarrow> (string \<times> json) list \<Rightarrow> json option" where
  "json_get k ms = map_of (rev ms) k"

definition assert_map :: "json option \<Rightarrow> (string \<times> json) list option" where
  "assert_map v = (case v of Some (JObj ms) \<Rightarrow> Some ms | _ \<Rightarrow> None)"

definition assert_array :: "json option \<Rightarrow> json list option" where
  "assert_array v = (case v of Some (JArr xs) \<Rightarrow> Some xs | _ \<Rightarrow> None)"

text \<open>
  The answer: the total minted and the quantities of the certificates, as the values found, and
  how many minters there are. Their rendering as floating-point numbers is left out.
\<close>

datatype supply_answer =
    GenesisUnread | GenesisUnparsed | Supply "json option" "json option list" nat

fun certificate_mwhs :: "json list \<Rightarrow> json option list option" where
  "certificate_mwhs [] = Some []"
| "certificate_mwhs (c # cs) =
     (case assert_map (Some c) of
        None \<Rightarrow> None
      | Some ms \<Rightarrow> map_option (\<lambda>rest. json_get ''mwh_quantity'' ms # rest) (certificate_mwhs cs))"

definition supply_of :: "(string \<times> json) list \<Rightarrow> supply_answer option" where
  "supply_of genesis =
     do {
       appState \<leftarrow> assert_map (json_get ''app_state'' genesis);
       em \<leftarrow> assert_map (json_get ''energymint'' appState);
       certs \<leftarrow> assert_array (json_get ''certificates'' em);
       mwhs \<leftarrow> certificate_mwhs certs;
       minters \<leftarrow> assert_array (json_get ''authorized_minters'' em);
       Some (Supply (json_get ''total_minted'' em) mwhs (length minters))
     }"

definition query_supply :: "file_system \<Rightarrow> supply_answer option" where
  "query_supply fs =
     (case ReadFile (Join [''/opt/ftg-data/config/genesis.json'']) fs of
        None \<Rightarrow> Some GenesisUnread
      | Some (Json (JObj genesis)) \<Rightarrow> supply_of genesis
      | Some (Json JNull) \<Rightarrow> supply_of []
      | Some _ \<Rightarrow> Some GenesisUnparsed)"

end
