(* ===== verification/HomeProps.thy ===== *)
theory HomeProps
  imports Home NodeProps
begin

text \<open>
  The key store refines a map from names to the keys generated last; what \<open>ftgd init\<close> writes is
  what \<open>ftgd start\<close> and \<open>ftgd query supply\<close> read; and a key's name can leave the key store.
\<close>

section \<open>Reading what was written\<close>

text \<open>A name in lower case is only matched by itself.\<close>

definition lower_ascii :: "char \<Rightarrow> bool" where
  "lower_ascii c \<longleftrightarrow> (let n = of_char c :: nat in n < 128 \<and> \<not> (65 \<le> n \<and> n \<le> 90))"

lemma lower_ascii_char: "lower_ascii c \<Longrightarrow> lower_char c = c"
  by (auto simp: lower_ascii_def lower_char_def Let_def)

lemma lower_ascii_not: "lower_ascii c \<Longrightarrow> c \<noteq> char_of (0xC5 :: nat) \<and> c \<noteq> char_of (0xE2 :: nat)"
  by (auto simp: lower_ascii_def)

lemma fold_key_lower: "list_all lower_ascii s \<Longrightarrow> fold_key s = s"
  by (induction s rule: fold_key.induct) (auto simp: lower_ascii_char dest: lower_ascii_not)

lemma field_of_lower:
  assumes "list_all (\<lambda>(n, _). list_all lower_ascii n) fs" "list_all lower_ascii key"
  shows "field_of fs key = find (\<lambda>(n, _). n = key) fs"
proof -
  have "find (\<lambda>(n, _). fold_key n = fold_key key) fs = find (\<lambda>(n, _). n = key) fs"
    using assms by (intro find_cong refl) (auto simp: list_all_iff fold_key_lower)
  then show ?thesis by (simp add: field_of_def split: option.splits)
qed

lemma fields_lower:
  "list_all (\<lambda>(n, _). list_all lower_ascii n) NodeConfig_fields"
  "list_all (\<lambda>(n, _). list_all lower_ascii n) KeyInfo_fields"
  by (simp_all add: NodeConfig_fields_def KeyInfo_fields_def lower_ascii_def)

lemma key_info_fields:
  "field_of KeyInfo_fields ''name'' = Some (''name'', FStr)"
  "field_of KeyInfo_fields ''address'' = Some (''address'', FStr)"
  "field_of KeyInfo_fields ''pub_key_hex'' = Some (''pub_key_hex'', FStr)"
  "field_of KeyInfo_fields ''type'' = Some (''type'', FStr)"
  "field_of KeyInfo_fields ''created_at'' = Some (''created_at'', FStr)"
  by (simp_all add: field_of_def KeyInfo_fields_def)

lemma node_config_fields:
  "field_of NodeConfig_fields ''moniker'' = Some (''moniker'', FStr)"
  "field_of NodeConfig_fields ''chain_id'' = Some (''chain_id'', FStr)"
  "field_of NodeConfig_fields ''node_id'' = Some (''node_id'', FStr)"
  "field_of NodeConfig_fields ''listen_addr'' = Some (''listen_addr'', FStr)"
  "field_of NodeConfig_fields ''rpc_addr'' = Some (''rpc_addr'', FStr)"
  "field_of NodeConfig_fields ''p2p_addr'' = Some (''p2p_addr'', FStr)"
  by (simp_all add: field_of_def NodeConfig_fields_def)

lemma decode_found:
  "field_of fs n = Some (n, FStr) \<Longrightarrow> decode_member fs (Some vs) (n, JStr s) = Some (mput n (VStr s) vs)"
  by (simp add: decode_member_def)

lemma decode_ignored: "field_of fs n = None \<Longrightarrow> decode_member fs (Some vs) (n, j) = Some vs"
  by (simp add: decode_member_def)

lemma decode_key_info:
  "decode KeyInfo_fields (key_info_json ki) =
     Some [(''name'', VStr (ki_Name ki)), (''address'', VStr (ki_Address ki)),
       (''pub_key_hex'', VStr (ki_PubKeyHex ki)), (''type'', VStr (ki_Type ki)),
       (''created_at'', VStr (ki_CreatedAt ki))]"
  by (simp add: key_info_json_def decode_found key_info_fields)

lemma key_info_read [simp]: "key_info_of (Json (key_info_json ki)) = Some ki"
  by (simp add: key_info_of_def unmarshal_def decode_key_info str_def)

lemma decode_node_config:
  "decode NodeConfig_fields (node_config_json c) =
     Some [(''moniker'', VStr (nc_Moniker c)), (''chain_id'', VStr (nc_ChainID c)),
       (''node_id'', VStr (nc_NodeID c)), (''listen_addr'', VStr (nc_ListenAddr c)),
       (''rpc_addr'', VStr (nc_RPCAddr c)), (''p2p_addr'', VStr (nc_P2PAddr c))]"
  by (simp add: node_config_json_def decode_found node_config_fields)

text \<open>None of the names of a key's record is a field of the configuration.\<close>

lemma key_info_no_field:
  "field_of NodeConfig_fields ''name'' = None"
  "field_of NodeConfig_fields ''address'' = None"
  "field_of NodeConfig_fields ''pub_key_hex'' = None"
  "field_of NodeConfig_fields ''type'' = None"
  "field_of NodeConfig_fields ''created_at'' = None"
  by (simp_all add: field_of_lower [OF fields_lower(1)] lower_ascii_def) (simp_all add: NodeConfig_fields_def)

lemma decode_key_as_config: "decode NodeConfig_fields (key_info_json ki) = Some []"
  by (simp add: key_info_json_def decode_ignored key_info_no_field)

section \<open>The key store as a map\<close>

lemma key_file_plain: "plain e \<Longrightarrow> key_file home e = keysDir home @ [e]"
  using Join_plain [of e "[home, ''keys'']"] by (simp add: key_file_def keysDir_def)

definition draws_for :: "(string \<times> string) list \<Rightarrow> (nat \<Rightarrow> draw) \<Rightarrow> (string \<times> string \<times> draw) list" where
  "draws_for kts draws = map (\<lambda>i. (fst (kts ! i), snd (kts ! i), draws i)) [0..<length kts]"

lemma draws_for_simps [simp]:
  "draws_for [] draws = []"
  "draws_for (kt # kts) draws = (fst kt, snd kt, draws 0) # draws_for kts (\<lambda>n. draws (n + 1))"
  by (simp_all add: draws_for_def map_upt_Suc del: upt_Suc)

definition generated :: "(nat \<Rightarrow> draw) \<times> key_command \<Rightarrow> (string \<times> string \<times> draw) list" where
  "generated = (\<lambda>(draws, cmd).
     (case cmd of
        GenerateAll \<Rightarrow> draws_for all_keys draws
      | AddKey name \<Rightarrow> [(name, ''custom'', draws 0)]
      | ShowList \<Rightarrow> [] | ShowKey name \<Rightarrow> []))"

definition info_of :: "hash \<Rightarrow> string \<times> string \<times> draw \<Rightarrow> key_info" where
  "info_of H = (\<lambda>(name, keyType, now, d). key_info_for H name keyType now (fst (the d)))"

text \<open>The keys after some generations: under each name the last one.\<close>

definition key_map :: "hash \<Rightarrow> (string \<times> string \<times> draw) list \<Rightarrow> string \<Rightarrow> key_info option" where
  "key_map H gs = map_of (rev (map (\<lambda>g. (fst g, info_of H g)) gs))"

definition keys_run ::
  "hash \<Rightarrow> (path \<Rightarrow> bool) \<Rightarrow> string \<Rightarrow> ((nat \<Rightarrow> draw) \<times> key_command) list \<Rightarrow> file_system \<Rightarrow> file_system" where
  "keys_run H ok home cmds fs = foldl (\<lambda>fs (draws, cmd). fst (keys_command H ok home draws cmd fs)) fs cmds"

definition well_named :: "(string \<times> string \<times> draw) list \<Rightarrow> bool" where
  "well_named gs \<longleftrightarrow> list_all (\<lambda>(name, _, _, d). CHR ''/'' \<notin> set name \<and> d \<noteq> None) gs"

definition store_ok :: "string \<Rightarrow> (string \<Rightarrow> key_info option) \<Rightarrow> file_system \<Rightarrow> bool" where
  "store_ok home m fs \<longleftrightarrow>
     is_dir fs (keysDir home) \<and> (\<forall>name \<in> dom m. CHR ''/'' \<notin> set name) \<and> (\<forall>e. \<not> is_dir fs (keysDir home @ [e])) \<and>
     (\<forall>name. CHR ''/'' \<notin> set name \<longrightarrow>
        mget (Files fs) (keysDir home @ [name @ ''.json'']) = map_option (Json \<circ> key_info_json) (m name)) \<and>
     (\<forall>e. mget (Files fs) (keysDir home @ [e]) \<noteq> None \<longrightarrow>
        (\<exists>name \<in> dom m. e = name @ ''.json'' \<or> e = name @ ''.key''))"

lemma GenerateKey_ok:
  assumes "store_ok home m fs" "CHR ''/'' \<notin> set name" "\<forall>p. ok p"
  shows "\<exists>fs'. GenerateKey H ok home name keyType (now, Some (pub, priv)) fs =
      (fs', Inr (key_info_for H name keyType now pub, hex (take 32 priv))) \<and>
    store_ok home (m(name \<mapsto> key_info_for H name keyType now pub)) fs'"
proof -
  let ?i = "keysDir home @ [name @ ''.json'']" and ?k = "keysDir home @ [name @ ''.key'']"
  let ?ki = "key_info_for H name keyType now pub"
  let ?fs = "fs\<lparr>Files := mput ?k (Text (hex priv)) (mput ?i (Json (key_info_json ?ki)) (Files fs))\<rparr>"
  have "GenerateKey H ok home name keyType (now, Some (pub, priv)) fs = (?fs, Inr (?ki, hex (take 32 priv)))"
    using assms by (simp add: GenerateKey_def Let_def key_file_plain plain_json plain_key WriteFile_def store_ok_def)
  moreover have "store_ok home (m(name \<mapsto> ?ki)) ?fs"
    using assms(1,2) by (auto simp: store_ok_def go_map split: if_splits)
  ultimately show ?thesis by blast
qed

lemma key_map_snoc: "key_map H (gs @ [g]) = (key_map H gs)(fst g \<mapsto> info_of H g)"
  by (simp add: key_map_def)

lemma generate_keys_ok:
  assumes "\<forall>p. ok p"
  shows "store_ok home (key_map H gs) fs \<Longrightarrow> well_named (draws_for kts draws) \<Longrightarrow>
    \<exists>fs' keys. generate_keys H ok home kts draws fs = (fs', Inr keys) \<and>
      store_ok home (key_map H (gs @ draws_for kts draws)) fs'"
proof (induction kts arbitrary: gs draws fs)
  case (Cons kt kts)
  obtain name keyType now pub priv where kt: "kt = (name, keyType)" and d: "draws 0 = (now, Some (pub, priv))"
    and name: "CHR ''/'' \<notin> set name"
    using Cons.prems(2) by (cases kt; cases "draws 0") (auto simp: well_named_def)
  let ?g = "(name, keyType, draws 0)"
  from GenerateKey_ok [OF Cons.prems(1) name assms, where H = H and keyType = keyType and now = now and pub = pub and priv = priv] obtain fs1 where
    g: "GenerateKey H ok home name keyType (draws 0) fs =
      (fs1, Inr (key_info_for H name keyType now pub, hex (take 32 priv)))"
    and ok: "store_ok home (key_map H (gs @ [?g])) fs1"
    by (auto simp: d key_map_snoc info_of_def)
  from Cons.IH [OF ok, of "\<lambda>n. draws (n + 1)"] Cons.prems(2) show ?case
    by (auto simp: kt g well_named_def)
qed simp

lemma keys_command_ok:
  assumes "store_ok home (key_map H gs) fs" "well_named (generated (draws, cmd))" "\<forall>p. ok p"
  shows "store_ok home (key_map H (gs @ generated (draws, cmd))) (fst (keys_command H ok home draws cmd fs))"
proof -
  have new: "NewKeyStore ok home fs = fs"
    using assms(1) by (simp add: NewKeyStore_def ignoring_def MkdirAll_def store_ok_def)
  show ?thesis
  proof (cases cmd)
    case GenerateAll
    have "generated (draws, cmd) = draws_for all_keys draws"
      by (simp add: GenerateAll generated_def)
    with generate_keys_ok [OF assms(3,1), of all_keys draws] assms(2) show ?thesis
      by (auto simp: GenerateAll keys_command_def new Let_def)
  next
    case (AddKey name)
    with assms(2) obtain now pub priv where d: "draws 0 = (now, Some (pub, priv))"
      and name: "CHR ''/'' \<notin> set name" by (cases "draws 0") (auto simp: generated_def well_named_def)
    from GenerateKey_ok [OF assms(1) name assms(3), where H = H and keyType = "''custom''" and now = now and pub = pub and priv = priv] show ?thesis
      by (auto simp: AddKey keys_command_def new Let_def generated_def key_map_snoc info_of_def d)
  qed (use assms(1) in \<open>simp_all add: keys_command_def new Let_def generated_def split: sum.splits\<close>)
qed

lemma keys_run_ok:
  assumes "store_ok home Map.empty fs" "list_all (\<lambda>c. well_named (generated c)) cmds" "\<forall>p. ok p"
  shows "store_ok home (key_map H (concat (map generated cmds))) (keys_run H ok home cmds fs)"
  using assms(2)
proof (induction cmds rule: rev_induct)
  case Nil
  then show ?case using assms(1) by (simp add: keys_run_def key_map_def)
next
  case (snoc c cmds)
  then show ?case
    using keys_command_ok [OF _ _ assms(3), where draws = "fst c" and cmd = "snd c"]
    by (simp add: keys_run_def case_prod_beta)
qed

section \<open>The listing\<close>

lemma in_ReadDir:
  assumes "ReadDir p fs = Some es" "\<forall>e. \<not> is_dir fs (p @ [e])"
  shows "e \<in> set es \<longleftrightarrow> mget (Files fs) (p @ [e]) \<noteq> None"
proof -
  let ?qs = "mkeys (Files fs) @ Dirs fs"
  have "es = sort (remdups (map last (filter (\<lambda>q. q \<noteq> [] \<and> butlast q = p) ?qs)))"
    using assms(1) by (simp add: ReadDir_def split: if_splits)
  then have es: "set es = last ` {q \<in> set ?qs. q \<noteq> [] \<and> butlast q = p}"
    by (simp only: set_sort set_remdups set_map set_filter)
  have "e \<in> last ` {q \<in> A. q \<noteq> [] \<and> butlast q = p} \<longleftrightarrow> p @ [e] \<in> A" for A
    by (force simp: image_iff)
  then have "e \<in> set es \<longleftrightarrow> p @ [e] \<in> set ?qs" unfolding es .
  then show ?thesis using assms(2) by (auto simp: is_dir_def map_of_eq_None_iff)
qed

lemma ReadDir_sorted: "ReadDir p fs = Some es \<Longrightarrow> sorted es \<and> distinct es"
  by (auto simp: ReadDir_def split: if_splits)

lemma plain_files: "CHR ''/'' \<notin> set n \<Longrightarrow> key_file home (n @ ''.json'') = keysDir home @ [n @ ''.json'']"
  "CHR ''/'' \<notin> set n \<Longrightarrow> key_file home (n @ ''.key'') = keysDir home @ [n @ ''.key'']"
  by (simp_all add: key_file_plain plain_json plain_key)

lemma listed_info:
  assumes "store_ok home m fs" "CHR ''/'' \<notin> set n"
  shows "listed_key home fs (n @ ''.json'') = m n" "listed_key home fs (n @ ''.key'') = None"
    "GetKey home n fs = (case m n of None \<Rightarrow> Inl (KeyNotFound n) | Some ki \<Rightarrow> Inr ki)"
  using assms by (auto simp: listed_key_def ReadFile_def plain_files store_ok_def GetKey_def split: option.splits)

lemma ListKeys_ok:
  assumes "store_ok home m fs" "distinct names" "set names = dom m"
  shows "ListKeys home fs = Some (map (\<lambda>n. the (m n)) (sort_key (\<lambda>n. n @ ''.json'') names))"
proof -
  let ?f = "\<lambda>n :: string. n @ ''.json''" and ?l = "listed_key home fs"
  have dir: "is_dir fs (keysDir home)" and none: "\<forall>e. \<not> is_dir fs (keysDir home @ [e])"
    and named: "\<And>n. n \<in> dom m \<Longrightarrow> CHR ''/'' \<notin> set n"
    using assms(1) unfolding store_ok_def by blast+
  then obtain es where es: "ReadDir (keysDir home) fs = Some es" by (auto simp: ReadDir_def)
  have files: "e \<in> set es \<Longrightarrow> \<exists>n \<in> dom m. e = ?f n \<or> e = n @ ''.key''" for e
    using in_ReadDir [OF es none] assms(1) by (auto simp: store_ok_def)
  have jsons: "n \<in> dom m \<Longrightarrow> ?f n \<in> set es" for n
    using in_ReadDir [OF es none] assms(1) named by (auto simp: store_ok_def)
  have "set (filter (\<lambda>e. ?l e \<noteq> None) es) = ?f ` dom m"
    using files jsons listed_info(1,2) [OF assms(1) named] by (auto; fastforce)
  moreover have "sorted (map ?f (sort_key ?f names))" "distinct (map ?f (sort_key ?f names))"
    using assms(2) by (simp_all add: distinct_map inj_on_def)
  ultimately have "filter (\<lambda>e. ?l e \<noteq> None) es = map ?f (sort_key ?f names)"
    using ReadDir_sorted [OF es] assms(3)
    by (intro sorted_distinct_set_unique) (simp_all add: sorted_filter [of id, simplified])
  then have "List.map_filter ?l es = map (the \<circ> ?l) (map ?f (sort_key ?f names))"
    by (simp add: List.map_filter_def)
  also have "\<dots> = map (\<lambda>n. the (m n)) (sort_key ?f names)"
    using listed_info(1) [OF assms(1) named] assms(3) by simp
  finally show ?thesis by (simp add: ListKeys_def es)
qed

text \<open>
  C17: The key store is a map from names to the keys generated last. After any commands on a key
  store that was empty, with names without slashes and an operating system that refuses nothing,
  \<open>show\<close> gives the last key generated under a name, \<open>list\<close> gives all of them in the order of
  their file names, and a second generation under a name has replaced the first.
\<close>

theorem key_store_refines_map:
  assumes "is_dir fs (keysDir home)"
    "\<forall>e. mget (Files fs) (keysDir home @ [e]) = None \<and> \<not> is_dir fs (keysDir home @ [e])"
    "list_all (\<lambda>c. list_all (\<lambda>(name, _, _, d). CHR ''/'' \<notin> set name \<and> d \<noteq> None) (generated c)) cmds"
    "\<forall>p. ok p" "gs = concat (map generated cmds)" "fs' = keys_run H ok home cmds fs"
  shows "(\<forall>name. CHR ''/'' \<notin> set name \<longrightarrow> GetKey home name fs' =
      (case key_map H gs name of None \<Rightarrow> Inl (KeyNotFound name) | Some ki \<Rightarrow> Inr ki)) \<and>
    ListKeys home fs' =
      Some (map (\<lambda>n. the (key_map H gs n)) (sort_key (\<lambda>n. n @ ''.json'') (remdups (map fst gs))))"
proof -
  have "store_ok home Map.empty fs" using assms(1,2) by (simp add: store_ok_def)
  then have ok: "store_ok home (key_map H gs) fs'"
    using keys_run_ok [OF _ _ assms(4)] assms(3,5,6) by (simp add: well_named_def)
  have "dom (key_map H gs) = set (map fst gs)"
    by (simp add: key_map_def dom_map_of_conv_image_fst image_image)
  then show ?thesis using listed_info(3) [OF ok] ListKeys_ok [OF ok, of "remdups (map fst gs)"] by simp
qed

section \<open>Init, then start\<close>

text \<open>The files that \<open>init\<close> writes.\<close>

definition init_files :: "string \<Rightarrow> path list" where
  "init_files home =
     [config_file_at home ''priv_validator_key.json'', config_file_at home ''node_key.json'',
      config_file_at home ''genesis.json'', config_file_at home ''node_config.json'',
      data_file_at home ''priv_validator_state.json'']"

lemma make_dirs_files: "make_dirs ok ds fs = (fs', e) \<Longrightarrow> Files fs' = Files fs"
  by (induction ds arbitrary: fs) (auto split: option.splits dest: MkdirAll_files)

lemma make_dirs_keep: "make_dirs ok ds fs = (fs', None) \<Longrightarrow> is_dir fs d \<Longrightarrow> is_dir fs' d"
  by (induction ds arbitrary: fs) (auto split: option.splits dest: MkdirAll_dirs)

lemma make_dirs_made: "make_dirs ok ds fs = (fs', None) \<Longrightarrow> d \<in> set ds \<Longrightarrow> is_dir fs' d"
  by (induction ds arbitrary: fs)
    (auto split: option.splits dest: make_dirs_keep MkdirAll_dir)

lemma config_file_at_eq: "plain e \<Longrightarrow> config_file_at home e = Join [home] @ [''config'', e]"
  using Join_plain [of e "[home, ''config'']"] Join_plain [of "''config''" "[home]"]
  by (simp add: config_file_at_def plain_def)

lemma data_file_at_eq: "plain e \<Longrightarrow> data_file_at home e = Join [home] @ [''data'', e]"
  using Join_plain [of e "[home, ''data'']"] Join_plain [of "''data''" "[home]"]
  by (simp add: data_file_at_def plain_def)

lemma init_files_eq:
  "config_file_at home ''priv_validator_key.json'' = Join [home] @ [''config'', ''priv_validator_key.json'']"
  "config_file_at home ''node_key.json'' = Join [home] @ [''config'', ''node_key.json'']"
  "config_file_at home ''genesis.json'' = Join [home] @ [''config'', ''genesis.json'']"
  "config_file_at home ''node_config.json'' = Join [home] @ [''config'', ''node_config.json'']"
  "data_file_at home ''priv_validator_state.json'' = Join [home] @ [''data'', ''priv_validator_state.json'']"
  by (simp_all add: config_file_at_eq data_file_at_eq plain_def)

lemma init_files_distinct: "distinct (init_files home)"
  by (simp add: init_files_def init_files_eq)

text \<open>The writes of \<open>init\<close>, of which the second and the last two may fail unseen.\<close>

lemma init_writes:
  assumes "distinct [p1, p2, p3, p4, p5]" "WriteFile ok p1 c1 fs1 = Some fs2"
    "WriteFile ok p3 c3 (ignoring (WriteFile ok p2 c2) fs2) = Some fs3"
    "fs' = ignoring (WriteFile ok p5 c5) (ignoring (WriteFile ok p4 c4) fs3)"
  shows "ReadFile p3 fs' = Some c3 \<and>
    (ok p4 \<and> \<not> is_dir fs' p4 \<and> is_dir fs' (butlast p4) \<longrightarrow> ReadFile p4 fs' = Some c4) \<and>
    (p \<notin> {p1, p2, p3, p4, p5} \<longrightarrow> ReadFile p fs' = ReadFile p fs1) \<and> is_dir fs' = is_dir fs1"
proof -
  have "ReadFile q (ignoring (WriteFile ok r c) fs) = (if q = r \<and> ok r \<and> \<not> is_dir fs r \<and> is_dir fs (butlast r)
      then Some c else ReadFile q fs)" for q r c fs
    by (simp add: ignoring_WriteFile ReadFile_def go_map)
  moreover have "is_dir (ignoring (WriteFile ok r c) fs) = is_dir fs" for r c fs
    by (rule ext) (simp add: ignoring_WriteFile)
  moreover have "ReadFile q fs'' = (if q = r then Some c else ReadFile q fs)" "is_dir fs'' = is_dir fs"
    if "WriteFile ok r c fs = Some fs''" for q r c fs fs''
    using that by (auto simp: WriteFile_some ReadFile_def go_map)
  ultimately show ?thesis using assms by simp
qed

definition init_genesis :: "hash \<Rightarrow> string \<Rightarrow> string \<Rightarrow> time \<Rightarrow> keypair \<Rightarrow> json" where
  "init_genesis H moniker cid now key = generateGenesisJSON now cid moniker (new_validator_key H key)"

text \<open>A successful \<open>init\<close>: what can be read afterwards.\<close>

lemma init_written:
  assumes "realInit H ok home moniker cid now draws fs = (fs', Inr ())"
  obtains pub priv where "snd (draws 0) = Some (pub, priv)"
    "ReadFile (config_file_at home ''genesis.json'') fs' = Some (Json (init_genesis H moniker cid now (pub, priv)))"
    "ok (config_file_at home ''node_config.json'') \<Longrightarrow> \<not> is_dir fs' (config_file_at home ''node_config.json'') \<Longrightarrow>
       ReadFile (config_file_at home ''node_config.json'') fs' =
         Some (Json (node_config_json (new_node_config moniker cid (hex (take 20 (H pub))))))"
    "\<And>p. p \<notin> set (init_files home) \<Longrightarrow> ReadFile p fs' = ReadFile p fs"
    "is_dir fs' (keysDir home)" "is_dir fs' (Join [home] @ [''config''])"
proof -
  obtain fs1 where dirs: "make_dirs ok (init_dirs home) fs = (fs1, None)"
    using assms by (auto simp: realInit_def split: prod.splits option.splits)
  obtain pub priv where d: "snd (draws 0) = Some (pub, priv)"
    using assms dirs by (auto simp: realInit_def split: option.splits)
  have made: "is_dir fs1 (keysDir home)" "is_dir fs1 (Join [home] @ [''config''])"
    using make_dirs_made [OF dirs, of "keysDir home"] make_dirs_made [OF dirs, of "Join [home, ''config'']"]
      Join_plain [of "''config''" "[home]"]
    by (simp_all add: init_dirs_def keysDir_def plain_def)
  let ?c4 = "Json (node_config_json (new_node_config moniker cid (hex (take 20 (H pub)))))"
  let ?c3 = "Json (init_genesis H moniker cid now (pub, priv))"
  obtain c1 c2 c5 fs2 fs3 where w:
    "WriteFile ok (config_file_at home ''priv_validator_key.json'') c1 fs1 = Some fs2"
    "WriteFile ok (config_file_at home ''genesis.json'') ?c3
       (ignoring (WriteFile ok (config_file_at home ''node_key.json'') c2) fs2) = Some fs3"
    "fs' = ignoring (WriteFile ok (data_file_at home ''priv_validator_state.json'') c5)
       (ignoring (WriteFile ok (config_file_at home ''node_config.json'') ?c4) fs3)"
    using assms by (auto simp: realInit_def dirs d Let_def init_genesis_def split: option.splits)
  note W = init_writes [OF init_files_distinct [of home, unfolded init_files_def] w]
  have "is_dir fs' (butlast (config_file_at home ''node_config.json''))"
    using W made(2) by (simp add: init_files_eq butlast_append)
  then show ?thesis
    using W made by (intro that [OF d]) (simp_all add: init_files_def ReadFile_def make_dirs_files [OF dirs])
qed

lemma config_in_written:
  "ReadFile (config_file_at home ''node_config.json'') fs = Some (Json (node_config_json c)) \<Longrightarrow>
   config_in home fs = GoodConfig c"
  by (simp add: config_in_def unmarshal_def decode_node_config str_def)

lemma boot_good:
  "\<exists>s. boot srt now (GoodConfig c) f = Inr s \<and> n_ChainID (s_node s) = nc_ChainID c \<and>
     n_Moniker (s_node s) = nc_Moniker c \<and>
     (f_state f = None \<longrightarrow> n_State (s_node s) =
        \<lparr>bs_Height = 0, bs_AppHash = empty_hash, bs_Timestamp = now, bs_ChainID = nc_ChainID c\<rparr>) \<and>
     (\<forall>saved. f_state f = Some saved \<longrightarrow> n_State (s_node s) = saved)"
  by (simp add: boot_def NewFTGNode_def Let_def split: option.splits)

text \<open>
  C19: A node that \<open>init\<close> has set up starts. When \<open>init\<close> succeeds and the operating system accepts
  the configuration file, starting from the home directory gives a node with the chain and the
  moniker \<open>init\<close> was given, at height 0 unless a block state was saved there before, which is then
  taken over as it is; no file besides the five of \<open>init\<close> has changed.
\<close>

theorem init_then_start:
  assumes "realInit H ok home moniker cid now draws fs = (fs', Inr ())"
    "ok (config_file_at home ''node_config.json'')" "\<not> is_dir fs' (config_file_at home ''node_config.json'')"
  shows "(\<exists>s. boot srt now' (config_in home fs') f = Inr s \<and> n_ChainID (s_node s) = cid \<and>
      n_Moniker (s_node s) = moniker \<and>
      (case f_state f of None \<Rightarrow> height s = 0 | Some saved \<Rightarrow> n_State (s_node s) = saved)) \<and>
    (\<forall>p. p \<notin> set (init_files home) \<longrightarrow> ReadFile p fs' = ReadFile p fs)"
proof -
  obtain pub priv where c: "ReadFile (config_file_at home ''node_config.json'') fs' =
      Some (Json (node_config_json (new_node_config moniker cid (hex (take 20 (H pub))))))"
    and rest: "\<And>p. p \<notin> set (init_files home) \<Longrightarrow> ReadFile p fs' = ReadFile p fs"
    by (rule init_written [OF assms(1)]) (use assms(2,3) in blast)
  let ?c = "new_node_config moniker cid (hex (take 20 (H pub)))"
  have "config_in home fs' = GoodConfig ?c" by (rule config_in_written [OF c])
  then show ?thesis
    using boot_good [of srt now' ?c f] rest
    by (auto simp: new_node_config_def height_def split: option.splits)
qed

section \<open>Init, then the supply query\<close>

lemma supply_of_genesis:
  "init_genesis H moniker cid now key = JObj ms \<Longrightarrow> supply_of ms = Some (Supply (Some (JStr ''0'')) [] 0)"
  by (auto simp: init_genesis_def generateGenesisJSON_def jmap_def supply_of_def json_get_def
      assert_map_def assert_array_def genesis_energymint_def)

text \<open>With names that are not paths, the commands on keys stay in the key directory.\<close>

lemma WriteFile_other: "WriteFile ok q c fs = Some fs' \<Longrightarrow> p \<noteq> q \<Longrightarrow> ReadFile p fs' = ReadFile p fs"
  by (auto simp: WriteFile_some ReadFile_def go_map)

lemma GenerateKey_frame:
  assumes "CHR ''/'' \<notin> set name" "butlast p \<noteq> keysDir home"
  shows "ReadFile p (fst (GenerateKey H ok home name keyType d fs)) = ReadFile p fs"
proof -
  have "p \<noteq> key_file home (name @ ''.json'')" "p \<noteq> key_file home (name @ ''.key'')"
    using assms by (auto simp: plain_files)
  then show ?thesis
    by (auto simp: GenerateKey_def Let_def WriteFile_other split: prod.splits option.splits)
qed

lemma generate_keys_frame:
  "list_all (\<lambda>(name, _). CHR ''/'' \<notin> set name) kts \<Longrightarrow> butlast p \<noteq> keysDir home \<Longrightarrow>
   ReadFile p (fst (generate_keys H ok home kts draws fs)) = ReadFile p fs"
proof (induction kts arbitrary: draws fs)
  case (Cons kt kts)
  obtain name keyType where kt: "kt = (name, keyType)" by fastforce
  have "ReadFile p (fst (GenerateKey H ok home name keyType (draws 0) fs)) = ReadFile p fs"
    using Cons.prems by (intro GenerateKey_frame) (auto simp: kt)
  with Cons.IH [of "\<lambda>n. draws (n + 1)"] Cons.prems show ?case
    by (auto simp: kt split: prod.splits sum.splits; metis fst_conv)
qed simp

lemma keys_command_frame:
  assumes "\<forall>name. cmd = AddKey name \<longrightarrow> CHR ''/'' \<notin> set name" "butlast p \<noteq> keysDir home"
  shows "ReadFile p (fst (keys_command H ok home draws cmd fs)) = ReadFile p fs"
proof -
  let ?fs = "NewKeyStore ok home fs"
  have new: "ReadFile p ?fs = ReadFile p fs"
    by (auto simp: NewKeyStore_def ignoring_def ReadFile_def dest: MkdirAll_files split: option.splits)
  show ?thesis
  proof (cases cmd)
    case GenerateAll
    have "list_all (\<lambda>(name, _). CHR ''/'' \<notin> set name) all_keys" by (simp add: all_keys_def)
    from generate_keys_frame [OF this assms(2), of H ok draws ?fs] show ?thesis
      using new by (auto simp: GenerateAll keys_command_def Let_def split: prod.splits sum.splits; metis fst_conv)
  next
    case (AddKey name)
    with GenerateKey_frame [OF _ assms(2), of name H ok "''custom''" "draws 0" ?fs] assms(1) show ?thesis
      using new by (auto simp: keys_command_def Let_def split: prod.splits sum.splits; metis fst_conv)
  qed (simp_all add: keys_command_def Let_def new split: sum.splits)
qed

lemma keys_run_frame:
  assumes "list_all (\<lambda>(_, cmd). \<forall>name. cmd = AddKey name \<longrightarrow> CHR ''/'' \<notin> set name) cmds"
    "butlast p \<noteq> keysDir home"
  shows "ReadFile p (keys_run H ok home cmds fs) = ReadFile p fs"
  using assms(1)
  by (induction cmds rule: rev_induct) (auto simp: keys_run_def keys_command_frame assms(2))

text \<open>
  C39: The supply query reads what \<open>init\<close> wrote. In the default home directory, after a successful
  \<open>init\<close> and whatever commands on keys with names without slashes, the query passes its type
  assertions and reports a supply of 0 from no certificates and no minters; it asks neither the
  node nor its files.
\<close>

theorem init_then_query:
  assumes "realInit H ok ''/opt/ftg-data'' moniker cid now draws fs = (fs1, Inr ())"
    "list_all (\<lambda>(_, cmd). \<forall>name. cmd = AddKey name \<longrightarrow> CHR ''/'' \<notin> set name) cmds"
  shows "query_supply (keys_run H ok ''/opt/ftg-data'' cmds fs1) = Some (Supply (Some (JStr ''0'')) [] 0)"
proof -
  let ?home = "''/opt/ftg-data''"
  have p: "Join [''/opt/ftg-data/config/genesis.json''] = config_file_at ?home ''genesis.json''"
    and k: "butlast (config_file_at ?home ''genesis.json'') \<noteq> keysDir ?home"
    by (simp_all add: Join_def config_file_at_def keysDir_def)
  obtain key where g: "ReadFile (config_file_at ?home ''genesis.json'') fs1 = Some (Json (init_genesis H moniker cid now key))"
    by (rule init_written [OF assms(1)]) blast
  then have "ReadFile (config_file_at ?home ''genesis.json'') (keys_run H ok ?home cmds fs1) =
      Some (Json (init_genesis H moniker cid now key))"
    using keys_run_frame [OF assms(2) k] by simp
  moreover obtain ms where "init_genesis H moniker cid now key = JObj ms"
    by (simp add: init_genesis_def generateGenesisJSON_def jmap_def)
  ultimately show ?thesis using supply_of_genesis by (simp add: query_supply_def p)
qed

text \<open>
  C40: A key's name is not checked. In a home directory that \<open>init\<close> has set up, adding a key named
  \<open>../config/node_config\<close> succeeds when the operating system refuses nothing, and replaces the
  node's configuration by the key's record: the node then starts with an empty chain identifier
  and an empty moniker.
\<close>

theorem key_name_replaces_config:
  assumes "realInit H ok home moniker cid now draws fs = (fs1, Inr ())" "\<forall>p. ok p"
    "\<forall>e. \<not> is_dir fs1 (Join [home] @ [''config'', e])" "snd (draws' 0) = Some key"
    "keys_command H ok home draws' (AddKey ''../config/node_config'') fs1 = (fs2, r)"
  shows "(\<exists>ki seed. r = Inr (Added ki seed) \<and> ReadFile (config_file_at home ''node_config.json'') fs2 =
      Some (Json (key_info_json ki))) \<and>
    (\<exists>s. boot srt now' (config_in home fs2) f = Inr s \<and> n_ChainID (s_node s) = [] \<and> n_Moniker (s_node s) = [])"
  proof -
  obtain now2 pub priv where d: "draws' 0 = (now2, Some (pub, priv))"
    using assms(4) by (metis prod.collapse)
  let ?name = "''../config/node_config''" and ?d = "Join [home] @ [''config'']"
  have dir: "is_dir fs1 (keysDir home)" "is_dir fs1 ?d"
    by (rule init_written [OF assms(1)], assumption)+
  then have new: "NewKeyStore ok home fs1 = fs1" by (simp add: NewKeyStore_def ignoring_def MkdirAll_def)
  let ?i = "config_file_at home ''node_config.json''" and ?k = "?d @ [''node_config.key'']"
  let ?ki = "key_info_for H ?name ''custom'' now2 pub"
  have i: "key_file home ''../config/node_config.json'' = ?i" "?i = ?d @ [''node_config.json'']"
    and k: "key_file home ''../config/node_config.key'' = ?k"
    using Join_plain [of "''keys''" "[home]"] Join_snoc [of "[home, ''keys'']"]
    by (simp_all add: key_file_def plain_def init_files_eq)
  let ?fs2 = "fs1\<lparr>Files := mput ?k (Text (hex priv)) (mput ?i (Json (key_info_json ?ki)) (Files fs1))\<rparr>"
  have "GenerateKey H ok home ?name ''custom'' (draws' 0) fs1 = (?fs2, Inr (?ki, hex (take 32 priv)))"
    using assms(2,3) dir(2) by (simp add: GenerateKey_def d Let_def i k WriteFile_def butlast_append)
  then have r: "fs2 = ?fs2" "r = Inr (Added ?ki (hex (take 32 priv)))"
    using assms(5) by (simp_all add: keys_command_def Let_def new)
  have read: "ReadFile ?i fs2 = Some (Json (key_info_json ?ki))"
    unfolding r(1) by (simp add: ReadFile_def go_map i(2))
  then have "config_in home fs2 = GoodConfig \<lparr>nc_Moniker = [], nc_ChainID = [], nc_NodeID = [],
      nc_ListenAddr = [], nc_RPCAddr = [], nc_P2PAddr = []\<rparr>"
    by (simp add: config_in_def unmarshal_def decode_key_as_config str_def)
  then show ?thesis
    using read r(2) boot_good [of srt now' "\<lparr>nc_Moniker = [], nc_ChainID = [], nc_NodeID = [],
      nc_ListenAddr = [], nc_RPCAddr = [], nc_P2PAddr = []\<rparr>" f] by auto
qed

section \<open>On a concrete home directory\<close>

definition demo_draws :: "nat \<Rightarrow> draw" where
  "demo_draws n = (0, Some ([of_nat n, 255], [16, of_nat n]))"

definition demo_home :: "file_system \<times> (init_error + unit)" where
  "demo_home = realInit (\<lambda>_. [1, 2]) (\<lambda>_. True) ''/opt/ftg-data'' ''alpha'' ''ftg-1'' 0 demo_draws
     \<lparr>Dirs = [], Files = []\<rparr>"

lemma demo_dirs:
  "make_dirs (\<lambda>_. True) (init_dirs ''/opt/ftg-data'') \<lparr>Dirs = [], Files = []\<rparr> =
   (\<lparr>Dirs = [[''opt''], [''opt'', ''ftg-data''], [''opt'', ''ftg-data'', ''keys''],
       [''opt''], [''opt'', ''ftg-data''], [''opt'', ''ftg-data'', ''data''],
       [''opt''], [''opt'', ''ftg-data''], [''opt'', ''ftg-data'', ''config'']], Files = []\<rparr>, None)"
  by (simp add: init_dirs_def Join_def MkdirAll_def is_dir_def)

lemma demo_home_eval: "snd demo_home = Inr () \<and> Dirs (fst demo_home) =
   [[''opt''], [''opt'', ''ftg-data''], [''opt'', ''ftg-data'', ''keys''],
    [''opt''], [''opt'', ''ftg-data''], [''opt'', ''ftg-data'', ''data''],
    [''opt''], [''opt'', ''ftg-data''], [''opt'', ''ftg-data'', ''config'']]"
  by (simp add: demo_home_def realInit_def demo_dirs demo_draws_def WriteFile_def ignoring_WriteFile Let_def
      config_file_at_def data_file_at_def Join_def is_dir_def)

lemma demo_init:
  "realInit (\<lambda>_. [1, 2]) (\<lambda>_. True) ''/opt/ftg-data'' ''alpha'' ''ftg-1'' 0 demo_draws \<lparr>Dirs = [], Files = []\<rparr> =
   (fst demo_home, Inr ())"
  using demo_home_eval by (metis demo_home_def prod.collapse)

lemma demo_not_dir: "\<not> is_dir (fst demo_home) (Join [''/opt/ftg-data''] @ [''config'', e])"
  "\<not> is_dir (fst demo_home) (keysDir ''/opt/ftg-data'' @ [e])"
  "is_dir (fst demo_home) (keysDir ''/opt/ftg-data'')"
  using demo_home_eval by (simp_all add: is_dir_def Join_def keysDir_def)

theorem init_then_start_witness:
  "\<exists>s. boot insertion_sort 0 (config_in ''/opt/ftg-data'' (fst demo_home)) no_files = Inr s \<and>
    n_ChainID (s_node s) = ''ftg-1'' \<and> height s = 0"
proof -
  have "\<not> is_dir (fst demo_home) (config_file_at ''/opt/ftg-data'' ''node_config.json'')"
    by (subst init_files_eq(4)) (rule demo_not_dir(1))
  from init_then_start [OF demo_init _ this, of insertion_sort 0 no_files] show ?thesis
    by (auto simp: no_files_def)
qed

theorem init_then_query_witness:
  "query_supply (keys_run (\<lambda>_. [1, 2]) (\<lambda>_. True) ''/opt/ftg-data'' [(demo_draws, AddKey ''alice''), (demo_draws, ShowList)]
     (fst demo_home)) = Some (Supply (Some (JStr ''0'')) [] 0)"
  by (rule init_then_query [OF demo_init]) simp

theorem key_name_replaces_config_witness:
  "\<exists>s. boot insertion_sort 0 (config_in ''/opt/ftg-data''
      (fst (keys_command (\<lambda>_. [1, 2]) (\<lambda>_. True) ''/opt/ftg-data'' demo_draws (AddKey ''../config/node_config'') (fst demo_home))))
    no_files = Inr s \<and> n_ChainID (s_node s) = []"
proof -
  let ?r = "keys_command (\<lambda>_. [1, 2]) (\<lambda>_. True) ''/opt/ftg-data'' demo_draws (AddKey ''../config/node_config'') (fst demo_home)"
  have "snd (demo_draws 0) = Some ([0, 255], [16, 0])" by (simp add: demo_draws_def)
  from key_name_replaces_config [OF demo_init, where draws' = demo_draws and key = "([0, 255], [16, 0])" and ?fs2.0 = "fst ?r" and r = "snd ?r"
      and srt = insertion_sort and now' = 0 and f = no_files] show ?thesis
    using demo_not_dir(1) \<open>snd (demo_draws 0) = _\<close> by auto
qed

lemma info_name: "ki_Name (info_of H g) = fst g"
  by (cases g) (simp add: info_of_def key_info_for_def)

lemma demo_keys_empty: "mget (Files (fst demo_home)) (keysDir ''/opt/ftg-data'' @ [e]) = None"
proof -
  have "keysDir ''/opt/ftg-data'' @ [e] \<notin> set (init_files ''/opt/ftg-data'')"
    by (simp add: init_files_def init_files_eq keysDir_def Join_def)
  with init_written [OF demo_init] show ?thesis by (metis ReadFile_def file_system.select_convs(2) map_of.simps(1))
qed

theorem key_store_refines_map_witness:
  "map_option (map ki_Name) (ListKeys ''/opt/ftg-data'' (keys_run (\<lambda>_. [1, 2]) (\<lambda>_. True) ''/opt/ftg-data''
     [(demo_draws, GenerateAll), (demo_draws, AddKey ''alice''), (demo_draws, AddKey ''validator'')] (fst demo_home))) =
   Some [''alice'', ''treasury-committed'', ''treasury-liquidity'', ''treasury-minting'', ''validator'']"
proof -
  let ?cmds = "[(demo_draws, GenerateAll), (demo_draws, AddKey ''alice''), (demo_draws, AddKey ''validator'')]"
  have "list_all (\<lambda>c. list_all (\<lambda>(name, _, _, d). CHR ''/'' \<notin> set name \<and> d \<noteq> None) (generated c)) ?cmds"
    by (simp add: generated_def all_keys_def demo_draws_def)
  from key_store_refines_map [OF demo_not_dir(3) _ this _ refl refl, of "\<lambda>_. True" "\<lambda>_. [1, 2]"]
  show ?thesis
    using demo_keys_empty demo_not_dir(2)
    by (simp add: generated_def all_keys_def key_map_def info_name)
qed

end
