(* ===== verification/Sdk.thy ===== *)
theory Sdk
  imports Prelude "HOL-Library.Monad_Syntax"
begin

text \<open>
  What the Cosmos modules (\<open>x/energymint\<close>, \<open>x/burn\<close>, \<open>x/provenance\<close>, \<open>x/treasury\<close>) use of the
  Cosmos SDK, none of which is in the repository. The SDK's functions on addresses, numbers and
  coins are the fields of a record \<open>sdk\<close>, an argument of every definition that calls them;
  \<open>None\<close> is their panic. What the modules rely on is the locale \<open>sdk_laws\<close>, with the documented
  behaviour written out in \<open>doc_sdk\<close> for the concrete runs.

  A \<open>math.Int\<close> is the integer it holds and a \<open>math.LegacyDec\<close> the integer number of units
  \<open>10\<^sup>-\<^sup>1\<^sup>8\<close> it holds (\<open>None\<close> for the nil decimal of a message that left it out); comparing
  them compares these. An address is its bytes. A key-value store maps keys to the values whose
  encodings the code writes; a nil value, which is what a failed \<open>json.Marshal\<close> leaves, makes
  \<open>Set\<close> panic. Strings are valid UTF-8, which JSON keeps as it is.
\<close>

section \<open>The functions of the SDK\<close>

type_synonym addr = string
type_synonym dec = int
type_synonym coins = "(string \<times> int) list"
type_synonym sdk_event = "string \<times> (string \<times> string) list"

record sdk =
  addr_text :: "addr \<Rightarrow> string"
  addr_parse :: "string \<Rightarrow> addr option"
  int_add :: "int \<Rightarrow> int \<Rightarrow> int option"
  int_quo :: "int \<Rightarrow> int \<Rightarrow> int option"
  int_parse :: "string \<Rightarrow> int option"
  int_text :: "int \<Rightarrow> string"
  dec_add :: "dec \<Rightarrow> dec \<Rightarrow> dec option"
  dec_mul_int64 :: "dec \<Rightarrow> int64 \<Rightarrow> dec option"
  dec_mul_int :: "dec \<Rightarrow> int \<Rightarrow> dec option"
  dec_quo_int :: "dec \<Rightarrow> int \<Rightarrow> dec option"
  dec_truncate :: "dec \<Rightarrow> int option"
  dec_parse :: "string \<Rightarrow> dec option"
  dec_text :: "dec option \<Rightarrow> string"
  new_coins :: "string \<Rightarrow> int \<Rightarrow> coins option"

definition amount_of :: "string \<Rightarrow> coins \<Rightarrow> int" where
  "amount_of denom cs = sum_list (map snd (filter (\<lambda>c. fst c = denom) cs))"

text \<open>
  The documented behaviour: different addresses have different texts; additions and products
  are exact and panic only past their bit length, 256 bits for \<open>math.Int\<close> and 315 for a decimal;
  \<open>Quo\<close> and \<open>TruncateInt\<close> round towards zero; \<open>NewCoin\<close> panics on a negative amount and
  \<open>NewCoins\<close> drops a zero one.
\<close>

locale sdk_laws =
  fixes S :: sdk
  assumes addr_text_inj: "addr_text S a = addr_text S b \<Longrightarrow> a = b"
    and int_add_exact: "int_add S m n = Some r \<Longrightarrow> r = m + n"
    and int_add_total: "\<bar>m + n\<bar> < 2 ^ 256 \<Longrightarrow> int_add S m n \<noteq> None"
    and int_quo_exact: "n \<noteq> 0 \<Longrightarrow> \<bar>m\<bar> < 2 ^ 256 \<Longrightarrow> int_quo S m n = Some (m sdiv n)"
    and dec_add_exact: "dec_add S d e = Some r \<Longrightarrow> r = d + e"
    and dec_add_total: "\<bar>d + e\<bar> < 2 ^ 315 \<Longrightarrow> dec_add S d e \<noteq> None"
    and dec_mul_int64_exact: "dec_mul_int64 S d n = Some r \<Longrightarrow> r = d * n"
    and dec_mul_int64_total: "\<bar>d * n\<bar> < 2 ^ 315 \<Longrightarrow> dec_mul_int64 S d n \<noteq> None"
    and dec_truncate_exact: "dec_truncate S d = Some r \<Longrightarrow> r = d sdiv 10 ^ 18"
    and dec_truncate_total: "\<bar>d sdiv 10 ^ 18\<bar> < 2 ^ 256 \<Longrightarrow> dec_truncate S d \<noteq> None"
    and new_coins_none: "n < 0 \<Longrightarrow> new_coins S ''uftg'' n = None"
    and new_coins_some: "0 \<le> n \<Longrightarrow> n < 2 ^ 256 \<Longrightarrow> new_coins S ''uftg'' n \<noteq> None"
    and new_coins_amount: "new_coins S ''uftg'' n = Some cs \<Longrightarrow> amount_of ''uftg'' cs = n"
begin

lemma new_coins_nonneg: "new_coins S ''uftg'' n = Some cs \<Longrightarrow> 0 \<le> n"
  using new_coins_none [of n] by fastforce

lemma mint_units:
  assumes "dec_mul_int64 S d 100 = Some a" "dec_mul_int64 S a 1000000 = Some b" "dec_truncate S b = Some n"
    "0 \<le> d"
  shows "n = d * 10 ^ 8 div 10 ^ 18"
proof -
  have "b = d * 10 ^ 8" using assms(1,2) by (auto dest!: dec_mul_int64_exact)
  then show ?thesis using dec_truncate_exact [OF assms(3)] assms(4) by (simp add: sdiv_nonneg)
qed

end

definition decimal :: "int \<Rightarrow> string" where
  "decimal n = (if n < 0 then ''-'' @ dec_int (- n) else dec_int n)"

definition undecimal :: "string \<Rightarrow> int option" where
  "undecimal s =
     (if s \<noteq> [] \<and> list_all (\<lambda>c. 48 \<le> (of_char c :: nat) \<and> (of_char c :: nat) \<le> 57) s
      then Some (foldl (\<lambda>n c. 10 * n + (of_char c - 48)) 0 s) else None)"

definition within :: "nat \<Rightarrow> int \<Rightarrow> int option" where
  "within w x = (if \<bar>x\<bar> < 2 ^ w then Some x else None)"

definition doc_sdk :: sdk where
  "doc_sdk =
     \<lparr>addr_text = (\<lambda>a. if a = [] then [] else ''ftg1'' @ a),
      addr_parse = (\<lambda>s. if take 4 s = ''ftg1'' \<and> 4 < length s then Some (drop 4 s) else None),
      int_add = (\<lambda>m n. within 256 (m + n)),
      int_quo = (\<lambda>m n. if n = 0 then None else within 256 (m sdiv n)),
      int_parse = undecimal,
      int_text = decimal,
      dec_add = (\<lambda>d e. within 315 (d + e)),
      dec_mul_int64 = (\<lambda>d n. within 315 (d * n)),
      dec_mul_int = (\<lambda>d n. within 315 (d * n)),
      dec_quo_int = (\<lambda>d n. if n = 0 then None else Some (d sdiv n)),
      dec_truncate = (\<lambda>d. within 256 (d sdiv 10 ^ 18)),
      dec_parse = (\<lambda>s. map_option (\<lambda>n. n * 10 ^ 18) (undecimal s)),
      dec_text = (\<lambda>d. case d of None \<Rightarrow> ''<nil>''
        | Some n \<Rightarrow> decimal (n sdiv 10 ^ 18) @ ''.'' @ fmt0d 18 (\<bar>n\<bar> mod 10 ^ 18)),
      new_coins = (\<lambda>d n. if n < 0 then None else if n = 0 then Some [] else Some [(d, n)])\<rparr>"

lemma within_some: "within w x = Some y \<longleftrightarrow> \<bar>x\<bar> < 2 ^ w \<and> y = x"
  by (auto simp: within_def)

lemma abs_sdiv_le:
  assumes "n \<noteq> 0"
  shows "\<bar>m sdiv n\<bar> \<le> \<bar>m :: int\<bar>"
proof -
  have "\<bar>m sdiv n\<bar> = \<bar>sgn m\<bar> * \<bar>sgn n\<bar> * (\<bar>m\<bar> div \<bar>n\<bar>)"
    by (simp add: signed_divide_int_def abs_mult pos_imp_zdiv_nonneg_iff div_int_pos_iff)
  also have "\<dots> \<le> \<bar>m\<bar> div \<bar>n\<bar>" by (simp add: sgn_if div_int_pos_iff)
  also have "\<dots> \<le> \<bar>m\<bar>"
    using zdiv_mono2 [of "\<bar>m\<bar>" 1 "\<bar>n\<bar>"] assms by simp
  finally show ?thesis .
qed

interpretation doc: sdk_laws doc_sdk
proof unfold_locales
  show "n \<noteq> 0 \<Longrightarrow> \<bar>m\<bar> < 2 ^ 256 \<Longrightarrow> int_quo doc_sdk m n = Some (m sdiv n)" for m n
    using abs_sdiv_le [of n m] by (simp add: doc_sdk_def within_def)
qed (auto simp: doc_sdk_def within_def amount_of_def split: if_splits)

section \<open>Contexts\<close>

text \<open>
  An \<open>sdk.Context\<close> as one module sees it: its own store, the state of the bank module behind the
  \<open>BankKeeper\<close> interface, the events emitted so far.
\<close>

record ('b, 'v) ctx =
  kv :: "(string, 'v) gomap"
  bank :: 'b
  events :: "sdk_event list"

definition kv_set :: "string \<Rightarrow> 'v \<Rightarrow> ('b, 'v) ctx \<Rightarrow> ('b, 'v) ctx" where
  "kv_set key v c = c\<lparr>kv := mput key v (kv c)\<rparr>"

definition kv_delete :: "string \<Rightarrow> ('b, 'v) ctx \<Rightarrow> ('b, 'v) ctx" where
  "kv_delete key c = c\<lparr>kv := filter (\<lambda>(k, _). k \<noteq> key) (kv c)\<rparr>"

definition kv_has :: "('b, 'v) ctx \<Rightarrow> string \<Rightarrow> bool" where
  "kv_has c key = (mget (kv c) key \<noteq> None)"

definition EmitEvent :: "sdk_event \<Rightarrow> ('b, 'v) ctx \<Rightarrow> ('b, 'v) ctx" where
  "EmitEvent e c = c\<lparr>events := events c @ [e]\<rparr>"

text \<open>A call on the bank: \<open>None\<close> when it panics, an error message when it fails.\<close>

type_synonym 'b bank_call = "'b \<Rightarrow> ('b \<times> string option) option"

text \<open>\<open>count++\<close> on the \<open>uint64\<close> of a counter key.\<close>

definition next64 :: "int \<Rightarrow> int" where
  "next64 n = (n + 1) mod 2 ^ 64"

text \<open>\<open>json.Marshal\<close> of a time fails outside the years 0 to 9999.\<close>

definition json_time :: "time \<Rightarrow> bool" where
  "json_time t \<longleftrightarrow> - 62167219200 * 10 ^ 9 \<le> t \<and> t < 253402300800 * 10 ^ 9"

lemma map_sum_Inr [simp]: "map_sum f g x = Inr y \<longleftrightarrow> (\<exists>z. x = Inr z \<and> y = g z)"
  by (cases x) auto

lemma bind_SomeE:
  "Option.bind x f = Some y \<Longrightarrow> (\<And>a. x = Some a \<Longrightarrow> f a = Some y \<Longrightarrow> thesis) \<Longrightarrow> thesis"
  by (cases x) auto

lemma mget_filter_key [simp]: "mget (filter (\<lambda>(k, _). k \<noteq> key) m) k = (if k = key then None else mget m k)"
  by (induction m) auto

lemma kv_set_simps [simp]:
  "mget (kv (kv_set key v c)) k = (if k = key then Some v else mget (kv c) k)"
  "bank (kv_set key v c) = bank c" "events (kv_set key v c) = events c"
  by (simp_all add: kv_set_def go_map)

lemma distinct_filter_keys: "distinct (mkeys m) \<Longrightarrow> distinct (mkeys (filter P m))"
  by (induction m) auto

lemma distinct_kv [simp]:
  "distinct (mkeys (kv c)) \<Longrightarrow> distinct (mkeys (kv (kv_set key v c)))"
  "distinct (mkeys (kv c)) \<Longrightarrow> distinct (mkeys (kv (kv_delete key c)))"
  by (simp_all add: kv_set_def kv_delete_def distinct_filter_keys)

lemma kv_delete_simps [simp]:
  "mget (kv (kv_delete key c)) k = (if k = key then None else mget (kv c) k)"
  "bank (kv_delete key c) = bank c" "events (kv_delete key c) = events c"
  by (simp_all add: kv_delete_def)

lemma kv_has_simps [simp]:
  "kv_has (kv_set key v c) k \<longleftrightarrow> k = key \<or> kv_has c k"
  "kv_has (kv_delete key c) k \<longleftrightarrow> k \<noteq> key \<and> kv_has c k"
  "kv_has (EmitEvent e c) k \<longleftrightarrow> kv_has c k"
  "kv_has (c\<lparr>bank := b\<rparr>) k \<longleftrightarrow> kv_has c k"
  by (simp_all add: kv_has_def EmitEvent_def)

lemma EmitEvent_simps [simp]:
  "kv (EmitEvent e c) = kv c" "bank (EmitEvent e c) = bank c" "events (EmitEvent e c) = events c @ [e]"
  by (simp_all add: EmitEvent_def)

lemma next64_exact: "0 \<le> n \<Longrightarrow> n < 2 ^ 64 - 1 \<Longrightarrow> next64 n = n + 1"
  by (simp add: next64_def)

text \<open>Go's zero \<open>time.Time\<close>, the first instant of year 1.\<close>

definition zero_time :: time where
  "zero_time = - 62135596800 * 10 ^ 9"

section \<open>The values of one kind in a store\<close>

definition values_in :: "('v \<Rightarrow> 'a option) \<Rightarrow> (string, 'v) gomap \<Rightarrow> 'a list" where
  "values_in f m = List.map_filter (\<lambda>(_, v). f v) m"

lemma values_in_Nil [simp]: "values_in f [] = []"
  by (simp add: values_in_def)

lemma values_in_Cons: "values_in f ((k, v) # m) = (case f v of None \<Rightarrow> values_in f m | Some x \<Rightarrow> x # values_in f m)"
  by (simp add: values_in_def split: option.splits)

lemma values_in_new:
  "mget m k = None \<Longrightarrow> values_in f (mput k v m) = values_in f m @ (case f v of None \<Rightarrow> [] | Some x \<Rightarrow> [x])"
  by (simp add: mput_new values_in_def List.map_filter_def split: option.splits)

lemma values_in_other:
  "(\<And>w. mget m k = Some w \<Longrightarrow> f w = None) \<Longrightarrow> f v = None \<Longrightarrow> values_in f (mput k v m) = values_in f m"
  by (induction m) (auto simp: values_in_Cons split: option.splits if_splits)

lemma filter_no_key: "key \<notin> set (mkeys m) \<Longrightarrow> filter (\<lambda>(k, _). k \<noteq> key) m = m"
  by (induction m) auto

lemma values_in_delete:
  "(\<And>w. mget m key = Some w \<Longrightarrow> f w = None) \<Longrightarrow> distinct (mkeys m) \<Longrightarrow>
   values_in f (filter (\<lambda>(k, _). k \<noteq> key) m) = values_in f m"
proof (induction m)
  case (Cons a m)
  then show ?case
    by (cases a; cases "fst a = key") (auto simp: values_in_Cons filter_no_key split: option.splits)
qed simp

lemma values_in_iff:
  "distinct (mkeys m) \<Longrightarrow> x \<in> set (values_in f m) \<longleftrightarrow> (\<exists>k v. mget m k = Some v \<and> f v = Some x)"
  by (simp add: mget_iff) (force simp: values_in_def List.map_filter_def)

lemma values_in_sum_update:
  "mget m k = Some w \<Longrightarrow> f w = Some x \<Longrightarrow> f v = Some y \<Longrightarrow> distinct (mkeys m) \<Longrightarrow>
   sum_list (map g (values_in f (mput k v m))) = sum_list (map g (values_in f m)) - g x + (g y :: int)"
  by (induction m) (auto simp: values_in_Cons mget_None [symmetric] split: option.splits if_splits)

section \<open>The banks of the modules' tests\<close>

text \<open>
  The mock bank keepers of the \<open>keeper_test.go\<close> files, for their one denomination: balances by
  the text of the address or \<open>module/\<close> and the name, and the totals minted and burned.
  \<open>Coins.Sub\<close> panics when the result would be negative.
\<close>

record test_bank =
  balances :: "(string, int) gomap"
  minted :: int
  burned :: int

definition tb_credit :: "string \<Rightarrow> coins \<Rightarrow> test_bank \<Rightarrow> test_bank" where
  "tb_credit key cs b =
     b\<lparr>balances := mput key (mgetd 0 (balances b) key + amount_of ''uftg'' cs) (balances b)\<rparr>"

definition tb_debit :: "string \<Rightarrow> coins \<Rightarrow> test_bank \<Rightarrow> test_bank option" where
  "tb_debit key cs b =
     (let n = mgetd 0 (balances b) key - amount_of ''uftg'' cs
      in if n < 0 then None else Some (b\<lparr>balances := mput key n (balances b)\<rparr>))"

definition tb_move :: "string \<Rightarrow> string \<Rightarrow> coins \<Rightarrow> test_bank bank_call" where
  "tb_move from to cs b = map_option (\<lambda>b. (tb_credit to cs b, None)) (tb_debit from cs b)"

lemma tb_credit_totals [simp]: "minted (tb_credit key cs b) = minted b" "burned (tb_credit key cs b) = burned b"
  by (simp_all add: tb_credit_def)

lemma tb_move_totals:
  assumes "tb_move k l cs b = Some (b', e)"
  shows "minted b' = minted b" "burned b' = burned b"
  using assms by (auto simp: tb_move_def tb_debit_def tb_credit_def Let_def split: if_splits)

lemma tb_move_balance:
  "tb_move k l cs b = Some (b', e) \<Longrightarrow>
   mgetd 0 (balances b') i = mgetd 0 (balances b) i - (if i = k then amount_of ''uftg'' cs else 0) +
     (if i = l then amount_of ''uftg'' cs else 0)"
  by (auto simp: tb_move_def tb_debit_def tb_credit_def Let_def go_map split: if_splits)

section \<open>Machines that number what they create\<close>

text \<open>
  A module whose invariant needs its \<open>uint64\<close> counter not to wrap: a step raises the counter by
  at most one, so the invariant holds for as many steps as the counter has room.
\<close>

locale counted_machine =
  state_machine step "\<lambda>s _. count s < 2 ^ 64 - 1" ok
  for step :: "'s \<Rightarrow> 'e \<Rightarrow> 's" and ok :: "'s \<Rightarrow> bool" and count :: "'s \<Rightarrow> int" +
  assumes step_count: "ok s \<Longrightarrow> count s < 2 ^ 64 - 1 \<Longrightarrow> count (step s e) \<le> count s + 1"
begin

lemma run_room:
  "ok s \<Longrightarrow> count s + int (length es) < 2 ^ 64 \<Longrightarrow> all_pre step (\<lambda>s _. count s < 2 ^ 64 - 1) s es"
proof (induction es arbitrary: s)
  case (Cons e es)
  have c: "count s < 2 ^ 64 - 1" using Cons.prems(2) by simp
  have "all_pre step (\<lambda>s _. count s < 2 ^ 64 - 1) (step s e) es"
    using step_count [OF Cons.prems(1) c, of e] Cons.prems(2)
    by (intro Cons.IH step_ok Cons.prems(1) c) simp
  then show ?case using c by simp
qed simp

lemma count_le: "ok s \<Longrightarrow> count s + int (length es) < 2 ^ 64 \<Longrightarrow> count (foldl step s es) \<le> count s + int (length es)"
proof (induction es arbitrary: s)
  case (Cons e es)
  have c: "count s < 2 ^ 64 - 1" using Cons.prems(2) by simp
  note n = step_count [OF Cons.prems(1) c, of e]
  have "count (foldl step (step s e) es) \<le> count (step s e) + int (length es)"
    using n Cons.prems(2) by (intro Cons.IH step_ok Cons.prems(1) c) simp
  then show ?case using n by simp
qed simp

lemma run_counted: "ok s \<Longrightarrow> count s + int (length es) < 2 ^ 64 \<Longrightarrow> ok (foldl step s es)"
  by (rule run_ok [OF _ run_room])

end

end
