(* ===== verification/EnergyMint.thy ===== *)
theory EnergyMint
  imports Sdk
begin

text \<open>
  The energymint module, \<open>x/energymint\<close>: minting uftg against a certificate, the authorized
  minters, parameters, totals, the message server and the queries. The keeper's fields are the
  argument \<open>authority\<close>, the store and the bank of the context; logging is left out. Each key
  prefix holds one kind of value, named by a constructor of \<open>em_val\<close>.
\<close>

section \<open>Types\<close>

record energy_certificate =
  ec_CertificateID :: string
  ec_ExternalID :: string
  ec_Source :: string
  ec_MwhQuantity :: "dec option"
  ec_GenerationDate :: time
  ec_PurchaseDate :: time
  ec_IPFSHash :: string
  ec_ProvenanceType :: string
  ec_MintedTokens :: int
  ec_MintTimestamp :: time
  ec_Owner :: addr
  ec_Status :: string

record em_params =
  AuthorizedMinters :: "addr list"
  MinCertificateMwh :: dec
  RequireIPFS :: bool
  AcceptedProvenanceTypes :: "string list"

record mint_response =
  mp_CertificateID :: string
  mp_TokensMinted :: int
  mp_Recipient :: addr
  mp_TxHash :: string

definition em_DefaultParams :: em_params where
  "em_DefaultParams =
     \<lparr>AuthorizedMinters = [], MinCertificateMwh = 10 ^ 18, RequireIPFS = True,
      AcceptedProvenanceTypes = [''proof_of_purchase'', ''proof_of_generation'', ''proof_of_storage'']\<rparr>"

datatype em_error =
    NotAuthorizedMinter string | ProvenanceNotAccepted string | IPFSHashRequired
  | MwhBelowMinimum dec dec | CertificateAlreadyRegistered string
  | MintCoinsFailed string | SendMintedFailed string
  | InvalidSenderAddress string | InvalidDestinationWallet string
  | MinterUnauthorized | InvalidMinterAddress string
  | InvalidCertificate string | InvalidAddress string | CertificateNotFound string

text \<open>The bank as \<open>types/expected_keepers.go\<close> declares it.\<close>

record 'b em_bank =
  MintCoins :: "string \<Rightarrow> coins \<Rightarrow> 'b bank_call"
  em_BurnCoins :: "string \<Rightarrow> coins \<Rightarrow> 'b bank_call"
  SendCoinsFromModuleToAccount :: "string \<Rightarrow> addr \<Rightarrow> coins \<Rightarrow> 'b bank_call"
  em_SendCoinsFromAccountToModule :: "addr \<Rightarrow> string \<Rightarrow> coins \<Rightarrow> 'b bank_call"
  em_GetBalance :: "'b \<Rightarrow> addr \<Rightarrow> string \<Rightarrow> int"

section \<open>The store\<close>

definition CertificateKey :: "string \<Rightarrow> string" where "CertificateKey x = ''Certificate/value/'' @ x"
definition AuthorizedMinterKey :: "string \<Rightarrow> string" where "AuthorizedMinterKey a = ''AuthorizedMinter/'' @ a"
abbreviation CertificateCountKey :: string where "CertificateCountKey \<equiv> ''Certificate/count/''"
abbreviation TotalMintedKey :: string where "TotalMintedKey \<equiv> ''TotalMinted/''"
abbreviation TotalBackedMwhKey :: string where "TotalBackedMwhKey \<equiv> ''TotalBackedMwh/''"
abbreviation em_ParamsKey :: string where "em_ParamsKey \<equiv> ''Params/''"

datatype em_val =
    VCertificate energy_certificate | VCount int | VMinted int | VBacked dec | VParams em_params | VMinter

type_synonym 'b em_ctx = "('b, em_val) ctx"

definition IsAuthorizedMinter :: "sdk \<Rightarrow> 'b em_ctx \<Rightarrow> addr \<Rightarrow> bool" where
  "IsAuthorizedMinter S c a = kv_has c (AuthorizedMinterKey (addr_text S a))"

definition AddAuthorizedMinter :: "sdk \<Rightarrow> addr \<Rightarrow> 'b em_ctx \<Rightarrow> 'b em_ctx" where
  "AddAuthorizedMinter S a c = kv_set (AuthorizedMinterKey (addr_text S a)) VMinter c"

definition RemoveAuthorizedMinter :: "sdk \<Rightarrow> addr \<Rightarrow> 'b em_ctx \<Rightarrow> 'b em_ctx" where
  "RemoveAuthorizedMinter S a c = kv_delete (AuthorizedMinterKey (addr_text S a)) c"

definition HasCertificate :: "'b em_ctx \<Rightarrow> string \<Rightarrow> bool" where
  "HasCertificate c x = kv_has c (CertificateKey x)"

definition em_SetCertificate :: "energy_certificate \<Rightarrow> 'b em_ctx \<Rightarrow> 'b em_ctx option" where
  "em_SetCertificate ce c =
     (if json_time (ec_GenerationDate ce) \<and> json_time (ec_PurchaseDate ce) \<and> json_time (ec_MintTimestamp ce)
      then Some (kv_set (CertificateKey (ec_ExternalID ce)) (VCertificate ce) c) else None)"

definition GetCertificate :: "'b em_ctx \<Rightarrow> string \<Rightarrow> energy_certificate option" where
  "GetCertificate c x =
     (case mget (kv c) (CertificateKey x) of Some (VCertificate ce) \<Rightarrow> Some ce | _ \<Rightarrow> None)"

definition em_count :: "'b em_ctx \<Rightarrow> int" where
  "em_count c = (case mget (kv c) CertificateCountKey of Some (VCount n) \<Rightarrow> n | _ \<Rightarrow> 0)"

definition certificate_id :: "int \<Rightarrow> string" where
  "certificate_id n = ''FTG-CERT-'' @ fmt0d 6 n"

definition GenerateCertificateID :: "'b em_ctx \<Rightarrow> 'b em_ctx \<times> string" where
  "GenerateCertificateID c =
     (let n = next64 (em_count c) in (kv_set CertificateCountKey (VCount n) c, certificate_id n))"

definition em_GetParams :: "'b em_ctx \<Rightarrow> em_params" where
  "em_GetParams c = (case mget (kv c) em_ParamsKey of Some (VParams p) \<Rightarrow> p | _ \<Rightarrow> em_DefaultParams)"

definition em_SetParams :: "em_params \<Rightarrow> 'b em_ctx \<Rightarrow> 'b em_ctx" where
  "em_SetParams p c = kv_set em_ParamsKey (VParams p) c"

definition GetTotalMinted :: "'b em_ctx \<Rightarrow> int" where
  "GetTotalMinted c = (case mget (kv c) TotalMintedKey of Some (VMinted n) \<Rightarrow> n | _ \<Rightarrow> 0)"

definition GetTotalBackedMwh :: "'b em_ctx \<Rightarrow> dec" where
  "GetTotalBackedMwh c = (case mget (kv c) TotalBackedMwhKey of Some (VBacked d) \<Rightarrow> d | _ \<Rightarrow> 0)"

definition IncrementTotalMinted :: "sdk \<Rightarrow> int \<Rightarrow> 'b em_ctx \<Rightarrow> 'b em_ctx option" where
  "IncrementTotalMinted S n c =
     map_option (\<lambda>t. kv_set TotalMintedKey (VMinted t) c) (int_add S (GetTotalMinted c) n)"

definition IncrementTotalBackedMwh :: "sdk \<Rightarrow> dec \<Rightarrow> 'b em_ctx \<Rightarrow> 'b em_ctx option" where
  "IncrementTotalBackedMwh S d c =
     map_option (\<lambda>t. kv_set TotalBackedMwhKey (VBacked t) c) (dec_add S (GetTotalBackedMwh c) d)"

definition isAcceptedProvenance :: "string list \<Rightarrow> string \<Rightarrow> bool" where
  "isAcceptedProvenance accepted ptype = list_ex (\<lambda>a. a = ptype) accepted"

section \<open>Minting\<close>

text \<open>
  The checks that read the store, in their order; comparing a nil quantity panics. The two
  totals are written after the certificate.
\<close>

definition mint_check :: "sdk \<Rightarrow> addr \<Rightarrow> energy_certificate \<Rightarrow> 'b em_ctx \<Rightarrow> (em_error + dec) option" where
  "mint_check S sender cert c =
     (if \<not> IsAuthorizedMinter S c sender then Some (Inl (NotAuthorizedMinter (addr_text S sender)))
      else let params = em_GetParams c in
        if \<not> isAcceptedProvenance (AcceptedProvenanceTypes params) (ec_ProvenanceType cert)
        then Some (Inl (ProvenanceNotAccepted (ec_ProvenanceType cert)))
        else if RequireIPFS params \<and> ec_IPFSHash cert = '''' then Some (Inl IPFSHashRequired)
        else do {
          mwh \<leftarrow> ec_MwhQuantity cert;
          if mwh < MinCertificateMwh params then Some (Inl (MwhBelowMinimum mwh (MinCertificateMwh params)))
          else if HasCertificate c (ec_ExternalID cert)
          then Some (Inl (CertificateAlreadyRegistered (ec_ExternalID cert)))
          else Some (Inr mwh)
        })"

definition record_mint ::
  "sdk \<Rightarrow> time \<Rightarrow> addr \<Rightarrow> energy_certificate \<Rightarrow> dec \<Rightarrow> int \<Rightarrow> addr \<Rightarrow> 'b em_ctx \<Rightarrow> ('b em_ctx \<times> mint_response) option"
where
  "record_mint S now sender cert mwh tokens dest c =
     (let (c, i) = GenerateCertificateID c;
          cert = cert\<lparr>ec_CertificateID := i, ec_MintedTokens := tokens, ec_MintTimestamp := now,
                      ec_Owner := sender, ec_Status := ''active''\<rparr>
      in do {
        c \<leftarrow> em_SetCertificate cert c;
        c \<leftarrow> IncrementTotalMinted S tokens c;
        c \<leftarrow> IncrementTotalBackedMwh S mwh c;
        Some (EmitEvent (''ftg_mint'',
                [(''certificate_id'', i), (''external_id'', ec_ExternalID cert),
                 (''mwh_quantity'', dec_text S (Some mwh)), (''tokens_minted'', int_text S tokens),
                 (''recipient'', addr_text S dest), (''provenance_type'', ec_ProvenanceType cert),
                 (''ipfs_hash'', ec_IPFSHash cert)]) c,
              \<lparr>mp_CertificateID = i, mp_TokensMinted = tokens, mp_Recipient = dest, mp_TxHash = ''''\<rparr>)
      })"

definition MintFromCertificate ::
  "sdk \<Rightarrow> 'b em_bank \<Rightarrow> time \<Rightarrow> addr \<Rightarrow> energy_certificate \<Rightarrow> addr \<Rightarrow> 'b em_ctx \<Rightarrow>
   ('b em_ctx \<times> (em_error + mint_response)) option" where
  "MintFromCertificate S B now sender cert destinationWallet c =
     Option.bind (mint_check S sender cert c) (\<lambda>r. case r of
       Inl e \<Rightarrow> Some (c, Inl e)
     | Inr mwh \<Rightarrow> do {
         kwh \<leftarrow> dec_mul_int64 S mwh 100;
         micro \<leftarrow> dec_mul_int64 S kwh 1000000;
         tokens \<leftarrow> dec_truncate S micro;
         coins \<leftarrow> new_coins S ''uftg'' tokens;
         (b, err) \<leftarrow> MintCoins B ''energymint'' coins (bank c);
         let c = c\<lparr>bank := b\<rparr>;
         case err of Some e \<Rightarrow> Some (c, Inl (MintCoinsFailed e))
         | None \<Rightarrow> do {
             let dest = (if destinationWallet = [] then sender else destinationWallet);
             (b, err) \<leftarrow> SendCoinsFromModuleToAccount B ''energymint'' dest coins (bank c);
             let c = c\<lparr>bank := b\<rparr>;
             case err of Some e \<Rightarrow> Some (c, Inl (SendMintedFailed e))
             | None \<Rightarrow> map_option (\<lambda>(c, r). (c, Inr r)) (record_mint S now sender cert mwh tokens dest c)
           }
       })"

section \<open>Messages\<close>

record msg_mint =
  mm_Sender :: string
  mm_ExternalId :: string
  mm_Source :: string
  mm_MwhQuantity :: "dec option"
  mm_GenerationDate :: time
  mm_PurchaseDate :: time
  mm_IpfsHash :: string
  mm_ProvenanceType :: string
  mm_DestinationWallet :: string

record msg_minter =
  ma_Authority :: string
  ma_MinterAddress :: string

definition mint_ValidateBasic :: "sdk \<Rightarrow> msg_mint \<Rightarrow> em_error option" where
  "mint_ValidateBasic S msg =
     (if addr_parse S (mm_Sender msg) = None then Some (InvalidAddress (mm_Sender msg))
      else if mm_ExternalId msg = '''' then Some (InvalidCertificate ''external_id cannot be empty'')
      else if mm_Source msg = '''' then Some (InvalidCertificate ''source cannot be empty'')
      else if (case mm_MwhQuantity msg of None \<Rightarrow> True | Some d \<Rightarrow> d < 0 \<or> d = 0)
      then Some (InvalidCertificate ''mwh_quantity must be positive'')
      else if mm_IpfsHash msg = '''' then Some (InvalidCertificate ''ipfs_hash cannot be empty'')
      else if mm_ProvenanceType msg = '''' then Some (InvalidCertificate ''provenance_type cannot be empty'')
      else if mm_DestinationWallet msg \<noteq> '''' \<and> addr_parse S (mm_DestinationWallet msg) = None
      then Some (InvalidAddress (mm_DestinationWallet msg))
      else None)"

definition mint_GetSigners :: "sdk \<Rightarrow> msg_mint \<Rightarrow> addr list" where
  "mint_GetSigners S msg = [case addr_parse S (mm_Sender msg) of None \<Rightarrow> [] | Some a \<Rightarrow> a]"

definition cert_of_msg :: "msg_mint \<Rightarrow> energy_certificate" where
  "cert_of_msg msg =
     \<lparr>ec_CertificateID = '''', ec_ExternalID = mm_ExternalId msg, ec_Source = mm_Source msg,
      ec_MwhQuantity = mm_MwhQuantity msg, ec_GenerationDate = mm_GenerationDate msg,
      ec_PurchaseDate = mm_PurchaseDate msg, ec_IPFSHash = mm_IpfsHash msg,
      ec_ProvenanceType = mm_ProvenanceType msg, ec_MintedTokens = 0, ec_MintTimestamp = zero_time,
      ec_Owner = [], ec_Status = ''''\<rparr>"

definition msg_MintFromCertificate ::
  "sdk \<Rightarrow> 'b em_bank \<Rightarrow> time \<Rightarrow> msg_mint \<Rightarrow> 'b em_ctx \<Rightarrow>
   ('b em_ctx \<times> (em_error + string \<times> string \<times> string)) option" where
  "msg_MintFromCertificate S B now msg c =
     (case addr_parse S (mm_Sender msg) of
        None \<Rightarrow> Some (c, Inl (InvalidSenderAddress (mm_Sender msg)))
      | Some sender \<Rightarrow>
          (case (if mm_DestinationWallet msg = '''' then Some []
                 else addr_parse S (mm_DestinationWallet msg)) of
             None \<Rightarrow> Some (c, Inl (InvalidDestinationWallet (mm_DestinationWallet msg)))
           | Some dest \<Rightarrow>
               map_option (\<lambda>(c, r). (c, map_sum id (\<lambda>m. (mp_CertificateID m, int_text S (mp_TokensMinted m),
                   addr_text S (mp_Recipient m))) r))
                 (MintFromCertificate S B now sender (cert_of_msg msg) dest c)))"

definition AddMinter :: "sdk \<Rightarrow> string \<Rightarrow> msg_minter \<Rightarrow> 'b em_ctx \<Rightarrow> 'b em_ctx \<times> (em_error + unit)" where
  "AddMinter S authority msg c =
     (if ma_Authority msg \<noteq> authority then (c, Inl MinterUnauthorized)
      else case addr_parse S (ma_MinterAddress msg) of
        None \<Rightarrow> (c, Inl (InvalidMinterAddress (ma_MinterAddress msg)))
      | Some a \<Rightarrow>
          (EmitEvent (''minter_added'', [(''minter_address'', ma_MinterAddress msg),
             (''added_by'', ma_Authority msg)]) (AddAuthorizedMinter S a c), Inr ()))"

definition RemoveMinter :: "sdk \<Rightarrow> string \<Rightarrow> msg_minter \<Rightarrow> 'b em_ctx \<Rightarrow> 'b em_ctx \<times> (em_error + unit)" where
  "RemoveMinter S authority msg c =
     (if ma_Authority msg \<noteq> authority then (c, Inl MinterUnauthorized)
      else case addr_parse S (ma_MinterAddress msg) of
        None \<Rightarrow> (c, Inl (InvalidMinterAddress (ma_MinterAddress msg)))
      | Some a \<Rightarrow>
          (EmitEvent (''minter_removed'', [(''minter_address'', ma_MinterAddress msg),
             (''removed_by'', ma_Authority msg)]) (RemoveAuthorizedMinter S a c), Inr ()))"

section \<open>Queries\<close>

definition q_Certificate :: "string \<Rightarrow> 'b em_ctx \<Rightarrow> em_error + energy_certificate" where
  "q_Certificate x c =
     (case GetCertificate c x of None \<Rightarrow> Inl (CertificateNotFound x) | Some ce \<Rightarrow> Inr ce)"

definition q_TotalSupply :: "sdk \<Rightarrow> 'b em_ctx \<Rightarrow> (string \<times> string \<times> string) option" where
  "q_TotalSupply S c =
     map_option (\<lambda>ftg. (int_text S (GetTotalMinted c), dec_text S (Some (GetTotalBackedMwh c)), int_text S ftg))
       (int_quo S (GetTotalMinted c) 1000000)"

definition q_em_Params :: "'b em_ctx \<Rightarrow> em_params" where
  "q_em_Params c = em_GetParams c"

definition q_IsAuthorizedMinter :: "sdk \<Rightarrow> string \<Rightarrow> 'b em_ctx \<Rightarrow> em_error + bool" where
  "q_IsAuthorizedMinter S s c =
     (case addr_parse S s of None \<Rightarrow> Inl (InvalidAddress s) | Some a \<Rightarrow> Inr (IsAuthorizedMinter S c a))"

end
