(* ===== verification/EnergyMintProps.thy ===== *)
theory EnergyMintProps
  imports EnergyMint
begin

text \<open>
  Any sequence of messages to the energymint module and parameter changes keeps its store
  consistent: one certificate per external identifier, numbered identifiers, totals that are the
  sums over the certificates and the coins the bank has minted. Minting takes an authorized
  sender, and only the authority changes who is one.
\<close>

section \<open>Runs\<close>

datatype em_op =
    OpMint time msg_mint
  | OpAddMinter msg_minter
  | OpRemoveMinter msg_minter
  | OpSetParams em_params

text \<open>A message that fails its checks, returns an error or panics is rolled back as a whole.\<close>

definition em_step :: "sdk \<Rightarrow> 'b em_bank \<Rightarrow> string \<Rightarrow> 'b em_ctx \<Rightarrow> em_op \<Rightarrow> 'b em_ctx" where
  "em_step S B authority c op =
     (case op of
        OpMint now msg \<Rightarrow>
          (if mint_ValidateBasic S msg \<noteq> None then c
           else case msg_MintFromCertificate S B now msg c of Some (c', Inr _) \<Rightarrow> c' | _ \<Rightarrow> c)
      | OpAddMinter msg \<Rightarrow> (case AddMinter S authority msg c of (c', Inr _) \<Rightarrow> c' | _ \<Rightarrow> c)
      | OpRemoveMinter msg \<Rightarrow> (case RemoveMinter S authority msg c of (c', Inr _) \<Rightarrow> c' | _ \<Rightarrow> c)
      | OpSetParams p \<Rightarrow> em_SetParams p c)"

definition em_start :: "'b \<Rightarrow> 'b em_ctx" where
  "em_start b = \<lparr>kv = [], bank = b, events = []\<rparr>"

definition em_run :: "sdk \<Rightarrow> 'b em_bank \<Rightarrow> string \<Rightarrow> 'b \<Rightarrow> em_op list \<Rightarrow> 'b em_ctx" where
  "em_run S B authority b ops = foldl (em_step S B authority) (em_start b) ops"

section \<open>The bank\<close>

text \<open>What minting relies on: \<open>MintCoins\<close> adds the coins to the supply, sending keeps it.\<close>

locale mint_bank =
  fixes B :: "'b em_bank" and coin_supply :: "'b \<Rightarrow> int"
  assumes mint_supply: "MintCoins B m cs b = Some (b', None) \<Longrightarrow> coin_supply b' = coin_supply b + amount_of ''uftg'' cs"
    and send_supply: "SendCoinsFromModuleToAccount B m a cs b = Some (b', None) \<Longrightarrow> coin_supply b' = coin_supply b"

definition em_test_bank :: "sdk \<Rightarrow> test_bank em_bank" where
  "em_test_bank S =
     \<lparr>MintCoins = (\<lambda>m cs b. Some (tb_credit (''module/'' @ m) cs (b\<lparr>minted := minted b + amount_of ''uftg'' cs\<rparr>), None)),
      em_BurnCoins = (\<lambda>m cs b. Some (b\<lparr>burned := burned b + amount_of ''uftg'' cs\<rparr>, None)),
      SendCoinsFromModuleToAccount = (\<lambda>m a cs. tb_move (''module/'' @ m) (addr_text S a) cs),
      em_SendCoinsFromAccountToModule = (\<lambda>a m cs. tb_move (addr_text S a) (''module/'' @ m) cs),
      em_GetBalance = (\<lambda>b a d. if d = ''uftg'' then mgetd 0 (balances b) (addr_text S a) else 0)\<rparr>"

interpretation em_test: mint_bank "em_test_bank S" minted for S
  by unfold_locales (auto simp: em_test_bank_def dest: tb_move_totals)

section \<open>The invariant\<close>

fun certificate_in :: "em_val \<Rightarrow> energy_certificate option" where
  "certificate_in (VCertificate ce) = Some ce"
| "certificate_in _ = None"

definition certificates :: "'b em_ctx \<Rightarrow> energy_certificate list" where
  "certificates c = values_in certificate_in (kv c)"

definition certificate_ok :: "energy_certificate \<Rightarrow> bool" where
  "certificate_ok ce \<longleftrightarrow> ec_Status ce = ''active'' \<and>
     (\<exists>d. ec_MwhQuantity ce = Some d \<and> 0 < d \<and> ec_MintedTokens ce = d * 10 ^ 8 div 10 ^ 18)"

definition em_ok :: "('b \<Rightarrow> int) \<Rightarrow> 'b \<Rightarrow> 'b em_ctx \<Rightarrow> bool" where
  "em_ok coin_supply b0 c \<longleftrightarrow>
     distinct (mkeys (kv c)) \<and>
     (\<forall>k ce. mget (kv c) k = Some (VCertificate ce) \<longrightarrow> k = CertificateKey (ec_ExternalID ce)) \<and>
     list_all certificate_ok (certificates c) \<and>
     distinct (map ec_ExternalID (certificates c)) \<and>
     em_count c = int (length (certificates c)) mod 2 ^ 64 \<and>
     map ec_CertificateID (certificates c) =
       map (\<lambda>i. certificate_id (int (Suc i) mod 2 ^ 64)) [0..<length (certificates c)] \<and>
     GetTotalMinted c = sum_list (map ec_MintedTokens (certificates c)) \<and>
     GetTotalBackedMwh c = sum_list (map (\<lambda>ce. the (ec_MwhQuantity ce)) (certificates c)) \<and>
     coin_supply (bank c) = coin_supply b0 + GetTotalMinted c"

lemma record_mintE:
  assumes "record_mint S now sender cert mwh tokens dest c = Some (c', m)"
  obtains ce tm tb ev where
    "ce = cert\<lparr>ec_CertificateID := certificate_id (next64 (em_count c)), ec_MintedTokens := tokens,
       ec_MintTimestamp := now, ec_Owner := sender, ec_Status := ''active''\<rparr>"
    "int_add S (GetTotalMinted c) tokens = Some tm" "dec_add S (GetTotalBackedMwh c) mwh = Some tb"
    "c' = EmitEvent ev (kv_set TotalBackedMwhKey (VBacked tb) (kv_set TotalMintedKey (VMinted tm)
       (kv_set (CertificateKey (ec_ExternalID cert)) (VCertificate ce)
         (kv_set CertificateCountKey (VCount (next64 (em_count c))) c))))"
proof -
  have keys: "GetTotalMinted (kv_set (CertificateKey x) v (kv_set CertificateCountKey w c)) = GetTotalMinted c"
    "GetTotalBackedMwh (kv_set TotalMintedKey u (kv_set (CertificateKey x) v (kv_set CertificateCountKey w c))) =
      GetTotalBackedMwh c" for x u v w
    by (simp_all add: GetTotalMinted_def GetTotalBackedMwh_def CertificateKey_def)
  show thesis
    using assms
    unfolding record_mint_def em_SetCertificate_def IncrementTotalMinted_def
      IncrementTotalBackedMwh_def GenerateCertificateID_def Let_def
    by (auto elim!: bind_SomeE simp: keys split: if_splits intro: that)
qed

lemma MintFromCertificateE:
  assumes "MintFromCertificate S B now sender cert dw c = Some (c', Inr m)"
  obtains mwh kwh micro tokens coins b1 b2 where
    "mint_check S sender cert c = Some (Inr mwh)"
    "dec_mul_int64 S mwh 100 = Some kwh" "dec_mul_int64 S kwh 1000000 = Some micro"
    "dec_truncate S micro = Some tokens" "new_coins S ''uftg'' tokens = Some coins"
    "MintCoins B ''energymint'' coins (bank c) = Some (b1, None)"
    "SendCoinsFromModuleToAccount B ''energymint'' (if dw = [] then sender else dw) coins b1 = Some (b2, None)"
    "record_mint S now sender cert mwh tokens (if dw = [] then sender else dw) (c\<lparr>bank := b2\<rparr>) = Some (c', m)"
  using assms unfolding MintFromCertificate_def Let_def
  by (auto elim!: bind_SomeE split: sum.splits option.splits prod.splits intro: that)

lemma msg_MintE:
  assumes "msg_MintFromCertificate S B now msg c = Some (c', Inr r)"
  obtains sender dest m where "addr_parse S (mm_Sender msg) = Some sender"
    "MintFromCertificate S B now sender (cert_of_msg msg) dest c = Some (c', Inr m)"
  using assms by (auto simp: msg_MintFromCertificate_def split: option.splits sum.splits)

lemma mint_checkD:
  assumes "mint_check S sender cert c = Some (Inr mwh)"
  shows "IsAuthorizedMinter S c sender" "ec_MwhQuantity cert = Some mwh" "\<not> HasCertificate c (ec_ExternalID cert)"
  using assms by (auto simp: mint_check_def Let_def Option.bind_eq_Some_conv split: if_splits)

lemma certificate_keys [simp]:
  "CertificateKey x \<noteq> CertificateCountKey" "CertificateKey x \<noteq> TotalMintedKey"
  "CertificateKey x \<noteq> TotalBackedMwhKey" "CertificateKey x \<noteq> em_ParamsKey"
  "CertificateKey x \<noteq> AuthorizedMinterKey a" "CertificateKey x = CertificateKey y \<longleftrightarrow> x = y"
  "AuthorizedMinterKey a \<noteq> CertificateCountKey" "AuthorizedMinterKey a \<noteq> TotalMintedKey"
  "AuthorizedMinterKey a \<noteq> TotalBackedMwhKey" "AuthorizedMinterKey a \<noteq> em_ParamsKey"
  "AuthorizedMinterKey a = AuthorizedMinterKey b \<longleftrightarrow> a = b"
  by (simp_all add: CertificateKey_def AuthorizedMinterKey_def)

lemmas certificate_keys' [simp] = certificate_keys(1-5) [symmetric] certificate_keys(7-10) [symmetric]

definition cert_keyed :: "'b em_ctx \<Rightarrow> bool" where
  "cert_keyed c \<longleftrightarrow> (\<forall>k x. mget (kv c) k = Some (VCertificate x) \<longrightarrow> (\<exists>y. k = CertificateKey y))"

lemma cert_keyed_simps [simp]:
  "cert_keyed c \<Longrightarrow> cert_keyed (EmitEvent e c)" "cert_keyed c \<Longrightarrow> cert_keyed (c\<lparr>bank := b\<rparr>)"
  "cert_keyed c \<Longrightarrow> certificate_in v = None \<Longrightarrow> cert_keyed (kv_set key v c)"
  "cert_keyed c \<Longrightarrow> cert_keyed (kv_set (CertificateKey x) v c)"
  "cert_keyed c \<Longrightarrow> cert_keyed (kv_delete key c)"
  by (auto simp: cert_keyed_def)

lemma certificates_kv_set [simp]:
  assumes "cert_keyed c" "certificate_in v = None" "\<And>x. key \<noteq> CertificateKey x"
  shows "certificates (kv_set key v c) = certificates c"
proof -
  have "certificate_in w = None" if "mget (kv c) key = Some w" for w
    using assms(1,3) that unfolding cert_keyed_def by (cases w) auto
  then show ?thesis using assms(2) by (simp add: certificates_def kv_set_def values_in_other)
qed

lemma certificates_new:
  "mget (kv c) key = None \<Longrightarrow> certificates (kv_set key (VCertificate ce) c) = certificates c @ [ce]"
  by (simp add: certificates_def kv_set_def values_in_new)

lemma certificates_simps [simp]:
  "certificates (EmitEvent e c) = certificates c" "certificates (c\<lparr>bank := b\<rparr>) = certificates c"
  by (simp_all add: certificates_def)

lemma em_okD:
  assumes "em_ok coin_supply b0 c"
  shows "distinct (mkeys (kv c))" "mget (kv c) k = Some (VCertificate ce) \<Longrightarrow> k = CertificateKey (ec_ExternalID ce)"
    "list_all certificate_ok (certificates c)" "distinct (map ec_ExternalID (certificates c))"
    "em_count c = int (length (certificates c)) mod 2 ^ 64"
    "GetTotalMinted c = sum_list (map ec_MintedTokens (certificates c))"
    "GetTotalBackedMwh c = sum_list (map (\<lambda>ce. the (ec_MwhQuantity ce)) (certificates c))"
    "coin_supply (bank c) = coin_supply b0 + GetTotalMinted c"
  using assms unfolding em_ok_def by simp_all

lemma certificates_iff:
  assumes "em_ok coin_supply b0 c"
  shows "ce \<in> set (certificates c) \<longleftrightarrow> GetCertificate c (ec_ExternalID ce) = Some ce"
  unfolding certificates_def values_in_iff [OF em_okD(1) [OF assms]] GetCertificate_def
  using em_okD(2) [OF assms]
  by (fastforce elim: certificate_in.elims split: option.splits em_val.splits)

lemma em_ok_mint:
  assumes "sdk_laws S" "mint_bank B coin_supply" "em_ok coin_supply b0 c"
    and pos: "\<And>d. ec_MwhQuantity cert = Some d \<Longrightarrow> 0 < d"
    and run: "MintFromCertificate S B now sender cert dw c = Some (c', Inr m)"
  shows "em_ok coin_supply b0 c'"
  using run
proof (cases rule: MintFromCertificateE)
  case (1 mwh kwh micro tokens coins b1 b2)
  let ?n = "next64 (em_count c)"
  note D = em_okD [OF assms(3)]
  note M = mint_checkD [OF 1(1)]
  from 1(8) obtain ce tm tb ev where
    ce: "ce = cert\<lparr>ec_CertificateID := certificate_id ?n, ec_MintedTokens := tokens,
       ec_MintTimestamp := now, ec_Owner := sender, ec_Status := ''active''\<rparr>" and
    tm: "int_add S (GetTotalMinted c) tokens = Some tm" and tb: "dec_add S (GetTotalBackedMwh c) mwh = Some tb" and
    c': "c' = EmitEvent ev (kv_set TotalBackedMwhKey (VBacked tb) (kv_set TotalMintedKey (VMinted tm)
       (kv_set (CertificateKey (ec_ExternalID cert)) (VCertificate ce)
         (kv_set CertificateCountKey (VCount ?n) (c\<lparr>bank := b2\<rparr>)))))"
    by (elim record_mintE) (simp add: em_count_def GetTotalMinted_def GetTotalBackedMwh_def)
  have keyed: "cert_keyed c" using D(2) unfolding cert_keyed_def by blast
  have certs: "certificates c' = certificates c @ [ce]"
    unfolding c' using M(3) keyed by (simp add: certificates_new HasCertificate_def kv_has_def)
  have tokens: "tokens = mwh * 10 ^ 8 div 10 ^ 18"
    using sdk_laws.mint_units [OF assms(1) 1(2-4)] pos [OF M(2)] by simp
  have ids: "em_count c' = int (length (certificates c')) mod 2 ^ 64"
    "certificate_id ?n = certificate_id (int (Suc (length (certificates c))) mod 2 ^ 64)"
    unfolding certs using D(5) by (simp_all add: c' em_count_def next64_def mod_simps ac_simps)
  have totals: "GetTotalMinted c' = GetTotalMinted c + tokens" "GetTotalBackedMwh c' = GetTotalBackedMwh c + mwh"
    using sdk_laws.int_add_exact [OF assms(1) tm] sdk_laws.dec_add_exact [OF assms(1) tb]
    by (simp_all add: c' GetTotalMinted_def GetTotalBackedMwh_def)
  have new: "ec_ExternalID x \<noteq> ec_ExternalID cert" if "x \<in> set (certificates c)" for x
    using that M(3) certificates_iff [OF assms(3)]
    by (auto simp: HasCertificate_def kv_has_def GetCertificate_def)
  have bank: "coin_supply (bank c') = coin_supply (bank c) + tokens"
    using mint_bank.mint_supply [OF assms(2) 1(6)] mint_bank.send_supply [OF assms(2) 1(7)]
      sdk_laws.new_coins_amount [OF assms(1) 1(5)] by (simp add: c')
  have keys: "k = CertificateKey (ec_ExternalID x)" if "mget (kv c') k = Some (VCertificate x)" for k x
    using that D(2) by (auto simp: c' ce split: if_splits)
  have "distinct (mkeys (kv c'))" using D(1) by (simp add: c')
  moreover have "list_all certificate_ok (certificates c')"
    using D(3) M(2) pos [OF M(2)] unfolding certs by (simp add: ce certificate_ok_def tokens)
  moreover have "distinct (map ec_ExternalID (certificates c'))"
    using D(4) new unfolding certs by (force simp: ce)
  moreover have "map ec_CertificateID (certificates c') =
      map (\<lambda>i. certificate_id (int (Suc i) mod 2 ^ 64)) [0..<length (certificates c')]"
    using assms(3) ids(2) unfolding certs em_ok_def by (simp add: ce)
  ultimately show ?thesis
    using keys ids(1) D(6-8) totals bank M(2) unfolding em_ok_def
    by (simp add: certs ce)
qed

definition em_quiet :: "'b em_ctx \<Rightarrow> 'b em_ctx \<Rightarrow> bool" where
  "em_quiet c c' \<longleftrightarrow> certificates c' = certificates c \<and> distinct (mkeys (kv c')) \<and> cert_keyed c' \<and>
     bank c' = bank c \<and> em_count c' = em_count c \<and> GetTotalMinted c' = GetTotalMinted c \<and>
     GetTotalBackedMwh c' = GetTotalBackedMwh c \<and>
     (\<forall>k x. mget (kv c') k = Some (VCertificate x) \<longrightarrow> mget (kv c) k = Some (VCertificate x))"

lemma em_ok_quiet: "em_ok coin_supply b0 c \<Longrightarrow> em_quiet c c' \<Longrightarrow> em_ok coin_supply b0 c'"
  unfolding em_ok_def em_quiet_def by simp

lemma certificates_delete [simp]:
  assumes "cert_keyed c" "distinct (mkeys (kv c))" "\<And>x. key \<noteq> CertificateKey x"
  shows "certificates (kv_delete key c) = certificates c"
proof -
  have "certificate_in w = None" if "mget (kv c) key = Some w" for w
    using assms(1,3) that unfolding cert_keyed_def by (cases w) auto
  from values_in_delete [OF this assms(2)] show ?thesis by (simp add: certificates_def kv_delete_def)
qed

lemma em_quiet_minters:
  assumes "em_ok coin_supply b0 c"
  shows "em_quiet c (EmitEvent e (AddAuthorizedMinter S a c))"
    "em_quiet c (EmitEvent e (RemoveAuthorizedMinter S a c))" "em_quiet c (em_SetParams p c)"
proof -
  have "cert_keyed c" "distinct (mkeys (kv c))"
    using em_okD(1,2) [OF assms] unfolding cert_keyed_def by blast+
  then show "em_quiet c (EmitEvent e (AddAuthorizedMinter S a c))"
    "em_quiet c (EmitEvent e (RemoveAuthorizedMinter S a c))" "em_quiet c (em_SetParams p c)"
    by (simp_all add: em_quiet_def AddAuthorizedMinter_def RemoveAuthorizedMinter_def em_SetParams_def
        em_count_def GetTotalMinted_def GetTotalBackedMwh_def)
qed

lemma mint_positive:
  "mint_ValidateBasic S msg = None \<Longrightarrow> ec_MwhQuantity (cert_of_msg msg) = Some d \<Longrightarrow> 0 < d"
  by (auto simp: mint_ValidateBasic_def cert_of_msg_def split: if_splits)

lemma em_ok_step:
  assumes "sdk_laws S" "mint_bank B coin_supply" "em_ok coin_supply b0 c"
  shows "em_ok coin_supply b0 (em_step S B authority c op)"
proof (cases op)
  case (OpMint now msg)
  show ?thesis
  proof (cases "em_step S B authority c op = c")
    case False
    then obtain c' r where run: "mint_ValidateBasic S msg = None"
      "msg_MintFromCertificate S B now msg c = Some (c', Inr r)" "em_step S B authority c op = c'"
      by (auto simp: em_step_def OpMint split: if_splits option.splits sum.splits)
    from run(2) obtain sender dest m where
      "MintFromCertificate S B now sender (cert_of_msg msg) dest c = Some (c', Inr m)"
      by (rule msg_MintE)
    from em_ok_mint [OF assms mint_positive [OF run(1)] this] show ?thesis by (simp add: run(3))
  qed (use assms(3) in simp)
qed (use assms(3) em_ok_quiet [OF assms(3) em_quiet_minters(1) [OF assms(3)]]
    em_ok_quiet [OF assms(3) em_quiet_minters(2) [OF assms(3)]]
    em_ok_quiet [OF assms(3) em_quiet_minters(3) [OF assms(3)]] in
  \<open>auto simp: em_step_def AddMinter_def RemoveMinter_def split: option.splits\<close>)

lemma em_ok_start: "em_ok coin_supply b0 (em_start b0)"
  by (simp add: em_ok_def em_start_def certificates_def em_count_def GetTotalMinted_def GetTotalBackedMwh_def)

text \<open>With a lawful SDK and bank the module is a machine with this invariant.\<close>

locale energymint = sdk_laws S + mint_bank B coin_supply
  for S :: sdk and B :: "'b em_bank" and coin_supply :: "'b \<Rightarrow> int"

sublocale energymint \<subseteq> minting: state_machine "em_step S B authority" "\<lambda>_ _. True" "em_ok coin_supply b"
  for authority b
  by unfold_locales (rule em_ok_step [OF sdk_laws_axioms mint_bank_axioms])

context energymint begin

lemma em_run_ok: "em_ok coin_supply b (em_run S B authority b ops)"
  unfolding em_run_def by (rule minting.run_ok [OF em_ok_start]) simp

end

interpretation em_tests: energymint doc_sdk "em_test_bank doc_sdk" minted ..

section \<open>Who may mint\<close>

text \<open>The specification: a set of addresses that messages of the authority change.\<close>

definition minter_step :: "sdk \<Rightarrow> string \<Rightarrow> addr set \<Rightarrow> em_op \<Rightarrow> addr set" where
  "minter_step S authority M op =
     (case op of
        OpAddMinter msg \<Rightarrow>
          (if ma_Authority msg = authority then M \<union> set_option (addr_parse S (ma_MinterAddress msg)) else M)
      | OpRemoveMinter msg \<Rightarrow>
          (if ma_Authority msg = authority then M - set_option (addr_parse S (ma_MinterAddress msg)) else M)
      | _ \<Rightarrow> M)"

definition minters :: "sdk \<Rightarrow> 'b em_ctx \<Rightarrow> addr set" where
  "minters S c = {a. IsAuthorizedMinter S c a}"

lemma minters_mint:
  assumes "MintFromCertificate S B now sender cert dw c = Some (c', Inr m)"
  shows "minters S c' = minters S c"
  using assms
  by (auto elim!: MintFromCertificateE record_mintE simp: minters_def IsAuthorizedMinter_def)

lemma minters_step:
  assumes "sdk_laws S"
  shows "minters S (em_step S B authority c op) = minter_step S authority (minters S c) op"
proof (cases op)
  case (OpMint now msg)
  then show ?thesis
    by (auto simp: em_step_def minter_step_def split: option.splits sum.splits elim!: msg_MintE
        dest!: minters_mint)
next
  case (OpAddMinter msg)
  then show ?thesis
    using sdk_laws.addr_text_inj [OF assms]
    by (auto simp: em_step_def minter_step_def AddMinter_def minters_def IsAuthorizedMinter_def
        AddAuthorizedMinter_def split: option.splits)
next
  case (OpRemoveMinter msg)
  then show ?thesis
    using sdk_laws.addr_text_inj [OF assms]
    by (auto simp: em_step_def minter_step_def RemoveMinter_def minters_def IsAuthorizedMinter_def
        RemoveAuthorizedMinter_def split: option.splits)
next
  case (OpSetParams p)
  then show ?thesis by (simp add: em_step_def minter_step_def em_SetParams_def minters_def IsAuthorizedMinter_def)
qed

lemma minters_run:
  assumes "sdk_laws S"
  shows "minters S (foldl (em_step S B authority) c ops) = foldl (minter_step S authority) (minters S c) ops"
  by (induction ops arbitrary: c) (simp_all add: minters_step [OF assms])

lemma MintFromCertificate_done:
  assumes "sdk_laws S" "MintFromCertificate S B now sender cert dest c = Some (c', Inr m)"
  shows "sender \<in> minters S c \<and>
    (\<exists>d ce. ec_MwhQuantity cert = Some d \<and> MinCertificateMwh (em_GetParams c) \<le> d \<and>
      ec_ProvenanceType cert \<in> set (AcceptedProvenanceTypes (em_GetParams c)) \<and>
      (RequireIPFS (em_GetParams c) \<longrightarrow> ec_IPFSHash cert \<noteq> '''') \<and>
      \<not> HasCertificate c (ec_ExternalID cert) \<and>
      GetCertificate c' (ec_ExternalID cert) = Some ce \<and> ec_Owner ce = sender \<and>
      ec_MintedTokens ce = d * 10 ^ 8 sdiv 10 ^ 18)"
  using assms(2)
proof (cases rule: MintFromCertificateE)
  case (1 mwh kwh micro tokens coins b1 b2)
  have "micro = mwh * 10 ^ 8"
    using sdk_laws.dec_mul_int64_exact [OF assms(1) 1(2)] sdk_laws.dec_mul_int64_exact [OF assms(1) 1(3)] by simp
  then have t: "tokens = mwh * 10 ^ 8 sdiv 10 ^ 18"
    using sdk_laws.dec_truncate_exact [OF assms(1) 1(4)] by simp
  have g: "sender \<in> minters S c" "ec_MwhQuantity cert = Some mwh" "MinCertificateMwh (em_GetParams c) \<le> mwh"
    "ec_ProvenanceType cert \<in> set (AcceptedProvenanceTypes (em_GetParams c))"
    "RequireIPFS (em_GetParams c) \<longrightarrow> ec_IPFSHash cert \<noteq> ''''" "\<not> HasCertificate c (ec_ExternalID cert)"
    using 1(1) by (auto simp: mint_check_def minters_def Let_def isAcceptedProvenance_def list_ex_iff
        split: if_splits elim!: bind_SomeE)
  from 1(8) have "\<exists>ce. GetCertificate c' (ec_ExternalID cert) = Some ce \<and> ec_Owner ce = sender \<and>
      ec_MintedTokens ce = tokens"
    by (elim record_mintE) (simp add: GetCertificate_def)
  then show ?thesis using g t by blast
qed

lemma MintFromCertificate_error:
  "MintFromCertificate S B now sender cert dest c = Some (c', Inl e) \<Longrightarrow> kv c' = kv c \<and> events c' = events c"
  unfolding MintFromCertificate_def Let_def
  by (auto elim!: bind_SomeE split: sum.splits option.splits prod.splits)

section \<open>Properties\<close>

text \<open>
  C13: Whatever messages and parameter changes reach the module, with an SDK and a bank that keep
  their contracts: the certificates in the store have different external identifiers and are
  found under them, their own identifiers are numbered in order of minting, each is active and
  backs 10^8 uftg per MWh (rounded down), and both totals are the sums over the certificates; the
  total minted is exactly what the bank's supply has grown by.
\<close>

theorem energymint_backing:
  assumes "sdk_laws S" "mint_bank B coin_supply" "c = em_run S B authority b ops"
  shows "distinct (map ec_ExternalID (certificates c)) \<and>
    (\<forall>x. GetCertificate c x = find (\<lambda>ce. ec_ExternalID ce = x) (certificates c)) \<and>
    map ec_CertificateID (certificates c) =
      map (\<lambda>i. certificate_id (int (Suc i) mod 2 ^ 64)) [0..<length (certificates c)] \<and>
    list_all (\<lambda>ce. ec_Status ce = ''active'' \<and> (\<exists>d > 0. ec_MwhQuantity ce = Some d \<and>
      ec_MintedTokens ce = d * 10 ^ 8 div 10 ^ 18)) (certificates c) \<and>
    GetTotalMinted c = sum_list (map ec_MintedTokens (certificates c)) \<and>
    GetTotalBackedMwh c = sum_list (map (\<lambda>ce. the (ec_MwhQuantity ce)) (certificates c)) \<and>
    coin_supply (bank c) = coin_supply b + GetTotalMinted c"
proof -
  have ok: "em_ok coin_supply b c"
    using energymint.em_run_ok [OF energymint.intro [OF assms(1,2)]] assms(3) by blast
  have "GetCertificate c x = find (\<lambda>ce. ec_ExternalID ce = x) (certificates c)" for x
  proof (cases "find (\<lambda>ce. ec_ExternalID ce = x) (certificates c)")
    case None
    then have none: "ce \<notin> set (certificates c)" if "ec_ExternalID ce = x" for ce
      using that by (auto simp: find_None_iff)
    have "GetCertificate c x \<noteq> Some ce" for ce
    proof
      assume g: "GetCertificate c x = Some ce"
      then have "ec_ExternalID ce = x"
        using em_okD(2) [OF ok, of "CertificateKey x"]
        by (auto simp: GetCertificate_def split: option.splits em_val.splits)
      then show False using g none certificates_iff [OF ok] by blast
    qed
    then show ?thesis using None by (cases "GetCertificate c x") auto
  next
    case (Some ce)
    then have "ce \<in> set (certificates c)" "ec_ExternalID ce = x" by (auto simp: find_Some_iff)
    then show ?thesis using certificates_iff [OF ok] Some by auto
  qed
  moreover have "list_all (\<lambda>ce. ec_Status ce = ''active'' \<and> (\<exists>d > 0. ec_MwhQuantity ce = Some d \<and>
      ec_MintedTokens ce = d * 10 ^ 8 div 10 ^ 18)) (certificates c)"
    using em_okD(3) [OF ok] by (auto simp: list_all_iff certificate_ok_def)
  ultimately show ?thesis using em_okD(4-8) [OF ok] ok unfolding em_ok_def by blast
qed

definition em_demo_mint :: "string \<Rightarrow> dec \<Rightarrow> msg_mint" where
  "em_demo_mint x d =
     \<lparr>mm_Sender = ''ftg1minter'', mm_ExternalId = x, mm_Source = ''wind'', mm_MwhQuantity = Some d,
      mm_GenerationDate = 0, mm_PurchaseDate = 0, mm_IpfsHash = ''Qm'',
      mm_ProvenanceType = ''proof_of_purchase'', mm_DestinationWallet = ''ftg1buyer''\<rparr>"

definition em_demo_ops :: "em_op list" where
  "em_demo_ops =
     [OpMint 1 (em_demo_mint ''REC-0'' (10 ^ 18)),
      OpAddMinter \<lparr>ma_Authority = ''gov'', ma_MinterAddress = ''ftg1minter''\<rparr>,
      OpMint 2 (em_demo_mint ''REC-1'' (617 * 10 ^ 18)), OpMint 3 (em_demo_mint ''REC-1'' (10 ^ 18)),
      OpMint 4 (em_demo_mint ''REC-2'' (25 * 10 ^ 17)),
      OpRemoveMinter \<lparr>ma_Authority = ''gov'', ma_MinterAddress = ''ftg1minter''\<rparr>,
      OpMint 5 (em_demo_mint ''REC-3'' (10 ^ 18))]"

definition em_demo_bank :: test_bank where
  "em_demo_bank = \<lparr>balances = [], minted = 0, burned = 0\<rparr>"

definition em_demo :: "test_bank em_ctx" where
  "em_demo = em_run doc_sdk (em_test_bank doc_sdk) ''gov'' em_demo_bank em_demo_ops"

lemma em_demo_eval:
  "map ec_ExternalID (certificates em_demo) = [''REC-1'', ''REC-2''] \<and> GetTotalMinted em_demo = 61950000000 \<and>
   minted em_demo_bank = 0"
  by code_simp

theorem energymint_backing_witness:
  "map ec_ExternalID (certificates em_demo) = [''REC-1'', ''REC-2''] \<and>
   map ec_CertificateID (certificates em_demo) = [certificate_id 1, certificate_id 2] \<and>
   minted (bank em_demo) = 61950000000"
proof -
  have n: "length (certificates em_demo) = 2"
    using em_demo_eval by (metis length_map length_Cons list.size(3) numeral_2_eq_2)
  show ?thesis
    using energymint_backing [OF doc.sdk_laws_axioms em_test.mint_bank_axioms em_demo_def] em_demo_eval
    by (simp add: n upt_rec)
qed

text \<open>
  C35: The addresses authorized to mint are those of the specification: the authority's
  \<open>AddMinter\<close> adds one, its \<open>RemoveMinter\<close> removes one, nothing else changes them. A mint
  succeeds only for one of them, only with an accepted provenance type, an IPFS hash where one is
  required, at least the minimum and a new external identifier; it registers the certificate in
  the sender's name for the computed tokens. A mint that fails leaves store and events as they were.
\<close>

theorem minters_refine:
  assumes "sdk_laws S" "c = em_run S B authority b ops"
  shows "minters S c = foldl (minter_step S authority) {} ops \<and>
    (case MintFromCertificate S B now sender cert dest c of
       Some (c', Inr m) \<Rightarrow>
         sender \<in> foldl (minter_step S authority) {} ops \<and>
         (\<exists>d ce. ec_MwhQuantity cert = Some d \<and> MinCertificateMwh (em_GetParams c) \<le> d \<and>
           ec_ProvenanceType cert \<in> set (AcceptedProvenanceTypes (em_GetParams c)) \<and>
           (RequireIPFS (em_GetParams c) \<longrightarrow> ec_IPFSHash cert \<noteq> '''') \<and>
           \<not> HasCertificate c (ec_ExternalID cert) \<and>
           GetCertificate c' (ec_ExternalID cert) = Some ce \<and> ec_Owner ce = sender \<and>
           ec_MintedTokens ce = d * 10 ^ 8 sdiv 10 ^ 18)
     | Some (c', Inl e) \<Rightarrow> kv c' = kv c \<and> events c' = events c
     | None \<Rightarrow> True)"
proof -
  have m: "minters S c = foldl (minter_step S authority) {} ops"
    using minters_run [OF assms(1), of B authority "em_start b" ops] assms(2)
    by (simp add: em_run_def em_start_def minters_def IsAuthorizedMinter_def kv_has_def)
  show ?thesis unfolding m [symmetric]
    using MintFromCertificate_done [OF assms(1)] MintFromCertificate_error
    by (fastforce split: option.splits sum.splits)
qed

theorem minters_refine_witness:
  "minters doc_sdk em_demo = {} \<and>
   (\<exists>c' e. MintFromCertificate doc_sdk (em_test_bank doc_sdk) 9 ''minter'' (cert_of_msg (em_demo_mint ''REC-4'' 0)) []
      em_demo = Some (c', Inl e) \<and> kv c' = kv em_demo)"
proof -
  let ?r = "MintFromCertificate doc_sdk (em_test_bank doc_sdk) 9 ''minter'' (cert_of_msg (em_demo_mint ''REC-4'' 0)) [] em_demo"
  have r: "case ?r of Some (_, Inl _) \<Rightarrow> True | _ \<Rightarrow> False" by code_simp
  have spec: "foldl (minter_step doc_sdk ''gov'') {} em_demo_ops = {}"
    by (simp add: em_demo_ops_def minter_step_def doc_sdk_def)
  from minters_refine [OF doc.sdk_laws_axioms em_demo_def, where now = 9 and sender = "''minter''"
      and cert = "cert_of_msg (em_demo_mint ''REC-4'' 0)" and dest = "[]"] r spec
  show ?thesis by (auto split: option.splits sum.splits prod.splits)
qed

end
