(* ===== verification/Burn.thy ===== *)
theory Burn
  imports Sdk
begin

text \<open>
  The burn module, \<open>x/burn\<close>: burning uftg from an account for one of three reasons, the
  authorized merchants, the statistics, the message server and the queries. The keeper's
  \<open>authority\<close> is an argument; \<open>GetParams\<close> always answers the default parameters.
\<close>

section \<open>Types\<close>

record merchant_burn_data =
  mb_EnergyRevenueUSD :: dec
  mb_DEXPurchasePrice :: dec
  mb_VaultID :: string
  mb_GridOperator :: string

record bn_event =
  be_BurnID :: string
  be_Amount :: int
  be_Source :: string
  be_Sender :: addr
  be_Timestamp :: time
  be_TxHash :: string
  be_MerchantData :: "merchant_burn_data option"

record burn_stats =
  bs_TotalBurned :: int
  bs_TotalBurnEvents :: int
  bs_MerchantProtocolBurned :: int
  bs_ManualBurned :: int
  bs_RedemptionBurned :: int
  bs_TotalEnergyRevenueUSD :: dec

record bn_params =
  MerchantProtocolEnabled :: bool
  MerchantBurnPercentage :: dec
  MinBurnAmount :: int
  AuthorizedMerchantAddresses :: "addr list"

definition bn_DefaultParams :: bn_params where
  "bn_DefaultParams =
     \<lparr>MerchantProtocolEnabled = True, MerchantBurnPercentage = 100 * 10 ^ 18,
      MinBurnAmount = 1000000, AuthorizedMerchantAddresses = []\<rparr>"

datatype bn_error =
    InvalidBurnSource string | NotAuthorizedMerchant string | MerchantProtocolDisabled
  | BurnBelowMinimum int int | InsufficientBurnBalance int int
  | SendToBurnFailed string | BurnCoinsFailed string
  | InvalidBurnSender string | InvalidBurnAmount string | InvalidTokensPurchased string
  | InvalidEnergyRevenue string | InvalidDexPrice string
  | MerchantUnauthorized | InvalidMerchantAddress string
  | InvalidBurn string

record 'b bn_bank =
  BurnCoins :: "string \<Rightarrow> coins \<Rightarrow> 'b bank_call"
  SendCoinsFromAccountToModule :: "addr \<Rightarrow> string \<Rightarrow> coins \<Rightarrow> 'b bank_call"
  GetBalance :: "'b \<Rightarrow> addr \<Rightarrow> string \<Rightarrow> int"

section \<open>The store\<close>

definition BurnEventKey :: "string \<Rightarrow> string" where "BurnEventKey i = ''BurnEvent/value/'' @ i"
definition AuthorizedMerchantKey :: "string \<Rightarrow> string" where "AuthorizedMerchantKey a = ''AuthorizedMerchant/'' @ a"
abbreviation BurnEventCountKey :: string where "BurnEventCountKey \<equiv> ''BurnEvent/count/''"
abbreviation BurnStatsKey :: string where "BurnStatsKey \<equiv> ''BurnStats/''"

datatype bn_val = VBurnEvent bn_event | VBurnCount int | VStats burn_stats | VMerchant

type_synonym 'b bn_ctx = "('b, bn_val) ctx"

definition bn_GetParams :: "'b bn_ctx \<Rightarrow> bn_params" where
  "bn_GetParams c = bn_DefaultParams"

definition IsAuthorizedMerchant :: "sdk \<Rightarrow> 'b bn_ctx \<Rightarrow> addr \<Rightarrow> bool" where
  "IsAuthorizedMerchant S c a = kv_has c (AuthorizedMerchantKey (addr_text S a))"

definition AddAuthorizedMerchant :: "sdk \<Rightarrow> addr \<Rightarrow> 'b bn_ctx \<Rightarrow> 'b bn_ctx" where
  "AddAuthorizedMerchant S a c = kv_set (AuthorizedMerchantKey (addr_text S a)) VMerchant c"

definition SetBurnEvent :: "bn_event \<Rightarrow> 'b bn_ctx \<Rightarrow> 'b bn_ctx option" where
  "SetBurnEvent e c =
     (if json_time (be_Timestamp e) then Some (kv_set (BurnEventKey (be_BurnID e)) (VBurnEvent e) c) else None)"

definition bn_count :: "'b bn_ctx \<Rightarrow> int" where
  "bn_count c = (case mget (kv c) BurnEventCountKey of Some (VBurnCount n) \<Rightarrow> n | _ \<Rightarrow> 0)"

definition burn_id :: "int \<Rightarrow> string" where
  "burn_id n = ''FTG-BURN-'' @ fmt0d 6 n"

definition GenerateBurnID :: "'b bn_ctx \<Rightarrow> 'b bn_ctx \<times> string" where
  "GenerateBurnID c =
     (let n = next64 (bn_count c) in (kv_set BurnEventCountKey (VBurnCount n) c, burn_id n))"

definition GetBurnStats :: "'b bn_ctx \<Rightarrow> burn_stats" where
  "GetBurnStats c =
     (case mget (kv c) BurnStatsKey of Some (VStats s) \<Rightarrow> s
      | _ \<Rightarrow> \<lparr>bs_TotalBurned = 0, bs_TotalBurnEvents = 0, bs_MerchantProtocolBurned = 0,
            bs_ManualBurned = 0, bs_RedemptionBurned = 0, bs_TotalEnergyRevenueUSD = 0\<rparr>)"

definition SetBurnStats :: "burn_stats \<Rightarrow> 'b bn_ctx \<Rightarrow> 'b bn_ctx" where
  "SetBurnStats s c = kv_set BurnStatsKey (VStats s) c"

definition UpdateBurnStats ::
  "sdk \<Rightarrow> int \<Rightarrow> string \<Rightarrow> merchant_burn_data option \<Rightarrow> 'b bn_ctx \<Rightarrow> 'b bn_ctx option" where
  "UpdateBurnStats S amount source merchantData c = do {
     let stats = GetBurnStats c;
     t \<leftarrow> int_add S (bs_TotalBurned stats) amount;
     let stats = stats\<lparr>bs_TotalBurned := t, bs_TotalBurnEvents := next64 (bs_TotalBurnEvents stats)\<rparr>;
     stats \<leftarrow>
       (if source = ''merchant_protocol'' then do {
          m \<leftarrow> int_add S (bs_MerchantProtocolBurned stats) amount;
          let stats = stats\<lparr>bs_MerchantProtocolBurned := m\<rparr>;
          case merchantData of None \<Rightarrow> Some stats
          | Some md \<Rightarrow>
              map_option (\<lambda>r. stats\<lparr>bs_TotalEnergyRevenueUSD := r\<rparr>)
                (dec_add S (bs_TotalEnergyRevenueUSD stats) (mb_EnergyRevenueUSD md))
        }
        else if source = ''manual'' then
          map_option (\<lambda>m. stats\<lparr>bs_ManualBurned := m\<rparr>) (int_add S (bs_ManualBurned stats) amount)
        else if source = ''redemption'' then
          map_option (\<lambda>m. stats\<lparr>bs_RedemptionBurned := m\<rparr>) (int_add S (bs_RedemptionBurned stats) amount)
        else Some stats);
     Some (SetBurnStats stats c)
   }"

section \<open>Burning\<close>

definition burn_check :: "sdk \<Rightarrow> 'b bn_bank \<Rightarrow> addr \<Rightarrow> int \<Rightarrow> string \<Rightarrow> 'b bn_ctx \<Rightarrow> bn_error option" where
  "burn_check S B sender amount source c =
     (if source \<noteq> ''merchant_protocol'' \<and> source \<noteq> ''manual'' \<and> source \<noteq> ''redemption''
      then Some (InvalidBurnSource source)
      else if source = ''merchant_protocol'' \<and> \<not> IsAuthorizedMerchant S c sender
      then Some (NotAuthorizedMerchant (addr_text S sender))
      else if source = ''merchant_protocol'' \<and> \<not> MerchantProtocolEnabled (bn_GetParams c)
      then Some MerchantProtocolDisabled
      else if amount < MinBurnAmount (bn_GetParams c)
      then Some (BurnBelowMinimum amount (MinBurnAmount (bn_GetParams c)))
      else let balance = GetBalance B (bank c) sender ''uftg''
        in if balance < amount then Some (InsufficientBurnBalance balance amount) else None)"

definition record_burn ::
  "sdk \<Rightarrow> time \<Rightarrow> addr \<Rightarrow> int \<Rightarrow> string \<Rightarrow> merchant_burn_data option \<Rightarrow> 'b bn_ctx \<Rightarrow>
   ('b bn_ctx \<times> bn_event) option" where
  "record_burn S now sender amount source merchantData c =
     (let (c, i) = GenerateBurnID c;
          e = \<lparr>be_BurnID = i, be_Amount = amount, be_Source = source, be_Sender = sender,
               be_Timestamp = now, be_TxHash = '''', be_MerchantData = merchantData\<rparr>;
          attrs = [(''burn_id'', i), (''amount'', int_text S amount), (''source'', source),
                   (''sender'', addr_text S sender)] @
            (case merchantData of None \<Rightarrow> []
             | Some md \<Rightarrow> [(''energy_revenue_usd'', dec_text S (Some (mb_EnergyRevenueUSD md))),
                 (''dex_purchase_price'', dec_text S (Some (mb_DEXPurchasePrice md)))])
      in do {
        c \<leftarrow> SetBurnEvent e c;
        c \<leftarrow> UpdateBurnStats S amount source merchantData c;
        Some (EmitEvent (''ftg_burn'', attrs) c, e)
      })"

definition BurnTokens ::
  "sdk \<Rightarrow> 'b bn_bank \<Rightarrow> time \<Rightarrow> addr \<Rightarrow> int \<Rightarrow> string \<Rightarrow> merchant_burn_data option \<Rightarrow> 'b bn_ctx \<Rightarrow>
   ('b bn_ctx \<times> (bn_error + bn_event)) option" where
  "BurnTokens S B now sender amount source merchantData c =
     (case burn_check S B sender amount source c of
        Some e \<Rightarrow> Some (c, Inl e)
      | None \<Rightarrow> do {
          coins \<leftarrow> new_coins S ''uftg'' amount;
          (b, err) \<leftarrow> SendCoinsFromAccountToModule B sender ''ftgburn'' coins (bank c);
          let c = c\<lparr>bank := b\<rparr>;
          case err of Some e \<Rightarrow> Some (c, Inl (SendToBurnFailed e))
          | None \<Rightarrow> do {
              (b, err) \<leftarrow> BurnCoins B ''ftgburn'' coins (bank c);
              let c = c\<lparr>bank := b\<rparr>;
              case err of Some e \<Rightarrow> Some (c, Inl (BurnCoinsFailed e))
              | None \<Rightarrow> map_option (\<lambda>(c, e). (c, Inr e)) (record_burn S now sender amount source merchantData c)
            }
        })"

definition MerchantProtocolBurn ::
  "sdk \<Rightarrow> 'b bn_bank \<Rightarrow> time \<Rightarrow> addr \<Rightarrow> dec \<Rightarrow> dec \<Rightarrow> int \<Rightarrow> string \<Rightarrow> string \<Rightarrow> 'b bn_ctx \<Rightarrow>
   ('b bn_ctx \<times> (bn_error + bn_event)) option" where
  "MerchantProtocolBurn S B now liquidityContract energyRevenueUSD dexPurchasePrice tokensPurchased vaultID
     gridOperator c =
     BurnTokens S B now liquidityContract tokensPurchased ''merchant_protocol''
       (Some \<lparr>mb_EnergyRevenueUSD = energyRevenueUSD, mb_DEXPurchasePrice = dexPurchasePrice,
              mb_VaultID = vaultID, mb_GridOperator = gridOperator\<rparr>) c"

section \<open>Messages\<close>

record msg_burn =
  mu_Sender :: string
  mu_Amount :: string
  mu_Source :: string

record msg_merchant_burn =
  mc_Sender :: string
  mc_TokensPurchased :: string
  mc_EnergyRevenueUsd :: string
  mc_DexPurchasePrice :: string
  mc_VaultId :: string
  mc_GridOperator :: string

record msg_add_merchant =
  mt_Authority :: string
  mt_MerchantAddress :: string

definition quoted :: "string \<Rightarrow> string" where
  "quoted s = CHR 0x27 # s @ [CHR 0x27]"

definition burn_ValidateBasic :: "sdk \<Rightarrow> msg_burn \<Rightarrow> bn_error option" where
  "burn_ValidateBasic S msg =
     (if addr_parse S (mu_Sender msg) = None then Some (InvalidBurnSender (mu_Sender msg))
      else if mu_Amount msg = '''' then Some (InvalidBurn ''amount cannot be empty'')
      else if mu_Source msg \<noteq> ''manual'' \<and> mu_Source msg \<noteq> ''redemption''
      then Some (InvalidBurn (''source must be '' @ quoted ''manual'' @ '' or '' @ quoted ''redemption''))
      else None)"

definition merchant_ValidateBasic :: "sdk \<Rightarrow> msg_merchant_burn \<Rightarrow> bn_error option" where
  "merchant_ValidateBasic S msg =
     (if addr_parse S (mc_Sender msg) = None then Some (InvalidBurnSender (mc_Sender msg))
      else if mc_TokensPurchased msg = '''' then Some (InvalidBurn ''tokens_purchased cannot be empty'')
      else if mc_EnergyRevenueUsd msg = '''' then Some (InvalidBurn ''energy_revenue_usd cannot be empty'')
      else None)"

definition burn_GetSigners :: "sdk \<Rightarrow> msg_burn \<Rightarrow> addr list" where
  "burn_GetSigners S msg = [case addr_parse S (mu_Sender msg) of None \<Rightarrow> [] | Some a \<Rightarrow> a]"

definition merchant_GetSigners :: "sdk \<Rightarrow> msg_merchant_burn \<Rightarrow> addr list" where
  "merchant_GetSigners S msg = [case addr_parse S (mc_Sender msg) of None \<Rightarrow> [] | Some a \<Rightarrow> a]"

definition burn_response :: "sdk \<Rightarrow> bn_error + bn_event \<Rightarrow> bn_error + string \<times> string" where
  "burn_response S r = map_sum id (\<lambda>e. (be_BurnID e, int_text S (be_Amount e))) r"

definition msg_BurnTokens ::
  "sdk \<Rightarrow> 'b bn_bank \<Rightarrow> time \<Rightarrow> msg_burn \<Rightarrow> 'b bn_ctx \<Rightarrow> ('b bn_ctx \<times> (bn_error + string \<times> string)) option" where
  "msg_BurnTokens S B now msg c =
     (case addr_parse S (mu_Sender msg) of
        None \<Rightarrow> Some (c, Inl (InvalidBurnSender (mu_Sender msg)))
      | Some sender \<Rightarrow>
          (case int_parse S (mu_Amount msg) of
             None \<Rightarrow> Some (c, Inl (InvalidBurnAmount (mu_Amount msg)))
           | Some amount \<Rightarrow>
               map_option (apsnd (burn_response S)) (BurnTokens S B now sender amount (mu_Source msg) None c)))"

definition MerchantBurn ::
  "sdk \<Rightarrow> 'b bn_bank \<Rightarrow> time \<Rightarrow> msg_merchant_burn \<Rightarrow> 'b bn_ctx \<Rightarrow>
   ('b bn_ctx \<times> (bn_error + string \<times> string)) option" where
  "MerchantBurn S B now msg c =
     (case addr_parse S (mc_Sender msg) of
        None \<Rightarrow> Some (c, Inl (InvalidBurnSender (mc_Sender msg)))
      | Some sender \<Rightarrow>
          (case int_parse S (mc_TokensPurchased msg) of
             None \<Rightarrow> Some (c, Inl (InvalidTokensPurchased (mc_TokensPurchased msg)))
           | Some tokens \<Rightarrow>
               (case dec_parse S (mc_EnergyRevenueUsd msg) of
                  None \<Rightarrow> Some (c, Inl (InvalidEnergyRevenue (mc_EnergyRevenueUsd msg)))
                | Some revenue \<Rightarrow>
                    (case dec_parse S (mc_DexPurchasePrice msg) of
                       None \<Rightarrow> Some (c, Inl (InvalidDexPrice (mc_DexPurchasePrice msg)))
                     | Some price \<Rightarrow>
                         map_option (apsnd (burn_response S))
                           (MerchantProtocolBurn S B now sender revenue price tokens (mc_VaultId msg)
                             (mc_GridOperator msg) c)))))"

definition AddMerchant :: "sdk \<Rightarrow> string \<Rightarrow> msg_add_merchant \<Rightarrow> 'b bn_ctx \<Rightarrow> 'b bn_ctx \<times> (bn_error + unit)" where
  "AddMerchant S authority msg c =
     (if mt_Authority msg \<noteq> authority then (c, Inl MerchantUnauthorized)
      else case addr_parse S (mt_MerchantAddress msg) of
        None \<Rightarrow> (c, Inl (InvalidMerchantAddress (mt_MerchantAddress msg)))
      | Some a \<Rightarrow>
          (EmitEvent (''merchant_added'', [(''merchant_address'', mt_MerchantAddress msg),
             (''added_by'', mt_Authority msg)]) (AddAuthorizedMerchant S a c), Inr ()))"

section \<open>Queries\<close>

definition q_BurnStats :: "sdk \<Rightarrow> 'b bn_ctx \<Rightarrow> string \<times> int \<times> string \<times> string \<times> string \<times> string" where
  "q_BurnStats S c =
     (let s = GetBurnStats c
      in (int_text S (bs_TotalBurned s), bs_TotalBurnEvents s, int_text S (bs_MerchantProtocolBurned s),
          int_text S (bs_ManualBurned s), int_text S (bs_RedemptionBurned s),
          dec_text S (Some (bs_TotalEnergyRevenueUSD s))))"

definition q_bn_Params :: "'b bn_ctx \<Rightarrow> bn_params" where
  "q_bn_Params c = bn_GetParams c"

end
