(* ===== verification/BurnProps.thy ===== *)
theory BurnProps
  imports Burn
begin

text \<open>
  The statistics of the burn module are the sums over the burn events it has filed, one for
  every burn, and what the bank's supply has lost.
\<close>

section \<open>Runs\<close>

datatype bn_op =
    OpBurn time msg_burn
  | OpMerchantBurn time msg_merchant_burn
  | OpAddMerchant msg_add_merchant

definition bn_call :: "sdk \<Rightarrow> 'b bn_bank \<Rightarrow> string \<Rightarrow> bn_op \<Rightarrow> 'b bn_ctx \<Rightarrow> 'b bn_ctx option" where
  "bn_call S B authority op c =
     (case op of
        OpBurn now msg \<Rightarrow>
          (if burn_ValidateBasic S msg \<noteq> None then None
           else case msg_BurnTokens S B now msg c of Some (c', Inr _) \<Rightarrow> Some c' | _ \<Rightarrow> None)
      | OpMerchantBurn now msg \<Rightarrow>
          (if merchant_ValidateBasic S msg \<noteq> None then None
           else case MerchantBurn S B now msg c of Some (c', Inr _) \<Rightarrow> Some c' | _ \<Rightarrow> None)
      | OpAddMerchant msg \<Rightarrow> (case AddMerchant S authority msg c of (c', Inr _) \<Rightarrow> Some c' | _ \<Rightarrow> None))"

text \<open>A message that fails its checks, returns an error or panics is rolled back as a whole.\<close>

definition bn_step :: "sdk \<Rightarrow> 'b bn_bank \<Rightarrow> string \<Rightarrow> 'b bn_ctx \<Rightarrow> bn_op \<Rightarrow> 'b bn_ctx" where
  "bn_step S B authority c op = (case bn_call S B authority op c of None \<Rightarrow> c | Some c' \<Rightarrow> c')"

definition bn_start :: "'b \<Rightarrow> 'b bn_ctx" where
  "bn_start b = \<lparr>kv = [], bank = b, events = []\<rparr>"

definition bn_run :: "sdk \<Rightarrow> 'b bn_bank \<Rightarrow> string \<Rightarrow> 'b \<Rightarrow> bn_op list \<Rightarrow> 'b bn_ctx" where
  "bn_run S B authority b ops = foldl (bn_step S B authority) (bn_start b) ops"

section \<open>The bank\<close>

text \<open>What burning relies on: \<open>BurnCoins\<close> takes the coins out of the supply, sending keeps it.\<close>

locale burn_bank =
  fixes B :: "'b bn_bank" and coin_supply :: "'b \<Rightarrow> int"
  assumes burn_supply: "BurnCoins B m cs b = Some (b', None) \<Longrightarrow> coin_supply b' = coin_supply b - amount_of ''uftg'' cs"
    and collect_supply: "SendCoinsFromAccountToModule B a m cs b = Some (b', None) \<Longrightarrow> coin_supply b' = coin_supply b"

definition bn_test_bank :: "sdk \<Rightarrow> test_bank bn_bank" where
  "bn_test_bank S =
     \<lparr>BurnCoins = (\<lambda>m cs b. Some (b\<lparr>burned := burned b + amount_of ''uftg'' cs\<rparr>, None)),
      SendCoinsFromAccountToModule =
        (\<lambda>a m cs b. map_option (\<lambda>b. (b, None)) (tb_debit (addr_text S a) cs b)),
      GetBalance = (\<lambda>b a d. if d = ''uftg'' then mgetd 0 (balances b) (addr_text S a) else 0)\<rparr>"

interpretation bn_test: burn_bank "bn_test_bank S" "\<lambda>b. - burned b" for S
  by unfold_locales (auto simp: bn_test_bank_def tb_debit_def Let_def split: if_splits)

interpretation burn_ids: id_store burn_id
  using prefixed_id_store [of "''FTG-BURN-''" 6] by (simp only: burn_id_def [abs_def])

section \<open>The invariant\<close>

fun burn_event_in :: "bn_val \<Rightarrow> bn_event option" where
  "burn_event_in (VBurnEvent e) = Some e"
| "burn_event_in _ = None"

definition burn_events :: "'b bn_ctx \<Rightarrow> bn_event list" where
  "burn_events c = values_in burn_event_in (kv c)"

definition burned_for :: "string \<Rightarrow> bn_event list \<Rightarrow> int" where
  "burned_for source es = sum_list (map be_Amount (filter (\<lambda>e. be_Source e = source) es))"

definition revenue :: "bn_event \<Rightarrow> dec" where
  "revenue e = (case be_MerchantData e of None \<Rightarrow> 0 | Some md \<Rightarrow> mb_EnergyRevenueUSD md)"

definition stats_of :: "bn_event list \<Rightarrow> burn_stats" where
  "stats_of es =
     \<lparr>bs_TotalBurned = sum_list (map be_Amount es), bs_TotalBurnEvents = int (length es),
      bs_MerchantProtocolBurned = burned_for ''merchant_protocol'' es,
      bs_ManualBurned = burned_for ''manual'' es, bs_RedemptionBurned = burned_for ''redemption'' es,
      bs_TotalEnergyRevenueUSD = sum_list (map revenue es)\<rparr>"

definition burn_event_ok :: "bn_event \<Rightarrow> bool" where
  "burn_event_ok e \<longleftrightarrow> 1000000 \<le> be_Amount e \<and>
     be_Source e \<in> {''merchant_protocol'', ''manual'', ''redemption''} \<and>
     (be_MerchantData e = None \<longleftrightarrow> be_Source e \<noteq> ''merchant_protocol'')"

definition event_keyed :: "'b bn_ctx \<Rightarrow> bool" where
  "event_keyed c \<longleftrightarrow> (\<forall>k e. mget (kv c) k = Some (VBurnEvent e) \<longrightarrow> k = BurnEventKey (be_BurnID e))"

definition bn_ok :: "('b \<Rightarrow> int) \<Rightarrow> 'b \<Rightarrow> 'b bn_ctx \<Rightarrow> bool" where
  "bn_ok coin_supply b0 c \<longleftrightarrow>
     distinct (mkeys (kv c)) \<and> event_keyed c \<and>
     (\<forall>i. kv_has c (BurnEventKey i) \<longrightarrow> i \<in> be_BurnID ` set (burn_events c)) \<and>
     bn_count c = int (length (burn_events c)) \<and>
     map be_BurnID (burn_events c) = map (\<lambda>i. burn_id (int (Suc i))) [0..<length (burn_events c)] \<and>
     list_all burn_event_ok (burn_events c) \<and>
     GetBurnStats c = stats_of (burn_events c) \<and>
     coin_supply (bank c) = coin_supply b0 - bs_TotalBurned (GetBurnStats c)"

lemma burn_keys [simp]:
  "BurnEventKey x \<noteq> BurnEventCountKey" "BurnEventKey x \<noteq> BurnStatsKey"
  "BurnEventKey x \<noteq> AuthorizedMerchantKey a" "AuthorizedMerchantKey a \<noteq> BurnEventCountKey"
  "AuthorizedMerchantKey a \<noteq> BurnStatsKey" "BurnEventKey x = BurnEventKey y \<longleftrightarrow> x = y"
  by (simp_all add: BurnEventKey_def AuthorizedMerchantKey_def)

lemmas burn_keys' [simp] = burn_keys(1-5) [symmetric]

lemma burn_events_simps [simp]:
  "burn_events (EmitEvent e c) = burn_events c" "burn_events (c\<lparr>bank := b\<rparr>) = burn_events c"
  "event_keyed (EmitEvent e c) = event_keyed c" "event_keyed (c\<lparr>bank := b\<rparr>) = event_keyed c"
  by (simp_all add: burn_events_def event_keyed_def)

lemma burn_events_kv_set [simp]:
  assumes "event_keyed c" "burn_event_in v = None" "\<And>x. key \<noteq> BurnEventKey x"
  shows "burn_events (kv_set key v c) = burn_events c" "event_keyed (kv_set key v c)"
proof -
  have "burn_event_in w = None" if "mget (kv c) key = Some w" for w
    using assms(1,3) that unfolding event_keyed_def by (cases w) auto
  then show "burn_events (kv_set key v c) = burn_events c"
    using assms(2) by (simp add: burn_events_def kv_set_def values_in_other)
  show "event_keyed (kv_set key v c)" using assms by (auto simp: event_keyed_def)
qed

lemma burn_events_new:
  "\<not> kv_has c (BurnEventKey (be_BurnID e)) \<Longrightarrow>
   burn_events (kv_set (BurnEventKey (be_BurnID e)) (VBurnEvent e) c) = burn_events c @ [e]"
  by (simp add: burn_events_def kv_set_def values_in_new kv_has_def)

lemma stats_of_append:
  "burn_event_ok e \<Longrightarrow> stats_of (es @ [e]) =
   (let s = stats_of es in
    \<lparr>bs_TotalBurned = bs_TotalBurned s + be_Amount e, bs_TotalBurnEvents = bs_TotalBurnEvents s + 1,
     bs_MerchantProtocolBurned = bs_MerchantProtocolBurned s +
       (if be_Source e = ''merchant_protocol'' then be_Amount e else 0),
     bs_ManualBurned = bs_ManualBurned s + (if be_Source e = ''manual'' then be_Amount e else 0),
     bs_RedemptionBurned = bs_RedemptionBurned s + (if be_Source e = ''redemption'' then be_Amount e else 0),
     bs_TotalEnergyRevenueUSD = bs_TotalEnergyRevenueUSD s + revenue e\<rparr>)"
  by (simp add: stats_of_def burned_for_def Let_def)

lemma UpdateBurnStats_appends:
  assumes "sdk_laws S" "UpdateBurnStats S (be_Amount e) (be_Source e) (be_MerchantData e) c = Some c'"
    "GetBurnStats c = stats_of es" "burn_event_ok e" "int (length es) < 2 ^ 64 - 1"
  shows "c' = SetBurnStats (stats_of (es @ [e])) c"
proof -
  have n: "next64 (int (length es)) = int (length es) + 1" using assms(5) by (intro next64_exact) simp_all
  have "be_Source e = ''merchant_protocol'' \<or> be_Source e = ''manual'' \<or> be_Source e = ''redemption''"
    using assms(4) by (auto simp: burn_event_ok_def)
  then show ?thesis
    using assms(2,4) n
    unfolding UpdateBurnStats_def assms(3) stats_of_append [OF assms(4)] Let_def
    by (auto elim!: bind_SomeE dest!: sdk_laws.int_add_exact [OF assms(1)] sdk_laws.dec_add_exact [OF assms(1)]
        simp: burn_event_ok_def revenue_def stats_of_def split: option.splits)
qed

lemma BurnTokensE:
  assumes "BurnTokens S B now sender amount source md c = Some (c', Inr e)"
  obtains coins b1 b2 where "burn_check S B sender amount source c = None"
    "new_coins S ''uftg'' amount = Some coins"
    "SendCoinsFromAccountToModule B sender ''ftgburn'' coins (bank c) = Some (b1, None)"
    "BurnCoins B ''ftgburn'' coins b1 = Some (b2, None)"
    "record_burn S now sender amount source md (c\<lparr>bank := b2\<rparr>) = Some (c', e)"
  using assms unfolding BurnTokens_def Let_def
  by (auto elim!: bind_SomeE split: option.splits prod.splits intro: that)

lemma record_burnE:
  assumes "record_burn S now sender amount source md c = Some (c', e)"
  obtains ev c1 where
    "e = \<lparr>be_BurnID = burn_id (next64 (bn_count c)), be_Amount = amount, be_Source = source, be_Sender = sender,
       be_Timestamp = now, be_TxHash = '''', be_MerchantData = md\<rparr>"
    "UpdateBurnStats S amount source md (kv_set (BurnEventKey (be_BurnID e)) (VBurnEvent e)
       (kv_set BurnEventCountKey (VBurnCount (next64 (bn_count c))) c)) = Some c1"
    "c' = EmitEvent ev c1"
  using assms unfolding record_burn_def GenerateBurnID_def SetBurnEvent_def Let_def
  by (auto elim!: bind_SomeE split: if_splits intro: that)

lemma burn_checkD:
  assumes "burn_check S B sender amount source c = None"
  shows "source \<in> {''merchant_protocol'', ''manual'', ''redemption''}" "1000000 \<le> amount"
    "amount \<le> GetBalance B (bank c) sender ''uftg''"
    "source = ''merchant_protocol'' \<Longrightarrow> IsAuthorizedMerchant S c sender"
  using assms by (auto simp: burn_check_def Let_def bn_GetParams_def bn_DefaultParams_def split: if_splits)

lemma bn_okD:
  assumes "bn_ok coin_supply b0 c"
  shows "distinct (mkeys (kv c))" "event_keyed c"
    "kv_has c (BurnEventKey i) \<Longrightarrow> i \<in> be_BurnID ` set (burn_events c)"
    "bn_count c = int (length (burn_events c))"
    "map be_BurnID (burn_events c) = map (\<lambda>i. burn_id (int (Suc i))) [0..<length (burn_events c)]"
    "list_all burn_event_ok (burn_events c)" "GetBurnStats c = stats_of (burn_events c)"
    "coin_supply (bank c) = coin_supply b0 - bs_TotalBurned (GetBurnStats c)"
  using assms unfolding bn_ok_def by simp_all

lemma burn_id_fresh:
  assumes "bn_ok coin_supply b0 c"
  shows "\<not> kv_has c (BurnEventKey (burn_id (bn_count c + 1)))"
proof
  assume "kv_has c (BurnEventKey (burn_id (bn_count c + 1)))"
  then have "burn_id (bn_count c + 1) \<in> set (map be_BurnID (burn_events c))"
    using bn_okD(3) [OF assms] by simp
  then obtain i where "i < length (burn_events c)" "burn_id (bn_count c + 1) = burn_id (int (Suc i))"
    unfolding bn_okD(5) [OF assms] by auto
  then show False using burn_ids.mk_inj bn_okD(4) [OF assms] by fastforce
qed

lemma bn_ok_burn:
  assumes "sdk_laws S" "burn_bank B coin_supply" "bn_ok coin_supply b0 c" "bn_count c < 2 ^ 64 - 1"
    and md: "md = None \<longleftrightarrow> source \<noteq> ''merchant_protocol''"
    and run: "BurnTokens S B now sender amount source md c = Some (c', Inr e)"
  shows "bn_ok coin_supply b0 c'" "bn_count c' = bn_count c + 1"
proof -
  note D = bn_okD [OF assms(3)]
  from run obtain coins b1 b2 where ch: "burn_check S B sender amount source c = None"
    and coins: "new_coins S ''uftg'' amount = Some coins"
    and send: "SendCoinsFromAccountToModule B sender ''ftgburn'' coins (bank c) = Some (b1, None)"
    and burn: "BurnCoins B ''ftgburn'' coins b1 = Some (b2, None)"
    and rec: "record_burn S now sender amount source md (c\<lparr>bank := b2\<rparr>) = Some (c', e)"
    by (rule BurnTokensE)
  have n: "next64 (bn_count c) = bn_count c + 1" using D(4) assms(4) by (intro next64_exact) simp_all
  have "bn_count (c\<lparr>bank := b2\<rparr>) = bn_count c" by (simp add: bn_count_def)
  then obtain ev c1 where
    e: "e = \<lparr>be_BurnID = burn_id (bn_count c + 1), be_Amount = amount, be_Source = source, be_Sender = sender,
       be_Timestamp = now, be_TxHash = '''', be_MerchantData = md\<rparr>" and
    upd: "UpdateBurnStats S amount source md (kv_set (BurnEventKey (be_BurnID e)) (VBurnEvent e)
       (kv_set BurnEventCountKey (VBurnCount (bn_count c + 1)) (c\<lparr>bank := b2\<rparr>))) = Some c1" and
    c': "c' = EmitEvent ev c1"
    using rec n by (elim record_burnE) simp
  let ?c = "kv_set (BurnEventKey (be_BurnID e)) (VBurnEvent e)
       (kv_set BurnEventCountKey (VBurnCount (bn_count c + 1)) (c\<lparr>bank := b2\<rparr>))"
  have ok: "burn_event_ok e" using burn_checkD(1,2) [OF ch] md by (simp add: e burn_event_ok_def)
  have fresh: "\<not> kv_has c (BurnEventKey (be_BurnID e))" using burn_id_fresh [OF assms(3)] by (simp add: e)
  have evs: "burn_events ?c = burn_events c @ [e]"
    using D(2) fresh by (simp add: burn_events_new)
  have keyed: "event_keyed ?c" using D(2) by (auto simp: event_keyed_def)
  have st: "GetBurnStats ?c = stats_of (burn_events c)" using D(7) by (simp add: GetBurnStats_def)
  have c1: "c1 = SetBurnStats (stats_of (burn_events c @ [e])) ?c"
    using UpdateBurnStats_appends [OF assms(1) _ st ok] upd D(4) assms(4) by (simp add: e)
  have evs': "burn_events c' = burn_events c @ [e]"
    using keyed by (simp add: c' c1 SetBurnStats_def evs)
  show count: "bn_count c' = bn_count c + 1" by (simp add: c' c1 SetBurnStats_def bn_count_def)
  have stats: "GetBurnStats c' = stats_of (burn_events c @ [e])"
    by (simp add: c' c1 SetBurnStats_def GetBurnStats_def)
  have bank: "coin_supply (bank c') = coin_supply (bank c) - amount"
    using burn_bank.burn_supply [OF assms(2) burn] burn_bank.collect_supply [OF assms(2) send]
      sdk_laws.new_coins_amount [OF assms(1) coins] by (simp add: c' c1 SetBurnStats_def)
  have "distinct (mkeys (kv c'))" using D(1) by (simp add: c' c1 SetBurnStats_def)
  moreover have "event_keyed c'" using keyed by (simp add: c' c1 SetBurnStats_def)
  moreover have "i \<in> be_BurnID ` set (burn_events c')" if "kv_has c' (BurnEventKey i)" for i
    using that D(3) unfolding evs' by (auto simp: c' c1 SetBurnStats_def)
  moreover have "bn_count c' = int (length (burn_events c'))" using count D(4) by (simp add: evs')
  moreover have "map be_BurnID (burn_events c') =
      map (\<lambda>i. burn_id (int (Suc i))) [0..<length (burn_events c')]"
    using D(4,5) by (simp add: evs' e ac_simps)
  moreover have "coin_supply (bank c') = coin_supply b0 - bs_TotalBurned (GetBurnStats c')"
    using bank D(7,8) by (simp add: stats) (simp add: stats_of_def e)
  ultimately show "bn_ok coin_supply b0 c'"
    using D(6) ok unfolding bn_ok_def evs' stats by simp
qed

lemma burn_response_Inr [simp]:
  "burn_response S x = Inr r \<longleftrightarrow> (\<exists>e. x = Inr e \<and> r = (be_BurnID e, int_text S (be_Amount e)))"
  by (cases x) (auto simp: burn_response_def)

lemma bn_call_cases:
  assumes "bn_call S B authority op c = Some c'"
  obtains (burn) now sender amount source md e where
      "BurnTokens S B now sender amount source md c = Some (c', Inr e)"
      "md = None \<longleftrightarrow> source \<noteq> ''merchant_protocol''"
    | (merchant) msg a ev where "op = OpAddMerchant msg" "mt_Authority msg = authority"
      "addr_parse S (mt_MerchantAddress msg) = Some a" "c' = EmitEvent ev (AddAuthorizedMerchant S a c)"
proof (cases op)
  case (OpBurn now msg)
  then obtain r where v: "burn_ValidateBasic S msg = None" "msg_BurnTokens S B now msg c = Some (c', Inr r)"
    using assms by (auto simp: bn_call_def split: if_splits option.splits sum.splits)
  then obtain sender amount e where
    "BurnTokens S B now sender amount (mu_Source msg) None c = Some (c', Inr e)"
    by (auto simp: msg_BurnTokens_def split: option.splits)
  moreover have "mu_Source msg \<noteq> ''merchant_protocol''"
    using v(1) by (auto simp: burn_ValidateBasic_def split: if_splits)
  ultimately show thesis using burn by blast
next
  case (OpMerchantBurn now msg)
  then obtain r where "MerchantBurn S B now msg c = Some (c', Inr r)"
    using assms by (auto simp: bn_call_def split: if_splits option.splits sum.splits)
  then obtain sender amount md e where
    "BurnTokens S B now sender amount ''merchant_protocol'' (Some md) c = Some (c', Inr e)"
    by (auto simp: MerchantBurn_def MerchantProtocolBurn_def split: option.splits)
  then show thesis using burn by blast
next
  case (OpAddMerchant msg)
  then show thesis
    using assms merchant by (auto simp: bn_call_def AddMerchant_def split: if_splits option.splits)
qed

lemma bn_ok_merchant:
  assumes "bn_ok coin_supply b0 c"
  shows "bn_ok coin_supply b0 (EmitEvent ev (AddAuthorizedMerchant S a c))"
    "bn_count (EmitEvent ev (AddAuthorizedMerchant S a c)) = bn_count c"
  using bn_okD [OF assms]
  by (simp_all add: bn_ok_def AddAuthorizedMerchant_def bn_count_def GetBurnStats_def)

lemma bn_ok_step:
  assumes "sdk_laws S" "burn_bank B coin_supply" "bn_ok coin_supply b0 c" "bn_count c < 2 ^ 64 - 1"
  shows "bn_ok coin_supply b0 (bn_step S B authority c op)"
    "bn_count (bn_step S B authority c op) \<le> bn_count c + 1"
proof -
  have "bn_ok coin_supply b0 (bn_step S B authority c op) \<and>
    bn_count (bn_step S B authority c op) \<le> bn_count c + 1"
  proof (cases "bn_call S B authority op c")
    case (Some c')
    then have step: "bn_step S B authority c op = c'" by (simp add: bn_step_def)
    from Some have "bn_ok coin_supply b0 c' \<and> bn_count c' \<le> bn_count c + 1"
    proof (cases rule: bn_call_cases)
      case (burn now sender amount source md e)
      then show ?thesis using bn_ok_burn [OF assms burn(2,1)] by simp
    next
      case (merchant msg a ev)
      then show ?thesis using bn_ok_merchant [OF assms(3)] by simp
    qed
    then show ?thesis unfolding step .
  qed (use assms(3) in \<open>simp add: bn_step_def\<close>)
  then show "bn_ok coin_supply b0 (bn_step S B authority c op)"
    "bn_count (bn_step S B authority c op) \<le> bn_count c + 1" by blast+
qed

lemma bn_ok_start: "bn_ok coin_supply b0 (bn_start b0)" "bn_count (bn_start b0) = 0"
  by (simp_all add: bn_ok_def bn_start_def burn_events_def bn_count_def event_keyed_def kv_has_def
      GetBurnStats_def stats_of_def burned_for_def)

locale burning = sdk_laws S + burn_bank B coin_supply
  for S :: sdk and B :: "'b bn_bank" and coin_supply :: "'b \<Rightarrow> int"

sublocale burning \<subseteq> burns: counted_machine "bn_step S B authority" "bn_ok coin_supply b" bn_count
  for authority b
  by unfold_locales (rule bn_ok_step [OF sdk_laws_axioms burn_bank_axioms]; assumption)+

context burning begin

lemma bn_run_ok: "int (length ops) < 2 ^ 64 \<Longrightarrow> bn_ok coin_supply b (bn_run S B authority b ops)"
  unfolding bn_run_def by (rule burns.run_counted) (simp_all add: bn_ok_start)

end

interpretation bn_tests: burning doc_sdk "bn_test_bank doc_sdk" "\<lambda>b. - burned b" ..

section \<open>Properties\<close>

lemma burned_by_source:
  "list_all burn_event_ok es \<Longrightarrow>
   sum_list (map be_Amount es) = burned_for ''merchant_protocol'' es + burned_for ''manual'' es +
     burned_for ''redemption'' es"
  by (induction es) (auto simp: burned_for_def burn_event_ok_def)

text \<open>
  C14: After any messages, fewer than 2^64, with an SDK and a bank that keep their contracts: the
  burn events are numbered in order, each is of at least one FTG and for one of the three
  reasons; the statistics are exactly the counts and sums over them, so the total is the sum of
  the merchant, manual and redemption burns; and it is exactly what the bank's supply has lost.
\<close>

theorem burn_accounts:
  assumes "sdk_laws S" "burn_bank B coin_supply" "int (length ops) < 2 ^ 64"
    "c = bn_run S B authority b ops"
  shows "map be_BurnID (burn_events c) = map (\<lambda>i. burn_id (int (Suc i))) [0..<length (burn_events c)] \<and>
    list_all (\<lambda>e. 1000000 \<le> be_Amount e \<and>
      be_Source e \<in> {''merchant_protocol'', ''manual'', ''redemption''}) (burn_events c) \<and>
    GetBurnStats c = stats_of (burn_events c) \<and>
    bs_TotalBurned (GetBurnStats c) = bs_MerchantProtocolBurned (GetBurnStats c) +
      bs_ManualBurned (GetBurnStats c) + bs_RedemptionBurned (GetBurnStats c) \<and>
    coin_supply (bank c) = coin_supply b - bs_TotalBurned (GetBurnStats c)"
proof -
  have ok: "bn_ok coin_supply b c"
    unfolding assms(4) by (rule burning.bn_run_ok [OF burning.intro [OF assms(1,2)] assms(3)])
  note D = bn_okD [OF ok]
  have "list_all (\<lambda>e. 1000000 \<le> be_Amount e \<and>
      be_Source e \<in> {''merchant_protocol'', ''manual'', ''redemption''}) (burn_events c)"
    using D(6) by (auto simp: list_all_iff burn_event_ok_def)
  moreover have "bs_TotalBurned (GetBurnStats c) = bs_MerchantProtocolBurned (GetBurnStats c) +
      bs_ManualBurned (GetBurnStats c) + bs_RedemptionBurned (GetBurnStats c)"
    unfolding D(7) by (simp add: stats_of_def burned_by_source [OF D(6)])
  ultimately show ?thesis using D(5,7,8) by blast
qed

definition bn_demo_ops :: "bn_op list" where
  "bn_demo_ops =
     [OpBurn 1 \<lparr>mu_Sender = ''ftg1alice'', mu_Amount = ''2000000'', mu_Source = ''manual''\<rparr>,
      OpBurn 2 \<lparr>mu_Sender = ''ftg1alice'', mu_Amount = ''999999'', mu_Source = ''manual''\<rparr>,
      OpAddMerchant \<lparr>mt_Authority = ''gov'', mt_MerchantAddress = ''ftg1shop''\<rparr>,
      OpMerchantBurn 3 \<lparr>mc_Sender = ''ftg1shop'', mc_TokensPurchased = ''5000000'',
        mc_EnergyRevenueUsd = ''12'', mc_DexPurchasePrice = ''2'', mc_VaultId = ''V1'', mc_GridOperator = ''G''\<rparr>]"

definition bn_demo_bank :: test_bank where
  "bn_demo_bank = \<lparr>balances = [(''ftg1alice'', 9000000), (''ftg1shop'', 7000000)], minted = 0, burned = 0\<rparr>"

definition bn_demo :: "test_bank bn_ctx" where
  "bn_demo = bn_run doc_sdk (bn_test_bank doc_sdk) ''gov'' bn_demo_bank bn_demo_ops"

lemma bn_demo_eval:
  "bs_TotalBurned (GetBurnStats bn_demo) = 7000000 \<and> length (burn_events bn_demo) = 2 \<and>
   int (length bn_demo_ops) < 2 ^ 64 \<and> burned bn_demo_bank = 0"
  by code_simp

theorem burn_accounts_witness:
  "map be_BurnID (burn_events bn_demo) = [burn_id 1, burn_id 2] \<and> burned (bank bn_demo) = 7000000"
  using burn_accounts [OF doc.sdk_laws_axioms bn_test.burn_bank_axioms _ bn_demo_def] bn_demo_eval
  by (simp add: upt_rec)

end
