(* ===== verification/Provenance.thy ===== *)
theory Provenance
  imports Sdk
begin

text \<open>
  The provenance module, \<open>x/provenance\<close>: one record per certificate, its documents and its
  chain of custody, and the queries. The module has no message server; its operations are the
  keeper's methods. \<open>GetParams\<close> always answers the default parameters.
\<close>

section \<open>Types\<close>

record energy_source =
  es_Type :: string
  es_Provider :: string
  es_Location :: string
  es_GenerationPeriodStart :: time
  es_GenerationPeriodEnd :: time
  es_MwhQuantity :: "dec option"
  es_CertificateSerial :: string
  es_CertificateRegistry :: string
  es_VaultID :: string
  es_MCSDeviceID :: string

record document_hash =
  dh_IPFSHash :: string
  dh_DocumentType :: string
  dh_Description :: string
  dh_UploadedAt :: time
  dh_FileSize :: int
  dh_MimeType :: string

record custody_event =
  cu_From :: addr
  cu_To :: addr
  cu_Timestamp :: time
  cu_Reason :: string
  cu_TxHash :: string

record provenance_record =
  pr_RecordID :: string
  pr_CertificateID :: string
  pr_TokenBatchStart :: int
  pr_TokenBatchEnd :: int
  pr_ProvenanceType :: string
  pr_EnergySource :: energy_source
  pr_DocumentHashes :: "document_hash list"
  pr_CreatedAt :: time
  pr_CreatedBy :: addr
  pr_ChainOfCustody :: "custody_event list"

record pv_params =
  RequireDocumentHash :: bool
  MaxDocumentsPerRecord :: int
  AcceptedDocumentTypes :: "string list"
  AcceptedEnergyTypes :: "string list"

definition pv_DefaultParams :: pv_params where
  "pv_DefaultParams =
     \<lparr>RequireDocumentHash = True, MaxDocumentsPerRecord = 20,
      AcceptedDocumentTypes = [''certificate'', ''invoice'', ''meter_reading'', ''audit_report'', ''photo''],
      AcceptedEnergyTypes = [''solar'', ''wind'', ''hydro'', ''geothermal'', ''biomass'', ''mixed_renewable'']\<rparr>"

datatype pv_error =
    DocumentHashRequired | TooManyDocuments int int | EnergyTypeNotAccepted string
  | DocumentTypeNotAccepted string | ProvenanceExists string | ProvenanceRecordNotFound string
  | MaximumDocumentsReached string | NoRecordForCertificate string

section \<open>The store\<close>

definition ProvenanceRecordKey :: "string \<Rightarrow> string" where "ProvenanceRecordKey i = ''ProvenanceRecord/value/'' @ i"
definition CertToProvenanceKey :: "string \<Rightarrow> string" where "CertToProvenanceKey x = ''CertToProvenance/'' @ x"
abbreviation ProvenanceCountKey :: string where "ProvenanceCountKey \<equiv> ''ProvenanceRecord/count/''"

datatype pv_val = VRecord provenance_record | VRecordID string | VRecordCount int

type_synonym pv_ctx = "(unit, pv_val) ctx"

definition pv_GetParams :: "pv_ctx \<Rightarrow> pv_params" where
  "pv_GetParams c = pv_DefaultParams"

definition GetProvenanceRecord :: "pv_ctx \<Rightarrow> string \<Rightarrow> provenance_record option" where
  "GetProvenanceRecord c i =
     (case mget (kv c) (ProvenanceRecordKey i) of Some (VRecord r) \<Rightarrow> Some r | _ \<Rightarrow> None)"

text \<open>The record's times that \<open>json.Marshal\<close> meets.\<close>

definition record_times :: "provenance_record \<Rightarrow> time list" where
  "record_times r =
     [es_GenerationPeriodStart (pr_EnergySource r), es_GenerationPeriodEnd (pr_EnergySource r), pr_CreatedAt r] @
     map dh_UploadedAt (pr_DocumentHashes r) @ map cu_Timestamp (pr_ChainOfCustody r)"

definition SetProvenanceRecord :: "provenance_record \<Rightarrow> pv_ctx \<Rightarrow> pv_ctx option" where
  "SetProvenanceRecord r c =
     (if list_all json_time (record_times r)
      then Some (kv_set (ProvenanceRecordKey (pr_RecordID r)) (VRecord r) c) else None)"

definition HasProvenanceForCertificate :: "pv_ctx \<Rightarrow> string \<Rightarrow> bool" where
  "HasProvenanceForCertificate c x = kv_has c (CertToProvenanceKey x)"

definition SetCertToProvenance :: "string \<Rightarrow> string \<Rightarrow> pv_ctx \<Rightarrow> pv_ctx" where
  "SetCertToProvenance x i c = kv_set (CertToProvenanceKey x) (VRecordID i) c"

definition GetProvenanceByCertificate :: "pv_ctx \<Rightarrow> string \<Rightarrow> provenance_record option" where
  "GetProvenanceByCertificate c x =
     (case mget (kv c) (CertToProvenanceKey x) of
        Some (VRecordID i) \<Rightarrow> GetProvenanceRecord c i | _ \<Rightarrow> None)"

definition pv_count :: "pv_ctx \<Rightarrow> int" where
  "pv_count c = (case mget (kv c) ProvenanceCountKey of Some (VRecordCount n) \<Rightarrow> n | _ \<Rightarrow> 0)"

definition record_id :: "int \<Rightarrow> string" where
  "record_id n = ''FTG-PROV-'' @ fmt0d 6 n"

definition GenerateRecordID :: "pv_ctx \<Rightarrow> pv_ctx \<times> string" where
  "GenerateRecordID c =
     (let n = next64 (pv_count c) in (kv_set ProvenanceCountKey (VRecordCount n) c, record_id n))"

definition isAcceptedType :: "string list \<Rightarrow> string \<Rightarrow> bool" where
  "isAcceptedType accepted t = list_ex (\<lambda>a. a = t) accepted"

text \<open>\<open>uint32(len(...))\<close>.\<close>

definition len32 :: "'a list \<Rightarrow> int" where
  "len32 xs = int (length xs) mod 2 ^ 32"

section \<open>Operations\<close>

definition provenance_check :: "string \<Rightarrow> energy_source \<Rightarrow> document_hash list \<Rightarrow> pv_ctx \<Rightarrow> pv_error option" where
  "provenance_check certificateID energySource documents c =
     (let params = pv_GetParams c in
      if RequireDocumentHash params \<and> documents = [] then Some DocumentHashRequired
      else if len32 documents > MaxDocumentsPerRecord params
      then Some (TooManyDocuments (int (length documents)) (MaxDocumentsPerRecord params))
      else if \<not> isAcceptedType (AcceptedEnergyTypes params) (es_Type energySource)
      then Some (EnergyTypeNotAccepted (es_Type energySource))
      else case find (\<lambda>d. \<not> isAcceptedType (AcceptedDocumentTypes params) (dh_DocumentType d)) documents of
        Some d \<Rightarrow> Some (DocumentTypeNotAccepted (dh_DocumentType d))
      | None \<Rightarrow> if HasProvenanceForCertificate c certificateID then Some (ProvenanceExists certificateID) else None)"

text \<open>The code asks for the time twice: \<open>now\<close> for the record, \<open>now'\<close> for its first custody event.\<close>

definition CreateProvenanceRecord ::
  "sdk \<Rightarrow> time \<Rightarrow> time \<Rightarrow> string \<Rightarrow> int \<Rightarrow> int \<Rightarrow> string \<Rightarrow> energy_source \<Rightarrow> document_hash list \<Rightarrow> addr \<Rightarrow>
   pv_ctx \<Rightarrow> (pv_ctx \<times> (pv_error + provenance_record)) option" where
  "CreateProvenanceRecord S now now' certificateID tokenBatchStart tokenBatchEnd provenanceType energySource
     documents creator c =
     (case provenance_check certificateID energySource documents c of
        Some e \<Rightarrow> Some (c, Inl e)
      | None \<Rightarrow>
          let (c, i) = GenerateRecordID c;
              r = \<lparr>pr_RecordID = i, pr_CertificateID = certificateID, pr_TokenBatchStart = tokenBatchStart,
                   pr_TokenBatchEnd = tokenBatchEnd, pr_ProvenanceType = provenanceType,
                   pr_EnergySource = energySource, pr_DocumentHashes = documents, pr_CreatedAt = now,
                   pr_CreatedBy = creator,
                   pr_ChainOfCustody = [\<lparr>cu_From = [], cu_To = creator, cu_Timestamp = now',
                     cu_Reason = ''initial_mint'', cu_TxHash = ''''\<rparr>]\<rparr>
          in map_option (\<lambda>c.
               (EmitEvent (''provenance_created'',
                  [(''record_id'', i), (''certificate_id'', certificateID),
                   (''energy_type'', es_Type energySource), (''provider'', es_Provider energySource),
                   (''mwh_quantity'', dec_text S (es_MwhQuantity energySource)),
                   (''documents_count'', decimal (int (length documents)))])
                  (SetCertToProvenance certificateID i c), Inr r))
               (SetProvenanceRecord r c))"

definition AddDocumentToRecord ::
  "string \<Rightarrow> document_hash \<Rightarrow> pv_ctx \<Rightarrow> (pv_ctx \<times> (pv_error + unit)) option" where
  "AddDocumentToRecord recordID doc c =
     (case GetProvenanceRecord c recordID of
        None \<Rightarrow> Some (c, Inl (ProvenanceRecordNotFound recordID))
      | Some r \<Rightarrow>
          let docs = pr_DocumentHashes r @ [doc] in
          if len32 docs > MaxDocumentsPerRecord (pv_GetParams c)
          then Some (c, Inl (MaximumDocumentsReached recordID))
          else map_option (\<lambda>c. (c, Inr ())) (SetProvenanceRecord (r\<lparr>pr_DocumentHashes := docs\<rparr>) c))"

definition RecordCustodyTransfer ::
  "sdk \<Rightarrow> time \<Rightarrow> string \<Rightarrow> addr \<Rightarrow> addr \<Rightarrow> string \<Rightarrow> string \<Rightarrow> pv_ctx \<Rightarrow> (pv_ctx \<times> (pv_error + unit)) option" where
  "RecordCustodyTransfer S now recordID from to reason txHash c =
     (case GetProvenanceRecord c recordID of
        None \<Rightarrow> Some (c, Inl (ProvenanceRecordNotFound recordID))
      | Some r \<Rightarrow>
          let e = \<lparr>cu_From = from, cu_To = to, cu_Timestamp = now, cu_Reason = reason, cu_TxHash = txHash\<rparr> in
          map_option (\<lambda>c.
            (EmitEvent (''custody_transfer'',
               [(''record_id'', recordID), (''from'', addr_text S from), (''to'', addr_text S to),
                (''reason'', reason)]) c, Inr ()))
            (SetProvenanceRecord (r\<lparr>pr_ChainOfCustody := pr_ChainOfCustody r @ [e]\<rparr>) c))"

section \<open>Queries\<close>

definition q_ProvenanceRecord :: "string \<Rightarrow> pv_ctx \<Rightarrow> pv_error + provenance_record" where
  "q_ProvenanceRecord i c =
     (case GetProvenanceRecord c i of None \<Rightarrow> Inl (ProvenanceRecordNotFound i) | Some r \<Rightarrow> Inr r)"

definition q_ProvenanceByCertificate :: "string \<Rightarrow> pv_ctx \<Rightarrow> pv_error + provenance_record" where
  "q_ProvenanceByCertificate x c =
     (case GetProvenanceByCertificate c x of None \<Rightarrow> Inl (NoRecordForCertificate x) | Some r \<Rightarrow> Inr r)"

definition q_pv_Params :: "pv_ctx \<Rightarrow> pv_params" where
  "q_pv_Params c = pv_GetParams c"

end
