(* ===== verification/ProvenanceProps.thy ===== *)
theory ProvenanceProps
  imports Provenance
begin

text \<open>
  Every certificate has at most one provenance record and every record is found under its
  certificate; records are numbered, never lost, and only ever extended at the end of their
  document list and chain of custody.
\<close>

section \<open>Runs\<close>

datatype pv_op =
    OpCreateRecord time time string int int string energy_source "document_hash list" addr
  | OpAddDocument string document_hash
  | OpCustodyTransfer time string addr addr string string

definition pv_call :: "sdk \<Rightarrow> pv_op \<Rightarrow> pv_ctx \<Rightarrow> pv_ctx option" where
  "pv_call S op c =
     (case op of
        OpCreateRecord now now' x s e p es ds creator \<Rightarrow>
          (case CreateProvenanceRecord S now now' x s e p es ds creator c of Some (c', Inr _) \<Rightarrow> Some c' | _ \<Rightarrow> None)
      | OpAddDocument i d \<Rightarrow> (case AddDocumentToRecord i d c of Some (c', Inr _) \<Rightarrow> Some c' | _ \<Rightarrow> None)
      | OpCustodyTransfer now i from to reason tx \<Rightarrow>
          (case RecordCustodyTransfer S now i from to reason tx c of Some (c', Inr _) \<Rightarrow> Some c' | _ \<Rightarrow> None))"

text \<open>A call that returns an error or panics is rolled back as a whole.\<close>

definition pv_step :: "sdk \<Rightarrow> pv_ctx \<Rightarrow> pv_op \<Rightarrow> pv_ctx" where
  "pv_step S c op = (case pv_call S op c of None \<Rightarrow> c | Some c' \<Rightarrow> c')"

definition pv_start :: pv_ctx where
  "pv_start = \<lparr>kv = [], bank = (), events = []\<rparr>"

definition pv_run :: "sdk \<Rightarrow> pv_op list \<Rightarrow> pv_ctx" where
  "pv_run S ops = foldl (pv_step S) pv_start ops"

section \<open>The invariant\<close>

interpretation record_ids: id_store record_id
  using prefixed_id_store [of "''FTG-PROV-''" 6] by (simp only: record_id_def [abs_def])

definition record_ok :: "provenance_record \<Rightarrow> bool" where
  "record_ok r \<longleftrightarrow> es_Type (pr_EnergySource r) \<in> set (AcceptedEnergyTypes pv_DefaultParams) \<and>
     pr_DocumentHashes r \<noteq> [] \<and> len32 (pr_DocumentHashes r) \<le> 20 \<and>
     dh_DocumentType (hd (pr_DocumentHashes r)) \<in> set (AcceptedDocumentTypes pv_DefaultParams) \<and>
     pr_ChainOfCustody r \<noteq> [] \<and> cu_From (hd (pr_ChainOfCustody r)) = [] \<and>
     cu_To (hd (pr_ChainOfCustody r)) = pr_CreatedBy r \<and>
     cu_Reason (hd (pr_ChainOfCustody r)) = ''initial_mint''"

definition cert_link :: "pv_ctx \<Rightarrow> string \<Rightarrow> string option" where
  "cert_link c x = (case mget (kv c) (CertToProvenanceKey x) of Some (VRecordID i) \<Rightarrow> Some i | _ \<Rightarrow> None)"

definition pv_ok :: "pv_ctx \<Rightarrow> bool" where
  "pv_ok c \<longleftrightarrow> 0 \<le> pv_count c \<and>
     (\<forall>i. GetProvenanceRecord c i \<noteq> None \<longleftrightarrow> (\<exists>n \<in> {1..pv_count c}. i = record_id n)) \<and>
     (\<forall>i r. GetProvenanceRecord c i = Some r \<longrightarrow> pr_RecordID r = i \<and> record_ok r \<and>
        cert_link c (pr_CertificateID r) = Some i) \<and>
     (\<forall>x. HasProvenanceForCertificate c x \<longrightarrow>
        (\<exists>i r. cert_link c x = Some i \<and> GetProvenanceRecord c i = Some r \<and> pr_CertificateID r = x))"

text \<open>A record later: the same but for documents and custody events added at the end.\<close>

definition grown :: "provenance_record \<Rightarrow> provenance_record \<Rightarrow> bool" where
  "grown r r' \<longleftrightarrow> (\<exists>ds es. r' = r\<lparr>pr_DocumentHashes := pr_DocumentHashes r @ ds,
     pr_ChainOfCustody := pr_ChainOfCustody r @ es\<rparr>)"

definition pv_kept :: "pv_ctx \<Rightarrow> pv_ctx \<Rightarrow> bool" where
  "pv_kept c c' \<longleftrightarrow>
     (\<forall>i r. GetProvenanceRecord c i = Some r \<longrightarrow> (\<exists>r'. GetProvenanceRecord c' i = Some r' \<and> grown r r'))"

lemma grown_refl [simp]: "grown r r"
  unfolding grown_def by (rule exI [of _ "[]"], rule exI [of _ "[]"]) simp

lemma grown_trans: "grown a b \<Longrightarrow> grown b c \<Longrightarrow> grown a c"
proof -
  assume "grown a b" "grown b c"
  then obtain ds es ds' es' where
    "b = a\<lparr>pr_DocumentHashes := pr_DocumentHashes a @ ds, pr_ChainOfCustody := pr_ChainOfCustody a @ es\<rparr>"
    "c = b\<lparr>pr_DocumentHashes := pr_DocumentHashes b @ ds', pr_ChainOfCustody := pr_ChainOfCustody b @ es'\<rparr>"
    unfolding grown_def by blast
  then show "grown a c"
    unfolding grown_def by (intro exI [of _ "ds @ ds'"] exI [of _ "es @ es'"]) simp
qed

lemma pv_kept_refl [simp]: "pv_kept c c"
  by (auto simp: pv_kept_def)

lemma pv_kept_trans: "pv_kept a b \<Longrightarrow> pv_kept b c \<Longrightarrow> pv_kept a c"
  unfolding pv_kept_def by (metis grown_trans)

lemma provenance_keys [simp]:
  "ProvenanceRecordKey x \<noteq> ProvenanceCountKey" "CertToProvenanceKey x \<noteq> ProvenanceCountKey"
  "ProvenanceRecordKey x \<noteq> CertToProvenanceKey y" "ProvenanceRecordKey x = ProvenanceRecordKey y \<longleftrightarrow> x = y"
  "CertToProvenanceKey x = CertToProvenanceKey y \<longleftrightarrow> x = y"
  by (simp_all add: ProvenanceRecordKey_def CertToProvenanceKey_def)

lemmas provenance_keys' [simp] = provenance_keys(1-3) [symmetric]

lemma GetProvenanceRecord_EmitEvent [simp]: "GetProvenanceRecord (EmitEvent e c) i = GetProvenanceRecord c i"
  by (simp add: GetProvenanceRecord_def)

lemma by_certificate:
  "GetProvenanceByCertificate c x = Option.bind (cert_link c x) (GetProvenanceRecord c)"
  by (simp add: GetProvenanceByCertificate_def cert_link_def split: option.splits pv_val.splits)

lemma provenance_reads [simp]:
  "cert_link (EmitEvent e c) x = cert_link c x"
  "HasProvenanceForCertificate (EmitEvent e c) x = HasProvenanceForCertificate c x"
  "pv_count (EmitEvent e c) = pv_count c"
  "GetProvenanceRecord (kv_set (ProvenanceRecordKey i) (VRecord r) c) j =
     (if j = i then Some r else GetProvenanceRecord c j)"
  "cert_link (kv_set (ProvenanceRecordKey i) v c) x = cert_link c x"
  "HasProvenanceForCertificate (kv_set (ProvenanceRecordKey i) v c) x = HasProvenanceForCertificate c x"
  "pv_count (kv_set (ProvenanceRecordKey i) v c) = pv_count c"
  "GetProvenanceRecord (kv_set (CertToProvenanceKey x) v c) j = GetProvenanceRecord c j"
  "cert_link (kv_set (CertToProvenanceKey x) (VRecordID i) c) y = (if y = x then Some i else cert_link c y)"
  "HasProvenanceForCertificate (kv_set (CertToProvenanceKey x) v c) y \<longleftrightarrow> y = x \<or> HasProvenanceForCertificate c y"
  "pv_count (kv_set (CertToProvenanceKey x) v c) = pv_count c"
  "GetProvenanceRecord (kv_set ProvenanceCountKey v c) j = GetProvenanceRecord c j"
  "cert_link (kv_set ProvenanceCountKey v c) x = cert_link c x"
  "HasProvenanceForCertificate (kv_set ProvenanceCountKey v c) x = HasProvenanceForCertificate c x"
  "pv_count (kv_set ProvenanceCountKey (VRecordCount n) c) = n"
  by (simp_all add: GetProvenanceRecord_def cert_link_def HasProvenanceForCertificate_def pv_count_def)

lemma provenance_emit [simp]: "pv_ok (EmitEvent e c) = pv_ok c" "pv_kept c (EmitEvent e c') = pv_kept c c'"
  by (simp_all add: pv_ok_def pv_kept_def)

lemma pv_okD:
  assumes "pv_ok c"
  shows "0 \<le> pv_count c" "GetProvenanceRecord c i \<noteq> None \<longleftrightarrow> (\<exists>n \<in> {1..pv_count c}. i = record_id n)"
    "GetProvenanceRecord c i = Some r \<Longrightarrow> pr_RecordID r = i"
    "GetProvenanceRecord c i = Some r \<Longrightarrow> record_ok r"
    "GetProvenanceRecord c i = Some r \<Longrightarrow> cert_link c (pr_CertificateID r) = Some i"
    "HasProvenanceForCertificate c x \<Longrightarrow>
       \<exists>i r. cert_link c x = Some i \<and> GetProvenanceRecord c i = Some r \<and> pr_CertificateID r = x"
  using assms unfolding pv_ok_def by blast+

lemma pv_okI:
  assumes "0 \<le> pv_count c" "\<And>i. GetProvenanceRecord c i \<noteq> None \<longleftrightarrow> (\<exists>n \<in> {1..pv_count c}. i = record_id n)"
    "\<And>i r. GetProvenanceRecord c i = Some r \<Longrightarrow>
       pr_RecordID r = i \<and> record_ok r \<and> cert_link c (pr_CertificateID r) = Some i"
    "\<And>x. HasProvenanceForCertificate c x \<Longrightarrow>
       \<exists>i r. cert_link c x = Some i \<and> GetProvenanceRecord c i = Some r \<and> pr_CertificateID r = x"
  shows "pv_ok c"
  unfolding pv_ok_def using assms by blast

lemma pv_replace:
  assumes "pv_ok c" "GetProvenanceRecord c i = Some r" "grown r r'" "record_ok r'"
  defines "c' \<equiv> kv_set (ProvenanceRecordKey i) (VRecord r') c"
  shows "pv_ok c'" "pv_kept c c'" "pv_count c' = pv_count c"
proof -
  note D = pv_okD [OF assms(1)]
  have r': "pr_RecordID r' = i" "pr_CertificateID r' = pr_CertificateID r"
    using assms(3) D(3) [OF assms(2)] by (auto simp: grown_def)
  have has: "\<exists>j r0. cert_link c x = Some j \<and> GetProvenanceRecord c' j = Some r0 \<and> pr_CertificateID r0 = x"
    if "HasProvenanceForCertificate c x" for x
    using D(6) [OF that] assms(2) r'(2) unfolding c'_def by (fastforce split: if_splits)
  have same: "pv_count c' = pv_count c" "cert_link c' = cert_link c"
    "HasProvenanceForCertificate c' = HasProvenanceForCertificate c" by (simp_all add: c'_def fun_eq_iff)
  show "pv_count c' = pv_count c" by (rule same)
  show "pv_kept c c'" using assms(2,3) by (auto simp: pv_kept_def c'_def)
  have recs: "pr_RecordID r0 = j \<and> record_ok r0 \<and> cert_link c (pr_CertificateID r0) = Some j"
    if "GetProvenanceRecord c' j = Some r0" for j r0
    using that D(3-5) assms(2,4) r' by (auto simp: c'_def split: if_splits)
  have ids: "GetProvenanceRecord c' j \<noteq> None \<longleftrightarrow> (\<exists>n \<in> {1..pv_count c}. j = record_id n)" for j
    using D(2) [of j] assms(2) by (auto simp: c'_def)
  show "pv_ok c'" by (rule pv_okI) (unfold same, (rule D(1) ids recs has; assumption?)+)
qed

lemma record_id_fresh: "pv_ok c \<Longrightarrow> GetProvenanceRecord c (record_id (pv_count c + 1)) = None"
  using pv_okD(2) [of c "record_id (pv_count c + 1)"] by (auto dest!: record_ids.mk_inj)

lemma pv_create:
  assumes "pv_ok c" "\<not> HasProvenanceForCertificate c x" "record_ok r"
    and r: "pr_RecordID r = record_id (pv_count c + 1)" "pr_CertificateID r = x"
  defines "c' \<equiv> kv_set (CertToProvenanceKey x) (VRecordID (record_id (pv_count c + 1)))
    (kv_set (ProvenanceRecordKey (record_id (pv_count c + 1))) (VRecord r)
      (kv_set ProvenanceCountKey (VRecordCount (pv_count c + 1)) c))"
  shows "pv_ok c'" "pv_kept c c'" "pv_count c' = pv_count c + 1"
proof -
  let ?i = "record_id (pv_count c + 1)"
  note D = pv_okD [OF assms(1)]
  note fresh = record_id_fresh [OF assms(1)]
  have other: "pr_CertificateID r0 \<noteq> x" if "GetProvenanceRecord c j = Some r0" for j r0
    using D(5) [OF that] assms(2) by (auto simp: cert_link_def HasProvenanceForCertificate_def kv_has_def split: option.splits)
  show count: "pv_count c' = pv_count c + 1" by (simp add: c'_def)
  show "pv_kept c c'" using fresh by (auto simp: pv_kept_def c'_def)
  have recs: "pr_RecordID r0 = j \<and> record_ok r0 \<and> cert_link c' (pr_CertificateID r0) = Some j"
    if "GetProvenanceRecord c' j = Some r0" for j r0
    using that D(3-5) assms(3) r other by (auto simp: c'_def split: if_splits)
  have has: "\<exists>j r0. cert_link c' y = Some j \<and> GetProvenanceRecord c' j = Some r0 \<and> pr_CertificateID r0 = y"
    if "HasProvenanceForCertificate c' y" for y
  proof (cases "y = x")
    case False
    then have "HasProvenanceForCertificate c y" using that by (simp add: c'_def)
    from D(6) [OF this] obtain j r0 where
      j: "cert_link c y = Some j" "GetProvenanceRecord c j = Some r0" "pr_CertificateID r0 = y" by blast
    then have "j \<noteq> ?i" using fresh by force
    then have "cert_link c' y = Some j \<and> GetProvenanceRecord c' j = Some r0"
      using j(1,2) False by (simp add: c'_def)
    then show ?thesis using j(3) by blast
  qed (use r in \<open>simp add: c'_def\<close>)
  have range: "{1..pv_count c + 1} = insert (pv_count c + 1) {1..pv_count c}" using D(1) by auto
  have ids: "GetProvenanceRecord c' j \<noteq> None \<longleftrightarrow> (\<exists>n \<in> {1..pv_count c + 1}. j = record_id n)" for j
    unfolding range bex_simps D(2) [symmetric] by (simp add: c'_def)
  show "pv_ok c'"
    by (rule pv_okI) (unfold count, (rule recs has; assumption | use D(1) ids in simp)+)
qed

section \<open>Every call\<close>

lemma provenance_checkD:
  assumes "provenance_check x es ds c = None"
  shows "es_Type es \<in> set (AcceptedEnergyTypes pv_DefaultParams)" "ds \<noteq> []" "len32 ds \<le> 20"
    "\<forall>d \<in> set ds. dh_DocumentType d \<in> set (AcceptedDocumentTypes pv_DefaultParams)"
    "\<not> HasProvenanceForCertificate c x"
proof -
  have p: "RequireDocumentHash pv_DefaultParams" "MaxDocumentsPerRecord pv_DefaultParams = 20"
    by (simp_all add: pv_DefaultParams_def)
  note defs = provenance_check_def pv_GetParams_def Let_def p isAcceptedType_def list_ex_iff
  show "es_Type es \<in> set (AcceptedEnergyTypes pv_DefaultParams)" "ds \<noteq> []" "len32 ds \<le> 20"
    "\<not> HasProvenanceForCertificate c x"
    using assms by (auto simp: defs split: if_splits option.splits)
  have "find (\<lambda>d. \<not> isAcceptedType (AcceptedDocumentTypes pv_DefaultParams) (dh_DocumentType d)) ds = None"
    using assms by (simp add: provenance_check_def pv_GetParams_def Let_def split: if_splits option.splits)
  then show "\<forall>d \<in> set ds. dh_DocumentType d \<in> set (AcceptedDocumentTypes pv_DefaultParams)"
    by (auto simp: find_None_iff isAcceptedType_def list_ex_iff)
qed

lemma pv_call_ok:
  assumes "pv_ok c" "pv_count c < 2 ^ 64 - 1" "pv_call S op c = Some c'"
  shows "pv_ok c' \<and> pv_kept c c' \<and> pv_count c' \<le> pv_count c + 1"
proof (cases op)
  case (OpCreateRecord now now' x s e p es ds creator)
  from assms(3) obtain r where run: "CreateProvenanceRecord S now now' x s e p es ds creator c = Some (c', Inr r)"
    by (auto simp: pv_call_def OpCreateRecord split: option.splits sum.splits)
  have n: "next64 (pv_count c) = pv_count c + 1" using assms(1,2) pv_okD(1) by (intro next64_exact) auto
  have ch: "provenance_check x es ds c = None"
    using run by (auto simp: CreateProvenanceRecord_def split: option.splits)
  have r: "r = \<lparr>pr_RecordID = record_id (pv_count c + 1), pr_CertificateID = x, pr_TokenBatchStart = s,
      pr_TokenBatchEnd = e, pr_ProvenanceType = p, pr_EnergySource = es, pr_DocumentHashes = ds,
      pr_CreatedAt = now, pr_CreatedBy = creator,
      pr_ChainOfCustody = [\<lparr>cu_From = [], cu_To = creator, cu_Timestamp = now',
        cu_Reason = ''initial_mint'', cu_TxHash = ''''\<rparr>]\<rparr>"
    and c': "\<exists>ev. c' = EmitEvent ev (kv_set (CertToProvenanceKey x) (VRecordID (record_id (pv_count c + 1)))
      (kv_set (ProvenanceRecordKey (record_id (pv_count c + 1))) (VRecord r)
        (kv_set ProvenanceCountKey (VRecordCount (pv_count c + 1)) c)))"
    using run unfolding CreateProvenanceRecord_def GenerateRecordID_def SetProvenanceRecord_def
      SetCertToProvenance_def ch n Let_def
    by (auto split: if_splits)
  note P = provenance_checkD [OF ch]
  have "record_ok r" using P(1-4) by (simp add: record_ok_def r)
  note new = pv_create [OF assms(1) P(5) this, unfolded r provenance_record.select_convs, OF refl refl]
  from c' new show ?thesis unfolding r by (elim exE) simp
next
  case (OpAddDocument i d)
  with assms(3) obtain r where r: "GetProvenanceRecord c i = Some r"
    and len: "len32 (pr_DocumentHashes r @ [d]) \<le> 20"
    and c': "SetProvenanceRecord (r\<lparr>pr_DocumentHashes := pr_DocumentHashes r @ [d]\<rparr>) c = Some c'"
    by (auto simp: pv_call_def AddDocumentToRecord_def pv_GetParams_def pv_DefaultParams_def Let_def
        split: option.splits sum.splits if_splits)
  let ?r = "r\<lparr>pr_DocumentHashes := pr_DocumentHashes r @ [d]\<rparr>"
  have "record_ok ?r" using pv_okD(4) [OF assms(1) r] len by (simp add: record_ok_def)
  moreover have "grown r ?r" unfolding grown_def by (intro exI [of _ "[d]"] exI [of _ "[]"]) simp
  moreover have "c' = kv_set (ProvenanceRecordKey i) (VRecord ?r) c"
    using c' pv_okD(3) [OF assms(1) r] by (auto simp: SetProvenanceRecord_def split: if_splits)
  ultimately show ?thesis using pv_replace [OF assms(1) r] by simp
next
  case (OpCustodyTransfer now i fr to reason tx)
  with assms(3) obtain r e ev c1 where r: "GetProvenanceRecord c i = Some r"
    and c1: "SetProvenanceRecord (r\<lparr>pr_ChainOfCustody := pr_ChainOfCustody r @ [e]\<rparr>) c = Some c1"
    and c': "c' = EmitEvent ev c1"
    by (auto simp: pv_call_def RecordCustodyTransfer_def Let_def split: option.splits sum.splits)
  let ?r = "r\<lparr>pr_ChainOfCustody := pr_ChainOfCustody r @ [e]\<rparr>"
  have "record_ok ?r" using pv_okD(4) [OF assms(1) r] by (simp add: record_ok_def)
  moreover have "grown r ?r" unfolding grown_def by (intro exI [of _ "[]"] exI [of _ "[e]"]) simp
  moreover have "c1 = kv_set (ProvenanceRecordKey i) (VRecord ?r) c"
    using c1 pv_okD(3) [OF assms(1) r] by (auto simp: SetProvenanceRecord_def split: if_splits)
  ultimately have "pv_ok c1 \<and> pv_kept c c1 \<and> pv_count c1 = pv_count c"
    using pv_replace [OF assms(1) r] by simp
  then show ?thesis unfolding c' by simp
qed

lemma pv_step_ok:
  assumes "pv_ok c" "pv_count c < 2 ^ 64 - 1"
  shows "pv_ok (pv_step S c op)" "pv_kept c (pv_step S c op)" "pv_count (pv_step S c op) \<le> pv_count c + 1"
  using pv_call_ok [OF assms, of S op] assms(1) by (auto simp: pv_step_def split: option.splits)

interpretation provenance: counted_machine "pv_step S" pv_ok pv_count for S
  by unfold_locales (blast intro: pv_step_ok)+

interpretation provenance_history: related_machine "pv_step S" "\<lambda>c _. pv_count c < 2 ^ 64 - 1" pv_ok pv_kept for S
  by unfold_locales (auto intro: pv_step_ok pv_kept_trans)

lemma pv_ok_start: "pv_ok pv_start" "pv_count pv_start = 0"
  by (simp_all add: pv_ok_def pv_start_def pv_count_def GetProvenanceRecord_def HasProvenanceForCertificate_def kv_has_def)

lemma pv_run_ok: "int (length ops) < 2 ^ 64 \<Longrightarrow> pv_ok (pv_run S ops)"
  unfolding pv_run_def by (rule provenance.run_counted) (simp_all add: pv_ok_start)

lemma pv_run_kept:
  assumes "int (length ops) + int (length ops') < 2 ^ 64"
  shows "pv_kept (pv_run S ops) (pv_run S (ops @ ops'))"
proof -
  have ok: "pv_ok (pv_run S ops)" using assms by (intro pv_run_ok) simp
  have "pv_count (pv_run S ops) \<le> pv_count pv_start + int (length ops)"
    unfolding pv_run_def using assms by (intro provenance.count_le pv_ok_start) (simp add: pv_ok_start(2))
  then have "pv_kept (pv_run S ops) (foldl (pv_step S) (pv_run S ops) ops')"
    using assms by (intro provenance_history.run_rel ok provenance.run_room) (simp_all add: pv_ok_start(2))
  then show ?thesis by (simp add: pv_run_def)
qed

section \<open>Properties\<close>

text \<open>
  C15: After any calls, fewer than 2^64, certificates and provenance records correspond one to
  one: a certificate has a record exactly when it is registered, the record found for it names
  it, and every record is found under its certificate. The identifiers are those printed from
  1 to the counter. Every record has an accepted energy type, between one and 20 documents (the
  length read as \<open>uint32\<close>) of which the first is of an accepted type, and a chain of custody
  that starts with the mint to its creator.
\<close>

theorem provenance_records:
  assumes "int (length ops) < 2 ^ 64" "c = pv_run S ops"
  shows "(\<forall>x. HasProvenanceForCertificate c x \<longleftrightarrow> GetProvenanceByCertificate c x \<noteq> None) \<and>
    (\<forall>x r. GetProvenanceByCertificate c x = Some r \<longrightarrow> pr_CertificateID r = x) \<and>
    (\<forall>i r. GetProvenanceRecord c i = Some r \<longrightarrow> pr_RecordID r = i \<and> record_ok r \<and>
       GetProvenanceByCertificate c (pr_CertificateID r) = Some r) \<and>
    (\<forall>i. GetProvenanceRecord c i \<noteq> None \<longleftrightarrow> (\<exists>n \<in> {1..pv_count c}. i = record_id n))"
proof -
  have ok: "pv_ok c" unfolding assms(2) by (rule pv_run_ok [OF assms(1)])
  note D = pv_okD [OF ok]
  have reg: "HasProvenanceForCertificate c x" if "cert_link c x = Some i" for x i
    using that by (auto simp: cert_link_def HasProvenanceForCertificate_def kv_has_def split: option.splits)
  have "HasProvenanceForCertificate c x \<longleftrightarrow> GetProvenanceByCertificate c x \<noteq> None" for x
    using D(6) [of x] reg [of x] unfolding by_certificate by (cases "cert_link c x") auto
  moreover have "pr_CertificateID r = x" if g: "GetProvenanceByCertificate c x = Some r" for x r
  proof -
    from g obtain i where "cert_link c x = Some i" "GetProvenanceRecord c i = Some r"
      unfolding by_certificate by (elim bind_SomeE)
    with D(6) [OF reg, of x i] show ?thesis by auto
  qed
  ultimately show ?thesis using D(2-5) by (auto simp: by_certificate)
qed

definition pv_demo_source :: energy_source where
  "pv_demo_source =
     \<lparr>es_Type = ''wind'', es_Provider = ''P'', es_Location = ''TX'', es_GenerationPeriodStart = 0,
      es_GenerationPeriodEnd = 1, es_MwhQuantity = Some (10 ^ 18), es_CertificateSerial = ''S1'',
      es_CertificateRegistry = ''WREGIS'', es_VaultID = '''', es_MCSDeviceID = ''''\<rparr>"

definition pv_demo_doc :: "string \<Rightarrow> document_hash" where
  "pv_demo_doc t =
     \<lparr>dh_IPFSHash = ''Qm'', dh_DocumentType = t, dh_Description = '''', dh_UploadedAt = 0, dh_FileSize = 7,
      dh_MimeType = ''application/pdf''\<rparr>"

definition pv_demo_ops :: "pv_op list" where
  "pv_demo_ops =
     [OpCreateRecord 1 1 ''C1'' 1 100 ''proof_of_purchase'' pv_demo_source [pv_demo_doc ''invoice''] ''alice'',
      OpCreateRecord 2 2 ''C1'' 1 100 ''proof_of_purchase'' pv_demo_source [pv_demo_doc ''invoice''] ''bob'']"

definition pv_demo_more :: "pv_op list" where
  "pv_demo_more =
     [OpAddDocument ''FTG-PROV-000001'' (pv_demo_doc ''selfie''),
      OpCustodyTransfer 3 ''FTG-PROV-000001'' ''mallory'' ''eve'' ''sale'' ''tx'']"

definition pv_demo :: pv_ctx where
  "pv_demo = pv_run doc_sdk pv_demo_ops"

lemma pv_demo_eval:
  "pv_count pv_demo = 1 \<and> int (length pv_demo_ops) + int (length pv_demo_more) < 2 ^ 64 \<and>
   int (length pv_demo_ops) < 2 ^ 64 \<and> HasProvenanceForCertificate pv_demo ''C1'' \<and>
   map_option (map cu_To \<circ> pr_ChainOfCustody) (GetProvenanceRecord pv_demo ''FTG-PROV-000001'') = Some [''alice''] \<and>
   map_option (map cu_From \<circ> pr_ChainOfCustody)
     (GetProvenanceRecord (pv_run doc_sdk (pv_demo_ops @ pv_demo_more)) ''FTG-PROV-000001'') = Some ['''', ''mallory''] \<and>
   map_option (map dh_DocumentType \<circ> pr_DocumentHashes)
     (GetProvenanceRecord (pv_run doc_sdk (pv_demo_ops @ pv_demo_more)) ''FTG-PROV-000001'') =
     Some [''invoice'', ''selfie'']"
  by code_simp

theorem provenance_records_witness:
  "\<exists>r. GetProvenanceByCertificate pv_demo ''C1'' = Some r \<and> pr_CertificateID r = ''C1'' \<and> record_ok r"
proof -
  have n: "int (length pv_demo_ops) < 2 ^ 64" "HasProvenanceForCertificate pv_demo ''C1''"
    using pv_demo_eval by simp_all
  note P = provenance_records [OF n(1) pv_demo_def]
  from P n(2) obtain r where r: "GetProvenanceByCertificate pv_demo ''C1'' = Some r" by blast
  moreover from r have "pr_CertificateID r = ''C1''" using P by blast
  moreover have "record_ok r"
    using r P unfolding by_certificate [of pv_demo "''C1''"] by (auto elim!: bind_SomeE)
  ultimately show ?thesis by blast
qed

text \<open>
  C36: A provenance record is never lost or rewritten: however the calls go on, it keeps its
  identifier, certificate, batch, energy source and creator, and its documents and chain of
  custody only grow at the end.
\<close>

theorem provenance_append_only:
  assumes "int (length ops) + int (length ops') < 2 ^ 64" "GetProvenanceRecord (pv_run S ops) i = Some r"
  shows "\<exists>ds es. GetProvenanceRecord (pv_run S (ops @ ops')) i =
    Some (r\<lparr>pr_DocumentHashes := pr_DocumentHashes r @ ds, pr_ChainOfCustody := pr_ChainOfCustody r @ es\<rparr>)"
proof -
  from pv_run_kept [OF assms(1), of S] assms(2) obtain r' where
    "GetProvenanceRecord (pv_run S (ops @ ops')) i = Some r'" "grown r r'"
    unfolding pv_kept_def by blast
  then show ?thesis unfolding grown_def by auto
qed

theorem provenance_append_only_witness:
  "\<exists>r ds es. GetProvenanceRecord pv_demo ''FTG-PROV-000001'' = Some r \<and>
    GetProvenanceRecord (pv_run doc_sdk (pv_demo_ops @ pv_demo_more)) ''FTG-PROV-000001'' =
      Some (r\<lparr>pr_DocumentHashes := pr_DocumentHashes r @ ds, pr_ChainOfCustody := pr_ChainOfCustody r @ es\<rparr>)"
proof -
  obtain r where r: "GetProvenanceRecord pv_demo ''FTG-PROV-000001'' = Some r" using pv_demo_eval by auto
  have n: "int (length pv_demo_ops) + int (length pv_demo_more) < 2 ^ 64" using pv_demo_eval by simp
  from provenance_append_only [OF n r [unfolded pv_demo_def]] r show ?thesis by blast
qed

end
