(* ===== verification/Treasury.thy ===== *)
theory Treasury
  imports Sdk
begin

text \<open>
  The treasury module, \<open>x/treasury\<close>: three wallets whose owner commits minted uftg to buyers,
  delivers or cancels the commitments, and moves uftg to the liquidity wallet. The keeper's
  \<open>config\<close> is an argument. The counter is stored under \<open>Commitment/count\<close>, so it is also what
  \<open>GetCommitment\<close> reads for the identifier \<open>count\<close>: eight bytes that are not a JSON object with
  a field of a commitment, which leaves the zero commitment, found.
\<close>

section \<open>Types\<close>

record commitment =
  tc_CommitmentID :: string
  tc_BuyerReference :: string
  tc_Amount :: int
  tc_PricePerToken :: dec
  tc_TotalValueUSD :: dec
  tc_Status :: string
  tc_CreatedAt :: int64
  tc_DeliveredAt :: int64
  tc_DestinationWallet :: addr

record treasury_config =
  MintingWalletAddress :: addr
  CommittedWalletAddress :: addr
  LiquidityWalletAddress :: addr
  OwnerAddress :: addr

record transfer_to_committed =
  tq_Amount :: int
  tq_BuyerReference :: string
  tq_PricePerToken :: dec

record deliver_commitment =
  td_CommitmentID :: string
  td_DestinationWallet :: addr

record cancel_commitment =
  tx_CommitmentID :: string
  tx_Reason :: string

datatype tr_error =
    NotOwner string | InsufficientMinting int int | CommitmentNotFound string
  | CommitmentNotFunded string string | CommitmentNotCancellable string string | SendFailed string

record 'b tr_bank =
  SendCoins :: "addr \<Rightarrow> addr \<Rightarrow> coins \<Rightarrow> 'b bank_call"
  tr_GetBalance :: "'b \<Rightarrow> addr \<Rightarrow> string \<Rightarrow> int"

section \<open>The store\<close>

datatype tr_val = VCommitment commitment | VCommitmentCount int

type_synonym 'b tr_ctx = "('b, tr_val) ctx"

definition CommitmentKey :: "string \<Rightarrow> string" where "CommitmentKey i = ''Commitment/'' @ i"

definition commitment_id :: "int \<Rightarrow> string" where
  "commitment_id n = ''FTG-COMMIT-'' @ fmt0d 6 n"

definition zero_commitment :: commitment where
  "zero_commitment =
     \<lparr>tc_CommitmentID = '''', tc_BuyerReference = '''', tc_Amount = 0, tc_PricePerToken = 0,
      tc_TotalValueUSD = 0, tc_Status = '''', tc_CreatedAt = 0, tc_DeliveredAt = 0, tc_DestinationWallet = []\<rparr>"

definition SetCommitment :: "commitment \<Rightarrow> 'b tr_ctx \<Rightarrow> 'b tr_ctx" where
  "SetCommitment x c = kv_set (CommitmentKey (tc_CommitmentID x)) (VCommitment x) c"

definition GetCommitment :: "'b tr_ctx \<Rightarrow> string \<Rightarrow> commitment option" where
  "GetCommitment c i =
     (case mget (kv c) (CommitmentKey i) of
        None \<Rightarrow> None
      | Some (VCommitment x) \<Rightarrow> Some x
      | Some (VCommitmentCount n) \<Rightarrow> Some zero_commitment)"

definition tr_count :: "'b tr_ctx \<Rightarrow> int" where
  "tr_count c = (case mget (kv c) (CommitmentKey ''count'') of Some (VCommitmentCount n) \<Rightarrow> n | _ \<Rightarrow> 0)"

definition GenerateCommitmentID :: "'b tr_ctx \<Rightarrow> 'b tr_ctx \<times> string" where
  "GenerateCommitmentID c =
     (let n = next64 (tr_count c)
      in (kv_set (CommitmentKey ''count'') (VCommitmentCount n) c, commitment_id n))"

section \<open>Balances\<close>

definition GetMintingBalance :: "'b tr_bank \<Rightarrow> treasury_config \<Rightarrow> 'b tr_ctx \<Rightarrow> int" where
  "GetMintingBalance B cfg c = tr_GetBalance B (bank c) (MintingWalletAddress cfg) ''uftg''"

definition GetCommittedBalance :: "'b tr_bank \<Rightarrow> treasury_config \<Rightarrow> 'b tr_ctx \<Rightarrow> int" where
  "GetCommittedBalance B cfg c = tr_GetBalance B (bank c) (CommittedWalletAddress cfg) ''uftg''"

definition GetLiquidityBalance :: "'b tr_bank \<Rightarrow> treasury_config \<Rightarrow> 'b tr_ctx \<Rightarrow> int" where
  "GetLiquidityBalance B cfg c = tr_GetBalance B (bank c) (LiquidityWalletAddress cfg) ''uftg''"

definition GetTreasuryOverview ::
  "sdk \<Rightarrow> 'b tr_bank \<Rightarrow> treasury_config \<Rightarrow> 'b tr_ctx \<Rightarrow> (string \<times> string) list" where
  "GetTreasuryOverview S B cfg c =
     [(''minting_balance'', int_text S (GetMintingBalance B cfg c)),
      (''committed_balance'', int_text S (GetCommittedBalance B cfg c)),
      (''liquidity_balance'', int_text S (GetLiquidityBalance B cfg c)),
      (''minting_address'', addr_text S (MintingWalletAddress cfg)),
      (''committed_address'', addr_text S (CommittedWalletAddress cfg)),
      (''liquidity_address'', addr_text S (LiquidityWalletAddress cfg))]"

section \<open>Operations\<close>

text \<open>\<open>sdk.NewCoins\<close> and \<open>SendCoins\<close>, as every operation uses them.\<close>

definition send_uftg ::
  "sdk \<Rightarrow> 'b tr_bank \<Rightarrow> addr \<Rightarrow> addr \<Rightarrow> int \<Rightarrow> 'b tr_ctx \<Rightarrow> ('b tr_ctx \<times> string option) option" where
  "send_uftg S B from to amount c = do {
     coins \<leftarrow> new_coins S ''uftg'' amount;
     (b, err) \<leftarrow> SendCoins B from to coins (bank c);
     Some (c\<lparr>bank := b\<rparr>, err)
   }"

definition unix :: "time \<Rightarrow> int64" where
  "unix t = t div 10 ^ 9"

definition TransferMintingToCommitted ::
  "sdk \<Rightarrow> 'b tr_bank \<Rightarrow> treasury_config \<Rightarrow> time \<Rightarrow> addr \<Rightarrow> transfer_to_committed \<Rightarrow> 'b tr_ctx \<Rightarrow>
   ('b tr_ctx \<times> (tr_error + commitment)) option" where
  "TransferMintingToCommitted S B cfg now sender req c =
     (if sender \<noteq> OwnerAddress cfg
      then Some (c, Inl (NotOwner ''unauthorized: only owner can transfer to committed''))
      else if GetMintingBalance B cfg c < tq_Amount req
      then Some (c, Inl (InsufficientMinting (GetMintingBalance B cfg c) (tq_Amount req)))
      else do {
        (c, err) \<leftarrow> send_uftg S B (MintingWalletAddress cfg) (CommittedWalletAddress cfg) (tq_Amount req) c;
        case err of Some e \<Rightarrow> Some (c, Inl (SendFailed e))
        | None \<Rightarrow> do {
            let (c, i) = GenerateCommitmentID c;
            v \<leftarrow> dec_mul_int S (tq_PricePerToken req) (tq_Amount req);
            v \<leftarrow> dec_quo_int S v 1000000;
            let x = \<lparr>tc_CommitmentID = i, tc_BuyerReference = tq_BuyerReference req,
                     tc_Amount = tq_Amount req, tc_PricePerToken = tq_PricePerToken req,
                     tc_TotalValueUSD = v, tc_Status = ''funded'', tc_CreatedAt = unix now,
                     tc_DeliveredAt = 0, tc_DestinationWallet = []\<rparr>;
            Some (EmitEvent (''treasury_commit'',
                    [(''commitment_id'', i), (''buyer_reference'', tq_BuyerReference req),
                     (''amount'', int_text S (tq_Amount req)),
                     (''price_per_token'', dec_text S (Some (tq_PricePerToken req)))])
                    (SetCommitment x c), Inr x)
          }
      })"

definition TransferMintingToLiquidity ::
  "sdk \<Rightarrow> 'b tr_bank \<Rightarrow> treasury_config \<Rightarrow> addr \<Rightarrow> int \<Rightarrow> 'b tr_ctx \<Rightarrow> ('b tr_ctx \<times> (tr_error + unit)) option"
where
  "TransferMintingToLiquidity S B cfg sender amount c =
     (if sender \<noteq> OwnerAddress cfg
      then Some (c, Inl (NotOwner ''unauthorized: only owner can transfer to liquidity''))
      else if GetMintingBalance B cfg c < amount
      then Some (c, Inl (InsufficientMinting (GetMintingBalance B cfg c) amount))
      else do {
        (c, err) \<leftarrow> send_uftg S B (MintingWalletAddress cfg) (LiquidityWalletAddress cfg) amount c;
        case err of Some e \<Rightarrow> Some (c, Inl (SendFailed e))
        | None \<Rightarrow> Some (EmitEvent (''treasury_to_liquidity'', [(''amount'', int_text S amount)]) c, Inr ())
      })"

definition DeliverCommitment ::
  "sdk \<Rightarrow> 'b tr_bank \<Rightarrow> treasury_config \<Rightarrow> time \<Rightarrow> addr \<Rightarrow> deliver_commitment \<Rightarrow> 'b tr_ctx \<Rightarrow>
   ('b tr_ctx \<times> (tr_error + unit)) option" where
  "DeliverCommitment S B cfg now sender req c =
     (if sender \<noteq> OwnerAddress cfg
      then Some (c, Inl (NotOwner ''unauthorized: only owner can deliver commitments''))
      else case GetCommitment c (td_CommitmentID req) of
        None \<Rightarrow> Some (c, Inl (CommitmentNotFound (td_CommitmentID req)))
      | Some x \<Rightarrow>
          if tc_Status x \<noteq> ''funded''
          then Some (c, Inl (CommitmentNotFunded (td_CommitmentID req) (tc_Status x)))
          else do {
            (c, err) \<leftarrow> send_uftg S B (CommittedWalletAddress cfg) (td_DestinationWallet req) (tc_Amount x) c;
            case err of Some e \<Rightarrow> Some (c, Inl (SendFailed e))
            | None \<Rightarrow>
                let x = x\<lparr>tc_Status := ''delivered'', tc_DeliveredAt := unix now,
                          tc_DestinationWallet := td_DestinationWallet req\<rparr>
                in Some (EmitEvent (''treasury_deliver'',
                     [(''commitment_id'', tc_CommitmentID x), (''buyer_reference'', tc_BuyerReference x),
                      (''amount'', int_text S (tc_Amount x)),
                      (''destination'', addr_text S (td_DestinationWallet req))])
                     (SetCommitment x c), Inr ())
          })"

definition CancelCommitmentOp ::
  "sdk \<Rightarrow> 'b tr_bank \<Rightarrow> treasury_config \<Rightarrow> addr \<Rightarrow> cancel_commitment \<Rightarrow> 'b tr_ctx \<Rightarrow>
   ('b tr_ctx \<times> (tr_error + unit)) option" where
  "CancelCommitmentOp S B cfg sender req c =
     (if sender \<noteq> OwnerAddress cfg
      then Some (c, Inl (NotOwner ''unauthorized: only owner can cancel commitments''))
      else case GetCommitment c (tx_CommitmentID req) of
        None \<Rightarrow> Some (c, Inl (CommitmentNotFound (tx_CommitmentID req)))
      | Some x \<Rightarrow>
          if tc_Status x \<noteq> ''funded'' \<and> tc_Status x \<noteq> ''pending''
          then Some (c, Inl (CommitmentNotCancellable (tx_CommitmentID req) (tc_Status x)))
          else do {
            (c, err) \<leftarrow> send_uftg S B (CommittedWalletAddress cfg) (MintingWalletAddress cfg) (tc_Amount x) c;
            case err of Some e \<Rightarrow> Some (c, Inl (SendFailed e))
            | None \<Rightarrow>
                Some (EmitEvent (''treasury_cancel'',
                     [(''commitment_id'', tc_CommitmentID x), (''reason'', tx_Reason req),
                      (''amount_returned'', int_text S (tc_Amount x))])
                     (SetCommitment (x\<lparr>tc_Status := ''cancelled''\<rparr>) c), Inr ())
          })"

end
