(* ===== verification/TreasuryProps.thy ===== *)
theory TreasuryProps
  imports Treasury
begin

text \<open>
  The committed wallet always covers the commitments that are still to be delivered, whatever the
  owner does; only the owner does anything; a delivered or cancelled commitment stays as it is.
\<close>

section \<open>Runs\<close>

datatype tr_op =
    OpCommit time addr transfer_to_committed
  | OpLiquidity addr int
  | OpDeliver time addr deliver_commitment
  | OpCancel addr cancel_commitment

definition tr_call ::
  "sdk \<Rightarrow> 'b tr_bank \<Rightarrow> treasury_config \<Rightarrow> tr_op \<Rightarrow> 'b tr_ctx \<Rightarrow> ('b tr_ctx \<times> (tr_error + unit)) option" where
  "tr_call S B cfg op c =
     (case op of
        OpCommit now sender req \<Rightarrow>
          map_option (apsnd (map_sum id (\<lambda>_. ()))) (TransferMintingToCommitted S B cfg now sender req c)
      | OpLiquidity sender n \<Rightarrow> TransferMintingToLiquidity S B cfg sender n c
      | OpDeliver now sender req \<Rightarrow> DeliverCommitment S B cfg now sender req c
      | OpCancel sender req \<Rightarrow> CancelCommitmentOp S B cfg sender req c)"

text \<open>A call that returns an error or panics is rolled back as a whole.\<close>

definition tr_step :: "sdk \<Rightarrow> 'b tr_bank \<Rightarrow> treasury_config \<Rightarrow> 'b tr_ctx \<Rightarrow> tr_op \<Rightarrow> 'b tr_ctx" where
  "tr_step S B cfg c op = (case tr_call S B cfg op c of Some (c', Inr _) \<Rightarrow> c' | _ \<Rightarrow> c)"

definition tr_start :: "'b \<Rightarrow> 'b tr_ctx" where
  "tr_start b = \<lparr>kv = [], bank = b, events = []\<rparr>"

definition tr_run :: "sdk \<Rightarrow> 'b tr_bank \<Rightarrow> treasury_config \<Rightarrow> 'b \<Rightarrow> tr_op list \<Rightarrow> 'b tr_ctx" where
  "tr_run S B cfg b ops = foldl (tr_step S B cfg) (tr_start b) ops"

section \<open>The bank\<close>

text \<open>What the treasury relies on: \<open>SendCoins\<close> moves the coins from one account to the other.\<close>

locale treasury_bank =
  fixes B :: "'b tr_bank"
  assumes send_balance: "SendCoins B from to cs b = Some (b', None) \<Longrightarrow>
    tr_GetBalance B b' a ''uftg'' = tr_GetBalance B b a ''uftg'' -
      (if a = from then amount_of ''uftg'' cs else 0) + (if a = to then amount_of ''uftg'' cs else 0)"

definition tr_test_bank :: "sdk \<Rightarrow> test_bank tr_bank" where
  "tr_test_bank S =
     \<lparr>SendCoins = (\<lambda>from to cs b.
        if mgetd 0 (balances b) (addr_text S from) < amount_of ''uftg'' cs then Some (b, Some ''insufficient funds'')
        else tb_move (addr_text S from) (addr_text S to) cs b),
      tr_GetBalance = (\<lambda>b a d. if d = ''uftg'' then mgetd 0 (balances b) (addr_text S a) else 0)\<rparr>"

lemma tr_test_bank_laws: "sdk_laws S \<Longrightarrow> treasury_bank (tr_test_bank S)"
  by unfold_locales
    (auto simp: tr_test_bank_def tb_move_balance dest: sdk_laws.addr_text_inj split: if_splits)

interpretation tr_test: treasury_bank "tr_test_bank doc_sdk"
  by (rule tr_test_bank_laws [OF doc.sdk_laws_axioms])

interpretation commitment_ids: id_store commitment_id
  using prefixed_id_store [of "''FTG-COMMIT-''" 6] by (simp only: commitment_id_def [abs_def])

section \<open>The invariant\<close>

fun commitment_in :: "tr_val \<Rightarrow> commitment option" where
  "commitment_in (VCommitment x) = Some x"
| "commitment_in _ = None"

definition commitments :: "'b tr_ctx \<Rightarrow> commitment list" where
  "commitments c = values_in commitment_in (kv c)"

definition outstanding :: "commitment \<Rightarrow> int" where
  "outstanding x = (if tc_Status x = ''funded'' then tc_Amount x else 0)"

definition tr_ok :: "'b tr_bank \<Rightarrow> treasury_config \<Rightarrow> 'b \<Rightarrow> 'b tr_ctx \<Rightarrow> bool" where
  "tr_ok B cfg b0 c \<longleftrightarrow>
     distinct (mkeys (kv c)) \<and> 0 \<le> tr_count c \<and>
     (\<forall>x. mget (kv c) (CommitmentKey ''count'') \<noteq> Some (VCommitment x)) \<and>
     (\<forall>k n. mget (kv c) k = Some (VCommitmentCount n) \<longrightarrow> k = CommitmentKey ''count'') \<and>
     (\<forall>k x. mget (kv c) k = Some (VCommitment x) \<longrightarrow> k = CommitmentKey (tc_CommitmentID x) \<and>
        (\<exists>n \<in> {1..tr_count c}. tc_CommitmentID x = commitment_id n) \<and> 0 \<le> tc_Amount x \<and>
        tc_Status x \<in> {''funded'', ''delivered'', ''cancelled''}) \<and>
     (\<forall>i. kv_has c (CommitmentKey i) \<longrightarrow> i = ''count'' \<or> (\<exists>n \<in> {1..tr_count c}. i = commitment_id n)) \<and>
     tr_GetBalance B b0 (CommittedWalletAddress cfg) ''uftg'' + sum_list (map outstanding (commitments c)) \<le>
       GetCommittedBalance B cfg c"

text \<open>A commitment later: its terms are kept and only a funded one changes, once, for good.\<close>

definition carried :: "commitment \<Rightarrow> commitment \<Rightarrow> bool" where
  "carried x y \<longleftrightarrow> tc_CommitmentID y = tc_CommitmentID x \<and> tc_BuyerReference y = tc_BuyerReference x \<and>
     tc_Amount y = tc_Amount x \<and> tc_PricePerToken y = tc_PricePerToken x \<and>
     tc_TotalValueUSD y = tc_TotalValueUSD x \<and> tc_CreatedAt y = tc_CreatedAt x \<and>
     (y = x \<or> tc_Status x = ''funded'' \<and> tc_Status y \<in> {''delivered'', ''cancelled''})"

definition tr_kept :: "'b tr_ctx \<Rightarrow> 'b tr_ctx \<Rightarrow> bool" where
  "tr_kept c c' \<longleftrightarrow> (\<forall>k x. mget (kv c) k = Some (VCommitment x) \<longrightarrow>
     (\<exists>y. mget (kv c') k = Some (VCommitment y) \<and> carried x y))"

lemma carried_refl [simp]: "carried x x"
  by (simp add: carried_def)

lemma carried_trans: "carried x y \<Longrightarrow> carried y z \<Longrightarrow> carried x z"
  by (auto simp: carried_def)

lemma tr_kept_refl [simp]: "tr_kept c c"
  by (auto simp: tr_kept_def)

lemma tr_kept_trans: "tr_kept a b \<Longrightarrow> tr_kept b c \<Longrightarrow> tr_kept a c"
  unfolding tr_kept_def by (meson carried_trans)

lemma commitment_keys [simp]:
  "CommitmentKey x = CommitmentKey y \<longleftrightarrow> x = y" "commitment_id n \<noteq> ''count''" "''count'' \<noteq> commitment_id n"
  by (simp_all add: CommitmentKey_def commitment_id_def)

lemma treasury_reads [simp]:
  "tr_count (EmitEvent e c) = tr_count c" "tr_count (c\<lparr>bank := b\<rparr>) = tr_count c"
  "commitments (EmitEvent e c) = commitments c" "commitments (c\<lparr>bank := b\<rparr>) = commitments c"
  "tr_count (kv_set (CommitmentKey ''count'') (VCommitmentCount n) c) = n"
  "i \<noteq> ''count'' \<Longrightarrow> tr_count (kv_set (CommitmentKey i) v c) = tr_count c"
  by (simp_all add: tr_count_def commitments_def)

lemma treasury_emit [simp]:
  "tr_ok B cfg b0 (EmitEvent e c) = tr_ok B cfg b0 c" "tr_kept c (EmitEvent e c') = tr_kept c c'"
  "tr_kept c (c'\<lparr>bank := b\<rparr>) = tr_kept c c'"
  by (simp_all add: tr_ok_def tr_kept_def GetCommittedBalance_def)

lemma tr_okD:
  assumes "tr_ok B cfg b0 c"
  shows "distinct (mkeys (kv c))" "0 \<le> tr_count c"
    "mget (kv c) (CommitmentKey ''count'') \<noteq> Some (VCommitment x)"
    "mget (kv c) k = Some (VCommitment x) \<Longrightarrow> k = CommitmentKey (tc_CommitmentID x)"
    "mget (kv c) k = Some (VCommitment x) \<Longrightarrow> \<exists>n \<in> {1..tr_count c}. tc_CommitmentID x = commitment_id n"
    "mget (kv c) k = Some (VCommitment x) \<Longrightarrow> 0 \<le> tc_Amount x"
    "mget (kv c) k = Some (VCommitment x) \<Longrightarrow> tc_Status x \<in> {''funded'', ''delivered'', ''cancelled''}"
    "kv_has c (CommitmentKey i) \<Longrightarrow> i = ''count'' \<or> (\<exists>n \<in> {1..tr_count c}. i = commitment_id n)"
    "tr_GetBalance B b0 (CommittedWalletAddress cfg) ''uftg'' + sum_list (map outstanding (commitments c)) \<le>
       GetCommittedBalance B cfg c"
    "mget (kv c) k = Some (VCommitmentCount n) \<Longrightarrow> k = CommitmentKey ''count''"
  using assms unfolding tr_ok_def by blast+

lemma send_uftgE:
  assumes "sdk_laws S" "treasury_bank B" "send_uftg S B from to n c = Some (c', None)"
  obtains b' where "0 \<le> n" "c' = c\<lparr>bank := b'\<rparr>"
    "\<And>a. tr_GetBalance B b' a ''uftg'' = tr_GetBalance B (bank c) a ''uftg'' - (if a = from then n else 0) +
      (if a = to then n else 0)"
proof -
  from assms(3) obtain cs b' where r: "new_coins S ''uftg'' n = Some cs"
    "SendCoins B from to cs (bank c) = Some (b', None)" "c' = c\<lparr>bank := b'\<rparr>"
    by (auto simp: send_uftg_def elim!: bind_SomeE split: prod.splits)
  from that [OF sdk_laws.new_coins_nonneg [OF assms(1) r(1)] r(3)] show thesis
    using treasury_bank.send_balance [OF assms(2) r(2)] sdk_laws.new_coins_amount [OF assms(1) r(1)] by simp
qed

lemma tr_ok_bank:
  assumes "tr_ok B cfg b0 c"
    and "GetCommittedBalance B cfg c \<le> tr_GetBalance B b' (CommittedWalletAddress cfg) ''uftg''"
  shows "tr_ok B cfg b0 (c\<lparr>bank := b'\<rparr>)"
  using assms unfolding tr_ok_def by (simp add: kv_has_def GetCommittedBalance_def)

lemma commitment_id_fresh:
  assumes "tr_ok B cfg b0 c"
  shows "\<not> kv_has c (CommitmentKey (commitment_id (tr_count c + 1)))"
  using tr_okD(8) [OF assms, of "commitment_id (tr_count c + 1)"] by (auto dest!: commitment_ids.mk_inj)

lemma tr_ok_new:
  assumes ok: "tr_ok B cfg b0 c"
    and x: "tc_CommitmentID x = commitment_id (tr_count c + 1)" "tc_Status x = ''funded''" "0 \<le> tc_Amount x"
    and bal: "tr_GetBalance B b' (CommittedWalletAddress cfg) ''uftg'' = GetCommittedBalance B cfg c + tc_Amount x"
  defines "c' \<equiv> SetCommitment x (kv_set (CommitmentKey ''count'') (VCommitmentCount (tr_count c + 1)) (c\<lparr>bank := b'\<rparr>))"
  shows "tr_ok B cfg b0 c'" "tr_kept c c'" "tr_count c' = tr_count c + 1"
proof -
  note D = tr_okD [OF ok]
  let ?i = "commitment_id (tr_count c + 1)"
  have fresh: "\<not> kv_has c (CommitmentKey ?i)" by (rule commitment_id_fresh [OF ok])
  have get: "mget (kv c') k = (if k = CommitmentKey ?i then Some (VCommitment x)
      else if k = CommitmentKey ''count'' then Some (VCommitmentCount (tr_count c + 1)) else mget (kv c) k)" for k
    by (simp add: c'_def SetCommitment_def x)
  show n: "tr_count c' = tr_count c + 1" by (simp add: c'_def SetCommitment_def x)
  have none: "mget (kv (kv_set (CommitmentKey ''count'') v (c\<lparr>bank := b'\<rparr>))) (CommitmentKey ?i) = None" for v
    using fresh by (simp add: kv_has_def)
  have "commitment_in w = None" if "mget (kv c) (CommitmentKey ''count'') = Some w" for w
    using D(3) that by (cases w) auto
  then have "commitments (kv_set (CommitmentKey ''count'') (VCommitmentCount (tr_count c + 1)) (c\<lparr>bank := b'\<rparr>)) =
      commitments c"
    by (simp add: commitments_def kv_set_def values_in_other)
  then have list: "commitments c' = commitments c @ [x]"
    using values_in_new [OF none, of commitment_in "VCommitment x"]
    by (simp add: c'_def SetCommitment_def x(1) commitments_def kv_set_def)
  show "tr_kept c c'"
    unfolding tr_kept_def get using fresh D(3) by (auto simp: kv_has_def)
  have keys: "k = CommitmentKey (tc_CommitmentID y) \<and>
      (\<exists>n \<in> {1..tr_count c'}. tc_CommitmentID y = commitment_id n) \<and> 0 \<le> tc_Amount y \<and>
      tc_Status y \<in> {''funded'', ''delivered'', ''cancelled''}" if "mget (kv c') k = Some (VCommitment y)" for k y
  proof (cases "k = CommitmentKey ?i")
    case True
    then show ?thesis using that x D(2) unfolding get n by auto
  next
    case False
    then have y: "mget (kv c) k = Some (VCommitment y)" using that unfolding get by (auto split: if_splits)
    have "\<exists>n \<in> {1..tr_count c + 1}. tc_CommitmentID y = commitment_id n" using D(5) [OF y] by auto
    then show ?thesis using D(4) [OF y] D(6) [OF y] D(7) [OF y] unfolding n by blast
  qed
  have has: "i = ''count'' \<or> (\<exists>n \<in> {1..tr_count c'}. i = commitment_id n)" if "kv_has c' (CommitmentKey i)" for i
    using that D(8) [of i] D(2) unfolding n by (fastforce simp: kv_has_def get split: if_splits)
  have "k = CommitmentKey ''count''" if "mget (kv c') k = Some (VCommitmentCount m)" for k m
    using that D(10) [of k] by (auto simp: get split: if_splits)
  moreover have "mget (kv c') (CommitmentKey ''count'') \<noteq> Some (VCommitment y)" for y by (simp add: get)
  moreover have "distinct (mkeys (kv c'))" using D(1) by (simp add: c'_def SetCommitment_def)
  moreover have "tr_GetBalance B b0 (CommittedWalletAddress cfg) ''uftg'' +
      sum_list (map outstanding (commitments c')) \<le> GetCommittedBalance B cfg c'"
    using D(9) bal x(2) by (simp add: list outstanding_def) (simp add: GetCommittedBalance_def c'_def SetCommitment_def)
  ultimately show "tr_ok B cfg b0 c'"
    unfolding tr_ok_def using D(2) n keys has by simp
qed

lemma tr_ok_update:
  assumes ok: "tr_ok B cfg b0 c" and x: "mget (kv c) (CommitmentKey i) = Some (VCommitment x)"
    and y: "carried x y" "tc_Status x = ''funded''" "tc_Status y \<in> {''delivered'', ''cancelled''}"
    and bal: "GetCommittedBalance B cfg c - tc_Amount x \<le> tr_GetBalance B b' (CommittedWalletAddress cfg) ''uftg''"
  defines "c' \<equiv> SetCommitment y (c\<lparr>bank := b'\<rparr>)"
  shows "tr_ok B cfg b0 c'" "tr_kept c c'" "tr_count c' = tr_count c"
proof -
  note D = tr_okD [OF ok]
  have i: "i = tc_CommitmentID x" using D(4) [OF x] by simp
  have terms: "tc_CommitmentID y = tc_CommitmentID x" "tc_Amount y = tc_Amount x"
    using y(1) by (simp_all add: carried_def)
  have "i \<noteq> ''count''" using D(3) x by blast
  then show n: "tr_count c' = tr_count c" using i terms by (simp add: c'_def SetCommitment_def)
  have get: "mget (kv c') k = (if k = CommitmentKey i then Some (VCommitment y) else mget (kv c) k)" for k
    by (simp add: c'_def SetCommitment_def i terms)
  have list: "sum_list (map outstanding (commitments c')) = sum_list (map outstanding (commitments c)) - tc_Amount x"
    using values_in_sum_update [OF x, of commitment_in x "VCommitment y" y outstanding] D(1) y(2,3)
    by (auto simp: c'_def SetCommitment_def commitments_def kv_set_def i terms outstanding_def)
  show "tr_kept c c'" unfolding tr_kept_def get using x y(1) by auto
  have keys: "k = CommitmentKey (tc_CommitmentID z) \<and>
      (\<exists>n \<in> {1..tr_count c'}. tc_CommitmentID z = commitment_id n) \<and> 0 \<le> tc_Amount z \<and>
      tc_Status z \<in> {''funded'', ''delivered'', ''cancelled''}" if "mget (kv c') k = Some (VCommitment z)" for k z
  proof (cases "k = CommitmentKey i")
    case True
    then have "z = y" using that unfolding get by simp
    then show ?thesis using True D(5) [OF x] D(6) [OF x] y(3) by (simp add: n i terms)
  next
    case False
    then have z: "mget (kv c) k = Some (VCommitment z)" using that unfolding get by simp
    show ?thesis using D(4) [OF z] D(5) [OF z] D(6) [OF z] D(7) [OF z] unfolding n by blast
  qed
  have has: "i' = ''count'' \<or> (\<exists>n \<in> {1..tr_count c'}. i' = commitment_id n)" if "kv_has c' (CommitmentKey i')" for i'
    using that D(8) [of i'] D(8) [of i] x unfolding n by (auto simp: kv_has_def get split: if_splits)
  have "k = CommitmentKey ''count''" if "mget (kv c') k = Some (VCommitmentCount m)" for k m
    using that D(10) [of k] by (auto simp: get split: if_splits)
  moreover have "mget (kv c') (CommitmentKey ''count'') \<noteq> Some (VCommitment z)" for z
    using D(3) \<open>i \<noteq> ''count''\<close> by (simp add: get)
  moreover have "distinct (mkeys (kv c'))" using D(1) by (simp add: c'_def SetCommitment_def)
  moreover have "tr_GetBalance B b0 (CommittedWalletAddress cfg) ''uftg'' +
      sum_list (map outstanding (commitments c')) \<le> GetCommittedBalance B cfg c'"
    using D(9) bal by (simp add: list) (simp add: GetCommittedBalance_def c'_def SetCommitment_def)
  ultimately show "tr_ok B cfg b0 c'"
    unfolding tr_ok_def using D(2) n keys has by simp
qed

section \<open>Every call\<close>

lemma GetCommitment_funded:
  assumes "GetCommitment c i = Some x" "tc_Status x = ''funded'' \<or> tc_Status x = ''pending''"
  shows "mget (kv c) (CommitmentKey i) = Some (VCommitment x)"
  using assms by (auto simp: GetCommitment_def zero_commitment_def split: option.splits tr_val.splits)

lemma tr_call_ok:
  assumes "sdk_laws S" "treasury_bank B" "MintingWalletAddress cfg \<noteq> CommittedWalletAddress cfg"
    "tr_ok B cfg b0 c" "tr_count c < 2 ^ 64 - 1" "tr_call S B cfg op c = Some (c', Inr u)"
  shows "tr_ok B cfg b0 c' \<and> tr_kept c c' \<and> tr_count c' \<le> tr_count c + 1"
proof (cases op)
  case (OpCommit now sender req)
  have n: "next64 (tr_count c) = tr_count c + 1" using assms(5) tr_okD(2) [OF assms(4)] by (intro next64_exact) auto
  from assms(6) OpCommit obtain x where
    "TransferMintingToCommitted S B cfg now sender req c = Some (c', Inr x)"
    by (auto simp: tr_call_def)
  then obtain c1 ev where
    send: "send_uftg S B (MintingWalletAddress cfg) (CommittedWalletAddress cfg) (tq_Amount req) c = Some (c1, None)"
    and x: "tc_CommitmentID x = commitment_id (next64 (tr_count c1))" "tc_Status x = ''funded''"
      "tc_Amount x = tq_Amount req"
    and c': "c' = EmitEvent ev (SetCommitment x
      (kv_set (CommitmentKey ''count'') (VCommitmentCount (next64 (tr_count c1))) c1))"
    unfolding TransferMintingToCommitted_def GenerateCommitmentID_def Let_def
    by (auto elim!: bind_SomeE split: if_splits option.splits prod.splits)
  from send obtain b' where "0 \<le> tq_Amount req" "c1 = c\<lparr>bank := b'\<rparr>"
    "tr_GetBalance B b' (CommittedWalletAddress cfg) ''uftg'' = GetCommittedBalance B cfg c + tq_Amount req"
    using assms(3) by (elim send_uftgE [OF assms(1,2)]) (simp add: GetCommittedBalance_def)
  then show ?thesis
    using tr_ok_new [OF assms(4), of x b'] x n unfolding c' by simp
next
  case (OpLiquidity sender amount)
  with assms(6) obtain c1 ev where
    send: "send_uftg S B (MintingWalletAddress cfg) (LiquidityWalletAddress cfg) amount c = Some (c1, None)"
    and c': "c' = EmitEvent ev c1"
    by (auto simp: tr_call_def TransferMintingToLiquidity_def elim!: bind_SomeE
        split: if_splits option.splits prod.splits)
  from send obtain b' where "c1 = c\<lparr>bank := b'\<rparr>"
    "GetCommittedBalance B cfg c \<le> tr_GetBalance B b' (CommittedWalletAddress cfg) ''uftg''"
    using assms(3) by (elim send_uftgE [OF assms(1,2)]) (simp add: GetCommittedBalance_def)
  then show ?thesis
    using tr_ok_bank [OF assms(4), of b'] unfolding c' by simp
next
  case (OpDeliver now sender req)
  with assms(6) obtain x c1 ev where x: "GetCommitment c (td_CommitmentID req) = Some x" "tc_Status x = ''funded''"
    and send: "send_uftg S B (CommittedWalletAddress cfg) (td_DestinationWallet req) (tc_Amount x) c = Some (c1, None)"
    and c': "c' = EmitEvent ev (SetCommitment (x\<lparr>tc_Status := ''delivered'', tc_DeliveredAt := unix now,
      tc_DestinationWallet := td_DestinationWallet req\<rparr>) c1)"
    by (auto simp: tr_call_def DeliverCommitment_def Let_def elim!: bind_SomeE
        split: if_splits option.splits prod.splits)
  have g: "mget (kv c) (CommitmentKey (td_CommitmentID req)) = Some (VCommitment x)"
    using GetCommitment_funded [OF x(1)] x(2) by simp
  from send obtain b' where b': "c1 = c\<lparr>bank := b'\<rparr>"
    "GetCommittedBalance B cfg c - tc_Amount x \<le> tr_GetBalance B b' (CommittedWalletAddress cfg) ''uftg''"
    by (elim send_uftgE [OF assms(1,2)]) (simp add: GetCommittedBalance_def)
  show ?thesis
    using tr_ok_update [OF assms(4) g _ x(2) _ b'(2)] unfolding c' b'(1) by (simp add: carried_def x(2))
next
  case (OpCancel sender req)
  with assms(6) obtain x c1 ev where x: "GetCommitment c (tx_CommitmentID req) = Some x"
      "tc_Status x = ''funded'' \<or> tc_Status x = ''pending''"
    and send: "send_uftg S B (CommittedWalletAddress cfg) (MintingWalletAddress cfg) (tc_Amount x) c = Some (c1, None)"
    and c': "c' = EmitEvent ev (SetCommitment (x\<lparr>tc_Status := ''cancelled''\<rparr>) c1)"
    by (auto simp: tr_call_def CancelCommitmentOp_def Let_def elim!: bind_SomeE
        split: if_splits option.splits prod.splits)
  note g = GetCommitment_funded [OF x]
  have f: "tc_Status x = ''funded''" using tr_okD(7) [OF assms(4) g] x(2) by auto
  from send obtain b' where b': "c1 = c\<lparr>bank := b'\<rparr>"
    "GetCommittedBalance B cfg c - tc_Amount x \<le> tr_GetBalance B b' (CommittedWalletAddress cfg) ''uftg''"
    using assms(3) by (elim send_uftgE [OF assms(1,2)]) (simp add: GetCommittedBalance_def)
  show ?thesis
    using tr_ok_update [OF assms(4) g _ f _ b'(2)] unfolding c' b'(1) by (simp add: carried_def f)
qed

lemma tr_step_ok:
  assumes "sdk_laws S" "treasury_bank B" "MintingWalletAddress cfg \<noteq> CommittedWalletAddress cfg"
    "tr_ok B cfg b0 c" "tr_count c < 2 ^ 64 - 1"
  shows "tr_ok B cfg b0 (tr_step S B cfg c op)" "tr_kept c (tr_step S B cfg c op)"
    "tr_count (tr_step S B cfg c op) \<le> tr_count c + 1"
  using tr_call_ok [OF assms, of op] assms(4) by (auto simp: tr_step_def split: option.splits sum.splits)

lemma tr_ok_start: "tr_ok B cfg b0 (tr_start b0)" "tr_count (tr_start b0) = 0"
  by (simp_all add: tr_ok_def tr_start_def tr_count_def kv_has_def commitments_def GetCommittedBalance_def)

text \<open>A treasury whose wallets differ, over a lawful SDK and bank.\<close>

locale treasury = sdk_laws S + treasury_bank B
  for S :: sdk and B :: "'b tr_bank" +
  fixes cfg :: treasury_config
  assumes wallets: "MintingWalletAddress cfg \<noteq> CommittedWalletAddress cfg"

sublocale treasury \<subseteq> wallets: counted_machine "tr_step S B cfg" "tr_ok B cfg b" tr_count for b
  by unfold_locales (rule tr_step_ok [OF sdk_laws_axioms treasury_bank_axioms wallets]; assumption)+

sublocale treasury \<subseteq> commitments: related_machine "tr_step S B cfg" "\<lambda>c _. tr_count c < 2 ^ 64 - 1"
    "tr_ok B cfg b" tr_kept for b
  by unfold_locales
    (auto intro: tr_kept_trans tr_step_ok(2) [OF sdk_laws_axioms treasury_bank_axioms wallets])

context treasury begin

lemma tr_run_ok: "int (length ops) < 2 ^ 64 \<Longrightarrow> tr_ok B cfg b (tr_run S B cfg b ops)"
  unfolding tr_run_def by (rule wallets.run_counted) (simp_all add: tr_ok_start)

lemma tr_run_kept:
  assumes "int (length ops) + int (length ops') < 2 ^ 64"
  shows "tr_kept (tr_run S B cfg b ops) (tr_run S B cfg b (ops @ ops'))"
proof -
  have "tr_count (foldl (tr_step S B cfg) (tr_start b) ops) \<le> tr_count (tr_start b) + int (length ops)"
    by (rule wallets.count_le, rule tr_ok_start(1)) (use assms in \<open>simp add: tr_ok_start(2)\<close>)
  then have n: "tr_count (tr_run S B cfg b ops) + int (length ops') < 2 ^ 64"
    using assms by (simp add: tr_ok_start(2) tr_run_def)
  have ok: "tr_ok B cfg b (tr_run S B cfg b ops)" using assms by (intro tr_run_ok) simp
  have "tr_kept (tr_run S B cfg b ops) (foldl (tr_step S B cfg) (tr_run S B cfg b ops) ops')"
    by (rule commitments.run_rel [OF ok wallets.run_room [OF ok n]])
  then show ?thesis by (simp add: tr_run_def)
qed

end

definition demo_treasury :: treasury_config where
  "demo_treasury =
     \<lparr>MintingWalletAddress = ''minting'', CommittedWalletAddress = ''committed'',
      LiquidityWalletAddress = ''liquidity'', OwnerAddress = ''owner''\<rparr>"

interpretation tr_demo: treasury doc_sdk "tr_test_bank doc_sdk" demo_treasury
  by unfold_locales (simp add: demo_treasury_def)

definition refused :: "treasury_config \<Rightarrow> 'b tr_ctx \<Rightarrow> tr_op \<Rightarrow> bool" where
  "refused cfg c op \<longleftrightarrow>
     (case op of OpCommit now sender req \<Rightarrow> sender \<noteq> OwnerAddress cfg
       | OpLiquidity sender n \<Rightarrow> sender \<noteq> OwnerAddress cfg
       | OpDeliver now sender req \<Rightarrow> sender \<noteq> OwnerAddress cfg \<or>
           map_option tc_Status (GetCommitment c (td_CommitmentID req)) \<noteq> Some ''funded''
       | OpCancel sender req \<Rightarrow> sender \<noteq> OwnerAddress cfg \<or>
           map_option tc_Status (GetCommitment c (tx_CommitmentID req)) \<noteq> Some ''funded'')"

lemma tr_call_refused:
  assumes "tr_ok B cfg b0 c" "refused cfg c op"
  shows "\<exists>e. tr_call S B cfg op c = Some (c, Inl e)"
proof (cases op)
  case (OpCancel sender req)
  have "tc_Status x \<noteq> ''pending''" if "GetCommitment c (tx_CommitmentID req) = Some x" for x
    using that tr_okD(7) [OF assms(1) GetCommitment_funded [OF that]] by auto
  then show ?thesis using assms(2) OpCancel
    by (auto simp: refused_def tr_call_def CancelCommitmentOp_def split: option.splits)
qed (use assms(2) in \<open>auto simp: refused_def tr_call_def TransferMintingToCommitted_def
    TransferMintingToLiquidity_def DeliverCommitment_def split: option.splits\<close>)

section \<open>Properties\<close>

text \<open>
  C12: When the minting and the committed wallet differ and the SDK and the bank keep their
  contracts, after any calls, fewer than 2^64, the committed wallet holds, beyond what it started
  with, at least the sum of the commitments still funded. Every commitment is found under its
  own identifier, printed from 1 to the counter, has a nonnegative amount and is funded,
  delivered or cancelled.
\<close>

theorem treasury_covered:
  assumes "sdk_laws S" "treasury_bank B" "MintingWalletAddress cfg \<noteq> CommittedWalletAddress cfg"
    "int (length ops) < 2 ^ 64" "c = tr_run S B cfg b ops"
  shows "tr_GetBalance B b (CommittedWalletAddress cfg) ''uftg'' +
      sum_list (map (\<lambda>x. if tc_Status x = ''funded'' then tc_Amount x else 0) (commitments c)) \<le>
      GetCommittedBalance B cfg c \<and>
    (\<forall>x \<in> set (commitments c). GetCommitment c (tc_CommitmentID x) = Some x \<and>
      (\<exists>n \<in> {1..tr_count c}. tc_CommitmentID x = commitment_id n) \<and> 0 \<le> tc_Amount x \<and>
      tc_Status x \<in> {''funded'', ''delivered'', ''cancelled''})"
proof -
  have "treasury S B cfg" by (intro treasury.intro assms(1,2) treasury_axioms.intro assms(3))
  then have ok: "tr_ok B cfg b c" unfolding assms(5) by (rule treasury.tr_run_ok [OF _ assms(4)])
  note D = tr_okD [OF ok]
  have "GetCommitment c (tc_CommitmentID x) = Some x \<and>
      (\<exists>n \<in> {1..tr_count c}. tc_CommitmentID x = commitment_id n) \<and> 0 \<le> tc_Amount x \<and>
      tc_Status x \<in> {''funded'', ''delivered'', ''cancelled''}" if m: "x \<in> set (commitments c)" for x
  proof -
    from m obtain k v where "mget (kv c) k = Some v" "commitment_in v = Some x"
      unfolding commitments_def values_in_iff [OF D(1)] by blast
    then have k: "mget (kv c) k = Some (VCommitment x)" by (cases v) auto
    then have "GetCommitment c (tc_CommitmentID x) = Some x" using D(4) [OF k] by (simp add: GetCommitment_def)
    then show ?thesis using D(5) [OF k] D(6) [OF k] D(7) [OF k] by blast
  qed
  then show ?thesis using D(9) unfolding outstanding_def [abs_def] by blast
qed

definition tr_demo_ops :: "tr_op list" where
  "tr_demo_ops =
     [OpCommit 5000000000 ''owner'' \<lparr>tq_Amount = 2000000, tq_BuyerReference = ''OTC-1'', tq_PricePerToken = 5 * 10 ^ 18\<rparr>,
      OpCommit 6000000000 ''owner'' \<lparr>tq_Amount = 3000000, tq_BuyerReference = ''OTC-2'', tq_PricePerToken = 5 * 10 ^ 18\<rparr>,
      OpCommit 6000000000 ''mallory'' \<lparr>tq_Amount = 1, tq_BuyerReference = ''OTC-3'', tq_PricePerToken = 0\<rparr>]"

definition tr_demo_more :: "tr_op list" where
  "tr_demo_more =
     [OpDeliver 7000000000 ''owner'' \<lparr>td_CommitmentID = ''FTG-COMMIT-000001'', td_DestinationWallet = ''buyer''\<rparr>,
      OpCancel ''owner'' \<lparr>tx_CommitmentID = ''FTG-COMMIT-000001'', tx_Reason = ''changed''\<rparr>,
      OpCancel ''owner'' \<lparr>tx_CommitmentID = ''count'', tx_Reason = ''odd''\<rparr>]"

definition tr_demo_bank :: test_bank where
  "tr_demo_bank = \<lparr>balances = [(''ftg1minting'', 9000000)], minted = 0, burned = 0\<rparr>"

definition tr_demo :: "test_bank tr_ctx" where
  "tr_demo = tr_run doc_sdk (tr_test_bank doc_sdk) demo_treasury tr_demo_bank tr_demo_ops"

lemma tr_demo_eval:
  "map tc_Amount (commitments tr_demo) = [2000000, 3000000] \<and>
   map tc_Status (commitments tr_demo) = [''funded'', ''funded''] \<and>
   tr_GetBalance (tr_test_bank doc_sdk) tr_demo_bank ''committed'' ''uftg'' = 0 \<and>
   int (length tr_demo_ops) + int (length tr_demo_more) < 2 ^ 64 \<and> int (length tr_demo_ops) < 2 ^ 64 \<and>
   map_option tc_Status (GetCommitment tr_demo ''FTG-COMMIT-000001'') = Some ''funded'' \<and>
   map_option tc_Status (GetCommitment (tr_run doc_sdk (tr_test_bank doc_sdk) demo_treasury tr_demo_bank
     (tr_demo_ops @ tr_demo_more)) ''FTG-COMMIT-000001'') = Some ''delivered''"
  by code_simp

theorem treasury_covered_witness:
  "5000000 \<le> GetCommittedBalance (tr_test_bank doc_sdk) demo_treasury tr_demo"
proof -
  have n: "int (length tr_demo_ops) < 2 ^ 64" using tr_demo_eval by simp
  have w: "CommittedWalletAddress demo_treasury = ''committed''" by (simp add: demo_treasury_def)
  obtain x y where "commitments tr_demo = [x, y]" "tc_Amount x = 2000000" "tc_Amount y = 3000000"
    "tc_Status x = ''funded''" "tc_Status y = ''funded''"
    using tr_demo_eval by (auto simp: map_eq_Cons_conv)
  then show ?thesis
    using treasury_covered [OF doc.sdk_laws_axioms tr_test.treasury_bank_axioms tr_demo.wallets n tr_demo_def]
      tr_demo_eval by (simp add: w)
qed

text \<open>
  C37: Nobody but the owner moves anything: a call from another address fails and changes
  nothing. A commitment keeps its identifier, buyer, amount, price, value and time however the
  calls go on; once delivered or cancelled it never changes again, and delivering or cancelling
  anything that is not funded fails and changes nothing.
\<close>

theorem commitments_settle_once:
  assumes "sdk_laws S" "treasury_bank B" "MintingWalletAddress cfg \<noteq> CommittedWalletAddress cfg"
    "int (length ops) + int (length ops') < 2 ^ 64"
    "c = tr_run S B cfg b ops" "c' = tr_run S B cfg b (ops @ ops')"
  shows "(\<forall>i x. i \<noteq> ''count'' \<longrightarrow> GetCommitment c i = Some x \<longrightarrow>
      (\<exists>y. GetCommitment c' i = Some y \<and> tc_CommitmentID y = i \<and> tc_BuyerReference y = tc_BuyerReference x \<and>
        tc_Amount y = tc_Amount x \<and> tc_PricePerToken y = tc_PricePerToken x \<and>
        tc_TotalValueUSD y = tc_TotalValueUSD x \<and> tc_CreatedAt y = tc_CreatedAt x \<and>
        (y = x \<or> tc_Status x = ''funded'' \<and> tc_Status y \<in> {''delivered'', ''cancelled''}))) \<and>
    (\<forall>op. refused cfg c op \<longrightarrow> (\<exists>e. tr_call S B cfg op c = Some (c, Inl e)))"
proof -
  have t: "treasury S B cfg" by (intro treasury.intro assms(1,2) treasury_axioms.intro assms(3))
  have ok: "tr_ok B cfg b c" unfolding assms(5) by (rule treasury.tr_run_ok [OF t]) (use assms(4) in simp)
  have kept: "tr_kept c c'" unfolding assms(5,6) by (rule treasury.tr_run_kept [OF t assms(4)])
  note D = tr_okD [OF ok]
  have "\<exists>y. GetCommitment c' i = Some y \<and> tc_CommitmentID y = i \<and> carried x y"
    if "i \<noteq> ''count''" "GetCommitment c i = Some x" for i x
  proof -
    have "mget (kv c) (CommitmentKey i) \<noteq> Some (VCommitmentCount n)" for n
      using D(10) that(1) by fastforce
    then have x: "mget (kv c) (CommitmentKey i) = Some (VCommitment x)"
      using that(2) by (auto simp: GetCommitment_def split: option.splits tr_val.splits)
    with kept obtain y where "mget (kv c') (CommitmentKey i) = Some (VCommitment y)" "carried x y"
      unfolding tr_kept_def by blast
    then show ?thesis using D(4) [OF x] by (auto simp: GetCommitment_def carried_def)
  qed
  then show ?thesis using tr_call_refused [OF ok] unfolding carried_def by blast
qed

definition tr_demo_after :: "test_bank tr_ctx" where
  "tr_demo_after =
     tr_run doc_sdk (tr_test_bank doc_sdk) demo_treasury tr_demo_bank (tr_demo_ops @ tr_demo_more)"

theorem commitments_settle_once_witness:
  "(\<exists>x y. GetCommitment tr_demo ''FTG-COMMIT-000001'' = Some x \<and>
      GetCommitment tr_demo_after ''FTG-COMMIT-000001'' = Some y \<and> tc_Status y = ''delivered'' \<and>
      tc_Amount y = tc_Amount x) \<and>
   (\<exists>e. tr_call doc_sdk (tr_test_bank doc_sdk) demo_treasury (OpLiquidity ''mallory'' 5) tr_demo =
      Some (tr_demo, Inl e))"
proof -
  have n: "int (length tr_demo_ops) + int (length tr_demo_more) < 2 ^ 64" using tr_demo_eval by simp
  note P = commitments_settle_once [OF doc.sdk_laws_axioms tr_test.treasury_bank_axioms tr_demo.wallets n
      tr_demo_def tr_demo_after_def]
  obtain x where x: "GetCommitment tr_demo ''FTG-COMMIT-000001'' = Some x" using tr_demo_eval by auto
  have i: "''FTG-COMMIT-000001'' \<noteq> ''count''" by simp
  from conjunct1 [OF P, THEN spec, THEN spec, THEN mp, OF i, THEN mp, OF x] obtain y where
    y: "GetCommitment tr_demo_after ''FTG-COMMIT-000001'' = Some y" "tc_Amount y = tc_Amount x" by (elim exE conjE)
  have "tc_Status y = ''delivered''" using tr_demo_eval y(1) by (simp add: tr_demo_after_def)
  moreover have "refused demo_treasury tr_demo (OpLiquidity ''mallory'' 5)"
    by (simp add: refused_def demo_treasury_def)
  moreover from this have "\<exists>e. tr_call doc_sdk (tr_test_bank doc_sdk) demo_treasury (OpLiquidity ''mallory'' 5) tr_demo =
      Some (tr_demo, Inl e)"
    using conjunct2 [OF P, THEN spec, THEN mp] by simp
  ultimately show ?thesis using x y by blast
qed

end
