(* ===== verification/Spec2Isabelle.thy ===== *)
theory Spec2Isabelle
  imports Prelude ChainProps ExchangeProps SettlementProps KycProps NodeProps
    ExchangeTrade ExchangeMatch ExchangeTyped HomeProps EnergyMintProps BurnProps ProvenanceProps
    TreasuryProps
begin

text \<open>
  A verification development of ftg-chain, a daemon (\<open>ftgd\<close>) for tokens backed by stored energy:
  100 FTG, that is \<open>10\<^sup>8\<close> uftg, are minted for each certified MWh.

  \<^bold>\<open>The program.\<close> The repository holds two systems that share no code.

  The first is the node that \<open>ftgd start\<close> runs (\<open>cmd/ftgd\<close>). A block loop advances a block counter
  every five seconds and an HTTP server answers requests; both work on four stores, each of which
  has its own lock and its own JSON file: the chain state (\<open>cmd/ftgd/chain_state.go\<close>), the exchange
  keeper (\<open>x/exchange\<close>), the compliance keeper (\<open>x/kyc\<close>) and the settlement keeper
  (\<open>x/settlement\<close>). A request calls one of them, except a KYC submission, which calls the exchange
  and then the compliance keeper. They call neither each other nor the block loop; the handlers
  pass them the block height.

  The node's home directory is set up by \<open>ftgd init\<close>, whose configuration file the node reads when it
  starts; \<open>ftgd keys\<close> manages the key files beside it, and \<open>ftgd query supply\<close> reads the genesis file.

  The second is four modules written against the Cosmos SDK: \<open>x/energymint\<close>, \<open>x/burn\<close>,
  \<open>x/provenance\<close> and \<open>x/treasury\<close>. Each keeps its records in a key-value store and, all but
  provenance, moves coins through the bank module. No application in the repository wires them
  to the node, nor to each other.
\<close>

text \<open>
  \<^bold>\<open>Theories and code.\<close> Every definition that models code has the name of its function, type or
  constant, with a prefix where two packages share a name; the fields of a struct keep their
  names behind a short prefix of the record.

  \<^item> \<open>Prelude\<close>: Go's \<open>int64\<close> arithmetic over \<open>int\<close> with its wrap-around (\<open>add64\<close>, \<open>mul64\<close>, \<open>quo64\<close>,
    \<open>i64\<close>, related to \<open>64 word\<close>), decimal formatting, Go maps as association lists with distinct
    keys (\<open>mget\<close>, \<open>mput\<close>), lists kept up to permutation, and the shared locales.
  \<^item> \<open>ChainState\<close>, \<open>ChainProps\<close>: \<open>cmd/ftgd/chain_state.go\<close>, every method of \<open>ChainState\<close>.
  \<^item> \<open>ExchangeTypes\<close>, \<open>Exchange\<close>: \<open>x/exchange/types\<close> and \<open>x/exchange/keeper/keeper.go\<close>, every method:
    wallets, limits, \<open>PlaceOrder\<close> with \<open>matchOrder\<close> and \<open>settleTrade\<close>, \<open>CancelOrder\<close>, market data, KYC
    applications, saving and loading. \<open>PlaceOrder\<close> and \<open>matchOrder\<close> are cut at the code's own steps
    (\<open>check_order\<close>, \<open>lock_funds\<close>, \<open>enter_order\<close>, \<open>add_to_book\<close>, \<open>match_loop\<close>, \<open>fill_order\<close>,
    \<open>taker_done\<close>).
  \<^item> \<open>ExchangeLedger\<close>, \<open>ExchangeBook\<close>, \<open>ExchangeInv\<close>, \<open>ExchangePlace\<close>, \<open>ExchangeRun\<close>,
    \<open>ExchangeSolvency\<close>, \<open>ExchangeViews\<close>, \<open>ExchangeRestart\<close>: its lemmas, from the two legs of a
    settlement up to the runs; \<open>ExchangeProps\<close> and \<open>ExchangeTrade\<close>: its properties.
    \<open>ExchangeMatch\<close>: the loop of \<open>matchOrder\<close> with the code's index, as a \<open>while_option\<close>, and the
    abstract matcher \<open>take_offers\<close>. \<open>ExchangeTyped\<close>: the range of every stored integer.
  \<^item> \<open>Settlement\<close>, \<open>SettlementInv\<close>, \<open>SettlementProps\<close>: \<open>x/settlement\<close>: deposits, withdrawals, escrows.
  \<^item> \<open>Kyc\<close>, \<open>KycProps\<close>: \<open>x/kyc\<close>: screenings, transaction rules, flags.
  \<^item> \<open>Http\<close>: decoding of request bodies and query parameters, answers. \<open>ExchangeRpc\<close>,
    \<open>SettlementRpc\<close>: the handlers of \<open>cmd/ftgd/rpc_exchange.go\<close> and \<open>rpc_settlement.go\<close>.
  \<^item> \<open>Node\<close>, \<open>NodeInv\<close>, \<open>NodeProps\<close>: \<open>cmd/ftgd/start_real.go\<close> and \<open>rpc_server.go\<close>: the handlers of
    the chain state, routing (\<open>serve\<close>), the block loop (\<open>produceBlock\<close>), \<open>boot\<close> from files, \<open>stop\<close>.
  \<^item> \<open>FileSystem\<close>: paths, files, \<open>hex\<close>, \<open>base64\<close> and RFC 3339 as the commands use them; \<open>Home\<close>,
    \<open>HomeProps\<close>: \<open>cmd/ftgd/keys_real.go\<close>, \<open>init_real.go\<close> and the supply query of \<open>root.go\<close>.
  \<^item> \<open>Sdk\<close>: what the four modules use of the Cosmos SDK; \<open>EnergyMint\<close>, \<open>Burn\<close>, \<open>Provenance\<close>,
    \<open>Treasury\<close>: the keepers, message servers and queries of the modules, each with its \<open>...Props\<close>.

  State is passed explicitly. A Go error is \<open>Inl\<close> of the component's error datatype together with
  the state the method leaves, which is not always the old one; a panic (a nil dereference, an SDK
  function that panics) is \<open>None\<close>. A method that runs under its keeper's lock is one step, so
  concurrent requests are sequences of steps in some order. The instants that methods read from
  the clock are arguments of the steps, any integers.

  Every stateful component has a datatype of its calls, a step function that performs one, and
  the run of a list of calls (\<open>cs_run\<close>, \<open>ex_run\<close>, \<open>st_run\<close>, \<open>kyc_run\<close>, \<open>node_run\<close>,
  \<open>keys_run\<close>, \<open>em_run\<close>, \<open>bn_run\<close>, \<open>pv_run\<close>, \<open>tr_run\<close>); its invariant properties are about all runs.
\<close>

text \<open>
  \<^bold>\<open>What the properties show.\<close>

  \<^item> Exchange: after any calls each book holds exactly the live limit orders of its side, without
    repetition, sorted by price, and never crossed between different wallets; every order's
    quantities, status and trades agree; an incoming order takes the best prices within its limit
    from other wallets; trading moves value and takes fees but creates none; locked uftg is what
    live sell orders offer, and is covered; nothing panics; orders and trades are never rewritten;
    the user of a wallet is unique, so Go's random map order does not show. The fills of an order
    are those of an abstract matcher, it is filled as far as the book has offers, the loop ends,
    and every integer stays an \<open>int64\<close>.
  \<^item> Chain state: totals, treasury and supply agree with the certificates and burn events;
    arithmetic is exact for nonnegative runs below \<open>2 ^ 63\<close>; a negative burn mints; a restart loses
    nothing.
  \<^item> Settlement: each escrow is settled at most once, totals are sums over the records, the life of
    an escrow follows \<open>escrow_step\<close>, prices and fees are exact within the configured limits.
  \<^item> Compliance: screening is equivalent to the blocked-country test, flags are exactly the large
    amounts, records are numbered and restored.
  \<^item> Node: a run of the node projects to a run of every component (a refinement), which carries
    the invariants of the components over to it; a request changes one part; what a stop or a
    crash followed by a restart keeps.
  \<^item> Home directory: the key store refines a map from names to the keys generated last; what
    \<open>init\<close> writes the node and the supply query read back; a key's name can leave the key store.
  \<^item> Cosmos modules: minted coins are the certificates' tokens and the bank's supply; the set of
    minters refines the authority's calls; burn statistics are sums over the filed events;
    provenance records are found under their certificate and only grow; the committed wallet covers
    the funded commitments and each is settled once.

  \<^bold>\<open>Interfaces.\<close> \<open>id_store\<close> (keys drawn from a counter are new; interpreted on each identifier
  format), \<open>sort_slice\<close> (the contract of \<open>sort.Slice\<close>; interpreted on \<open>insertion_sort\<close>),
  \<open>state_machine\<close>, \<open>related_machine\<close> and \<open>counted_machine\<close> (an invariant, a relation between
  earlier and later states, and a counter that must not wrap, along runs; interpreted on the
  components, as sublocales of \<open>sort_slice\<close> for the exchange and the node and of the module locales
  for the modules), \<open>sdk_laws\<close>, \<open>mint_bank\<close>, \<open>burn_bank\<close>, \<open>treasury_bank\<close> (what the modules rely
  on), joined with the SDK in \<open>energymint\<close>, \<open>burning\<close> and \<open>treasury\<close>.

  \<^bold>\<open>Bounds.\<close> Sequence numbers are \<open>int64\<close> in the keepers and \<open>uint64\<close> in the modules, one step per
  call at most: properties that need fresh identifiers are about runs of fewer than \<open>2 ^ 63\<close> or
  \<open>2 ^ 64\<close> calls. Money wraps in the model as in the code; where a property needs exact amounts it
  says so (\<open>fair_pre\<close>, \<open>cs_pre\<close>) and otherwise it is stated modulo \<open>2 ^ 64\<close>. There is no fuel: the
  matching loop recurses on the part of the book not yet visited, and the loop with the code's
  index is shown to end and to agree with it; all other loops are structural.
\<close>

text \<open>
  \<^bold>\<open>Assumptions.\<close> \<open>sort.Slice\<close> yields a sorted permutation and need not be stable. The laws of
  \<open>sdk_laws\<close> and of the banks are the documented behaviour of the SDK's numbers, addresses and
  \<open>SendCoins\<close>, \<open>MintCoins\<close>, \<open>BurnCoins\<close>; they are premises of the properties and hold of the
  concrete \<open>doc_sdk\<close> and test banks that the examples run. A message that fails or panics leaves
  the state of before, which is what the SDK's transaction runner does. Strings are valid UTF-8.
  Writing a state file of the node succeeds: the code ignores its errors. The commands of \<open>Home\<close>
  take an argument that says which paths the operating system accepts, and their keys and hashes
  from arguments too. Paths there are absolute and free of links.

  \<^bold>\<open>Not modelled.\<close> The text of the JSON files and of log lines; HTTP below the handlers; the data
  races of handlers that read fields of a record after its lock is released; the commands of
  \<open>cmd/ftgd/root.go\<close> that only print fixed texts, and \<open>main.go\<close>; \<open>ed25519\<close> and \<open>sha256\<close>; the
  constants of \<open>app/app.go\<close>; error types and key prefixes that nothing refers to
  (\<open>x/burn/types/errors.go\<close>, \<open>x/energymint/types/errors.go\<close>, \<open>x/exchange/types/keys.go\<close>).
\<close>

end
